(* ===== verification/Prelude.thy ===== *)
theory Prelude
  imports Main
begin

text \<open>
  What every component shares: results that are either an error or a value, actions on a
  state that may raise an error, and tables of rows.

  A Python function that may raise becomes a value of type \<open>'e + 'a\<close>
  (\<open>Inl\<close> is the exception). A method that also changes state becomes an action, a
  function from the state to the result together with the state it leaves behind. A raised
  exception does not undo the changes made before it: it is the request handler that rolls
  the database session back, as the handlers under \<open>src/app/api/v1\<close> do.

  The collections: \<open>effs\<close> unfolds the action combinators, \<open>keeps\<close> holds the
  rules by which an action keeps an invariant of the state.
\<close>

named_theorems effs
named_theorems keeps

section \<open>Results\<close>

definition rbind :: "'e + 'a \<Rightarrow> ('a \<Rightarrow> 'e + 'b) \<Rightarrow> 'e + 'b" where
  "rbind r f = (case r of Inl e \<Rightarrow> Inl e | Inr a \<Rightarrow> f a)"

definition rguard :: "bool \<Rightarrow> 'e \<Rightarrow> 'e + unit" where
  "rguard c e = (if c then Inr () else Inl e)"

lemma rbind_simps [simp]: "rbind (Inl e) f = Inl e" "rbind (Inr a) f = f a"
  by (simp_all add: rbind_def)

lemma rbind_Inr_iff: "rbind r f = Inr b \<longleftrightarrow> (\<exists>a. r = Inr a \<and> f a = Inr b)"
  by (cases r) auto

lemma rguard_Inr_iff [simp]: "rguard c e = Inr x \<longleftrightarrow> c"
  by (simp add: rguard_def)

lemma rguard_Inl_iff [simp]: "rguard c e = Inl e' \<longleftrightarrow> \<not> c \<and> e = e'"
  by (auto simp: rguard_def)

definition the_default :: "'a \<Rightarrow> 'a option \<Rightarrow> 'a" where
  "the_default d x = (case x of None \<Rightarrow> d | Some a \<Rightarrow> a)"

section \<open>Actions\<close>

type_synonym ('s, 'e, 'a) eff = "'s \<Rightarrow> ('e + 'a) \<times> 's"

definition ret :: "'a \<Rightarrow> ('s, 'e, 'a) eff" where
  "ret a = (\<lambda>s. (Inr a, s))"

definition raise :: "'e \<Rightarrow> ('s, 'e, 'a) eff" where
  "raise e = (\<lambda>s. (Inl e, s))"

definition bnd :: "('s, 'e, 'a) eff \<Rightarrow> ('a \<Rightarrow> ('s, 'e, 'b) eff) \<Rightarrow> ('s, 'e, 'b) eff" where
  "bnd m f = (\<lambda>s. case m s of (Inl e, s') \<Rightarrow> (Inl e, s') | (Inr a, s') \<Rightarrow> f a s')"

definition seq :: "('s, 'e, 'a) eff \<Rightarrow> ('s, 'e, 'b) eff \<Rightarrow> ('s, 'e, 'b) eff" where
  "seq m n = bnd m (\<lambda>_. n)"

definition guard :: "bool \<Rightarrow> 'e \<Rightarrow> ('s, 'e, unit) eff" where
  "guard c e = (if c then ret () else raise e)"

definition lift :: "'e + 'a \<Rightarrow> ('s, 'e, 'a) eff" where
  "lift r = (\<lambda>s. (r, s))"

definition get :: "('s \<Rightarrow> 'a) \<Rightarrow> ('s, 'e, 'a) eff" where
  "get f = (\<lambda>s. (Inr (f s), s))"

definition modify :: "('s \<Rightarrow> 's) \<Rightarrow> ('s, 'e, unit) eff" where
  "modify f = (\<lambda>s. (Inr (), f s))"

text \<open>An \<open>except\<close> clause: the handler runs in the state the exception left.\<close>

definition catch :: "('s, 'e, 'a) eff \<Rightarrow> ('e \<Rightarrow> ('s, 'e, 'a) eff) \<Rightarrow> ('s, 'e, 'a) eff" where
  "catch m h = (\<lambda>s. case m s of (Inl e, s') \<Rightarrow> h e s' | (Inr a, s') \<Rightarrow> (Inr a, s'))"

text \<open>A \<open>finally\<close> clause: an exception of the cleanup replaces the result.\<close>

definition ensure :: "('s, 'e, 'a) eff \<Rightarrow> ('s, 'e, unit) eff \<Rightarrow> ('s, 'e, 'a) eff" where
  "ensure m cleanup =
     (\<lambda>s. case m s of (r, s') \<Rightarrow>
            (case cleanup s' of (Inl e, s'') \<Rightarrow> (Inl e, s'') | (Inr _, s'') \<Rightarrow> (r, s'')))"

lemmas eff_defs [effs] = ret_def raise_def seq_def guard_def lift_def get_def modify_def

lemma bnd_Inr_iff [effs]:
  "bnd m f s = (Inr b, t) \<longleftrightarrow> (\<exists>a s'. m s = (Inr a, s') \<and> f a s' = (Inr b, t))"
  by (auto simp: bnd_def split: prod.splits sum.splits)

lemma bnd_Inl_iff:
  "bnd m f s = (Inl e, t) \<longleftrightarrow>
     m s = (Inl e, t) \<or> (\<exists>a s'. m s = (Inr a, s') \<and> f a s' = (Inl e, t))"
  by (auto simp: bnd_def split: prod.splits sum.splits)

lemma ensure_Inr_iff [effs]:
  "ensure m c s = (Inr b, t) \<longleftrightarrow> (\<exists>s'. m s = (Inr b, s') \<and> c s' = (Inr (), t))"
  by (auto simp: ensure_def split: prod.splits sum.splits)

lemma catch_reraise [effs]:
  "catch m (\<lambda>e. bnd (f e) (\<lambda>_. raise e)) s = (Inr b, t) \<longleftrightarrow> m s = (Inr b, t)"
  by (auto simp: catch_def bnd_def raise_def split: prod.splits sum.splits)

lemma bnd_eval:
  "m s = (Inr a, s') \<Longrightarrow> bnd m f s = f a s'"
  "m s = (Inl e, s') \<Longrightarrow> bnd m f s = (Inl e, s')"
  by (simp_all add: bnd_def)

lemma bnd_simps [simp]:
  "bnd (ret a) f = f a"
  "bnd (raise e) f = raise e"
  "bnd (lift (Inr a)) f = f a"
  "bnd (lift (Inl e)) f = raise e"
  "bnd (get g) f s = f (g s) s"
  "bnd (modify h) k s = k () (h s)"
  by (auto simp: bnd_def ret_def raise_def lift_def get_def modify_def)

lemma bnd_guard [simp]: "bnd (guard c e) f = (if c then f () else raise e)"
  by (simp add: guard_def)

lemma seq_guard [simp]: "seq (guard c e) f = (if c then f else raise e)"
  by (simp add: seq_def)

lemma seq_modify [simp]: "seq (modify h) k s = k (h s)"
  by (simp add: seq_def)

lemma bnd_lift: "bnd (lift r) f = (case r of Inl e \<Rightarrow> raise e | Inr a \<Rightarrow> f a)"
  by (auto split: sum.splits)

section \<open>Actions that keep an invariant\<close>

definition keeps :: "('s \<Rightarrow> bool) \<Rightarrow> ('s, 'e, 'a) eff \<Rightarrow> bool" where
  "keeps P m \<longleftrightarrow> (\<forall>s. P s \<longrightarrow> P (snd (m s)))"

lemma keepsI: "(\<And>s. P s \<Longrightarrow> P (snd (m s))) \<Longrightarrow> keeps P m"
  by (simp add: keeps_def)

lemma keepsD: "keeps P m \<Longrightarrow> P s \<Longrightarrow> m s = (r, t) \<Longrightarrow> P t"
  by (metis keeps_def snd_conv)

lemma keeps_ret [keeps, simp]: "keeps P (ret a)"
  by (simp add: keeps_def ret_def)

lemma keeps_raise [keeps, simp]: "keeps P (raise e)"
  by (simp add: keeps_def raise_def)

lemma keeps_lift [keeps, simp]: "keeps P (lift r)"
  by (simp add: keeps_def lift_def)

lemma keeps_get [keeps, simp]: "keeps P (get f)"
  by (simp add: keeps_def get_def)

lemma keeps_modify: "(\<And>s. P s \<Longrightarrow> P (f s)) \<Longrightarrow> keeps P (modify f)"
  by (simp add: keeps_def modify_def)

lemma keeps_guard [keeps, simp]: "keeps P (guard c e)"
  by (simp add: guard_def)

lemma keeps_bnd [keeps]: "keeps P m \<Longrightarrow> (\<And>a. keeps P (f a)) \<Longrightarrow> keeps P (bnd m f)"
  by (fastforce simp: keeps_def bnd_def split: prod.splits sum.splits)

lemma keeps_seq [keeps]: "keeps P m \<Longrightarrow> keeps P n \<Longrightarrow> keeps P (seq m n)"
  by (simp add: seq_def keeps_bnd)

lemma keeps_catch [keeps]: "keeps P m \<Longrightarrow> (\<And>e. keeps P (h e)) \<Longrightarrow> keeps P (catch m h)"
  by (fastforce simp: keeps_def catch_def split: prod.splits sum.splits)

lemma keeps_ensure [keeps]: "keeps P m \<Longrightarrow> keeps P c \<Longrightarrow> keeps P (ensure m c)"
  by (fastforce simp: keeps_def ensure_def split: prod.splits sum.splits)

lemma keeps_if [keeps]: "keeps P m \<Longrightarrow> keeps P n \<Longrightarrow> keeps P (if c then m else n)"
  by simp

lemma keeps_option [keeps]:
  "keeps P m \<Longrightarrow> (\<And>a. keeps P (f a)) \<Longrightarrow> keeps P (case x of None \<Rightarrow> m | Some a \<Rightarrow> f a)"
  by (cases x) auto

section \<open>Tables\<close>

text \<open>
  A database table is the list of its rows in the order they were inserted; \<open>key\<close>
  is the primary key.
\<close>

definition find_row :: "('r \<Rightarrow> 'k) \<Rightarrow> 'k \<Rightarrow> 'r list \<Rightarrow> 'r option" where
  "find_row key k rows = find (\<lambda>r. key r = k) rows"

definition update_rows :: "('r \<Rightarrow> bool) \<Rightarrow> ('r \<Rightarrow> 'r) \<Rightarrow> 'r list \<Rightarrow> 'r list" where
  "update_rows p f rows = map (\<lambda>r. if p r then f r else r) rows"

lemma find_row_Nil [simp]: "find_row key k [] = None"
  by (simp add: find_row_def)

lemma find_row_Cons [simp]:
  "find_row key k (r # rows) = (if key r = k then Some r else find_row key k rows)"
  by (simp add: find_row_def)

lemma find_row_SomeD: "find_row key k rows = Some r \<Longrightarrow> key r = k \<and> r \<in> set rows"
  by (induction rows) (auto split: if_splits)

lemma find_row_None_iff: "find_row key k rows = None \<longleftrightarrow> k \<notin> key ` set rows"
  by (induction rows) auto

lemma find_row_unique:
  "distinct (map key rows) \<Longrightarrow> r \<in> set rows \<Longrightarrow> find_row key (key r) rows = Some r"
  by (induction rows) force+

lemma find_row_append:
  "find_row key k (rows @ rows') =
     (case find_row key k rows of Some r \<Rightarrow> Some r | None \<Rightarrow> find_row key k rows')"
  by (induction rows) auto

lemma find_row_update:
  assumes "\<And>r. key (f r) = key r"
  shows "find_row key k (update_rows p f rows) =
           map_option (\<lambda>r. if p r then f r else r) (find_row key k rows)"
  by (induction rows) (auto simp: update_rows_def assms)

lemma map_key_update:
  assumes "\<And>r. key (f r) = key r"
  shows "map key (update_rows p f rows) = map key rows"
  by (induction rows) (auto simp: update_rows_def assms)

lemma length_update_rows [simp]: "length (update_rows p f rows) = length rows"
  by (simp add: update_rows_def)

lemma set_update_rows: "set (update_rows p f rows) = (\<lambda>r. if p r then f r else r) ` set rows"
  by (simp add: update_rows_def)

lemma update_rows_none: "(\<And>r. r \<in> set rows \<Longrightarrow> \<not> p r) \<Longrightarrow> update_rows p f rows = rows"
  by (induction rows) (auto simp: update_rows_def)

lemma find_snoc: "find P (xs @ [x]) = (case find P xs of None \<Rightarrow> if P x then Some x else None | r \<Rightarrow> r)"
  by (induction xs) auto

lemma find_filter: "find P (filter Q xs) = find (\<lambda>x. Q x \<and> P x) xs"
  by (induction xs) auto

end
