(* ===== verification/PyValues.thy ===== *)
theory PyValues
  imports Prelude
begin

text \<open>
  The Python values the code computes with: strings as lists of code points, the string
  methods it calls (\<open>split\<close>, \<open>join\<close>, \<open>strip\<close>, \<open>startswith\<close>,
  \<open>encode("utf-8")\<close>), the text accepted by \<open>int\<close>, and the true division of
  two integers, which rounds to a double before \<open>math.ceil\<close> sees it.
\<close>

section \<open>Strings\<close>

type_synonym pystr = "nat list"

text \<open>A literal of the source, all of whose characters are ASCII.\<close>

definition lit :: "string \<Rightarrow> pystr" where
  "lit s = map of_char s"

lemma lit_Nil [simp]: "lit [] = []"
  by (simp add: lit_def)

lemma lit_inj [simp]: "lit s = lit t \<longleftrightarrow> s = t"
  by (simp add: lit_def inj_map_eq_map inj_def)

lemma lit_eq_Nil [simp]: "lit s = [] \<longleftrightarrow> s = []"
  by (simp add: lit_def)

abbreviation (input) slash :: nat where "slash \<equiv> 47"

fun split_on :: "nat \<Rightarrow> pystr \<Rightarrow> pystr list" where
  "split_on c [] = [[]]"
| "split_on c (x # xs) =
     (if x = c then [] # split_on c xs
      else (case split_on c xs of [] \<Rightarrow> [[x]] | p # ps \<Rightarrow> (x # p) # ps))"

fun join_with :: "nat \<Rightarrow> pystr list \<Rightarrow> pystr" where
  "join_with c [] = []"
| "join_with c [p] = p"
| "join_with c (p # q # ps) = p @ c # join_with c (q # ps)"

lemma split_on_neq_Nil [simp]: "split_on c xs \<noteq> []"
  by (induction xs) (auto split: list.splits)

lemma split_on_no_sep_part: "p \<in> set (split_on c xs) \<Longrightarrow> c \<notin> set p"
  by (induction xs arbitrary: p) (auto split: list.splits if_splits)

lemma split_on_part_subset: "p \<in> set (split_on c xs) \<Longrightarrow> set p \<subseteq> set xs"
proof (induction xs arbitrary: p)
  case (Cons x xs)
  then show ?case by (cases "split_on c xs") (fastforce split: if_splits)+
qed simp

lemma join_with_Cons: "ps \<noteq> [] \<Longrightarrow> join_with c (p # ps) = p @ c # join_with c ps"
  by (cases ps) auto

lemma join_with_Cons_Cons: "join_with c ((x # p) # ps) = x # join_with c (p # ps)"
  by (cases ps) auto

lemma join_split: "join_with c (split_on c xs) = xs"
  by (induction xs)
    (auto split: list.splits simp: join_with_Cons join_with_Cons_Cons)

lemma split_on_no_sep: "c \<notin> set p \<Longrightarrow> split_on c p = [p]"
  by (induction p) auto

lemma split_on_append: "c \<notin> set p \<Longrightarrow> split_on c (p @ c # xs) = p # split_on c xs"
  by (induction p) auto

lemma split_join:
  "ps \<noteq> [] \<Longrightarrow> (\<And>p. p \<in> set ps \<Longrightarrow> c \<notin> set p) \<Longrightarrow> split_on c (join_with c ps) = ps"
  by (induction ps rule: join_with.induct) (auto simp: split_on_no_sep split_on_append)

lemma join_with_eq_Nil:
  "(\<And>p. p \<in> set ps \<Longrightarrow> p \<noteq> []) \<Longrightarrow> join_with c ps = [] \<longleftrightarrow> ps = []"
  by (cases ps; cases "tl ps") auto

lemma set_join_with: "set (join_with c ps) \<subseteq> insert c (\<Union> (set ` set ps))"
  by (induction c ps rule: join_with.induct) auto

lemma hd_join_with: "ps \<noteq> [] \<Longrightarrow> hd ps \<noteq> [] \<Longrightarrow> hd (join_with c ps) = hd (hd ps)"
  by (cases ps; cases "tl ps") auto

definition strip_by :: "(nat \<Rightarrow> bool) \<Rightarrow> pystr \<Rightarrow> pystr" where
  "strip_by q s = rev (dropWhile q (rev (dropWhile q s)))"

definition starts_with :: "pystr \<Rightarrow> pystr \<Rightarrow> bool" where
  "starts_with s p \<longleftrightarrow> take (length p) s = p"

definition ends_with :: "pystr \<Rightarrow> pystr \<Rightarrow> bool" where
  "ends_with s p \<longleftrightarrow> starts_with (rev s) (rev p)"

fun contains :: "pystr \<Rightarrow> pystr \<Rightarrow> bool" where
  "contains [] p = (p = [])"
| "contains (x # xs) p = (starts_with (x # xs) p \<or> contains xs p)"

text \<open>A text that is \<open>None\<close> or the empty string is false in a condition.\<close>

definition present :: "pystr option \<Rightarrow> bool" where
  "present v = (case v of None \<Rightarrow> False | Some s \<Rightarrow> s \<noteq> [])"

text \<open>\<open>s.rsplit("/", 1)[-1]\<close>: what follows the last slash.\<close>

definition last_segment :: "pystr \<Rightarrow> pystr" where
  "last_segment s = last (split_on slash s)"

lemma starts_with_append [simp]: "starts_with (p @ s) p"
  by (simp add: starts_with_def)

lemma starts_with_iff: "starts_with s p \<longleftrightarrow> (\<exists>r. s = p @ r)"
  by (metis append_eq_conv_conj starts_with_def append_take_drop_id)

text \<open>The characters of \<open>str.isspace\<close>, which \<open>strip()\<close> removes.\<close>

definition is_space :: "nat \<Rightarrow> bool" where
  "is_space c \<longleftrightarrow>
     9 \<le> c \<and> c \<le> 13 \<or> 28 \<le> c \<and> c \<le> 32 \<or> c = 133 \<or> c = 160 \<or> c = 5760
     \<or> 8192 \<le> c \<and> c \<le> 8202 \<or> c = 8232 \<or> c = 8233 \<or> c = 8239 \<or> c = 8287 \<or> c = 12288"

definition strip :: "pystr \<Rightarrow> pystr" where
  "strip = strip_by is_space"

lemma dropWhile_hd: "dropWhile q s = [] \<or> \<not> q (hd (dropWhile q s))"
  by (induction s) auto

lemma strip_by_id:
  "s = [] \<or> \<not> q (hd s) \<and> \<not> q (last s) \<Longrightarrow> strip_by q s = s"
  by (cases s) (auto simp: strip_by_def hd_rev[symmetric] dropWhile_eq_self_iff)

lemma strip_by_ends:
  assumes "strip_by q s \<noteq> []"
  shows "\<not> q (hd (strip_by q s)) \<and> \<not> q (last (strip_by q s))"
proof -
  let ?t = "dropWhile q s" and ?r = "rev (dropWhile q (rev (dropWhile q s)))"
  have r: "?r \<noteq> []" using assms by (simp add: strip_by_def)
  have lst: "\<not> q (last ?r)" using r dropWhile_hd[of q "rev ?t"] by (auto simp: last_rev)
  have "\<exists>z. ?t = ?r @ z"
    by (metis rev_append rev_rev_ident takeWhile_dropWhile_id)
  then obtain z where z: "?t = ?r @ z" ..
  have "hd ?r = hd ?t" using r by (subst z) simp
  moreover have "?t \<noteq> []" using r by (subst z) simp
  then have "\<not> q (hd ?t)" using dropWhile_hd[of q s] by blast
  ultimately show ?thesis using lst by (simp add: strip_by_def)
qed

lemma strip_by_idem [simp]: "strip_by q (strip_by q s) = strip_by q s"
  using strip_by_ends strip_by_id by metis

lemma set_strip_by: "set (strip_by q s) \<subseteq> set s"
  by (auto simp: strip_by_def dest!: set_dropWhileD)

text \<open>
  \<open>len(s.encode("utf-8"))\<close>: one to four bytes per code point; a lone surrogate cannot
  be encoded (\<open>UnicodeEncodeError\<close>).
\<close>

fun utf8_len :: "pystr \<Rightarrow> nat option" where
  "utf8_len [] = Some 0"
| "utf8_len (c # cs) =
     (if 55296 \<le> c \<and> c \<le> 57343 then None
      else map_option
        (\<lambda>n. (if c < 128 then 1 else if c < 2048 then 2 else if c < 65536 then 3 else 4) + n)
        (utf8_len cs))"

lemma utf8_len_ge_length: "utf8_len s = Some n \<Longrightarrow> length s \<le> n"
  by (induction s arbitrary: n) (auto split: if_splits)

section \<open>The text accepted by \<open>int\<close>\<close>

text \<open>
  The code points with the decimal digit property come in runs of ten; these are the zeros
  of the runs. \<open>int\<close> takes any of them, single underscores between digits, one sign,
  surrounding white space, and no more than 4300 digits.
\<close>

definition decimal_zeros :: "nat list" where
  "decimal_zeros =
    [48, 1632, 1776, 1984, 2406, 2534, 2662, 2790, 2918, 3046, 3174, 3302, 3430, 3558, 3664,
     3792, 3872, 4160, 4240, 6112, 6160, 6470, 6608, 6784, 6800, 6992, 7088, 7232, 7248,
     42528, 43216, 43264, 43472, 43504, 43600, 44016, 65296, 66720, 68912, 69734, 69872,
     69942, 70096, 70384, 70736, 70864, 71248, 71360, 71472, 71904, 72016, 72784, 73040,
     73120, 92768, 92864, 93008, 120782, 120792, 120802, 120812, 120822, 123200, 123632,
     125264, 130032]"

definition digit_val :: "nat \<Rightarrow> int option" where
  "digit_val c = map_option (\<lambda>z. int (c - z)) (find (\<lambda>z. z \<le> c \<and> c < z + 10) decimal_zeros)"

definition int_space :: "nat \<Rightarrow> bool" where
  "int_space c \<longleftrightarrow> is_space c \<and> \<not> (28 \<le> c \<and> c \<le> 31)"

text \<open>The digits after the first one.\<close>

fun int_digits :: "int \<Rightarrow> pystr \<Rightarrow> int option" where
  "int_digits acc [] = Some acc"
| "int_digits acc (c # cs) =
     (case digit_val c of
        Some d \<Rightarrow> int_digits (10 * acc + d) cs
      | None \<Rightarrow>
          (if c \<noteq> 95 then None
           else (case cs of
                   [] \<Rightarrow> None
                 | c' # cs' \<Rightarrow>
                     (case digit_val c' of
                        None \<Rightarrow> None
                      | Some d \<Rightarrow> int_digits (10 * acc + d) cs'))))"

definition max_str_digits :: nat where
  "max_str_digits = 4300"

definition int_unsigned :: "pystr \<Rightarrow> int option" where
  "int_unsigned s =
     (case s of
        [] \<Rightarrow> None
      | c # cs \<Rightarrow>
          (if max_str_digits < length (filter (\<lambda>x. digit_val x \<noteq> None) s) then None
           else (case digit_val c of None \<Rightarrow> None | Some d \<Rightarrow> int_digits d cs)))"

definition py_int :: "pystr \<Rightarrow> int option" where
  "py_int text =
     (case strip_by int_space text of
        [] \<Rightarrow> None
      | c # cs \<Rightarrow>
          (if c = 43 then int_unsigned cs
           else if c = 45 then map_option uminus (int_unsigned cs)
           else int_unsigned (c # cs)))"

text \<open>\<open>str(n)\<close> for an integer.\<close>

fun nat_digits :: "nat \<Rightarrow> pystr" where
  "nat_digits n = (if n < 10 then [48 + n] else nat_digits (n div 10) @ [48 + n mod 10])"

declare nat_digits.simps [simp del]

definition py_str_int :: "int \<Rightarrow> pystr" where
  "py_str_int i = (if i < 0 then 45 # nat_digits (nat (- i)) else nat_digits (nat i))"

lemma digit_val_ascii: "d < 10 \<Longrightarrow> digit_val (48 + d) = Some (int d)"
  by (simp add: digit_val_def decimal_zeros_def)

lemma digit_val_nonneg: "digit_val c = Some d \<Longrightarrow> 0 \<le> d \<and> d < 10"
  by (auto simp: digit_val_def find_Some_iff)

lemma digit_val_not_special:
  "digit_val 43 = None" "digit_val 45 = None" "digit_val 95 = None" "digit_val 44 = None"
  by (simp_all add: digit_val_def decimal_zeros_def)

lemma int_digits_append_digit:
  "digit_val c = Some d \<Longrightarrow> int_digits acc cs = Some n \<Longrightarrow>
   int_digits acc (cs @ [c]) = Some (10 * n + d)"
  by (induction acc cs rule: int_digits.induct) (auto split: option.splits if_splits list.splits)

lemma int_digits_nonneg: "0 \<le> acc \<Longrightarrow> int_digits acc cs = Some n \<Longrightarrow> 0 \<le> n"
proof (induction acc cs rule: int_digits.induct)
  case (2 acc c cs)
  have step: "0 \<le> 10 * acc + d" if "digit_val x = Some d" for x d
    using digit_val_nonneg[OF that] "2.prems"(1) by simp
  show ?case
    using "2.prems"(2) "2.IH" step
    by (auto split: option.splits if_splits list.splits)
qed simp

lemma int_unsigned_nonneg: "int_unsigned s = Some n \<Longrightarrow> 0 \<le> n"
  by (auto simp: int_unsigned_def split: list.splits option.splits if_splits
      dest: digit_val_nonneg intro: int_digits_nonneg)

lemma nat_digits_ascii: "c \<in> set (nat_digits n) \<Longrightarrow> 48 \<le> c \<and> c \<le> 57"
proof (induction n rule: nat_digits.induct)
  case (1 n)
  then show ?case by (subst (asm) nat_digits.simps) (auto split: if_splits)
qed

lemma nat_digits_neq_Nil [simp]: "nat_digits n \<noteq> []"
  by (subst nat_digits.simps) simp

lemma int_digits_nat_digits:
  "\<exists>c cs d. nat_digits n = c # cs \<and> digit_val c = Some d \<and> int_digits d cs = Some (int n)"
proof (induction n rule: nat_digits.induct)
  case (1 n)
  show ?case
  proof (cases "n < 10")
    case True
    then show ?thesis by (subst nat_digits.simps) (auto simp: digit_val_ascii)
  next
    case False
    with 1 obtain c cs d where ih: "nat_digits (n div 10) = c # cs" "digit_val c = Some d"
      "int_digits d cs = Some (int (n div 10))" by blast
    have "nat_digits n = c # (cs @ [48 + n mod 10])"
      using False ih(1) by (subst nat_digits.simps) simp
    moreover have "int_digits d (cs @ [48 + n mod 10]) = Some (10 * int (n div 10) + int (n mod 10))"
      using int_digits_append_digit[OF digit_val_ascii ih(3), of "n mod 10"] by simp
    moreover have "10 * int (n div 10) + int (n mod 10) = int n"
      by (metis mult_div_mod_eq of_nat_add of_nat_mult of_nat_numeral)
    ultimately show ?thesis using ih(2) by auto
  qed
qed

lemma length_nat_digits: "n < 10 ^ k \<Longrightarrow> 0 < k \<Longrightarrow> length (nat_digits n) \<le> k"
proof (induction k arbitrary: n)
  case (Suc k)
  show ?case
  proof (cases "n < 10")
    case True
    then show ?thesis by (subst nat_digits.simps) simp
  next
    case False
    then have "0 < k" using Suc.prems by (cases k) auto
    moreover have "n div 10 < 10 ^ k" using Suc.prems by (simp add: less_mult_imp_div_less mult.commute)
    ultimately have "length (nat_digits (n div 10)) \<le> k" by (rule Suc.IH[rotated])
    then show ?thesis using False by (subst nat_digits.simps) simp
  qed
qed simp

lemma int_space_not_digit: "48 \<le> c \<Longrightarrow> c \<le> 57 \<Longrightarrow> \<not> int_space c"
  by (simp add: int_space_def is_space_def)

text \<open>\<open>int(str(n))\<close> gives \<open>n\<close> back, within the limit on the digits.\<close>

lemma int_unsigned_nat_digits:
  assumes "n < 10 ^ max_str_digits"
  shows "int_unsigned (nat_digits n) = Some (int n)"
proof -
  have "length (filter (\<lambda>x. digit_val x \<noteq> None) (nat_digits n)) \<le> max_str_digits"
    using length_nat_digits[OF assms] length_filter_le order_trans
    by (metis max_str_digits_def zero_less_numeral)
  then show ?thesis
    using int_digits_nat_digits[of n] by (auto simp: int_unsigned_def)
qed

lemma strip_digits: "strip_by int_space (nat_digits n) = nat_digits n"
  by (rule strip_by_id) (meson hd_in_set int_space_not_digit last_in_set nat_digits_ascii nat_digits_neq_Nil)

lemma strip_signed_digits: "strip_by int_space (45 # nat_digits n) = 45 # nat_digits n"
proof (rule strip_by_id)
  have "\<not> int_space (last (nat_digits n))"
    by (meson int_space_not_digit last_in_set nat_digits_ascii nat_digits_neq_Nil)
  then show "45 # nat_digits n = [] \<or>
      \<not> int_space (hd (45 # nat_digits n)) \<and> \<not> int_space (last (45 # nat_digits n))"
    by (simp add: int_space_def is_space_def)
qed

lemma py_int_nat_digits:
  assumes "n < 10 ^ max_str_digits"
  shows "py_int (nat_digits n) = Some (int n)"
proof -
  obtain c cs where c: "nat_digits n = c # cs" by (cases "nat_digits n") auto
  then have "c \<noteq> 43 \<and> c \<noteq> 45" using nat_digits_ascii[of c n] by auto
  then show ?thesis
    using int_unsigned_nat_digits[OF assms] strip_digits[of n] by (simp add: py_int_def c)
qed

lemma py_int_str_int:
  assumes "nat \<bar>i\<bar> < 10 ^ max_str_digits"
  shows "py_int (py_str_int i) = Some i"
proof (cases "i < 0")
  case True
  then have "nat (- i) < 10 ^ max_str_digits" using assms by simp
  then show ?thesis
    using True strip_signed_digits[of "nat (- i)"] int_unsigned_nat_digits[of "nat (- i)"]
    by (simp add: py_int_def py_str_int_def)
next
  case False
  then show ?thesis using assms py_int_nat_digits[of "nat i"] by (simp add: py_str_int_def)
qed

end
