(* ===== verification/PyNumbers.thy ===== *)
theory PyNumbers
  imports PyValues
begin

text \<open>
  Python's \<open>a / b\<close> on integers, which is the quotient rounded to the nearest double
  (ties to even), and the two uses the code makes of it: \<open>math.ceil(a / b)\<close> and
  \<open>int(a / b)\<close>; then the values of parsed JSON with the truth value and the
  integer conversion the code applies to them, and the instants of \<open>datetime\<close>.
\<close>

section \<open>True division\<close>

text \<open>Round the fraction \<open>n / d\<close> to the nearest integer, ties to even.\<close>

definition round_half_even :: "nat \<Rightarrow> nat \<Rightarrow> nat" where
  "round_half_even n d =
     (let q = n div d; r = n mod d
      in if 2 * r < d then q else if d < 2 * r then q + 1 else if even q then q else q + 1)"

text \<open>
  Scale the fraction so that its integer part has 53 bits; \<open>e\<close> is the exponent of two
  by which the scaled fraction has to be multiplied to get the original one.
\<close>

function scale_quot :: "nat \<Rightarrow> nat \<Rightarrow> int \<Rightarrow> nat \<times> nat \<times> int" where
  "scale_quot n d e =
     (if n = 0 \<or> d = 0 then (n, d, e)
      else if n < 2 ^ 52 * d then scale_quot (2 * n) d (e - 1)
      else if 2 ^ 53 * d \<le> n then scale_quot n (2 * d) (e + 1)
      else (n, d, e))"
  by pat_completeness auto
termination
  by (relation "measure (\<lambda>(n, d, e). if n < 2 ^ 52 * d then 2 ^ 52 * d - n else n + 1 - 2 ^ 53 * d)")
    auto

declare scale_quot.simps [simp del]

text \<open>The double nearest to \<open>n / d\<close> as a mantissa and an exponent of two.\<close>

definition float_quot :: "nat \<Rightarrow> nat \<Rightarrow> nat \<times> int" where
  "float_quot n d = (case scale_quot n d 0 of (n', d', e) \<Rightarrow> (round_half_even n' d', e))"

definition scaled_floor :: "nat \<times> int \<Rightarrow> nat" where
  "scaled_floor f = (case f of (m, e) \<Rightarrow> if 0 \<le> e then m * 2 ^ nat e else m div 2 ^ nat (- e))"

definition scaled_ceil :: "nat \<times> int \<Rightarrow> nat" where
  "scaled_ceil f =
     (case f of (m, e) \<Rightarrow>
        if 0 \<le> e then m * 2 ^ nat e else (m + 2 ^ nat (- e) - 1) div 2 ^ nat (- e))"

text \<open>\<open>math.ceil(a / b)\<close>; \<open>None\<close> is \<open>ZeroDivisionError\<close>.\<close>

definition ceil_truediv :: "int \<Rightarrow> int \<Rightarrow> int option" where
  "ceil_truediv a b =
     (if b = 0 then None
      else
        let f = float_quot (nat \<bar>a\<bar>) (nat \<bar>b\<bar>)
        in Some (if 0 \<le> a \<longleftrightarrow> 0 < b then int (scaled_ceil f) else - int (scaled_floor f)))"

text \<open>\<open>int(a / b)\<close>, truncation towards zero, for a positive divisor.\<close>

definition int_truediv :: "int \<Rightarrow> nat \<Rightarrow> int" where
  "int_truediv a b =
     (let t = int (scaled_floor (float_quot (nat \<bar>a\<bar>) b)) in if 0 \<le> a then t else - t)"

lemma scale_quot_down:
  assumes "0 < n" "0 < d" "n < 2 ^ 53 * d"
  shows "\<exists>s. scale_quot n d e = (n * 2 ^ s, d, e - int s) \<and> 2 ^ 52 * d \<le> n * 2 ^ s"
  using assms
proof (induction n d e rule: scale_quot.induct)
  case (1 n d e)
  show ?case
  proof (cases "n < 2 ^ 52 * d")
    case True
    then have "2 * n < 2 ^ 53 * d" by simp
    with True "1.IH"(1) "1.prems" obtain s where
      "scale_quot (2 * n) d (e - 1) = (2 * n * 2 ^ s, d, e - 1 - int s)" "2 ^ 52 * d \<le> 2 * n * 2 ^ s"
      by auto
    with True "1.prems" show ?thesis
      by (subst scale_quot.simps) (intro exI[of _ "Suc s"], simp add: algebra_simps)
  next
    case False
    with "1.prems" show ?thesis by (subst scale_quot.simps) (intro exI[of _ 0], simp)
  qed
qed

lemma round_half_even_bounds:
  assumes "0 < d"
  shows "n div d \<le> round_half_even n d"
    and "n < d * k \<Longrightarrow> round_half_even n d \<le> k"
    and "d < 2 * (n - d * k) \<Longrightarrow> k < round_half_even n d"
proof -
  show "n div d \<le> round_half_even n d" by (simp add: round_half_even_def Let_def)
  show "round_half_even n d \<le> k" if "n < d * k"
  proof -
    have "n div d < k" using that assms by (simp add: div_less_iff_less_mult mult.commute)
    then show ?thesis by (simp add: round_half_even_def Let_def)
  qed
  show "k < round_half_even n d" if h: "d < 2 * (n - d * k)"
  proof -
    have "d * k \<le> n" using h by (cases "d * k \<le> n") auto
    then have kq: "k \<le> n div d" using assms by (simp add: less_eq_div_iff_mult_less_eq mult.commute)
    show ?thesis
    proof (cases "k < n div d")
      case True
      then show ?thesis by (simp add: round_half_even_def Let_def)
    next
      case False
      with kq have "k = n div d" by simp
      then have "n - d * k = n mod d" by (simp add: minus_mult_div_eq_mod)
      with h \<open>k = n div d\<close> show ?thesis by (simp add: round_half_even_def Let_def)
    qed
  qed
qed

text \<open>
  The rounding cannot move a quotient across an integer while the dividend has at most 53
  bits: the result is the exact ceiling.
\<close>

lemma scaled_ceil_exact:
  assumes n: "0 < n" "n < 2 ^ 53" and d: "0 < d"
  shows "scaled_ceil (float_quot n d) = (n + d - 1) div d"
proof -
  have "n < 2 ^ 53 * d" using n(2) d by (metis mult.right_neutral mult_le_mono2 order_less_le_trans Suc_leI One_nat_def)
  then obtain s where s: "scale_quot n d 0 = (n * 2 ^ s, d, - int s)" "2 ^ 52 * d \<le> n * 2 ^ s"
    using scale_quot_down[OF n(1) d, of 0] by auto
  let ?m = "round_half_even (n * 2 ^ s) d" and ?p = "2 ^ s :: nat"
  have f: "float_quot n d = (?m, - int s)" by (simp add: float_quot_def s(1))
  have big: "d < 2 * ?p"
  proof -
    have "2 ^ 52 * d < 2 ^ 53 * ?p" using s(2) n(2) by (meson le_less_trans mult_less_mono1 zero_less_numeral zero_less_power)
    then show ?thesis by simp
  qed
  define k where "k = (n + d - 1) div d"
  have up: "n \<le> d * k" and lo: "d * (k - 1) < n"
  proof -
    have "d * k + (n + d - 1) mod d = n + d - 1" by (simp add: k_def)
    moreover have "(n + d - 1) mod d < d" using d by simp
    ultimately show "n \<le> d * k" using d by linarith
    have "d * k \<le> n + d - 1" by (simp add: k_def)
    then show "d * (k - 1) < n" using d n(1) by (cases k) auto
  qed
  have k0: "0 < k" using up n(1) by (cases k) auto
  have m_up: "?m \<le> k * ?p"
  proof (cases "n = d * k")
    case True
    then show ?thesis using d by (simp add: round_half_even_def Let_def ac_simps)
  next
    case False
    then have "n * ?p < d * (k * ?p)" using up by (simp add: mult.assoc[symmetric])
    then show ?thesis using round_half_even_bounds(2)[OF d] by simp
  qed
  have m_lo: "(k - 1) * ?p < ?m"
  proof (rule round_half_even_bounds(3)[OF d])
    have "d * ((k - 1) * ?p) + ?p \<le> n * ?p"
      using lo by (metis Suc_leI add.commute mult.assoc mult_Suc mult_le_mono1)
    then show "d < 2 * (n * ?p - d * ((k - 1) * ?p))" using big by linarith
  qed
  have "(?m + ?p - 1) div ?p = k"
  proof (rule div_nat_eqI)
    have "k * ?p = (k - 1) * ?p + ?p" using k0 by (cases k) auto
    then show "?p * k \<le> ?m + ?p - 1" using m_lo by (simp add: mult.commute[of ?p k])
    have "0 < ?p" by simp
    then show "?m + ?p - 1 < ?p * Suc k" using m_up by (simp only: mult_Suc_right mult.commute[of ?p k])
  qed
  moreover have "scaled_ceil (?m, - int s) = (?m + ?p - 1) div ?p"
    by (cases s) (simp_all add: scaled_ceil_def nat_add_distrib)
  ultimately show ?thesis by (simp add: f k_def)
qed

lemma ceil_truediv_exact:
  assumes "0 \<le> a" "a < 2 ^ 53" "0 < b"
  shows "ceil_truediv a b = Some ((a + b - 1) div b)"
proof (cases "a = 0")
  case True
  have "scaled_ceil (float_quot 0 (nat b)) = 0"
    using assms(3) by (simp add: float_quot_def scale_quot.simps[of 0] round_half_even_def scaled_ceil_def)
  then show ?thesis using True assms(3) by (simp add: ceil_truediv_def)
next
  case False
  then have "scaled_ceil (float_quot (nat a) (nat b)) = (nat a + nat b - 1) div nat b"
    using assms by (intro scaled_ceil_exact) (auto simp: nat_less_iff)
  moreover have "int (nat a + nat b - 1) = a + b - 1" using assms False by simp
  ultimately show ?thesis
    using assms False by (simp add: ceil_truediv_def zdiv_int)
qed

lemma ceil_truediv_zero [simp]: "0 < b \<Longrightarrow> ceil_truediv 0 b = Some 0"
  using ceil_truediv_exact[of 0 b] by (simp add: div_pos_pos_trivial)

lemma ceil_truediv_nonneg: "0 \<le> a \<Longrightarrow> 0 < b \<Longrightarrow> ceil_truediv a b = Some n \<Longrightarrow> 0 \<le> n"
  by (auto simp: ceil_truediv_def Let_def)

lemma ceil_truediv_defined: "b \<noteq> 0 \<Longrightarrow> \<exists>n. ceil_truediv a b = Some n"
  by (simp add: ceil_truediv_def Let_def)

text \<open>Beyond 53 bits the rounding shows: here the last byte of the dividend is lost.\<close>

lemma ceil_truediv_inexact:
  "ceil_truediv 9007199254740993 9007199254740992 = Some 1"
  "(9007199254740993 + 9007199254740992 - 1) div 9007199254740992 = (2 :: int)"
  by (simp_all add: ceil_truediv_def float_quot_def scale_quot.simps round_half_even_def
      scaled_ceil_def)

section \<open>JSON values\<close>

text \<open>
  A number with a fraction or an exponent is a double; \<open>JFloat m e\<close> is
  \<open>m * 2 ^ e\<close>. An object is kept in the order of its keys, each key once.
\<close>

datatype json =
    JNull
  | JBool bool
  | JInt int
  | JFloat int int
  | JStr pystr
  | JList "json list"
  | JObj "(pystr \<times> json) list"

type_synonym jobject = "(pystr \<times> json) list"

text \<open>\<open>d.get(key)\<close> of a dictionary: a missing key reads as \<open>None\<close>.\<close>

definition jget :: "string \<Rightarrow> jobject \<Rightarrow> json" where
  "jget k d = (case map_of d (lit k) of None \<Rightarrow> JNull | Some v \<Rightarrow> v)"

definition truthy :: "json \<Rightarrow> bool" where
  "truthy v =
     (case v of
        JNull \<Rightarrow> False
      | JBool b \<Rightarrow> b
      | JInt i \<Rightarrow> i \<noteq> 0
      | JFloat m e \<Rightarrow> m \<noteq> 0
      | JStr s \<Rightarrow> s \<noteq> []
      | JList xs \<Rightarrow> xs \<noteq> []
      | JObj d \<Rightarrow> d \<noteq> [])"

text \<open>\<open>a or b\<close>.\<close>

definition py_or :: "json \<Rightarrow> json \<Rightarrow> json" where
  "py_or a b = (if truthy a then a else b)"

text \<open>
  A number as the fraction \<open>n / 2 ^ k\<close>; \<open>None\<close> for a value that cannot be
  compared with an integer (\<open>TypeError\<close>). Booleans are the integers 0 and 1.
\<close>

definition json_number :: "json \<Rightarrow> (int \<times> nat) option" where
  "json_number v =
     (case v of
        JBool b \<Rightarrow> Some (if b then 1 else 0, 0)
      | JInt i \<Rightarrow> Some (i, 0)
      | JFloat m e \<Rightarrow> Some (if 0 \<le> e then (m * 2 ^ nat e, 0) else (m, nat (- e)))
      | _ \<Rightarrow> None)"

text \<open>\<open>lo <= x <= hi\<close> for integers \<open>lo\<close> and \<open>hi\<close>.\<close>

definition number_within :: "int \<Rightarrow> int \<Rightarrow> int \<times> nat \<Rightarrow> bool" where
  "number_within lo hi x = (case x of (n, k) \<Rightarrow> lo * 2 ^ k \<le> n \<and> n \<le> hi * 2 ^ k)"

text \<open>\<open>int(x)\<close> truncates towards zero.\<close>

definition number_int :: "int \<times> nat \<Rightarrow> int" where
  "number_int x = (case x of (n, k) \<Rightarrow> if 0 \<le> n then n div 2 ^ k else - ((- n) div 2 ^ k))"

lemma number_int_integer [simp]: "number_int (i, 0) = i"
  by (simp add: number_int_def)

lemma number_within_integer [simp]: "number_within lo hi (i, 0) \<longleftrightarrow> lo \<le> i \<and> i \<le> hi"
  by (simp add: number_within_def)

text \<open>Truncation keeps a number between two integer bounds.\<close>

lemma number_int_within:
  assumes "number_within lo hi x"
  shows "lo \<le> number_int x \<and> number_int x \<le> hi"
proof -
  obtain n k where x: "x = (n, k)" by (cases x)
  have b: "lo * 2 ^ k \<le> n" "n \<le> hi * 2 ^ k" using assms by (simp_all add: x number_within_def)
  show ?thesis
  proof (cases "0 \<le> n")
    case True
    have "lo \<le> n div 2 ^ k" using zdiv_mono1[OF b(1), of "2 ^ k"] by simp
    moreover have "n div 2 ^ k \<le> hi" using zdiv_mono1[OF b(2), of "2 ^ k"] by simp
    ultimately show ?thesis using True by (simp add: x number_int_def)
  next
    case False
    have "(- hi) * 2 ^ k \<le> - n" "- n \<le> (- lo) * 2 ^ k" using b by simp_all
    then have "(- hi) * 2 ^ k div 2 ^ k \<le> (- n) div 2 ^ k"
      "(- n) div 2 ^ k \<le> (- lo) * 2 ^ k div 2 ^ k"
      by (auto intro: zdiv_mono1)
    moreover have "x * 2 ^ k div 2 ^ k = x" for x :: int by simp
    ultimately have "- hi \<le> (- n) div 2 ^ k" "(- n) div 2 ^ k \<le> - lo" by metis+
    then show ?thesis using False by (simp add: x number_int_def)
  qed
qed

section \<open>Instants\<close>

text \<open>
  An aware \<open>datetime\<close> is the number of microseconds from the start of year 1 in UTC;
  a sum beyond the end of year 9999 raises \<open>OverflowError\<close>.
\<close>

type_synonym dt = int

definition max_dt :: dt where
  "max_dt = 315537897599999999"

definition add_seconds :: "dt \<Rightarrow> int \<Rightarrow> dt option" where
  "add_seconds t s =
     (let r = t + s * 1000000 in if 0 \<le> r \<and> r \<le> max_dt then Some r else None)"

text \<open>\<open>int((a - b).total_seconds())\<close>.\<close>

definition seconds_between :: "dt \<Rightarrow> dt \<Rightarrow> int" where
  "seconds_between a b = int_truediv (a - b) 1000000"

lemma add_seconds_Some: "add_seconds t s = Some r \<Longrightarrow> r = t + s * 1000000"
  by (auto simp: add_seconds_def Let_def split: if_splits)

end
