(* ===== verification/ApiErrors.thy ===== *)
theory ApiErrors
  imports PyNumbers
begin

text \<open>
  The error model of \<open>src/app/core/errors.py\<close>: one constructor per exception class,
  \<open>ApiErr\<close> for an \<open>ApiError\<close> raised with its code and status in place, and
  \<open>Crash\<close> for a Python exception that is no \<open>ApiError\<close> and reaches the client
  as an internal error. The texts meant for people are left out, except where one class
  stands for several refusals and the text tells them apart.

  Then the SDK's view of the same errors, \<open>src/sdk/pyuploadx/exceptions.py\<close>.
\<close>

section \<open>Errors of the service\<close>

datatype py_exn =
    ValueError
  | TypeError
  | KeyError
  | AttributeError
  | OverflowError
  | ZeroDivisionError
  | UnicodeEncodeError
  | OSError
  | IntegrityError
  | MultipleResultsFound
  | RuntimeError
  | IndexError
  | ConnectionError
  | TimeoutError

datatype error =
    UploadNotFoundError pystr
  | UploadAlreadyCompletedError
  | UploadAbortedError
  | UploadExpiredError
  | UploadStateConflictError string
  | InvalidPartNumberError int int
  | InvalidPartSizeError int int int
  | MissingPartsError "int list"
  | PartEtagMismatchError int
  | ChecksumMismatchError
  | ObjectAlreadyExistsError pystr pystr
  | InvalidRelativePathError string
  | DuplicateNormalizedPathError pystr
  | ManifestIncompleteError string
  | ManifestHashMismatchError pystr pystr
  | DirectoryManifestMismatchError
  | DirectoryHasFailedEntriesError int
  | InvalidLifecyclePolicyError string
  | TtlOutOfRangeError int int int
  | FileUnderLegalHoldError
  | StorageCapabilityNotSupportedError string
  | StorageUnavailableError
  | DatabaseUnavailableError
  | AuthenticationError
  | AuthorizationError
  | ApiErr string int
  | Crash py_exn

fun error_code :: "error \<Rightarrow> string" where
  "error_code (UploadNotFoundError _) = ''UPLOAD_NOT_FOUND''"
| "error_code UploadAlreadyCompletedError = ''UPLOAD_ALREADY_COMPLETED''"
| "error_code UploadAbortedError = ''UPLOAD_ABORTED''"
| "error_code UploadExpiredError = ''UPLOAD_EXPIRED''"
| "error_code (UploadStateConflictError _) = ''UPLOAD_STATE_CONFLICT''"
| "error_code (InvalidPartNumberError _ _) = ''INVALID_PART_NUMBER''"
| "error_code (InvalidPartSizeError _ _ _) = ''INVALID_PART_SIZE''"
| "error_code (MissingPartsError _) = ''MISSING_PARTS''"
| "error_code (PartEtagMismatchError _) = ''PART_ETAG_MISMATCH''"
| "error_code ChecksumMismatchError = ''CHECKSUM_MISMATCH''"
| "error_code (ObjectAlreadyExistsError _ _) = ''OBJECT_ALREADY_EXISTS''"
| "error_code (InvalidRelativePathError _) = ''INVALID_RELATIVE_PATH''"
| "error_code (DuplicateNormalizedPathError _) = ''DUPLICATE_NORMALIZED_PATH''"
| "error_code (ManifestIncompleteError _) = ''MANIFEST_INCOMPLETE''"
| "error_code (ManifestHashMismatchError _ _) = ''MANIFEST_HASH_MISMATCH''"
| "error_code DirectoryManifestMismatchError = ''DIRECTORY_MANIFEST_MISMATCH''"
| "error_code (DirectoryHasFailedEntriesError _) = ''DIRECTORY_HAS_FAILED_ENTRIES''"
| "error_code (InvalidLifecyclePolicyError _) = ''INVALID_LIFECYCLE_POLICY''"
| "error_code (TtlOutOfRangeError _ _ _) = ''TTL_OUT_OF_RANGE''"
| "error_code FileUnderLegalHoldError = ''FILE_UNDER_LEGAL_HOLD''"
| "error_code (StorageCapabilityNotSupportedError _) = ''STORAGE_CAPABILITY_NOT_SUPPORTED''"
| "error_code StorageUnavailableError = ''STORAGE_UNAVAILABLE''"
| "error_code DatabaseUnavailableError = ''DATABASE_UNAVAILABLE''"
| "error_code AuthenticationError = ''AUTHENTICATION_REQUIRED''"
| "error_code AuthorizationError = ''FORBIDDEN''"
| "error_code (ApiErr code _) = code"
| "error_code (Crash _) = ''INTERNAL''"

text \<open>The HTTP status; 400 is the default of \<open>ApiError\<close>.\<close>

fun error_status :: "error \<Rightarrow> int" where
  "error_status (UploadNotFoundError _) = 404"
| "error_status UploadAlreadyCompletedError = 409"
| "error_status UploadAbortedError = 409"
| "error_status UploadExpiredError = 410"
| "error_status (UploadStateConflictError _) = 409"
| "error_status (InvalidPartNumberError _ _) = 400"
| "error_status (InvalidPartSizeError _ _ _) = 400"
| "error_status (MissingPartsError _) = 409"
| "error_status (PartEtagMismatchError _) = 409"
| "error_status ChecksumMismatchError = 409"
| "error_status (ObjectAlreadyExistsError _ _) = 409"
| "error_status (InvalidRelativePathError _) = 422"
| "error_status (DuplicateNormalizedPathError _) = 409"
| "error_status (ManifestIncompleteError _) = 409"
| "error_status (ManifestHashMismatchError _ _) = 409"
| "error_status DirectoryManifestMismatchError = 409"
| "error_status (DirectoryHasFailedEntriesError _) = 409"
| "error_status (InvalidLifecyclePolicyError _) = 422"
| "error_status (TtlOutOfRangeError _ _ _) = 422"
| "error_status FileUnderLegalHoldError = 409"
| "error_status (StorageCapabilityNotSupportedError _) = 501"
| "error_status StorageUnavailableError = 503"
| "error_status DatabaseUnavailableError = 503"
| "error_status AuthenticationError = 401"
| "error_status AuthorizationError = 403"
| "error_status (ApiErr _ status) = status"
| "error_status (Crash _) = 500"

definition error_retryable :: "error \<Rightarrow> bool" where
  "error_retryable e \<longleftrightarrow> e = StorageUnavailableError \<or> e = DatabaseUnavailableError"

text \<open>\<open>isinstance(exc, ApiError)\<close>.\<close>

definition is_api_error :: "error \<Rightarrow> bool" where
  "is_api_error e = (case e of Crash _ \<Rightarrow> False | _ \<Rightarrow> True)"

text \<open>The \<open>details\<close> object of an error response.\<close>

fun error_details :: "error \<Rightarrow> jobject option" where
  "error_details (InvalidPartNumberError n m) =
     Some [(lit ''part_number'', JInt n), (lit ''maximum_parts'', JInt m)]"
| "error_details (InvalidPartSizeError s lo hi) =
     Some [(lit ''size_bytes'', JInt s), (lit ''minimum'', JInt lo), (lit ''maximum'', JInt hi)]"
| "error_details (MissingPartsError ns) = Some [(lit ''missing_parts'', JList (map JInt ns))]"
| "error_details (PartEtagMismatchError n) = Some [(lit ''part_number'', JInt n)]"
| "error_details (ObjectAlreadyExistsError b k) =
     Some [(lit ''bucket'', JStr b), (lit ''object_key'', JStr k)]"
| "error_details (DuplicateNormalizedPathError p) = Some [(lit ''path'', JStr p)]"
| "error_details (ManifestHashMismatchError x y) =
     Some [(lit ''expected'', JStr x), (lit ''actual'', JStr y)]"
| "error_details (DirectoryHasFailedEntriesError n) = Some [(lit ''failed_entries'', JInt n)]"
| "error_details (TtlOutOfRangeError t lo hi) =
     Some [(lit ''ttl_seconds'', JInt t), (lit ''minimum'', JInt lo), (lit ''maximum'', JInt hi)]"
| "error_details (StorageCapabilityNotSupportedError c) = Some [(lit ''capability'', JStr (lit c))]"
| "error_details _ = None"

definition error_payload :: "error \<Rightarrow> pystr option \<Rightarrow> jobject" where
  "error_payload e request_id =
     [(lit ''error'',
       JObj ([(lit ''code'', JStr (lit (error_code e))),
              (lit ''retryable'', JBool (error_retryable e))]
             @ (case error_details e of None \<Rightarrow> [] | Some d \<Rightarrow> [(lit ''details'', JObj d)])
             @ (case request_id of
                  None \<Rightarrow> []
                | Some r \<Rightarrow> if r = [] then [] else [(lit ''request_id'', JStr r)])))]"

section \<open>Errors of the SDK\<close>

datatype sdk_class =
    SdkUploadClientError
  | SdkAuthenticationError
  | SdkAuthorizationError
  | SdkValidationError
  | SdkRateLimitError
  | SdkServerError
  | SdkStorageUnavailableError
  | SdkMultipartError
  | SdkResumeError
  | SdkDirectoryUploadError
  | SdkLifecycleError
  | SdkChecksumMismatchError

text \<open>
  An exception raised in the SDK: one of its own classes, with the \<open>status_code\<close>
  attribute if one was set, or another Python exception.
\<close>

datatype sdk_error = SdkErr sdk_class "int option" | SdkCrash py_exn

text \<open>\<open>ERROR_MAP\<close> of the SDK.\<close>

definition sdk_error_map :: "(string \<times> sdk_class) list" where
  "sdk_error_map =
    [(''AUTHENTICATION_REQUIRED'', SdkAuthenticationError),
     (''FORBIDDEN'', SdkAuthorizationError),
     (''INVALID_BUCKET'', SdkValidationError),
     (''INVALID_FILE_SIZE'', SdkValidationError),
     (''FILE_TOO_LARGE'', SdkValidationError),
     (''INVALID_PART_NUMBER'', SdkValidationError),
     (''INVALID_PART_SIZE'', SdkValidationError),
     (''INVALID_RELATIVE_PATH'', SdkValidationError),
     (''INVALID_LIFECYCLE_POLICY'', SdkLifecycleError),
     (''TTL_OUT_OF_RANGE'', SdkLifecycleError),
     (''UPLOAD_NOT_FOUND'', SdkResumeError),
     (''UPLOAD_ALREADY_COMPLETED'', SdkMultipartError),
     (''UPLOAD_ABORTED'', SdkResumeError),
     (''UPLOAD_EXPIRED'', SdkResumeError),
     (''UPLOAD_STATE_CONFLICT'', SdkMultipartError),
     (''MISSING_PARTS'', SdkMultipartError),
     (''PART_ETAG_MISMATCH'', SdkMultipartError),
     (''CHECKSUM_MISMATCH'', SdkChecksumMismatchError),
     (''OBJECT_ALREADY_EXISTS'', SdkValidationError),
     (''MANIFEST_HASH_MISMATCH'', SdkDirectoryUploadError),
     (''DIRECTORY_HAS_FAILED_ENTRIES'', SdkDirectoryUploadError),
     (''STORAGE_CAPABILITY_NOT_SUPPORTED'', SdkMultipartError),
     (''STORAGE_UNAVAILABLE'', SdkStorageUnavailableError),
     (''DATABASE_UNAVAILABLE'', SdkStorageUnavailableError)]"

text \<open>
  \<open>_raise_for_status\<close> on an error response: the class is looked up by the code of
  the body, with the base class for a code the map does not list.
\<close>

definition sdk_raise_for_status :: "int \<Rightarrow> string \<Rightarrow> sdk_error option" where
  "sdk_raise_for_status status code =
     (if status < 400 then None
      else Some (SdkErr (case map_of sdk_error_map code of
                           None \<Rightarrow> SdkUploadClientError
                         | Some c \<Rightarrow> c) (Some status)))"

lemma error_status_range: "is_api_error e \<Longrightarrow> (\<And>c s. e \<noteq> ApiErr c s) \<Longrightarrow>
    400 \<le> error_status e \<and> error_status e \<le> 503"
  by (cases e) (auto simp: is_api_error_def)

lemma error_retryable_status: "error_retryable e \<Longrightarrow> error_status e = 503"
  by (auto simp: error_retryable_def)

end
