(* ===== verification/Config.thy ===== *)
theory Config
  imports ApiErrors
begin

text \<open>
  The configuration of the service: the models of \<open>src/app/config/models.py\<close> as far as
  the modelled code reads them, their default values, and the start-up check of
  \<open>src/app/config/validation.py\<close>; then the merging of configuration sources of
  \<open>src/app/config/loader.py\<close>.

  The Redis connection settings come from a package outside the repository; the check takes
  the mode and whether sentinel nodes are given as parameters.
\<close>

section \<open>The models\<close>

datatype storage_backend = BackendLocal | BackendS3

record local_storage_config =
  lc_root_path :: pystr
  lc_multipart_path :: pystr
  lc_require_shared_filesystem_in_cluster :: bool
  lc_fsync :: bool

record s3_storage_config =
  s3_internal_endpoint_url :: "pystr option"
  s3_public_endpoint_url :: "pystr option"
  s3_access_key :: "pystr option"
  s3_secret_key :: "pystr option"

record storage_config =
  sc_backend :: storage_backend
  sc_default_bucket :: pystr
  sc_allowed_buckets :: "pystr list"
  sc_local :: local_storage_config
  sc_s3 :: s3_storage_config

record multipart_config =
  mp_enabled :: bool
  mp_default_part_size_bytes :: int
  mp_minimum_part_size_bytes :: int
  mp_maximum_part_size_bytes :: int
  mp_maximum_parts :: int
  mp_maximum_presign_batch_size :: nat

record session_config =
  se_expires_after_seconds :: int
  se_maximum_lifetime_seconds :: int
  se_refresh_enabled :: bool

record uploads_config =
  uc_default_mode :: pystr
  uc_direct_upload_threshold_bytes :: int
  uc_object_conflict_policy :: pystr
  uc_multipart :: multipart_config
  uc_session :: session_config
  uc_maximum_bytes :: int

record presign_config =
  ps_default_expires_seconds :: int
  ps_maximum_expires_seconds :: int
  ps_upload_part_expires_seconds :: int

record permanent_link_config =
  pl_enabled :: bool
  pl_secret :: "pystr option"

record directory_limits =
  dl_maximum_files_per_job :: int
  dl_maximum_directories_per_job :: int
  dl_maximum_total_bytes :: int
  dl_maximum_path_depth :: nat
  dl_maximum_relative_path_bytes :: nat
  dl_maximum_entries_per_manifest_request :: nat

record directory_upload_config =
  du_enabled :: bool
  du_limits :: directory_limits
  du_default_policy :: pystr
  du_allowed_policies :: "pystr list"

record lifecycle_default_policy =
  ld_mode :: pystr
  ld_ttl_seconds :: int
  ld_action :: pystr

record lifecycle_policy_rules =
  lr_allow_client_override :: bool
  lr_permanent_allowed :: bool
  lr_minimum_ttl_seconds :: int
  lr_maximum_ttl_seconds :: int
  lr_allowed_modes :: "pystr list"
  lr_allowed_actions :: "pystr list"

record lifecycle_config =
  lf_enabled :: bool
  lf_default_policy :: lifecycle_default_policy
  lf_policy :: lifecycle_policy_rules
  lf_worker_batch_size :: nat

record settings =
  cf_database_url :: "pystr option"
  cf_redis_enabled :: bool
  cf_cluster_enabled :: bool
  cf_auth_none :: bool
  cf_storage :: storage_config
  cf_uploads :: uploads_config
  cf_presign :: presign_config
  cf_permanent_link :: permanent_link_config
  cf_directory_upload :: directory_upload_config
  cf_lifecycle :: lifecycle_config

section \<open>The default values\<close>

definition default_storage :: storage_config where
  "default_storage =
     \<lparr>sc_backend = BackendS3,
      sc_default_bucket = lit ''app-default'',
      sc_allowed_buckets = [lit ''app-default'', lit ''public-assets''],
      sc_local = \<lparr>lc_root_path = lit ''/data/storage'',
                  lc_multipart_path = lit ''/data/storage/.multipart'',
                  lc_require_shared_filesystem_in_cluster = True,
                  lc_fsync = True\<rparr>,
      sc_s3 = \<lparr>s3_internal_endpoint_url = None, s3_public_endpoint_url = None,
               s3_access_key = None, s3_secret_key = None\<rparr>\<rparr>"

definition default_uploads :: uploads_config where
  "default_uploads =
     \<lparr>uc_default_mode = lit ''automatic'',
      uc_direct_upload_threshold_bytes = 20 * 1024 * 1024,
      uc_object_conflict_policy = lit ''reject'',
      uc_multipart = \<lparr>mp_enabled = True,
                      mp_default_part_size_bytes = 8 * 1024 * 1024,
                      mp_minimum_part_size_bytes = 5 * 1024 * 1024,
                      mp_maximum_part_size_bytes = 512 * 1024 * 1024,
                      mp_maximum_parts = 10000,
                      mp_maximum_presign_batch_size = 100\<rparr>,
      uc_session = \<lparr>se_expires_after_seconds = 86400,
                    se_maximum_lifetime_seconds = 604800,
                    se_refresh_enabled = True\<rparr>,
      uc_maximum_bytes = 5 * 1024 * 1024 * 1024\<rparr>"

definition default_directory_upload :: directory_upload_config where
  "default_directory_upload =
     \<lparr>du_enabled = True,
      du_limits = \<lparr>dl_maximum_files_per_job = 1000000,
                   dl_maximum_directories_per_job = 100000,
                   dl_maximum_total_bytes = 1024 ^ 4,
                   dl_maximum_path_depth = 64,
                   dl_maximum_relative_path_bytes = 1024,
                   dl_maximum_entries_per_manifest_request = 1000\<rparr>,
      du_default_policy = lit ''reject'',
      du_allowed_policies =
        [lit ''reject'', lit ''skip'', lit ''overwrite'', lit ''rename'', lit ''compare'']\<rparr>"

definition default_lifecycle :: lifecycle_config where
  "default_lifecycle =
     \<lparr>lf_enabled = True,
      lf_default_policy =
        \<lparr>ld_mode = lit ''ttl'', ld_ttl_seconds = 2592000, ld_action = lit ''delete''\<rparr>,
      lf_policy =
        \<lparr>lr_allow_client_override = True,
         lr_permanent_allowed = True,
         lr_minimum_ttl_seconds = 3600,
         lr_maximum_ttl_seconds = 31536000,
         lr_allowed_modes =
           [lit ''temporary'', lit ''ttl'', lit ''expires_at'', lit ''permanent'',
            lit ''sliding_ttl''],
         lr_allowed_actions = [lit ''delete'', lit ''notify'', lit ''none'']\<rparr>,
      lf_worker_batch_size = 200\<rparr>"

definition default_settings :: settings where
  "default_settings =
     \<lparr>cf_database_url = None,
      cf_redis_enabled = True,
      cf_cluster_enabled = True,
      cf_auth_none = False,
      cf_storage = default_storage,
      cf_uploads = default_uploads,
      cf_presign = \<lparr>ps_default_expires_seconds = 900,
                    ps_maximum_expires_seconds = 86400,
                    ps_upload_part_expires_seconds = 3600\<rparr>,
      cf_permanent_link = \<lparr>pl_enabled = True, pl_secret = None\<rparr>,
      cf_directory_upload = default_directory_upload,
      cf_lifecycle = default_lifecycle\<rparr>"

section \<open>The start-up check\<close>

text \<open>
  \<open>str.lower\<close> on ASCII. No other code point has a letter of \<open>sqlite\<close> as its
  lower-case form, so the test for the substring is exact.
\<close>

definition ascii_lower :: "pystr \<Rightarrow> pystr" where
  "ascii_lower s = map (\<lambda>c. if 65 \<le> c \<and> c \<le> 90 then c + 32 else c) s"

definition known_conflict_policies :: "pystr list" where
  "known_conflict_policies =
     [lit ''reject'', lit ''skip'', lit ''overwrite'', lit ''rename'', lit ''compare'']"

definition redis_errors :: "settings \<Rightarrow> pystr \<Rightarrow> bool \<Rightarrow> string list" where
  "redis_errors c redis_mode sentinel_nodes =
     (if \<not> cf_redis_enabled c then []
      else if redis_mode \<notin> {lit ''single'', lit ''replica'', lit ''sentinel''}
      then [''redis mode'']
      else if redis_mode = lit ''sentinel'' \<and> \<not> sentinel_nodes then [''redis sentinel nodes'']
      else [])"

text \<open>The list of errors; the settings are valid when it is empty.\<close>

definition settings_errors :: "settings \<Rightarrow> pystr \<Rightarrow> bool \<Rightarrow> string list" where
  "settings_errors c redis_mode sentinel_nodes =
     (let st = cf_storage c; mp = uc_multipart (cf_uploads c);
          rules = lf_policy (cf_lifecycle c); du = cf_directory_upload c;
          url = (case cf_database_url c of None \<Rightarrow> [] | Some u \<Rightarrow> ascii_lower u)
      in (if cf_cluster_enabled c \<and> contains url (lit ''sqlite'')
          then [''cluster sqlite''] else [])
       @ (if cf_cluster_enabled c \<and> sc_backend st = BackendLocal
             \<and> lc_require_shared_filesystem_in_cluster (sc_local st)
          then [''cluster local storage''] else [])
       @ (if sc_backend st = BackendS3 \<and> \<not> present (s3_internal_endpoint_url (sc_s3 st))
          then [''s3 endpoint''] else [])
       @ (if sc_backend st = BackendS3
             \<and> (\<not> present (s3_access_key (sc_s3 st)) \<or> \<not> present (s3_secret_key (sc_s3 st)))
          then [''s3 credentials''] else [])
       @ redis_errors c redis_mode sentinel_nodes
       @ (if sc_allowed_buckets st = [] then [''allowed buckets empty''] else [])
       @ (if sc_default_bucket st \<notin> set (sc_allowed_buckets st)
          then [''default bucket not allowed''] else [])
       @ (if \<not> (mp_minimum_part_size_bytes mp \<le> mp_default_part_size_bytes mp
                \<and> mp_default_part_size_bytes mp \<le> mp_maximum_part_size_bytes mp)
          then [''default part size''] else [])
       @ (if lr_maximum_ttl_seconds rules < lr_minimum_ttl_seconds rules
          then [''ttl bounds''] else [])
       @ map (\<lambda>_. ''unknown conflict policy'')
           (filter (\<lambda>p. p \<notin> set known_conflict_policies) (du_allowed_policies du))
       @ (if du_default_policy du \<notin> set (du_allowed_policies du)
          then [''default conflict policy''] else []))"

definition validate_settings :: "settings \<Rightarrow> pystr \<Rightarrow> bool \<Rightarrow> bool \<times> string list" where
  "validate_settings c redis_mode sentinel_nodes =
     (let es = settings_errors c redis_mode sentinel_nodes in (es = [], es))"

text \<open>What the rest of the service may rely on once the check has passed.\<close>

lemma validate_settings_ok:
  assumes "fst (validate_settings c m n)"
  shows "sc_default_bucket (cf_storage c) \<in> set (sc_allowed_buckets (cf_storage c))"
    and "mp_minimum_part_size_bytes (uc_multipart (cf_uploads c))
           \<le> mp_default_part_size_bytes (uc_multipart (cf_uploads c))"
    and "mp_default_part_size_bytes (uc_multipart (cf_uploads c))
           \<le> mp_maximum_part_size_bytes (uc_multipart (cf_uploads c))"
    and "lr_minimum_ttl_seconds (lf_policy (cf_lifecycle c))
           \<le> lr_maximum_ttl_seconds (lf_policy (cf_lifecycle c))"
    and "du_default_policy (cf_directory_upload c) \<in> set (du_allowed_policies (cf_directory_upload c))"
    and "set (du_allowed_policies (cf_directory_upload c)) \<subseteq> set known_conflict_policies"
  using assms
  by (auto simp: validate_settings_def settings_errors_def Let_def filter_empty_conv
      split: if_splits)

lemma validate_settings_cluster:
  assumes "fst (validate_settings c m n)" "cf_cluster_enabled c" "cf_database_url c = Some url"
  shows "\<not> contains (ascii_lower url) (lit ''sqlite'')"
  using assms by (auto simp: validate_settings_def settings_errors_def Let_def split: if_splits)

section \<open>Merging configuration sources\<close>

text \<open>
  \<open>_deep_merge\<close>: the override wins, except that two objects under the same key are
  merged in turn. \<open>set_key\<close> assigns a key of a dictionary, keeping its position.
\<close>

fun set_key :: "pystr \<Rightarrow> 'v \<Rightarrow> (pystr \<times> 'v) list \<Rightarrow> (pystr \<times> 'v) list" where
  "set_key k v [] = [(k, v)]"
| "set_key k v ((k', v') # d) = (if k' = k then (k, v) # d else (k', v') # set_key k v d)"

lemma sum_list_size_prod:
  "sum_list (map (size_prod (\<lambda>_. 0) f) d) = (\<Sum>(k, v) \<leftarrow> d. Suc (f v))"
  by (induction d) auto

function deep_merge :: "jobject \<Rightarrow> jobject \<Rightarrow> jobject" where
  "deep_merge base [] = base"
| "deep_merge base ((k, v) # rest) =
     (let v' = (case (map_of base k, v) of
                  (Some (JObj b), JObj r) \<Rightarrow> JObj (deep_merge b r)
                | _ \<Rightarrow> v)
      in deep_merge (set_key k v' base) rest)"
  by pat_completeness auto
termination
  by (relation "measure (\<lambda>(base, over). size_list (\<lambda>(k, v). size v + 1) over)")
    (auto simp: size_list_conv_sum_list sum_list_size_prod)

lemma map_of_set_key: "map_of (set_key k v d) = (map_of d)(k \<mapsto> v)"
  by (induction d) (auto simp: fun_upd_twist)

text \<open>The value of a key after the merge depends on the key's own two values only.\<close>

definition merge_value :: "json option \<Rightarrow> json option \<Rightarrow> json option" where
  "merge_value b r =
     (case r of
        None \<Rightarrow> b
      | Some v \<Rightarrow>
          (case (b, v) of (Some (JObj d), JObj e) \<Rightarrow> Some (JObj (deep_merge d e)) | _ \<Rightarrow> Some v))"

lemma map_of_deep_merge:
  "distinct (map fst over) \<Longrightarrow>
   map_of (deep_merge base over) k = merge_value (map_of base k) (map_of over k)"
proof (induction over arbitrary: base)
  case Nil
  then show ?case by (simp add: merge_value_def)
next
  case (Cons kv rest)
  obtain k' v where kv: "kv = (k', v)" by (cases kv)
  show ?case
  proof (cases "k = k'")
    case True
    then have "map_of rest k = None" using Cons.prems kv by (auto simp: map_of_eq_None_iff)
    then show ?thesis
      using Cons True kv by (simp add: Let_def map_of_set_key)
        (simp add: merge_value_def split: option.splits json.splits)
  next
    case False
    then show ?thesis using Cons kv by (simp add: Let_def map_of_set_key)
  qed
qed

text \<open>
  \<open>load_settings\<close> merges the YAML file, the environment and the command line in this
  order; a source that is empty is skipped.
\<close>

definition merge_sources :: "jobject \<Rightarrow> jobject \<Rightarrow> jobject \<Rightarrow> jobject" where
  "merge_sources yaml_data env_data cli_overrides =
     (let raw = (if yaml_data \<noteq> [] then deep_merge [] yaml_data else []);
          raw' = (if env_data \<noteq> [] then deep_merge raw env_data else raw)
      in if cli_overrides \<noteq> [] then deep_merge raw' cli_overrides else raw')"

lemma merge_sources_fold:
  "merge_sources y e c = deep_merge (deep_merge (deep_merge [] y) e) c"
  by (simp add: merge_sources_def Let_def)

end
