(* ===== verification/LifecyclePolicy.thy ===== *)
theory LifecyclePolicy
  imports Config
begin

text \<open>
  The adjudication of lifecycle policies, \<open>src/app/lifecycle/policy.py\<close>, and the
  policies the SDK builds, \<open>src/sdk/pyuploadx/lifecycle.py\<close>.

  A requested policy is a JSON object as it came with the request. An instant in the
  effective policy is kept as such; the code keeps its ISO 8601 text and reads it back where
  it needs the instant. Which texts \<open>datetime.fromisoformat\<close> accepts differs between
  the Python versions the package supports, so the function is the parameter \<open>parse_iso\<close>:
  the instant a text denotes, read as UTC where the text has no offset, or \<open>None\<close>
  for a \<open>ValueError\<close>.
\<close>

section \<open>Adjudication\<close>

record effective =
  ef_mode :: pystr
  ef_action :: pystr
  ef_ttl_seconds :: "int option"
  ef_expires_at :: "dt option"

definition json_in :: "json \<Rightarrow> pystr list \<Rightarrow> bool" where
  "json_in v xs = (case v of JStr s \<Rightarrow> s \<in> set xs | _ \<Rightarrow> False)"

definition json_text :: "json \<Rightarrow> pystr" where
  "json_text v = (case v of JStr s \<Rightarrow> s | _ \<Rightarrow> [])"

text \<open>\<open>d.get(key, default)\<close>.\<close>

definition jget_default :: "string \<Rightarrow> json \<Rightarrow> jobject \<Rightarrow> json" where
  "jget_default k v d = (case map_of d (lit k) of None \<Rightarrow> v | Some w \<Rightarrow> w)"

text \<open>\<open>s.replace("Z", "+00:00")\<close>.\<close>

definition replace_z :: "pystr \<Rightarrow> pystr" where
  "replace_z s = concat (map (\<lambda>c. if c = 90 then lit ''+00:00'' else [c]) s)"

text \<open>The branch shared by \<open>ttl\<close>, \<open>temporary\<close> and \<open>sliding_ttl\<close>.\<close>

definition ttl_lifecycle ::
    "lifecycle_policy_rules \<Rightarrow> jobject \<Rightarrow> pystr \<Rightarrow> pystr \<Rightarrow> json \<Rightarrow> dt \<Rightarrow> error + effective" where
  "ttl_lifecycle rules server_default mode action ttl_seconds base =
     (let ttl = (if ttl_seconds = JNull then jget ''ttl_seconds'' server_default else ttl_seconds);
          lo = lr_minimum_ttl_seconds rules; hi = lr_maximum_ttl_seconds rules
      in if ttl = JNull
         then Inl (InvalidLifecyclePolicyError ''ttl_seconds is required'')
         else case json_number ttl of
                None \<Rightarrow> Inl (Crash TypeError)
              | Some x \<Rightarrow>
                  if \<not> number_within lo hi x then Inl (TtlOutOfRangeError (number_int x) lo hi)
                  else case add_seconds base (number_int x) of
                         None \<Rightarrow> Inl (Crash OverflowError)
                       | Some e \<Rightarrow>
                           Inr \<lparr>ef_mode = mode, ef_action = action,
                                ef_ttl_seconds = Some (number_int x), ef_expires_at = Some e\<rparr>)"

definition expires_at_lifecycle ::
    "(pystr \<Rightarrow> dt option) \<Rightarrow> lifecycle_policy_rules \<Rightarrow> pystr \<Rightarrow> pystr \<Rightarrow> json \<Rightarrow> dt
     \<Rightarrow> error + effective" where
  "expires_at_lifecycle parse_iso rules mode action expires_at base =
     (if \<not> truthy expires_at
      then Inl (InvalidLifecyclePolicyError ''expires_at is required'')
      else case expires_at of
             JStr s \<Rightarrow>
               (case parse_iso (replace_z s) of
                  None \<Rightarrow> Inl (Crash ValueError)
                | Some parsed \<Rightarrow>
                    let remaining = seconds_between parsed base in
                    if remaining < lr_minimum_ttl_seconds rules
                    then Inl (TtlOutOfRangeError remaining (lr_minimum_ttl_seconds rules)
                                (lr_maximum_ttl_seconds rules))
                    else Inr \<lparr>ef_mode = mode, ef_action = action,
                              ef_ttl_seconds = Some remaining, ef_expires_at = Some parsed\<rparr>)
           | _ \<Rightarrow> Inl (Crash AttributeError))"

definition compute_effective_lifecycle ::
    "(pystr \<Rightarrow> dt option) \<Rightarrow> lifecycle_policy_rules \<Rightarrow> jobject \<Rightarrow> jobject option \<Rightarrow> dt option \<Rightarrow> dt
     \<Rightarrow> error + effective" where
  "compute_effective_lifecycle parse_iso rules server_default requested completed_at now =
     (let req = (case requested of None \<Rightarrow> [] | Some d \<Rightarrow> d);
          req = (if lr_allow_client_override rules then req else []);
          mode = py_or (jget ''mode'' req)
                   (jget_default ''mode'' (JStr (lit ''ttl'')) server_default);
          action = py_or (jget ''action'' req)
                   (jget_default ''action'' (JStr (lit ''delete'')) server_default);
          ttl_seconds = py_or (jget ''ttl_seconds'' req) (jget ''ttl_seconds'' server_default);
          expires_at = jget ''expires_at'' req
      in if \<not> json_in mode (lr_allowed_modes rules)
         then Inl (InvalidLifecyclePolicyError ''mode is not allowed'')
         else if \<not> json_in action (lr_allowed_actions rules)
         then Inl (InvalidLifecyclePolicyError ''action is not allowed'')
         else if mode = JStr (lit ''permanent'') \<and> \<not> lr_permanent_allowed rules
         then Inl (InvalidLifecyclePolicyError ''permanent lifecycle is not allowed'')
         else
           let m = json_text mode; a = json_text action;
               base = (case completed_at of None \<Rightarrow> now | Some t \<Rightarrow> t)
           in if m = lit ''ttl'' \<or> m = lit ''temporary''
              then ttl_lifecycle rules server_default m a ttl_seconds base
              else if m = lit ''expires_at''
              then expires_at_lifecycle parse_iso rules m a expires_at base
              else if m = lit ''sliding_ttl''
              then ttl_lifecycle rules server_default m a ttl_seconds base
              else Inr \<lparr>ef_mode = m, ef_action = a, ef_ttl_seconds = None, ef_expires_at = None\<rparr>)"

text \<open>\<open>default_policy.model_dump()\<close>.\<close>

definition policy_dump :: "lifecycle_default_policy \<Rightarrow> jobject" where
  "policy_dump p =
     [(lit ''mode'', JStr (ld_mode p)), (lit ''ttl_seconds'', JInt (ld_ttl_seconds p)),
      (lit ''action'', JStr (ld_action p))]"

text \<open>
  \<open>apply_lifecycle_to_file\<close>: the effective policy and the columns of a file row
  computed from it.
\<close>

definition apply_lifecycle_to_file ::
    "(pystr \<Rightarrow> dt option) \<Rightarrow> lifecycle_config \<Rightarrow> jobject option \<Rightarrow> dt
     \<Rightarrow> error + (effective \<times> dt option \<times> int option \<times> pystr)" where
  "apply_lifecycle_to_file parse_iso cfg requested completed_at =
     rbind (compute_effective_lifecycle parse_iso (lf_policy cfg) (policy_dump (lf_default_policy cfg))
              requested (Some completed_at) completed_at)
       (\<lambda>e. Inr (e, ef_expires_at e, ef_ttl_seconds e, ef_mode e))"

text \<open>
  The columns \<open>lifecycle_mode\<close>, \<open>lifecycle_action\<close>, \<open>ttl_seconds\<close>,
  \<open>expires_at\<close> and \<open>next_action_at\<close> that an upload derives from its effective
  policy; without one (lifecycles switched off) the file is permanent.
\<close>

record lifecycle_columns =
  cl_mode :: pystr
  cl_action :: pystr
  cl_ttl_seconds :: "int option"
  cl_expires_at :: "dt option"
  cl_next_action_at :: "dt option"

definition lifecycle_columns_of :: "effective option \<Rightarrow> lifecycle_columns" where
  "lifecycle_columns_of e =
     (case e of
        None \<Rightarrow>
          \<lparr>cl_mode = lit ''permanent'', cl_action = lit ''delete'', cl_ttl_seconds = None,
           cl_expires_at = None, cl_next_action_at = None\<rparr>
      | Some e \<Rightarrow>
          \<lparr>cl_mode = ef_mode e, cl_action = ef_action e, cl_ttl_seconds = ef_ttl_seconds e,
           cl_expires_at = ef_expires_at e,
           cl_next_action_at =
             (if ef_action e \<noteq> lit ''none'' then ef_expires_at e else None)\<rparr>)"

section \<open>The policies of the SDK\<close>

text \<open>A duration is a \<open>timedelta\<close>, in microseconds.\<close>

definition duration_seconds :: "int \<Rightarrow> int" where
  "duration_seconds d = int_truediv d 1000000"

definition sdk_permanent :: jobject where
  "sdk_permanent = [(lit ''mode'', JStr (lit ''permanent'')), (lit ''action'', JStr (lit ''none''))]"

definition sdk_timed :: "string \<Rightarrow> int \<Rightarrow> jobject" where
  "sdk_timed mode d =
     [(lit ''mode'', JStr (lit mode)), (lit ''action'', JStr (lit ''delete'')),
      (lit ''ttl_seconds'', JInt (duration_seconds d))]"

definition sdk_ttl :: "int \<Rightarrow> jobject" where
  "sdk_ttl d = sdk_timed ''ttl'' d"

definition sdk_temporary :: "int \<Rightarrow> jobject" where
  "sdk_temporary d = sdk_timed ''temporary'' d"

definition sdk_sliding_ttl :: "int \<Rightarrow> jobject" where
  "sdk_sliding_ttl d = sdk_timed ''sliding_ttl'' d"

text \<open>The argument is the text of \<open>value.isoformat()\<close>.\<close>

definition sdk_expires_at :: "pystr \<Rightarrow> jobject" where
  "sdk_expires_at text =
     [(lit ''mode'', JStr (lit ''expires_at'')), (lit ''action'', JStr (lit ''delete'')),
      (lit ''expires_at'', JStr text)]"

section \<open>What an effective policy guarantees\<close>

definition timed_mode :: "pystr \<Rightarrow> bool" where
  "timed_mode m \<longleftrightarrow> m = lit ''ttl'' \<or> m = lit ''temporary'' \<or> m = lit ''sliding_ttl''"

text \<open>The policy respects the rules of the server, for a file completed at \<open>base\<close>.\<close>

definition respects_rules :: "lifecycle_policy_rules \<Rightarrow> dt \<Rightarrow> effective \<Rightarrow> bool" where
  "respects_rules rules base e \<longleftrightarrow>
     ef_mode e \<in> set (lr_allowed_modes rules)
     \<and> ef_action e \<in> set (lr_allowed_actions rules)
     \<and> (ef_mode e = lit ''permanent'' \<longrightarrow>
          lr_permanent_allowed rules \<and> ef_ttl_seconds e = None \<and> ef_expires_at e = None)
     \<and> (timed_mode (ef_mode e) \<longrightarrow>
          (\<exists>t. ef_ttl_seconds e = Some t
             \<and> lr_minimum_ttl_seconds rules \<le> t \<and> t \<le> lr_maximum_ttl_seconds rules
             \<and> ef_expires_at e = Some (base + t * 1000000)))
     \<and> (ef_mode e = lit ''expires_at'' \<longrightarrow>
          (\<exists>x. ef_expires_at e = Some x \<and> ef_ttl_seconds e = Some (seconds_between x base)
             \<and> lr_minimum_ttl_seconds rules \<le> seconds_between x base))"

lemma ttl_lifecycle_Inr:
  assumes "ttl_lifecycle rules sd m a ttl base = Inr e"
  shows "ef_mode e = m \<and> ef_action e = a \<and>
    (\<exists>t. ef_ttl_seconds e = Some t \<and> lr_minimum_ttl_seconds rules \<le> t
       \<and> t \<le> lr_maximum_ttl_seconds rules \<and> ef_expires_at e = Some (base + t * 1000000))"
  using assms
  by (auto simp: ttl_lifecycle_def Let_def dest: number_int_within add_seconds_Some
      split: if_splits option.splits)

lemma expires_at_lifecycle_Inr:
  assumes "expires_at_lifecycle parse_iso rules m a x base = Inr e"
  shows "ef_mode e = m \<and> ef_action e = a \<and>
    (\<exists>t. ef_expires_at e = Some t \<and> ef_ttl_seconds e = Some (seconds_between t base)
       \<and> lr_minimum_ttl_seconds rules \<le> seconds_between t base)"
  using assms
  by (auto simp: expires_at_lifecycle_def Let_def split: if_splits option.splits json.splits)

lemma compute_respects_rules:
  assumes "compute_effective_lifecycle parse_iso rules sd req completed now = Inr e"
  shows "respects_rules rules (case completed of None \<Rightarrow> now | Some t \<Rightarrow> t) e"
  using assms
  unfolding compute_effective_lifecycle_def respects_rules_def timed_mode_def
  by (auto simp: Let_def json_in_def json_text_def
      dest!: ttl_lifecycle_Inr expires_at_lifecycle_Inr split: if_splits json.splits)

text \<open>Without the right to override, the request is not looked at.\<close>

lemma compute_no_override:
  "\<not> lr_allow_client_override rules \<Longrightarrow>
   compute_effective_lifecycle parse_iso rules sd req completed now =
   compute_effective_lifecycle parse_iso rules sd None completed now"
  by (simp add: compute_effective_lifecycle_def Let_def)

text \<open>
  A timed policy of the SDK on the server's default: refused outside the bounds, except
  that a duration below one second reads as "no duration given" and gets the default.
\<close>

lemma compute_sdk_ttl:
  assumes "lr_allow_client_override rules"
    and "lit ''ttl'' \<in> set (lr_allowed_modes rules)" "lit ''delete'' \<in> set (lr_allowed_actions rules)"
    and "duration_seconds d \<noteq> 0"
  shows "compute_effective_lifecycle parse_iso rules sd (Some (sdk_ttl d)) completed now =
           ttl_lifecycle rules sd (lit ''ttl'') (lit ''delete'') (JInt (duration_seconds d))
             (case completed of None \<Rightarrow> now | Some t \<Rightarrow> t)"
  using assms
  by (simp add: compute_effective_lifecycle_def sdk_ttl_def sdk_timed_def jget_def py_or_def
      truthy_def json_in_def json_text_def Let_def)

end
