(* ===== verification/StateMachines.thy ===== *)
theory StateMachines
  imports ApiErrors
begin

text \<open>
  The three tables of allowed status changes: upload sessions and file lifecycles
  (\<open>src/app/lifecycle/state_machine.py\<close>) and directory upload jobs
  (\<open>src/app/directory_upload/state_machine.py\<close>). The enums are those of
  \<open>src/app/db/models.py\<close>.

  The three functions that check a change share one contract, the locale
  \<open>transition_check\<close>: a change is accepted exactly when the table lists it. What
  follows for chains of accepted changes is proved there once.
\<close>

section \<open>The statuses\<close>

datatype upload_status =
    Initiated | Uploading | Completing | Completed | Aborting | Aborted | Expired

datatype lifecycle_status =
    LcActive | LcExpiring | LcExpired | LcDeleting | LcDeleted | LcArchiving | LcArchived | LcRestoring

datatype job_status =
    JobCreated | JobManifestUploading | JobReady | JobUploading | JobPaused | JobFinalizing
  | JobCompleted | JobCancelling | JobCancelled | JobCompletedWithErrors

section \<open>The tables\<close>

text \<open>A status without an entry allows no change: \<open>TRANSITIONS.get(current, set())\<close>.\<close>

definition allowed :: "('a \<times> 'a list) list \<Rightarrow> 'a \<Rightarrow> 'a list" where
  "allowed table current = (case map_of table current of None \<Rightarrow> [] | Some ts \<Rightarrow> ts)"

definition upload_transitions :: "(upload_status \<times> upload_status list) list" where
  "upload_transitions =
    [(Initiated, [Uploading, Aborting, Expired]),
     (Uploading, [Completing, Aborting, Expired]),
     (Completing, [Completed, Uploading]),
     (Aborting, [Aborted])]"

definition transition_upload :: "upload_status \<Rightarrow> upload_status \<Rightarrow> error + upload_status" where
  "transition_upload current target =
     (if target \<notin> set (allowed upload_transitions current)
      then Inl (UploadStateConflictError ''Cannot transition upload'')
      else Inr target)"

definition lifecycle_transitions :: "(lifecycle_status \<times> lifecycle_status list) list" where
  "lifecycle_transitions =
    [(LcActive, [LcExpiring, LcArchiving, LcDeleting, LcDeleted]),
     (LcExpiring, [LcExpired, LcDeleting]),
     (LcExpired, [LcDeleting, LcDeleted]),
     (LcDeleting, [LcDeleted]),
     (LcArchiving, [LcArchived]),
     (LcArchived, [LcRestoring]),
     (LcRestoring, [LcActive])]"

definition transition_lifecycle ::
    "lifecycle_status \<Rightarrow> lifecycle_status \<Rightarrow> error + lifecycle_status" where
  "transition_lifecycle current target =
     (if target \<notin> set (allowed lifecycle_transitions current)
      then Inl (UploadStateConflictError ''Cannot transition lifecycle'')
      else Inr target)"

definition job_transitions :: "(job_status \<times> job_status list) list" where
  "job_transitions =
    [(JobCreated, [JobManifestUploading, JobCancelling]),
     (JobManifestUploading, [JobReady, JobCancelling]),
     (JobReady, [JobUploading, JobCancelling, JobCompleted]),
     (JobUploading, [JobPaused, JobFinalizing, JobCancelling]),
     (JobPaused, [JobUploading]),
     (JobFinalizing, [JobCompleted, JobCompletedWithErrors]),
     (JobCancelling, [JobCancelled])]"

definition transition_job :: "job_status \<Rightarrow> job_status \<Rightarrow> error + job_status" where
  "transition_job current target =
     (if target \<notin> set (allowed job_transitions current)
      then Inl (UploadStateConflictError ''Cannot transition directory job'')
      else Inr target)"

section \<open>The contract of a transition check\<close>

inductive chain :: "('a \<times> 'a list) list \<Rightarrow> 'a \<Rightarrow> 'a \<Rightarrow> bool" for table where
  chain_refl: "chain table s s"
| chain_step: "chain table s t \<Longrightarrow> u \<in> set (allowed table t) \<Longrightarrow> chain table s u"

inductive_cases chain_from: "chain table s t"

lemma chain_closed:
  assumes "chain table s t" "s \<in> A" "\<And>x y. x \<in> A \<Longrightarrow> y \<in> set (allowed table x) \<Longrightarrow> y \<in> A"
  shows "t \<in> A"
  using assms by (induction rule: chain.induct) auto

lemma chain_trans: "chain table t u \<Longrightarrow> chain table s t \<Longrightarrow> chain table s u"
  by (induction rule: chain.induct) (auto intro: chain_step)

locale transition_check =
  fixes table :: "('a \<times> 'a list) list"
    and check :: "'a \<Rightarrow> 'a \<Rightarrow> error + 'a"
  assumes accepts: "t \<in> set (allowed table s) \<Longrightarrow> check s t = Inr t"
    and refuses: "t \<notin> set (allowed table s) \<Longrightarrow> \<exists>m. check s t = Inl (UploadStateConflictError m)"
begin

lemma check_iff: "check s t = Inr u \<longleftrightarrow> u = t \<and> t \<in> set (allowed table s)"
  using accepts[of t s] refuses[of t s] by (cases "t \<in> set (allowed table s)") auto

lemma check_conflict: "check s t = Inl e \<Longrightarrow> error_status e = 409"
  using accepts[of t s] refuses[of t s] by (cases "t \<in> set (allowed table s)") auto

text \<open>A run of checks: each one starts at the status the one before it returned.\<close>

primrec run :: "'a \<Rightarrow> 'a list \<Rightarrow> error + 'a" where
  "run s [] = Inr s"
| "run s (t # ts) = rbind (check s t) (\<lambda>u. run u ts)"

lemma run_chain: "run s ts = Inr u \<Longrightarrow> chain table s u"
proof (induction ts arbitrary: s)
  case Nil
  then show ?case by (simp add: chain_refl)
next
  case (Cons t ts)
  then obtain a where "check s t = Inr a" "run a ts = Inr u" by (auto simp: rbind_Inr_iff)
  then have "chain table s t" "chain table t u"
    using Cons.IH by (auto simp: check_iff intro: chain.intros)
  then show ?case by (blast intro: chain_trans)
qed

lemma final_stuck: "allowed table s = [] \<Longrightarrow> \<exists>m. check s t = Inl (UploadStateConflictError m)"
  by (rule refuses) simp

end

interpretation upload_sm: transition_check upload_transitions transition_upload
  by unfold_locales (auto simp: transition_upload_def)

interpretation lifecycle_sm: transition_check lifecycle_transitions transition_lifecycle
  by unfold_locales (auto simp: transition_lifecycle_def)

interpretation job_sm: transition_check job_transitions transition_job
  by unfold_locales (auto simp: transition_job_def)

lemma allowed_upload [simp]:
  "allowed upload_transitions Initiated = [Uploading, Aborting, Expired]"
  "allowed upload_transitions Uploading = [Completing, Aborting, Expired]"
  "allowed upload_transitions Completing = [Completed, Uploading]"
  "allowed upload_transitions Completed = []"
  "allowed upload_transitions Aborting = [Aborted]"
  "allowed upload_transitions Aborted = []"
  "allowed upload_transitions Expired = []"
  by (simp_all add: allowed_def upload_transitions_def)

lemma allowed_lifecycle [simp]:
  "allowed lifecycle_transitions LcActive = [LcExpiring, LcArchiving, LcDeleting, LcDeleted]"
  "allowed lifecycle_transitions LcExpiring = [LcExpired, LcDeleting]"
  "allowed lifecycle_transitions LcExpired = [LcDeleting, LcDeleted]"
  "allowed lifecycle_transitions LcDeleting = [LcDeleted]"
  "allowed lifecycle_transitions LcDeleted = []"
  "allowed lifecycle_transitions LcArchiving = [LcArchived]"
  "allowed lifecycle_transitions LcArchived = [LcRestoring]"
  "allowed lifecycle_transitions LcRestoring = [LcActive]"
  by (simp_all add: allowed_def lifecycle_transitions_def)

lemma allowed_job [simp]:
  "allowed job_transitions JobCreated = [JobManifestUploading, JobCancelling]"
  "allowed job_transitions JobManifestUploading = [JobReady, JobCancelling]"
  "allowed job_transitions JobReady = [JobUploading, JobCancelling, JobCompleted]"
  "allowed job_transitions JobUploading = [JobPaused, JobFinalizing, JobCancelling]"
  "allowed job_transitions JobPaused = [JobUploading]"
  "allowed job_transitions JobFinalizing = [JobCompleted, JobCompletedWithErrors]"
  "allowed job_transitions JobCompleted = []"
  "allowed job_transitions JobCancelling = [JobCancelled]"
  "allowed job_transitions JobCancelled = []"
  "allowed job_transitions JobCompletedWithErrors = []"
  by (simp_all add: allowed_def job_transitions_def)

end
