(* ===== verification/DbModels.thy ===== *)
theory DbModels
  imports LifecyclePolicy StateMachines
begin

text \<open>
  The rows of \<open>src/app/db/models.py\<close> as records, the database as the tables the
  modelled code uses, and the queries of \<open>src/app/db/repositories\<close>.

  A UUID is its canonical text. Columns that only number the rows of a table are left out.
  A table keeps its rows in the order of insertion, which is the order in which a query
  without \<open>ORDER BY\<close> returns them here.
\<close>

section \<open>Enums\<close>

datatype upload_mode = ModeAutomatic | ModeProxy | ModePresigned

datatype part_status = PartPending | PartUploaded | PartCommitted | PartFailed

datatype file_status = FileActive | FileDeleted

datatype directory_source = SourceSdk | SourcePortal

datatype entry_type = EntryFile | EntryDirectory

datatype entry_status = EntryPending | EntryUploading | EntryUploaded | EntrySkipped | EntryFailed

datatype webhook_status = WebhookPending | WebhookDelivered | WebhookFailed

text \<open>The texts of the enums that are read from requests or written to responses.\<close>

definition upload_mode_of :: "pystr \<Rightarrow> upload_mode option" where
  "upload_mode_of s =
     (if s = lit ''automatic'' then Some ModeAutomatic
      else if s = lit ''proxy'' then Some ModeProxy
      else if s = lit ''presigned'' then Some ModePresigned
      else None)"

definition source_of :: "pystr \<Rightarrow> directory_source option" where
  "source_of s =
     (if s = lit ''sdk'' then Some SourceSdk
      else if s = lit ''portal'' then Some SourcePortal
      else None)"

definition entry_type_of :: "pystr \<Rightarrow> entry_type option" where
  "entry_type_of s =
     (if s = lit ''file'' then Some EntryFile
      else if s = lit ''directory'' then Some EntryDirectory
      else None)"

section \<open>Rows\<close>

record file_object =
  fo_id :: pystr
  fo_tenant_id :: pystr
  fo_principal_id :: pystr
  fo_bucket :: pystr
  fo_object_key :: pystr
  fo_storage_backend :: storage_backend
  fo_original_filename :: pystr
  fo_size_bytes :: int
  fo_content_type :: "pystr option"
  fo_etag :: "pystr option"
  fo_checksum_algorithm :: "pystr option"
  fo_checksum_value :: "pystr option"
  fo_file_fingerprint :: "pystr option"
  fo_upload_id :: "pystr option"
  fo_metadata :: jobject
  fo_status :: file_status
  fo_lifecycle_mode :: pystr
  fo_lifecycle_action :: pystr
  fo_lifecycle_status :: lifecycle_status
  fo_ttl_seconds :: "int option"
  fo_expires_at :: "dt option"
  fo_next_action_at :: "dt option"
  fo_legal_hold :: bool
  fo_lifecycle_source :: pystr
  fo_delete_attempts :: nat
  fo_completed_at :: dt
  fo_deleted_at :: "dt option"
  fo_created_at :: dt
  fo_updated_at :: dt

record upload_session =
  us_id :: pystr
  us_tenant_id :: pystr
  us_principal_id :: pystr
  us_backend :: storage_backend
  us_upload_mode :: upload_mode
  us_bucket :: pystr
  us_object_key :: pystr
  us_storage_upload_id :: "pystr option"
  us_original_filename :: pystr
  us_content_type :: "pystr option"
  us_total_size :: int
  us_part_size :: int
  us_total_parts :: int
  us_file_fingerprint :: "pystr option"
  us_expected_sha256 :: "pystr option"
  us_status :: upload_status
  us_requested_lifecycle :: "jobject option"
  us_effective_lifecycle :: "effective option"
  us_completed_file_id :: "pystr option"
  us_expires_at :: dt
  us_last_activity_at :: dt
  us_created_at :: dt
  us_updated_at :: dt

record upload_part =
  pa_upload_id :: pystr
  pa_part_number :: int
  pa_offset_bytes :: int
  pa_size_bytes :: int
  pa_etag :: "pystr option"
  pa_checksum_sha256 :: "pystr option"
  pa_status :: part_status
  pa_updated_at :: dt

record directory_job =
  dj_id :: pystr
  dj_tenant_id :: pystr
  dj_principal_id :: pystr
  dj_source :: directory_source
  dj_root_directory_name :: pystr
  dj_bucket :: pystr
  dj_destination_prefix :: pystr
  dj_status :: job_status
  dj_conflict_policy :: pystr
  dj_total_entries :: int
  dj_total_files :: int
  dj_total_directories :: int
  dj_total_bytes :: int
  dj_uploaded_files :: int
  dj_failed_files :: int
  dj_skipped_files :: int
  dj_manifest_hash :: "pystr option"
  dj_requested_lifecycle :: "jobject option"
  dj_effective_lifecycle :: "effective option"
  dj_expires_at :: dt
  dj_created_at :: dt
  dj_updated_at :: dt

record directory_entry =
  de_id :: pystr
  de_job_id :: pystr
  de_entry_type :: entry_type
  de_relative_path :: pystr
  de_normalized_path :: pystr
  de_object_key :: pystr
  de_size_bytes :: int
  de_last_modified_ns :: "int option"
  de_content_type :: "pystr option"
  de_fingerprint :: "pystr option"
  de_full_sha256 :: "pystr option"
  de_file_id :: "pystr option"
  de_status :: entry_status
  de_error_code :: "pystr option"
  de_error_message :: "pystr option"
  de_requested_lifecycle :: "jobject option"
  de_effective_lifecycle :: "effective option"
  de_attempt_count :: nat

record lifecycle_event =
  le_tenant_id :: pystr
  le_file_id :: pystr
  le_event_type :: pystr
  le_from_status :: lifecycle_status
  le_to_status :: lifecycle_status
  le_reason :: "pystr option"

record idempotency_record =
  ir_tenant_id :: pystr
  ir_operation :: pystr
  ir_key :: pystr
  ir_request_hash :: pystr
  ir_response_status :: int
  ir_response_body :: jobject
  ir_expires_at :: dt

record outbox_message =
  wm_id :: nat
  wm_tenant_id :: pystr
  wm_event_type :: pystr
  wm_payload :: jobject
  wm_status :: webhook_status
  wm_attempts :: nat
  wm_next_attempt_at :: dt
  wm_created_at :: dt

record storage_bucket =
  sb_tenant_id :: pystr
  sb_name :: pystr
  sb_created_by :: pystr

record db =
  files :: "file_object list"
  uploads :: "upload_session list"
  parts :: "upload_part list"
  jobs :: "directory_job list"
  entries :: "directory_entry list"
  events :: "lifecycle_event list"
  idempotency :: "idempotency_record list"
  outbox :: "outbox_message list"
  buckets :: "storage_bucket list"
  app_settings :: "(pystr \<times> pystr) list"

definition empty_db :: db where
  "empty_db = \<lparr>files = [], uploads = [], parts = [], jobs = [], entries = [], events = [],
               idempotency = [], outbox = [], buckets = [], app_settings = []\<rparr>"

section \<open>Upload repository\<close>

text \<open>\<open>tenant = None\<close> is the query without the tenant condition.\<close>

definition get_upload :: "pystr \<Rightarrow> pystr option \<Rightarrow> db \<Rightarrow> upload_session option" where
  "get_upload upload_id tenant d =
     find (\<lambda>u. us_id u = upload_id \<and> (case tenant of None \<Rightarrow> True | Some t \<Rightarrow> us_tenant_id u = t))
       (uploads d)"

definition update_upload :: "pystr \<Rightarrow> (upload_session \<Rightarrow> upload_session) \<Rightarrow> db \<Rightarrow> db" where
  "update_upload upload_id f d = d\<lparr>uploads := update_rows (\<lambda>u. us_id u = upload_id) f (uploads d)\<rparr>"

definition update_status :: "pystr \<Rightarrow> upload_status \<Rightarrow> dt \<Rightarrow> db \<Rightarrow> db" where
  "update_status upload_id status now =
     update_upload upload_id (\<lambda>u. u\<lparr>us_status := status, us_updated_at := now\<rparr>)"

definition touch_activity :: "pystr \<Rightarrow> dt \<Rightarrow> db \<Rightarrow> db" where
  "touch_activity upload_id now =
     update_upload upload_id (\<lambda>u. u\<lparr>us_last_activity_at := now, us_updated_at := now\<rparr>)"

section \<open>Part repository\<close>

definition part_key :: "upload_part \<Rightarrow> pystr \<times> int" where
  "part_key p = (pa_upload_id p, pa_part_number p)"

text \<open>
  PostgreSQL: insert, and on a conflict on \<open>(upload_id, part_number)\<close> overwrite the
  named columns; the offset is not among them.
\<close>

definition upsert_part_postgresql :: "upload_part \<Rightarrow> db \<Rightarrow> db" where
  "upsert_part_postgresql p d =
     (if part_key p \<in> part_key ` set (parts d)
      then d\<lparr>parts := update_rows (\<lambda>q. part_key q = part_key p)
              (\<lambda>q. q\<lparr>pa_etag := pa_etag p, pa_size_bytes := pa_size_bytes p,
                     pa_status := pa_status p, pa_checksum_sha256 := pa_checksum_sha256 p,
                     pa_updated_at := pa_updated_at p\<rparr>) (parts d)\<rparr>
      else d\<lparr>parts := parts d @ [p]\<rparr>)"

text \<open>The other dialects: look the row up, then update all columns or insert.\<close>

definition upsert_part_generic :: "upload_part \<Rightarrow> db \<Rightarrow> db" where
  "upsert_part_generic p d =
     (if find_row part_key (part_key p) (parts d) \<noteq> None
      then d\<lparr>parts := update_rows (\<lambda>q. part_key q = part_key p) (\<lambda>_. p) (parts d)\<rparr>
      else d\<lparr>parts := parts d @ [p]\<rparr>)"

definition upsert_part :: "bool \<Rightarrow> upload_part \<Rightarrow> db \<Rightarrow> db" where
  "upsert_part postgresql p = (if postgresql then upsert_part_postgresql p else upsert_part_generic p)"

definition list_parts_for_upload :: "pystr \<Rightarrow> db \<Rightarrow> upload_part list" where
  "list_parts_for_upload upload_id d =
     sort_key pa_part_number (filter (\<lambda>p. pa_upload_id p = upload_id) (parts d))"

text \<open>The two variants agree while a stored offset is the one its number determines.\<close>

lemma upsert_part_agree:
  assumes "\<And>q. q \<in> set (parts d) \<Longrightarrow> part_key q = part_key p \<Longrightarrow> pa_offset_bytes q = pa_offset_bytes p"
  shows "upsert_part_postgresql p d = upsert_part_generic p d"
proof (cases "part_key p \<in> part_key ` set (parts d)")
  case True
  then have "find_row part_key (part_key p) (parts d) \<noteq> None" by (simp add: find_row_None_iff)
  moreover have "update_rows (\<lambda>q. part_key q = part_key p)
      (\<lambda>q. q\<lparr>pa_etag := pa_etag p, pa_size_bytes := pa_size_bytes p, pa_status := pa_status p,
             pa_checksum_sha256 := pa_checksum_sha256 p, pa_updated_at := pa_updated_at p\<rparr>) (parts d)
    = update_rows (\<lambda>q. part_key q = part_key p) (\<lambda>_. p) (parts d)"
    using assms by (auto simp: update_rows_def part_key_def intro!: upload_part.equality)
  ultimately show ?thesis
    using True by (simp add: upsert_part_postgresql_def upsert_part_generic_def)
next
  case False
  then have "find_row part_key (part_key p) (parts d) = None" by (simp add: find_row_None_iff)
  with False show ?thesis
    by (simp add: upsert_part_postgresql_def upsert_part_generic_def)
qed

lemma set_list_parts: "set (list_parts_for_upload i d) = {p \<in> set (parts d). pa_upload_id p = i}"
  by (auto simp: list_parts_for_upload_def)

section \<open>File repository\<close>

definition get_file :: "pystr \<Rightarrow> pystr option \<Rightarrow> db \<Rightarrow> file_object option" where
  "get_file file_id tenant d =
     find (\<lambda>f. fo_id f = file_id \<and> (case tenant of None \<Rightarrow> True | Some t \<Rightarrow> fo_tenant_id f = t))
       (files d)"

definition get_file_by_object :: "pystr \<Rightarrow> pystr \<Rightarrow> pystr \<Rightarrow> db \<Rightarrow> file_object option" where
  "get_file_by_object tenant bucket object_key d =
     find (\<lambda>f. fo_tenant_id f = tenant \<and> fo_bucket f = bucket \<and> fo_object_key f = object_key)
       (files d)"

definition update_file :: "pystr \<Rightarrow> (file_object \<Rightarrow> file_object) \<Rightarrow> db \<Rightarrow> db" where
  "update_file file_id f d = d\<lparr>files := update_rows (\<lambda>r. fo_id r = file_id) f (files d)\<rparr>"

text \<open>
  \<open>session.add\<close> and \<open>flush\<close> of a new row: the unique constraint on
  \<open>(tenant_id, bucket, object_key)\<close> is checked by the database.
\<close>

definition file_key :: "file_object \<Rightarrow> pystr \<times> pystr \<times> pystr" where
  "file_key f = (fo_tenant_id f, fo_bucket f, fo_object_key f)"

definition insert_file :: "file_object \<Rightarrow> db \<Rightarrow> error + db" where
  "insert_file f d =
     (if file_key f \<in> file_key ` set (files d) then Inl (Crash IntegrityError)
      else Inr (d\<lparr>files := files d @ [f]\<rparr>))"

section \<open>Directory repository\<close>

definition get_job :: "pystr \<Rightarrow> pystr option \<Rightarrow> db \<Rightarrow> directory_job option" where
  "get_job job_id tenant d =
     find (\<lambda>j. dj_id j = job_id \<and> (case tenant of None \<Rightarrow> True | Some t \<Rightarrow> dj_tenant_id j = t))
       (jobs d)"

definition update_job :: "pystr \<Rightarrow> (directory_job \<Rightarrow> directory_job) \<Rightarrow> db \<Rightarrow> db" where
  "update_job job_id f d = d\<lparr>jobs := update_rows (\<lambda>j. dj_id j = job_id) f (jobs d)\<rparr>"

definition job_entries :: "pystr \<Rightarrow> db \<Rightarrow> directory_entry list" where
  "job_entries job_id d = filter (\<lambda>e. de_job_id e = job_id) (entries d)"

definition update_entry :: "pystr \<Rightarrow> (directory_entry \<Rightarrow> directory_entry) \<Rightarrow> db \<Rightarrow> db" where
  "update_entry entry_id f d = d\<lparr>entries := update_rows (\<lambda>e. de_id e = entry_id) f (entries d)\<rparr>"

definition count_entries_by_status :: "pystr \<Rightarrow> entry_status list \<Rightarrow> db \<Rightarrow> nat" where
  "count_entries_by_status job_id statuses d =
     length (filter (\<lambda>e. statuses = [] \<or> de_status e \<in> set statuses) (job_entries job_id d))"

section \<open>Bucket repository\<close>

definition bucket_get_by_name :: "pystr \<Rightarrow> pystr \<Rightarrow> db \<Rightarrow> storage_bucket option" where
  "bucket_get_by_name tenant name d =
     find (\<lambda>b. sb_tenant_id b = tenant \<and> sb_name b = name) (buckets d)"

definition bucket_create :: "storage_bucket \<Rightarrow> db \<Rightarrow> error + db" where
  "bucket_create b d =
     (if bucket_get_by_name (sb_tenant_id b) (sb_name b) d \<noteq> None then Inl (Crash IntegrityError)
      else Inr (d\<lparr>buckets := buckets d @ [b]\<rparr>))"

definition bucket_delete :: "storage_bucket \<Rightarrow> db \<Rightarrow> db" where
  "bucket_delete b d =
     d\<lparr>buckets := filter (\<lambda>r. \<not> (sb_tenant_id r = sb_tenant_id b \<and> sb_name r = sb_name b)) (buckets d)\<rparr>"

section \<open>Setting repository\<close>

definition setting_get :: "pystr \<Rightarrow> db \<Rightarrow> pystr option" where
  "setting_get key d = map_of (app_settings d) key"

definition setting_set_value :: "pystr \<Rightarrow> pystr \<Rightarrow> db \<Rightarrow> db" where
  "setting_set_value key v d = d\<lparr>app_settings := set_key key v (app_settings d)\<rparr>"

lemma setting_get_set:
  "setting_get k (setting_set_value k' v d) = (if k = k' then Some v else setting_get k d)"
  by (simp add: setting_get_def setting_set_value_def map_of_set_key)

section \<open>Lookups after updates\<close>

lemma get_upload_SomeD:
  "get_upload i t d = Some u \<Longrightarrow> u \<in> set (uploads d) \<and> us_id u = i \<and> (\<forall>x. t = Some x \<longrightarrow> us_tenant_id u = x)"
  by (auto simp: get_upload_def find_Some_iff split: option.splits)

lemma get_file_SomeD:
  "get_file i t d = Some f \<Longrightarrow> f \<in> set (files d) \<and> fo_id f = i \<and> (\<forall>x. t = Some x \<longrightarrow> fo_tenant_id f = x)"
  by (auto simp: get_file_def find_Some_iff split: option.splits)

lemma get_job_SomeD:
  "get_job i t d = Some j \<Longrightarrow> j \<in> set (jobs d) \<and> dj_id j = i \<and> (\<forall>x. t = Some x \<longrightarrow> dj_tenant_id j = x)"
  by (auto simp: get_job_def find_Some_iff split: option.splits)

lemma find_update_rows:
  assumes "\<And>r. q (f r) = q r"
  shows "find q (update_rows p f rows) = map_option (\<lambda>r. if p r then f r else r) (find q rows)"
  by (induction rows) (auto simp: update_rows_def assms)

lemma get_upload_update:
  assumes "\<And>u. us_id (f u) = us_id u" "\<And>u. us_tenant_id (f u) = us_tenant_id u"
  shows "get_upload i t (update_upload j f d) =
           map_option (\<lambda>u. if us_id u = j then f u else u) (get_upload i t d)"
  unfolding get_upload_def update_upload_def
  by (simp add: find_update_rows assms split: option.splits)

lemma get_file_update:
  assumes "\<And>u. fo_id (f u) = fo_id u" "\<And>u. fo_tenant_id (f u) = fo_tenant_id u"
  shows "get_file i t (update_file j f d) =
           map_option (\<lambda>u. if fo_id u = j then f u else u) (get_file i t d)"
  unfolding get_file_def update_file_def
  by (simp add: find_update_rows assms split: option.splits)

lemma get_job_update:
  assumes "\<And>u. dj_id (f u) = dj_id u" "\<And>u. dj_tenant_id (f u) = dj_tenant_id u"
  shows "get_job i t (update_job j f d) =
           map_option (\<lambda>u. if dj_id u = j then f u else u) (get_job i t d)"
  unfolding get_job_def update_job_def
  by (simp add: find_update_rows assms split: option.splits)

lemma update_upload_sel [simp]:
  "parts (update_upload i f d) = parts d" "files (update_upload i f d) = files d"
  "buckets (update_upload i f d) = buckets d" "app_settings (update_upload i f d) = app_settings d"
  "jobs (update_upload i f d) = jobs d" "entries (update_upload i f d) = entries d"
  "events (update_upload i f d) = events d" "outbox (update_upload i f d) = outbox d"
  by (simp_all add: update_upload_def)

lemma update_file_sel [simp]:
  "parts (update_file i f d) = parts d" "uploads (update_file i f d) = uploads d"
  "buckets (update_file i f d) = buckets d" "app_settings (update_file i f d) = app_settings d"
  "jobs (update_file i f d) = jobs d" "entries (update_file i f d) = entries d"
  "events (update_file i f d) = events d" "outbox (update_file i f d) = outbox d"
  by (simp_all add: update_file_def)

lemma update_job_sel [simp]:
  "entries (update_job i f d) = entries d" "files (update_job i f d) = files d"
  "uploads (update_job i f d) = uploads d" "parts (update_job i f d) = parts d"
  by (simp_all add: update_job_def)

lemma update_entry_sel [simp]:
  "jobs (update_entry i f d) = jobs d" "files (update_entry i f d) = files d"
  "uploads (update_entry i f d) = uploads d" "parts (update_entry i f d) = parts d"
  by (simp_all add: update_entry_def)

lemma upsert_part_sel [simp]:
  "uploads (upsert_part pg p d) = uploads d" "files (upsert_part pg p d) = files d"
  "app_settings (upsert_part pg p d) = app_settings d" "buckets (upsert_part pg p d) = buckets d"
  "jobs (upsert_part pg p d) = jobs d" "entries (upsert_part pg p d) = entries d"
  by (simp_all add: upsert_part_def upsert_part_postgresql_def upsert_part_generic_def)

end
