(* ===== verification/Settings.thy ===== *)
theory Settings
  imports DbModels
begin

text \<open>
  The run-time settings, \<open>src/app/services/setting_service.py\<close>: values in the table
  \<open>app_settings\<close> that override the configuration, and the update operation behind
  \<open>PUT /settings\<close>.

  \<open>json.loads\<close> and \<open>json.dumps\<close> are the parameters \<open>loads\<close> (with
  \<open>None\<close> for a \<open>ValueError\<close>) and \<open>dumps\<close>; the properties that depend
  on them assume that \<open>loads\<close> reads back what \<open>dumps\<close> wrote.
\<close>

section \<open>The keys\<close>

definition KEY_DEFAULT_BUCKET :: pystr where
  "KEY_DEFAULT_BUCKET = lit ''storage.default_bucket''"

definition KEY_PRESIGN_DEFAULT :: pystr where
  "KEY_PRESIGN_DEFAULT = lit ''storage.presign.default_expires_seconds''"

definition KEY_MAX_FILE_SIZE :: pystr where
  "KEY_MAX_FILE_SIZE = lit ''uploads.maximum_file_size_bytes''"

definition KEY_DIRECT_THRESHOLD :: pystr where
  "KEY_DIRECT_THRESHOLD = lit ''uploads.direct_upload_threshold_bytes''"

definition KEY_DEFAULT_MODE :: pystr where
  "KEY_DEFAULT_MODE = lit ''uploads.default_mode''"

definition KEY_DEFAULT_PART_SIZE :: pystr where
  "KEY_DEFAULT_PART_SIZE = lit ''uploads.multipart.default_part_size_bytes''"

definition KEY_SESSION_EXPIRY :: pystr where
  "KEY_SESSION_EXPIRY = lit ''uploads.session.expires_after_seconds''"

definition KEY_LIFECYCLE_DEFAULT :: pystr where
  "KEY_LIFECYCLE_DEFAULT = lit ''lifecycle.default_policy''"

definition MIN_PRESIGN_SECONDS :: int where "MIN_PRESIGN_SECONDS = 60"

definition MIN_SESSION_SECONDS :: int where "MIN_SESSION_SECONDS = 60"

lemmas setting_keys = KEY_DEFAULT_BUCKET_def KEY_PRESIGN_DEFAULT_def KEY_MAX_FILE_SIZE_def
  KEY_DIRECT_THRESHOLD_def KEY_DEFAULT_MODE_def KEY_DEFAULT_PART_SIZE_def KEY_SESSION_EXPIRY_def
  KEY_LIFECYCLE_DEFAULT_def

section \<open>Reading\<close>

definition int_override :: "pystr option \<Rightarrow> int \<Rightarrow> int" where
  "int_override raw fallback =
     (case raw of None \<Rightarrow> fallback
      | Some s \<Rightarrow> (case py_int s of None \<Rightarrow> fallback | Some n \<Rightarrow> n))"

text \<open>\<open>overrides.get(key) or fallback\<close>.\<close>

definition text_override :: "pystr option \<Rightarrow> pystr \<Rightarrow> pystr" where
  "text_override raw fallback =
     (case raw of None \<Rightarrow> fallback | Some s \<Rightarrow> if s = [] then fallback else s)"

definition get_default_bucket :: "settings \<Rightarrow> db \<Rightarrow> pystr" where
  "get_default_bucket c d =
     text_override (setting_get KEY_DEFAULT_BUCKET d) (sc_default_bucket (cf_storage c))"

definition get_presign_default_seconds :: "settings \<Rightarrow> db \<Rightarrow> int" where
  "get_presign_default_seconds c d =
     int_override (setting_get KEY_PRESIGN_DEFAULT d) (ps_default_expires_seconds (cf_presign c))"

definition get_max_file_size :: "settings \<Rightarrow> db \<Rightarrow> int" where
  "get_max_file_size c d =
     int_override (setting_get KEY_MAX_FILE_SIZE d) (uc_maximum_bytes (cf_uploads c))"

definition get_direct_threshold :: "settings \<Rightarrow> db \<Rightarrow> int" where
  "get_direct_threshold c d =
     int_override (setting_get KEY_DIRECT_THRESHOLD d)
       (uc_direct_upload_threshold_bytes (cf_uploads c))"

definition get_default_mode :: "settings \<Rightarrow> db \<Rightarrow> pystr" where
  "get_default_mode c d =
     text_override (setting_get KEY_DEFAULT_MODE d) (uc_default_mode (cf_uploads c))"

definition get_default_part_size :: "settings \<Rightarrow> db \<Rightarrow> int" where
  "get_default_part_size c d =
     int_override (setting_get KEY_DEFAULT_PART_SIZE d)
       (mp_default_part_size_bytes (uc_multipart (cf_uploads c)))"

definition get_session_expiry :: "settings \<Rightarrow> db \<Rightarrow> int" where
  "get_session_expiry c d =
     int_override (setting_get KEY_SESSION_EXPIRY d)
       (se_expires_after_seconds (uc_session (cf_uploads c)))"

text \<open>\<open>base.update({key: value[key] for key in keys if key in value})\<close>.\<close>

definition update_present :: "jobject \<Rightarrow> string list \<Rightarrow> jobject \<Rightarrow> jobject" where
  "update_present base keys d =
     fold (\<lambda>k b. case map_of d (lit k) of None \<Rightarrow> b | Some v \<Rightarrow> set_key (lit k) v b) keys base"

definition get_lifecycle_default :: "(pystr \<Rightarrow> json option) \<Rightarrow> settings \<Rightarrow> db \<Rightarrow> jobject" where
  "get_lifecycle_default loads c d =
     (let base = policy_dump (lf_default_policy (cf_lifecycle c))
      in case setting_get KEY_LIFECYCLE_DEFAULT d of
           None \<Rightarrow> base
         | Some raw \<Rightarrow>
             (case loads raw of
                Some (JObj value) \<Rightarrow>
                  update_present base [''mode'', ''action'', ''ttl_seconds''] value
              | _ \<Rightarrow> base))"

definition get_effective :: "(pystr \<Rightarrow> json option) \<Rightarrow> settings \<Rightarrow> db \<Rightarrow> jobject" where
  "get_effective loads c d =
     (let mp = uc_multipart (cf_uploads c); rules = lf_policy (cf_lifecycle c);
          texts = (\<lambda>xs. JList (map JStr xs))
      in [(lit ''storage'', JObj
             [(lit ''default_bucket'', JStr (get_default_bucket c d)),
              (lit ''presign_default_expires_seconds'', JInt (get_presign_default_seconds c d)),
              (lit ''maximum_expires_seconds'', JInt (ps_maximum_expires_seconds (cf_presign c)))]),
          (lit ''uploads'', JObj
             [(lit ''maximum_file_size_bytes'', JInt (get_max_file_size c d)),
              (lit ''direct_upload_threshold_bytes'', JInt (get_direct_threshold c d)),
              (lit ''default_mode'', JStr (get_default_mode c d)),
              (lit ''multipart'', JObj
                 [(lit ''default_part_size_bytes'', JInt (get_default_part_size c d)),
                  (lit ''minimum_part_size_bytes'', JInt (mp_minimum_part_size_bytes mp)),
                  (lit ''maximum_part_size_bytes'', JInt (mp_maximum_part_size_bytes mp)),
                  (lit ''maximum_parts'', JInt (mp_maximum_parts mp))]),
              (lit ''session'', JObj
                 [(lit ''expires_after_seconds'', JInt (get_session_expiry c d)),
                  (lit ''maximum_lifetime_seconds'',
                   JInt (se_maximum_lifetime_seconds (uc_session (cf_uploads c))))])]),
          (lit ''lifecycle'', JObj
             [(lit ''default_policy'', JObj (get_lifecycle_default loads c d)),
              (lit ''allowed_modes'', texts (lr_allowed_modes rules)),
              (lit ''allowed_actions'', texts (lr_allowed_actions rules)),
              (lit ''permanent_allowed'', JBool (lr_permanent_allowed rules)),
              (lit ''minimum_ttl_seconds'', JInt (lr_minimum_ttl_seconds rules)),
              (lit ''maximum_ttl_seconds'', JInt (lr_maximum_ttl_seconds rules))])])"

section \<open>Updating\<close>

definition invalid_settings :: error where
  "invalid_settings = ApiErr ''INVALID_SETTINGS'' 422"

text \<open>\<open>int(value)\<close>, with a \<open>TypeError\<close> or \<open>ValueError\<close> turned into a refusal.\<close>

definition int_field :: "json \<Rightarrow> error + int" where
  "int_field v =
     (case v of
        JStr s \<Rightarrow> (case py_int s of None \<Rightarrow> Inl invalid_settings | Some n \<Rightarrow> Inr n)
      | _ \<Rightarrow> (case json_number v of None \<Rightarrow> Inl invalid_settings | Some x \<Rightarrow> Inr (number_int x)))"

text \<open>\<open>d.get(key) if isinstance(d.get(key), dict) else None\<close>.\<close>

definition get_object_field :: "string \<Rightarrow> jobject \<Rightarrow> jobject option" where
  "get_object_field k d = (case jget k d of JObj o' \<Rightarrow> Some o' | _ \<Rightarrow> None)"

text \<open>
  The step shared by the integer settings: read the field, check it, store its decimal text.
  \<open>str\<close> refuses integers of more digits than the interpreter's limit.
\<close>

definition printable :: "int \<Rightarrow> bool" where
  "printable n \<longleftrightarrow> nat \<bar>n\<bar> < 10 ^ max_str_digits"

definition set_int :: "pystr \<Rightarrow> (int \<Rightarrow> bool) \<Rightarrow> json \<Rightarrow> (db, error, unit) eff" where
  "set_int key ok v =
     bnd (lift (int_field v)) (\<lambda>n.
     seq (guard (ok n) invalid_settings)
    (seq (guard (printable n) (Crash ValueError))
         (modify (setting_set_value key (py_str_int n)))))"

text \<open>\<open>if value is not None\<close>.\<close>

definition when_given :: "json \<Rightarrow> (json \<Rightarrow> (db, error, unit) eff) \<Rightarrow> (db, error, unit) eff" where
  "when_given v f = (if v = JNull then ret () else f v)"

definition update_storage :: "settings \<Rightarrow> jobject \<Rightarrow> pystr list \<Rightarrow> (db, error, unit) eff" where
  "update_storage c storage allowed_buckets =
     seq (when_given (jget ''default_bucket'' storage) (\<lambda>v. case v of
            JStr s \<Rightarrow>
              (if strip s = [] then raise invalid_settings
               else if strip s \<notin> set allowed_buckets then raise invalid_settings
               else modify (setting_set_value KEY_DEFAULT_BUCKET (strip s)))
          | _ \<Rightarrow> raise invalid_settings))
       (when_given (jget ''presign_default_expires_seconds'' storage)
          (set_int KEY_PRESIGN_DEFAULT
             (\<lambda>n. MIN_PRESIGN_SECONDS \<le> n \<and> n \<le> ps_maximum_expires_seconds (cf_presign c))))"

definition update_uploads :: "settings \<Rightarrow> jobject \<Rightarrow> (db, error, unit) eff" where
  "update_uploads c body =
     (let mp = uc_multipart (cf_uploads c);
          multipart = get_object_field ''multipart'' body;
          session_cfg = get_object_field ''session'' body
      in seq (when_given (jget ''maximum_file_size_bytes'' body)
                (set_int KEY_MAX_FILE_SIZE (\<lambda>n. 0 < n)))
        (seq (when_given (jget ''direct_upload_threshold_bytes'' body)
                (set_int KEY_DIRECT_THRESHOLD (\<lambda>n. 0 \<le> n)))
        (seq (when_given (jget ''default_mode'' body) (\<lambda>v.
                  if \<not> json_in v [lit ''automatic'', lit ''proxy'', lit ''presigned'']
                  then raise invalid_settings
                  else modify (setting_set_value KEY_DEFAULT_MODE (json_text v))))
        (seq (case multipart of
                None \<Rightarrow> ret ()
              | Some m \<Rightarrow>
                  (case map_of m (lit ''default_part_size_bytes'') of
                     None \<Rightarrow> ret ()
                   | Some v \<Rightarrow> set_int KEY_DEFAULT_PART_SIZE
                                 (\<lambda>n. mp_minimum_part_size_bytes mp \<le> n
                                    \<and> n \<le> mp_maximum_part_size_bytes mp) v))
             (case session_cfg of
                None \<Rightarrow> ret ()
              | Some m \<Rightarrow>
                  (case map_of m (lit ''expires_after_seconds'') of
                     None \<Rightarrow> ret ()
                   | Some v \<Rightarrow> set_int KEY_SESSION_EXPIRY
                                 (\<lambda>n. MIN_SESSION_SECONDS \<le> n
                                    \<and> n \<le> se_maximum_lifetime_seconds (uc_session (cf_uploads c)))
                                 v))))))"

definition update_lifecycle ::
    "(pystr \<Rightarrow> json option) \<Rightarrow> (jobject \<Rightarrow> pystr) \<Rightarrow> settings \<Rightarrow> jobject \<Rightarrow> (db, error, unit) eff" where
  "update_lifecycle loads dumps c lifecycle =
     (case jget ''default_policy'' lifecycle of
        JObj policy \<Rightarrow>
          (let rules = lf_policy (cf_lifecycle c);
               mode = jget ''mode'' policy; action = jget ''action'' policy;
               ttl_seconds = jget ''ttl_seconds'' policy
           in seq (guard (mode = JNull \<or> json_in mode (lr_allowed_modes rules)) invalid_settings)
             (seq (guard (action = JNull \<or> json_in action (lr_allowed_actions rules)) invalid_settings)
             (bnd (lift (if ttl_seconds = JNull then Inr JNull
                         else rbind (int_field ttl_seconds) (\<lambda>n.
                              rbind (rguard (lr_minimum_ttl_seconds rules \<le> n
                                             \<and> n \<le> lr_maximum_ttl_seconds rules) invalid_settings)
                                (\<lambda>_. Inr (JInt n)))))
               (\<lambda>ttl_seconds.
                 bnd (get (get_lifecycle_default loads c)) (\<lambda>current.
                   modify (setting_set_value KEY_LIFECYCLE_DEFAULT
                     (dumps (fold (\<lambda>(k, v) b. if v = JNull then b else set_key (lit k) v b)
                        [(''mode'', mode), (''action'', action), (''ttl_seconds'', ttl_seconds)]
                        current))))))))
      | _ \<Rightarrow> raise invalid_settings)"

definition update ::
    "(pystr \<Rightarrow> json option) \<Rightarrow> (jobject \<Rightarrow> pystr) \<Rightarrow> settings \<Rightarrow> json \<Rightarrow> pystr list
     \<Rightarrow> (db, error, jobject) eff" where
  "update loads dumps c payload allowed_buckets =
     (case payload of
        JObj p \<Rightarrow>
          (let storage = get_object_field ''storage'' p; upload_cfg = get_object_field ''uploads'' p;
               lifecycle = get_object_field ''lifecycle'' p
           in if storage = None \<and> upload_cfg = None \<and> lifecycle = None
              then raise invalid_settings
              else
                seq (case storage of None \<Rightarrow> ret () | Some s \<Rightarrow> update_storage c s allowed_buckets)
               (seq (case upload_cfg of None \<Rightarrow> ret () | Some u \<Rightarrow> update_uploads c u)
               (seq (case lifecycle of None \<Rightarrow> ret () | Some l \<Rightarrow> update_lifecycle loads dumps c l)
                    (get (get_effective loads c)))))
      | _ \<Rightarrow> raise invalid_settings)"

text \<open>
  The handler of \<open>PUT /settings\<close>: only a successful update is committed.
\<close>

definition update_settings_handler ::
    "(pystr \<Rightarrow> json option) \<Rightarrow> (jobject \<Rightarrow> pystr) \<Rightarrow> settings \<Rightarrow> json \<Rightarrow> pystr list
     \<Rightarrow> (db, error, jobject) eff" where
  "update_settings_handler loads dumps c payload allowed_buckets d =
     (case update loads dumps c payload allowed_buckets d of
        (Inl e, _) \<Rightarrow> (Inl e, d)
      | (Inr r, d') \<Rightarrow> (Inr r, d'))"

section \<open>The invariant of the stored overrides\<close>

text \<open>
  Every stored override is the decimal text of a number within the bounds of the
  configuration, or a text of the allowed values.
\<close>

definition stored_int :: "pystr \<Rightarrow> (int \<Rightarrow> bool) \<Rightarrow> db \<Rightarrow> bool" where
  "stored_int key ok d \<longleftrightarrow>
     (\<forall>s. setting_get key d = Some s \<longrightarrow> (\<exists>n. s = py_str_int n \<and> printable n \<and> ok n))"

definition stored_text :: "pystr \<Rightarrow> (pystr \<Rightarrow> bool) \<Rightarrow> db \<Rightarrow> bool" where
  "stored_text key ok d \<longleftrightarrow> (\<forall>s. setting_get key d = Some s \<longrightarrow> ok s)"

definition part_size_ok :: "settings \<Rightarrow> int \<Rightarrow> bool" where
  "part_size_ok c n \<longleftrightarrow>
     mp_minimum_part_size_bytes (uc_multipart (cf_uploads c)) \<le> n
     \<and> n \<le> mp_maximum_part_size_bytes (uc_multipart (cf_uploads c))"

definition session_expiry_ok :: "settings \<Rightarrow> int \<Rightarrow> bool" where
  "session_expiry_ok c n \<longleftrightarrow>
     MIN_SESSION_SECONDS \<le> n \<and> n \<le> se_maximum_lifetime_seconds (uc_session (cf_uploads c))"

definition presign_ok :: "settings \<Rightarrow> int \<Rightarrow> bool" where
  "presign_ok c n \<longleftrightarrow> MIN_PRESIGN_SECONDS \<le> n \<and> n \<le> ps_maximum_expires_seconds (cf_presign c)"

definition overrides_valid :: "settings \<Rightarrow> db \<Rightarrow> bool" where
  "overrides_valid c d \<longleftrightarrow>
     stored_text KEY_DEFAULT_BUCKET (\<lambda>s. s \<noteq> []) d
     \<and> stored_int KEY_PRESIGN_DEFAULT (presign_ok c) d
     \<and> stored_int KEY_MAX_FILE_SIZE (\<lambda>n. 0 < n) d
     \<and> stored_int KEY_DIRECT_THRESHOLD (\<lambda>n. 0 \<le> n) d
     \<and> stored_text KEY_DEFAULT_MODE
         (\<lambda>s. s \<in> {lit ''automatic'', lit ''proxy'', lit ''presigned''}) d
     \<and> stored_int KEY_DEFAULT_PART_SIZE (part_size_ok c) d
     \<and> stored_int KEY_SESSION_EXPIRY (session_expiry_ok c) d"

lemma stored_int_set:
  "stored_int k ok (setting_set_value k' v d) \<longleftrightarrow>
     (if k = k' then \<exists>n. v = py_str_int n \<and> printable n \<and> ok n else stored_int k ok d)"
  by (simp add: stored_int_def setting_get_set)

lemma stored_text_set:
  "stored_text k ok (setting_set_value k' v d) \<longleftrightarrow> (if k = k' then ok v else stored_text k ok d)"
  by (simp add: stored_text_def setting_get_set)

lemma keeps_set_int:
  assumes "\<And>n d. ok n \<Longrightarrow> printable n \<Longrightarrow> P d \<Longrightarrow> P (setting_set_value key (py_str_int n) d)"
  shows "keeps P (set_int key ok v)"
  unfolding set_int_def
  by (rule keeps_bnd) (auto intro!: keepsI simp: eff_defs assms bnd_def split: sum.splits)

lemma keeps_when_given [keeps]: "(v \<noteq> JNull \<Longrightarrow> keeps P (f v)) \<Longrightarrow> keeps P (when_given v f)"
  by (simp add: when_given_def)

lemmas overrides_set = overrides_valid_def stored_int_set stored_text_set setting_keys

lemma keeps_update_storage [keeps]: "keeps (overrides_valid c) (update_storage c s bs)"
  unfolding update_storage_def
  by (intro keeps_seq keeps_when_given keeps_set_int)
    (auto intro!: keeps_modify simp: overrides_set presign_ok_def split: json.split)

lemma keeps_set_default_mode:
  "keeps (overrides_valid c)
     (if \<not> json_in v [lit ''automatic'', lit ''proxy'', lit ''presigned''] then raise e
      else modify (setting_set_value KEY_DEFAULT_MODE (json_text v)))"
  by (cases v) (auto intro!: keeps_modify simp: overrides_set json_in_def json_text_def)

lemma keeps_update_uploads [keeps]: "keeps (overrides_valid c) (update_uploads c u)"
  unfolding update_uploads_def Let_def
  by (intro keeps_seq keeps_when_given keeps_option keeps_ret keeps_set_int keeps_set_default_mode)
    (auto simp: overrides_set part_size_ok_def session_expiry_ok_def)

lemma keeps_update_lifecycle [keeps]: "keeps (overrides_valid c) (update_lifecycle loads dumps c l)"
proof (cases "jget ''default_policy'' l")
  case (JObj policy)
  show ?thesis
    unfolding update_lifecycle_def Let_def JObj json.case
    by (intro keeps_seq keeps_guard keeps_bnd keeps_lift keeps_get keeps_modify)
      (simp add: overrides_set)
qed (simp_all add: update_lifecycle_def)

lemma keeps_update: "keeps (overrides_valid c) (update loads dumps c payload bs)"
  unfolding update_def Let_def by (cases payload) (auto intro!: keeps simp del: seq_guard)

text \<open>With a valid configuration, all getters stay within the bounds.\<close>

lemma int_override_stored:
  assumes "stored_int key ok d" "ok fallback"
  shows "ok (int_override (setting_get key d) fallback)"
  using assms
  by (auto simp: stored_int_def int_override_def py_int_str_int printable_def split: option.splits)

end
