(* ===== verification/FileSystem.thy ===== *)
theory FileSystem
  imports ApiErrors "HOL-Library.Word" "HOL-Library.Sublist" "HOL-Library.List_Lexorder"
begin

text \<open>
  The part of \<open>pathlib\<close> and \<open>os\<close> the local storage adapter uses, over a file
  system that is the list of its paths: a path is the list of its components from \<open>/\<close>,
  the root directory always exists, there are no symbolic links.

  An operating system refuses some operations for reasons of its own (permissions, a name
  that is too long, a full disk). The predicate \<open>bad\<close> of an operation holds of the
  paths that cannot be written; everything proved holds for any \<open>bad\<close>.
\<close>

section \<open>Paths\<close>

type_synonym bytes = "8 word list"
type_synonym path = "pystr list"

text \<open>\<open>Path.joinpath\<close>: an absolute part starts again from the root.\<close>

definition join_part :: "path \<Rightarrow> pystr \<Rightarrow> path" where
  "join_part base part =
     (if starts_with part [slash] then [] else base)
     @ filter (\<lambda>c. c \<noteq> [] \<and> c \<noteq> lit ''.'') (split_on slash part)"

definition joinpath :: "path \<Rightarrow> pystr list \<Rightarrow> path" where
  "joinpath base ps = foldl join_part base ps"

text \<open>\<open>Path.resolve\<close> without links: \<open>..\<close> removes the component before it.\<close>

definition resolve :: "path \<Rightarrow> path" where
  "resolve p = foldl (\<lambda>acc c. if c = lit ''..'' then butlast acc else acc @ [c]) [] p"

definition is_relative_to :: "path \<Rightarrow> path \<Rightarrow> bool" where
  "is_relative_to p root \<longleftrightarrow> take (length root) p = root"

lemma is_relative_to_prefix: "is_relative_to p root \<longleftrightarrow> prefix root p"
  by (metis is_relative_to_def prefix_def append_take_drop_id append_eq_conv_conj take_is_prefix)

lemma foldl_no_dots:
  "lit ''..'' \<notin> set p \<Longrightarrow>
   foldl (\<lambda>acc c. if c = lit ''..'' then butlast acc else acc @ [c]) acc p = acc @ p"
  by (induction p arbitrary: acc) auto

lemma resolve_no_dots: "lit ''..'' \<notin> set p \<Longrightarrow> resolve p = p"
  by (simp add: resolve_def foldl_no_dots)

lemma set_resolve: "set (resolve p) \<subseteq> set p - {lit ''..''}"
proof -
  have "set (foldl (\<lambda>acc c. if c = lit ''..'' then butlast acc else acc @ [c]) acc p)
      \<subseteq> set acc \<union> (set p - {lit ''..''})" for acc
  proof (induction p arbitrary: acc)
    case (Cons a p)
    show ?case using Cons[of "acc @ [a]"] Cons[of "butlast acc"] by (auto dest: in_set_butlastD)
  qed simp
  from this[of "[]"] show ?thesis by (simp add: resolve_def)
qed

lemma resolve_resolve [simp]: "resolve (resolve p) = resolve p"
  using set_resolve[of p] by (intro resolve_no_dots) auto

section \<open>Nodes\<close>

datatype node = Dir | File bytes

type_synonym fs = "(path \<times> node) list"

definition node_at :: "fs \<Rightarrow> path \<Rightarrow> node option" where
  "node_at t p = (if p = [] then Some Dir else map_of t p)"

definition put_node :: "path \<Rightarrow> node \<Rightarrow> fs \<Rightarrow> fs" where
  "put_node p n t = (p, n) # filter (\<lambda>e. fst e \<noteq> p) t"

definition drop_node :: "path \<Rightarrow> fs \<Rightarrow> fs" where
  "drop_node p t = filter (\<lambda>e. fst e \<noteq> p) t"

definition drop_tree :: "path \<Rightarrow> fs \<Rightarrow> fs" where
  "drop_tree p t = filter (\<lambda>e. \<not> prefix p (fst e)) t"

lemma map_of_filter_key: "map_of (filter (\<lambda>e. P (fst e)) t) k = (if P k then map_of t k else None)"
  by (induction t) auto

lemmas map_of_other = map_of_filter_key[of "\<lambda>x. x \<noteq> p" for p]
lemmas map_of_outside = map_of_filter_key[of "\<lambda>x. \<not> prefix p x" for p]

lemma node_at_put: "p \<noteq> [] \<Longrightarrow> node_at (put_node p n t) q = (if q = p then Some n else node_at t q)"
  by (auto simp: node_at_def put_node_def map_of_other)

lemma node_at_drop: "p \<noteq> [] \<Longrightarrow> node_at (drop_node p t) q = (if q = p then None else node_at t q)"
  by (auto simp: node_at_def drop_node_def map_of_other)

lemma node_at_drop_tree:
  "p \<noteq> [] \<Longrightarrow> node_at (drop_tree p t) q = (if prefix p q then None else node_at t q)"
  by (auto simp: node_at_def drop_tree_def map_of_outside)

lemma node_at_Nil [simp]: "node_at t [] = Some Dir"
  by (simp add: node_at_def)

definition is_dir :: "path \<Rightarrow> fs \<Rightarrow> bool" where
  "is_dir p t \<longleftrightarrow> node_at t p = Some Dir"

definition path_exists :: "path \<Rightarrow> fs \<Rightarrow> bool" where
  "path_exists p t \<longleftrightarrow> node_at t p \<noteq> None"

definition file_content :: "path \<Rightarrow> fs \<Rightarrow> bytes option" where
  "file_content p t = (case node_at t p of Some (File b) \<Rightarrow> Some b | _ \<Rightarrow> None)"

text \<open>The names in a directory, and whether there is a file anywhere below it.\<close>

definition children :: "path \<Rightarrow> fs \<Rightarrow> pystr list" where
  "children p t = map (\<lambda>e. last (fst e)) (filter (\<lambda>e. fst e \<noteq> [] \<and> butlast (fst e) = p) t)"

definition has_file_below :: "path \<Rightarrow> fs \<Rightarrow> bool" where
  "has_file_below p t \<longleftrightarrow> (\<exists>e\<in>set t. strict_prefix p (fst e) \<and> snd e \<noteq> Dir)"

section \<open>Operations\<close>

text \<open>Each returns whether it succeeded (\<open>False\<close> is an \<open>OSError\<close>) and the file system.\<close>

text \<open>\<open>mkdir(parents=True, exist_ok=True)\<close>.\<close>

fun mkdirs :: "(path \<Rightarrow> bool) \<Rightarrow> path \<Rightarrow> path \<Rightarrow> fs \<Rightarrow> bool \<times> fs" where
  "mkdirs bad anc [] t = (True, t)"
| "mkdirs bad anc (c # cs) t =
     (let p = anc @ [c]
      in case node_at t p of
           Some Dir \<Rightarrow> mkdirs bad p cs t
         | Some (File _) \<Rightarrow> (False, t)
         | None \<Rightarrow> if bad p then (False, t) else mkdirs bad p cs (put_node p Dir t))"

text \<open>Writing a whole file through \<open>open(path, "wb")\<close>; the directory has to exist.\<close>

definition write_file :: "(path \<Rightarrow> bool) \<Rightarrow> path \<Rightarrow> bytes \<Rightarrow> fs \<Rightarrow> bool \<times> fs" where
  "write_file bad p b t =
     (if bad p \<or> \<not> is_dir (butlast p) t \<or> is_dir p t then (False, t)
      else (True, put_node p (File b) t))"

text \<open>\<open>os.replace\<close> of a file.\<close>

definition replace_file :: "(path \<Rightarrow> bool) \<Rightarrow> path \<Rightarrow> path \<Rightarrow> fs \<Rightarrow> bool \<times> fs" where
  "replace_file bad src dst t =
     (case node_at t src of
        Some (File b) \<Rightarrow>
          if bad dst \<or> is_dir dst t then (False, t)
          else (True, put_node dst (File b) (drop_node src t))
      | _ \<Rightarrow> (False, t))"

text \<open>\<open>unlink(missing_ok=True)\<close>: a directory, or a file used as one, is an error.\<close>

definition under_file :: "path \<Rightarrow> fs \<Rightarrow> bool" where
  "under_file p t \<longleftrightarrow> (\<exists>i\<in>set [1..<length p]. file_content (take i p) t \<noteq> None)"

definition unlink :: "(path \<Rightarrow> bool) \<Rightarrow> path \<Rightarrow> fs \<Rightarrow> bool \<times> fs" where
  "unlink bad p t =
     (case node_at t p of
        None \<Rightarrow> (\<not> under_file p t, t)
      | Some Dir \<Rightarrow> (False, t)
      | Some (File _) \<Rightarrow> if bad p then (False, t) else (True, drop_node p t))"

text \<open>The paths an operation leaves alone.\<close>

lemma mkdirs_frame:
  "mkdirs bad anc cs t = (r, t') \<Longrightarrow>
     node_at t' q = node_at t q \<or>
       (node_at t q = None \<and> node_at t' q = Some Dir \<and> prefix q (anc @ cs))"
proof (induction cs arbitrary: anc t)
  case (Cons c cs)
  let ?p = "anc @ [c]"
  have pre: "prefix q (anc @ c # cs)" if "prefix q (?p @ cs)" using that by simp
  show ?case
  proof (cases "node_at t ?p")
    case None
    show ?thesis
    proof (cases "bad ?p")
      case False
      then have "mkdirs bad ?p cs (put_node ?p Dir t) = (r, t')" using Cons.prems None by (simp add: Let_def)
      from Cons.IH[OF this] None show ?thesis
        by (auto simp: node_at_put split: if_splits)
    qed (use Cons.prems None in simp)
  next
    case (Some n)
    then show ?thesis using Cons.IH[of ?p t] Cons.prems by (cases n) auto
  qed
qed simp

lemma mkdirs_dir:
  "mkdirs bad anc cs t = (True, t') \<Longrightarrow> is_dir anc t \<Longrightarrow> is_dir (anc @ cs) t'"
proof (induction cs arbitrary: anc t)
  case (Cons c cs)
  let ?p = "anc @ [c]"
  show ?case
  proof (cases "node_at t ?p")
    case None
    then have "mkdirs bad ?p cs (put_node ?p Dir t) = (True, t')" using Cons.prems
      by (auto simp: Let_def split: if_splits)
    from Cons.IH[OF this] show ?thesis by (simp add: is_dir_def node_at_put)
  next
    case (Some n)
    then show ?thesis using Cons.IH[of ?p t] Cons.prems by (cases n) (auto simp: is_dir_def)
  qed
qed simp

lemma mkdirs_file_content:
  "mkdirs bad anc cs t = (r, t') \<Longrightarrow> file_content q t' = file_content q t"
  using mkdirs_frame[of bad anc cs t r t' q] by (auto simp: file_content_def)

text \<open>Making a directory that exists changes nothing.\<close>

lemma mkdirs_existing:
  "(\<And>i. length anc < i \<Longrightarrow> i \<le> length (anc @ cs) \<Longrightarrow> is_dir (take i (anc @ cs)) t)
   \<Longrightarrow> mkdirs bad anc cs t = (True, t)"
proof (induction cs arbitrary: anc)
  case (Cons c cs)
  have "is_dir (anc @ [c]) t" using Cons.prems[of "length anc + 1"] by simp
  moreover have "mkdirs bad (anc @ [c]) cs t = (True, t)"
    using Cons.prems by (intro Cons.IH) simp
  ultimately show ?case by (simp add: is_dir_def)
qed simp

text \<open>It succeeds when nothing on the way is a file or refused.\<close>

lemma mkdirs_succeeds:
  "(\<And>i. length anc < i \<Longrightarrow> i \<le> length (anc @ cs) \<Longrightarrow>
       file_content (take i (anc @ cs)) t = None \<and> \<not> bad (take i (anc @ cs)))
   \<Longrightarrow> fst (mkdirs bad anc cs t)"
proof (induction cs arbitrary: anc t)
  case (Cons c cs)
  let ?p = "anc @ [c]"
  have p: "file_content ?p t = None" "\<not> bad ?p" using Cons.prems[of "length anc + 1"] by simp_all
  have step: "fst (mkdirs bad ?p cs u)" if u: "\<And>q. file_content q t = None \<Longrightarrow> file_content q u = None" for u
  proof (rule Cons.IH)
    fix i assume "length ?p < i" "i \<le> length (?p @ cs)"
    then show "file_content (take i (?p @ cs)) u = None \<and> \<not> bad (take i (?p @ cs))"
      using Cons.prems[of i] u by simp
  qed
  have made: "fst (mkdirs bad ?p cs (put_node ?p Dir t))"
    by (rule step) (simp add: file_content_def node_at_put)
  have there: "fst (mkdirs bad ?p cs t)" by (rule step)
  show ?case
  proof (cases "node_at t ?p")
    case None
    then show ?thesis using made p(2) by (simp add: Let_def)
  next
    case (Some n)
    then have "n = Dir" using p(1) by (cases n) (simp_all add: file_content_def)
    then show ?thesis using there Some by simp
  qed
qed simp

lemma write_file_content:
  assumes "write_file bad p b t = (True, t')" "p \<noteq> []"
  shows "file_content q t' = (if q = p then Some b else file_content q t)"
  using assms by (auto simp: write_file_def file_content_def node_at_put split: if_splits)

lemma write_file_failed: "write_file bad p b t = (False, t') \<Longrightarrow> t' = t"
  by (auto simp: write_file_def split: if_splits)

lemma replace_file_content:
  assumes "replace_file bad src dst t = (True, t')" "src \<noteq> []" "dst \<noteq> []"
  shows "\<exists>b. file_content src t = Some b \<and>
    file_content q t' = (if q = dst then Some b else if q = src then None else file_content q t)"
proof -
  obtain b where b: "node_at t src = Some (File b)" and t': "t' = put_node dst (File b) (drop_node src t)"
    using assms(1) by (auto simp: replace_file_def split: option.splits node.splits if_splits)
  show ?thesis
    by (rule exI[of _ b]) (simp add: t' file_content_def node_at_put node_at_drop assms(2,3) b)
qed

lemma replace_file_failed: "replace_file bad src dst t = (False, t') \<Longrightarrow> t' = t"
  by (auto simp: replace_file_def split: option.splits node.splits if_splits)

lemma unlink_content:
  assumes "unlink bad p t = (r, t')" "p \<noteq> []"
  shows "file_content q t' = (if q = p \<and> r then None else file_content q t)"
proof (cases "node_at t p")
  case None
  then show ?thesis using assms by (auto simp: unlink_def file_content_def)
next
  case (Some n)
  then show ?thesis
    using assms by (cases n) (auto simp: unlink_def file_content_def node_at_drop split: if_splits)
qed

end
