(* ===== verification/Storage.thy ===== *)
theory Storage
  imports FileSystem
begin

text \<open>
  The storage interface of \<open>src/app/storage/base.py\<close> and
  \<open>src/app/storage/capabilities.py\<close>: the protocol class \<open>StorageAdapter\<close> as a
  record of operations on a store of any type, and the contract the services rely on as the
  locale \<open>object_storage\<close>. \<open>LocalStorage\<close> interprets the locale; \<open>S3Storage\<close>
  shows it of the S3 adapter over a service that behaves as documented.

  A stream that is read to its end is the list of its bytes.
\<close>

section \<open>The interface\<close>

record storage_capabilities =
  cap_multipart :: bool
  cap_presigned_put :: bool
  cap_presigned_get :: bool
  cap_presigned_upload_part :: bool
  cap_list_parts :: bool
  cap_server_side_checksum :: bool
  cap_archive :: bool
  cap_transition :: bool
  cap_restore :: bool

record stored_object =
  so_bucket :: pystr
  so_object_key :: pystr
  so_size_bytes :: int
  so_etag :: "pystr option"
  so_content_type :: "pystr option"

text \<open>
  The chunks of an \<open>ObjectStream\<close> are read while the response is sent; reading them
  may still fail.
\<close>

record object_stream =
  os_size_bytes :: int
  os_content_type :: "pystr option"
  os_etag :: "pystr option"
  os_chunks :: "error + bytes"

record uploaded_part =
  up_part_number :: int
  up_etag :: pystr
  up_size_bytes :: int
  up_checksum_sha256 :: "pystr option"

record 's storage_adapter =
  st_capabilities :: storage_capabilities
  st_backend_name :: pystr
  st_is_local :: bool
  st_create_bucket :: "pystr \<Rightarrow> ('s, error, unit) eff"
  st_bucket_exists :: "pystr \<Rightarrow> ('s, error, bool) eff"
  st_delete_bucket :: "pystr \<Rightarrow> ('s, error, unit) eff"
  st_put_object :: "pystr \<Rightarrow> pystr \<Rightarrow> bytes \<Rightarrow> pystr option \<Rightarrow> int option \<Rightarrow> pystr option
                    \<Rightarrow> ('s, error, stored_object) eff"
  st_get_object :: "pystr \<Rightarrow> pystr \<Rightarrow> nat \<Rightarrow> int option \<Rightarrow> ('s, error, object_stream) eff"
  st_delete_object :: "pystr \<Rightarrow> pystr \<Rightarrow> ('s, error, unit) eff"
  st_object_exists :: "pystr \<Rightarrow> pystr \<Rightarrow> ('s, error, bool) eff"
  st_initiate_multipart_upload :: "pystr \<Rightarrow> pystr \<Rightarrow> pystr option \<Rightarrow> ('s, error, pystr) eff"
  st_upload_part :: "pystr \<Rightarrow> pystr \<Rightarrow> pystr \<Rightarrow> int \<Rightarrow> bytes \<Rightarrow> int \<Rightarrow> pystr option
                     \<Rightarrow> ('s, error, uploaded_part) eff"
  st_list_parts :: "pystr \<Rightarrow> pystr \<Rightarrow> pystr \<Rightarrow> ('s, error, uploaded_part list) eff"
  st_complete_multipart_upload :: "pystr \<Rightarrow> pystr \<Rightarrow> pystr \<Rightarrow> uploaded_part list
                                   \<Rightarrow> ('s, error, stored_object) eff"
  st_abort_multipart_upload :: "pystr \<Rightarrow> pystr \<Rightarrow> pystr \<Rightarrow> ('s, error, unit) eff"
  st_create_presigned_put_url :: "pystr \<Rightarrow> pystr \<Rightarrow> int \<Rightarrow> ('s, error, pystr) eff"
  st_create_presigned_get_url :: "pystr \<Rightarrow> pystr \<Rightarrow> int \<Rightarrow> ('s, error, pystr) eff"
  st_create_presigned_upload_part_url :: "pystr \<Rightarrow> pystr \<Rightarrow> pystr \<Rightarrow> int \<Rightarrow> int
                                          \<Rightarrow> ('s, error, pystr) eff"

definition read_slice :: "nat \<Rightarrow> int option \<Rightarrow> bytes \<Rightarrow> bytes" where
  "read_slice offset len b =
     (case len of None \<Rightarrow> drop offset b | Some n \<Rightarrow> take (nat n) (drop offset b))"

text \<open>A slice that lies inside an object of \<open>n\<close> bytes; the whole object always counts.\<close>

definition slice_inside :: "nat \<Rightarrow> int option \<Rightarrow> nat \<Rightarrow> bool" where
  "slice_inside offset len n \<longleftrightarrow>
     offset = 0 \<and> len = None \<or> offset < n \<and> (case len of None \<Rightarrow> True | Some l \<Rightarrow> 0 < l \<and> offset + nat l \<le> n)"

text \<open>The parts of a multipart upload in the order they are assembled.\<close>

definition sorted_parts :: "uploaded_part list \<Rightarrow> uploaded_part list" where
  "sorted_parts ps = sort_key up_part_number ps"

text \<open>A client uploads the parts of a multipart upload one after the other.\<close>

fun upload_all ::
    "'s storage_adapter \<Rightarrow> pystr \<Rightarrow> pystr \<Rightarrow> pystr \<Rightarrow> (int \<times> bytes) list
     \<Rightarrow> ('s, error, uploaded_part list) eff" where
  "upload_all S b k u [] = ret []"
| "upload_all S b k u ((n, data) # rest) =
     bnd (st_upload_part S b k u n data (int (length data)) None) (\<lambda>p.
     bnd (upload_all S b k u rest) (\<lambda>ps. ret (p # ps)))"

section \<open>The contract\<close>

text \<open>
  \<open>content\<close> is what a store holds under a bucket and key, \<open>staged\<close> the parts
  of unfinished uploads. \<open>place\<close> says which buckets and keys the contract is about and
  \<open>token\<close> which upload ids. Successful operations do what they say; no operation,
  failed ones included, touches the content of another place.
\<close>

locale object_storage =
  fixes S :: "'s storage_adapter"
    and content :: "'s \<Rightarrow> pystr \<Rightarrow> pystr \<Rightarrow> bytes option"
    and staged :: "'s \<Rightarrow> pystr \<Rightarrow> int \<Rightarrow> bytes option"
    and place :: "pystr \<Rightarrow> pystr \<Rightarrow> bool"
    and token :: "pystr \<Rightarrow> bool"
  assumes put_content:
      "place b k \<Longrightarrow> st_put_object S b k data ct osz cs s = (Inr x, s') \<Longrightarrow> content s' b k = Some data"
    and put_frame:
      "place b k \<Longrightarrow> place b' k' \<Longrightarrow> (b', k') \<noteq> (b, k) \<Longrightarrow>
       st_put_object S b k data ct osz cs s = (r, s') \<Longrightarrow> content s' b' k' = content s b' k'"
    and get_content:
      "place b k \<Longrightarrow> content s b k = Some data \<Longrightarrow> slice_inside off len (length data) \<Longrightarrow>
       \<exists>y. st_get_object S b k off len s = (Inr y, s) \<and> os_chunks y = Inr (read_slice off len data)
         \<and> os_size_bytes y = int (length data)"
    and exists_content:
      "place b k \<Longrightarrow> content s b k \<noteq> None \<Longrightarrow> st_object_exists S b k s = (Inr True, s)"
    and delete_content:
      "place b k \<Longrightarrow> st_delete_object S b k s = (Inr (), s') \<Longrightarrow> content s' b k = None"
    and delete_frame:
      "place b k \<Longrightarrow> place b' k' \<Longrightarrow> (b', k') \<noteq> (b, k) \<Longrightarrow>
       st_delete_object S b k s = (rd, s') \<Longrightarrow> content s' b' k' = content s b' k'"
    and part_staged:
      "place b k \<Longrightarrow> token u \<Longrightarrow> 0 \<le> n \<Longrightarrow>
       st_upload_part S b k u n data sz cs s = (Inr p, s') \<Longrightarrow>
       staged s' u n = Some data \<and> up_part_number p = n \<and> up_size_bytes p = sz"
    and part_frame:
      "place b k \<Longrightarrow> token u \<Longrightarrow> 0 \<le> n \<Longrightarrow> st_upload_part S b k u n data sz cs s = (rp, s') \<Longrightarrow>
       (place b' k' \<longrightarrow> content s' b' k' = content s b' k')
       \<and> (token u' \<longrightarrow> 0 \<le> n' \<longrightarrow> (u', n') \<noteq> (u, n) \<longrightarrow> staged s' u' n' = staged s u' n')"
    and complete_content:
      "place b k \<Longrightarrow> token u \<Longrightarrow> (\<And>p. p \<in> set ps \<Longrightarrow> 0 \<le> up_part_number p) \<Longrightarrow>
       st_complete_multipart_upload S b k u ps s = (Inr x, s') \<Longrightarrow>
       \<exists>bs. map (\<lambda>p. staged s u (up_part_number p)) (sorted_parts ps) = map Some bs
         \<and> content s' b k = Some (concat bs)"
    and complete_frame:
      "place b k \<Longrightarrow> token u \<Longrightarrow> st_complete_multipart_upload S b k u ps s = (rc, s') \<Longrightarrow>
       (place b' k' \<longrightarrow> (b', k') \<noteq> (b, k) \<longrightarrow> content s' b' k' = content s b' k')
       \<and> (token u' \<longrightarrow> 0 \<le> n' \<longrightarrow> u' \<noteq> u \<longrightarrow> staged s' u' n' = staged s u' n')"
    and abort_frame:
      "place b k \<Longrightarrow> token u \<Longrightarrow> st_abort_multipart_upload S b k u s = (ra, s') \<Longrightarrow>
       (place b' k' \<longrightarrow> content s' b' k' = content s b' k')
       \<and> (token u' \<longrightarrow> 0 \<le> n' \<longrightarrow> u' \<noteq> u \<longrightarrow> staged s' u' n' = staged s u' n')"
begin

text \<open>What was put is read back, until something else is put there or it is deleted.\<close>

lemma put_get:
  assumes "place b k" "st_put_object S b k data ct osz cs s = (Inr x, s')" "slice_inside off len (length data)"
  shows "\<exists>y. st_get_object S b k off len s' = (Inr y, s')
           \<and> os_chunks y = Inr (read_slice off len data)"
  using get_content[OF assms(1) put_content[OF assms(1,2)] assms(3)] by blast

lemma put_other_get:
  assumes "place b k" "place b' k'" "(b', k') \<noteq> (b, k)" "content s b' k' = Some data"
    and "st_put_object S b k d ct n cs s = (r, s')" "slice_inside off len (length data)"
  shows "\<exists>y. st_get_object S b' k' off len s' = (Inr y, s') \<and> os_chunks y = Inr (read_slice off len data)"
  using get_content[OF assms(2) _ assms(6)] put_frame[OF assms(1-3,5)] assms(4) by metis

text \<open>Uploading the parts one after the other stages each of them.\<close>

lemma upload_all_frame:
  assumes "place b k" "token u" "upload_all S b k u xs s = (r, s')" "\<forall>x\<in>set xs. 0 \<le> fst x"
  shows "place b' k' \<Longrightarrow> content s' b' k' = content s b' k'"
    and "token u' \<Longrightarrow> 0 \<le> n' \<Longrightarrow> u' \<noteq> u \<or> n' \<notin> fst ` set xs \<Longrightarrow> staged s' u' n' = staged s u' n'"
proof -
  have "(place b' k' \<longrightarrow> content s' b' k' = content s b' k')
      \<and> (token u' \<longrightarrow> 0 \<le> n' \<longrightarrow> u' \<noteq> u \<or> n' \<notin> fst ` set xs \<longrightarrow> staged s' u' n' = staged s u' n')"
    using assms(3,4)
  proof (induction xs arbitrary: s r)
    case Nil
    then show ?case by (simp add: ret_def)
  next
    case (Cons x xs)
    obtain n d where x: "x = (n, d)" by (cases x)
    obtain q t where q: "st_upload_part S b k u n d (int (length d)) None s = (q, t)" by fastforce
    have n: "0 \<le> n" using Cons.prems(2) x by simp
    note f = part_frame[OF assms(1,2) n q, of b' k' u' n']
    show ?case
    proof (cases q)
      case (Inl e)
      then have "s' = t" using Cons.prems(1) x q by (simp add: bnd_def)
      then show ?thesis using f x by auto
    next
      case (Inr p)
      obtain q' t' where q': "upload_all S b k u xs t = (q', t')" by fastforce
      have "s' = t'" using Cons.prems(1) x q q' Inr by (cases q') (auto simp: bnd_def ret_def)
      have "upload_all S b k u xs t = (q', s')" using q' \<open>s' = t'\<close> by simp
      from Cons.IH[OF this] show ?thesis using f x Cons.prems(2) by auto
    qed
  qed
  then show "place b' k' \<Longrightarrow> content s' b' k' = content s b' k'"
    and "token u' \<Longrightarrow> 0 \<le> n' \<Longrightarrow> u' \<noteq> u \<or> n' \<notin> fst ` set xs \<Longrightarrow> staged s' u' n' = staged s u' n'"
    by blast+
qed

lemma upload_all_staged:
  assumes "place b k" "token u" "upload_all S b k u xs s = (Inr ps, s')"
    and "\<forall>x\<in>set xs. 0 \<le> fst x" "distinct (map fst xs)"
  shows "map up_part_number ps = map fst xs \<and> (\<forall>(n, d) \<in> set xs. staged s' u n = Some d)"
  using assms(3-5)
proof (induction xs arbitrary: s ps)
  case Nil
  then show ?case by (simp add: ret_def)
next
  case (Cons x xs)
  obtain n d where x: "x = (n, d)" by (cases x)
  obtain p t qs where p: "st_upload_part S b k u n d (int (length d)) None s = (Inr p, t)"
    and qs: "upload_all S b k u xs t = (Inr qs, s')" "ps = p # qs"
    using Cons.prems(1) x by (auto simp: effs)
  have n: "0 \<le> n" using Cons.prems(2) x by simp
  have st: "staged t u n = Some d \<and> up_part_number p = n" using part_staged[OF assms(1,2) n p] by simp
  have "n \<notin> fst ` set xs" using Cons.prems(3) x by simp
  then have "staged s' u n = staged t u n"
    using upload_all_frame(2)[OF assms(1,2) qs(1), of u n] Cons.prems(2) n assms(2) by auto
  moreover have "map up_part_number qs = map fst xs \<and> (\<forall>(n, d) \<in> set xs. staged s' u n = Some d)"
    using Cons.IH[OF qs(1)] Cons.prems(2,3) by auto
  ultimately show ?case using st x qs(2) by auto
qed

text \<open>Parts uploaded in any order and then completed become the object, in order of number.\<close>

lemma upload_all_complete:
  assumes "place b k" "token u" "upload_all S b k u xs s = (Inr ps, t)"
    and nums: "\<forall>x\<in>set xs. 0 \<le> fst x" and dist: "distinct (map fst xs)"
    and fin: "st_complete_multipart_upload S b k u ps t = (Inr x, s')"
  shows "content s' b k = Some (concat (map snd (sort_key fst xs)))"
proof -
  have st: "map up_part_number ps = map fst xs" "\<forall>(n, d) \<in> set xs. staged t u n = Some d"
    using upload_all_staged[OF assms(1-3) nums dist] by auto
  have pos: "0 \<le> up_part_number p" if "p \<in> set ps" for p
  proof -
    have "up_part_number p \<in> fst ` set xs" using that st(1) by (metis image_eqI list.set_map)
    then show ?thesis using nums by auto
  qed
  obtain bs where bs: "map (\<lambda>p. staged t u (up_part_number p)) (sorted_parts ps) = map Some bs"
    "content s' b k = Some (concat bs)"
    using complete_content[OF assms(1,2) pos fin] by blast
  have sorted: "map up_part_number (sorted_parts ps) = map fst (sort_key fst xs)"
    unfolding sorted_parts_def
  proof (rule sorted_distinct_set_unique)
    show "set (map up_part_number (sort_key up_part_number ps)) = set (map fst (sort_key fst xs))"
      using arg_cong[OF st(1), of set] by simp
    have "distinct (map up_part_number ps)" using st(1) dist by simp
    then show "distinct (map up_part_number (sort_key up_part_number ps))"
      by (simp add: distinct_map)
    show "distinct (map fst (sort_key fst xs))" using dist by (simp add: distinct_map)
  qed simp_all
  have "map Some bs = map (staged t u) (map up_part_number (sorted_parts ps))"
    using bs(1) by (simp add: comp_def)
  also have "\<dots> = map (\<lambda>x. staged t u (fst x)) (sort_key fst xs)" by (simp add: sorted comp_def)
  also have "\<dots> = map (Some \<circ> snd) (sort_key fst xs)" using st(2) by (auto simp: case_prod_beta)
  finally have "bs = map snd (sort_key fst xs)"
    by (metis (no_types, lifting) inj_map_eq_map inj_Some map_map)
  then show ?thesis using bs(2) by simp
qed

end

end
