(* ===== verification/Paths.thy ===== *)
theory Paths
  imports ApiErrors
begin

text \<open>
  Relative paths: \<open>src/app/directory_upload/paths.py\<close> on the server and its mirror
  \<open>src/sdk/pyuploadx/paths.py\<close> in the SDK.

  \<open>unicodedata.normalize("NFC", _)\<close> is a table of the Unicode database; it is the
  parameter \<open>nfc\<close>. The laws of it that the proofs use are collected in
  \<open>nfc_laws\<close>: it is idempotent, a slash is a boundary it never crosses, and it makes
  no control character and no backslash out of other characters.
\<close>

definition nfc_laws :: "(pystr \<Rightarrow> pystr) \<Rightarrow> bool" where
  "nfc_laws nfc \<longleftrightarrow>
     nfc [] = []
     \<and> (\<forall>xs. nfc (nfc xs) = nfc xs)
     \<and> (\<forall>xs ys. nfc (xs @ slash # ys) = nfc xs @ slash # nfc ys)
     \<and> (\<forall>xs. slash \<notin> set xs \<longrightarrow> slash \<notin> set (nfc xs))
     \<and> (\<forall>xs c. (c < 32 \<or> c = 127 \<or> c = 92) \<and> c \<notin> set xs \<longrightarrow> c \<notin> set (nfc xs))"

section \<open>The server\<close>

definition control_char :: "nat \<Rightarrow> bool" where
  "control_char c \<longleftrightarrow> c < 32 \<or> c = 127"

text \<open>The segments refused by name: \<open>~ * ? " < > |\<close>.\<close>

definition unsafe_segments :: "pystr list" where
  "unsafe_segments = [[126], [42], [63], [34], [60], [62], [124]]"

abbreviation (input) dot_segment :: pystr where "dot_segment \<equiv> [46]"
abbreviation (input) dotdot_segment :: pystr where "dotdot_segment \<equiv> [46, 46]"

text \<open>The loop over the segments: empty and \<open>.\<close> are skipped.\<close>

fun path_parts :: "pystr list \<Rightarrow> error + pystr list" where
  "path_parts [] = Inr []"
| "path_parts (part # rest) =
     (if part = [] \<or> part = dot_segment then path_parts rest
      else if part = dotdot_segment
      then Inl (InvalidRelativePathError ''parent directory traversal is forbidden'')
      else if part \<in> set unsafe_segments
      then Inl (InvalidRelativePathError ''unsafe path segment'')
      else rbind (path_parts rest) (\<lambda>ps. Inr (part # ps)))"

definition to_posix :: "pystr \<Rightarrow> pystr" where
  "to_posix raw = map (\<lambda>c. if c = 92 then slash else c) raw"

definition normalize_relative_path ::
    "(pystr \<Rightarrow> pystr) \<Rightarrow> nat \<Rightarrow> nat \<Rightarrow> pystr \<Rightarrow> error + pystr" where
  "normalize_relative_path nfc maximum_depth maximum_bytes raw =
     (if 0 \<in> set raw
      then Inl (InvalidRelativePathError ''path contains NUL character'')
      else if \<exists>c \<in> set raw. control_char c
      then Inl (InvalidRelativePathError ''path contains control characters'')
      else
        let nfc_path = nfc (to_posix raw) in
        if starts_with nfc_path [slash]
        then Inl (InvalidRelativePathError ''absolute paths are forbidden'')
        else if 2 \<le> length nfc_path \<and> nfc_path ! 1 = 58
        then Inl (InvalidRelativePathError ''windows drive paths are forbidden'')
        else rbind (path_parts (split_on slash nfc_path)) (\<lambda>parts.
          let normalized = join_with slash parts in
          if normalized = []
          then Inl (InvalidRelativePathError ''path must not be empty'')
          else if maximum_depth < length parts
          then Inl (InvalidRelativePathError ''path exceeds maximum depth'')
          else case utf8_len normalized of
                 None \<Rightarrow> Inl (Crash UnicodeEncodeError)
               | Some n \<Rightarrow>
                   if maximum_bytes < n
                   then Inl (InvalidRelativePathError ''path exceeds maximum length'')
                   else Inr normalized))"

text \<open>The defaults of the two limits: 64 segments, 1024 bytes.\<close>

abbreviation normalize_default :: "(pystr \<Rightarrow> pystr) \<Rightarrow> pystr \<Rightarrow> error + pystr" where
  "normalize_default nfc \<equiv> normalize_relative_path nfc 64 1024"

definition join_prefix :: "(pystr \<Rightarrow> pystr) \<Rightarrow> pystr \<Rightarrow> pystr \<Rightarrow> error + pystr" where
  "join_prefix nfc prefix relative_path =
     rbind (normalize_default nfc relative_path) (\<lambda>normalized.
       let clean_prefix = strip_by (\<lambda>c. c = slash) prefix in
       if clean_prefix = [] then Inr normalized
       else Inr (clean_prefix @ slash # normalized))"

section \<open>The SDK\<close>

fun sdk_path_parts :: "pystr list \<Rightarrow> sdk_error + pystr list" where
  "sdk_path_parts [] = Inr []"
| "sdk_path_parts (part # rest) =
     (if part = [] \<or> part = dot_segment then sdk_path_parts rest
      else if part = dotdot_segment then Inl (SdkErr SdkValidationError None)
      else rbind (sdk_path_parts rest) (\<lambda>ps. Inr (part # ps)))"

definition sdk_normalize_relative_path ::
    "(pystr \<Rightarrow> pystr) \<Rightarrow> nat \<Rightarrow> nat \<Rightarrow> pystr \<Rightarrow> sdk_error + pystr" where
  "sdk_normalize_relative_path nfc maximum_depth maximum_bytes raw =
     (let nfc_path = nfc (to_posix raw) in
      if starts_with nfc_path [slash] then Inl (SdkErr SdkValidationError None)
      else if 2 \<le> length nfc_path \<and> nfc_path ! 1 = 58
      then Inl (SdkErr SdkValidationError None)
      else rbind (sdk_path_parts (split_on slash nfc_path)) (\<lambda>parts.
        let normalized = join_with slash parts in
        if normalized = [] then Inl (SdkErr SdkValidationError None)
        else if maximum_depth < length parts then Inl (SdkErr SdkValidationError None)
        else case utf8_len normalized of
               None \<Rightarrow> Inl (SdkCrash UnicodeEncodeError)
             | Some n \<Rightarrow>
                 if maximum_bytes < n then Inl (SdkErr SdkValidationError None)
                 else Inr normalized))"

section \<open>What a normalized path is\<close>

definition good_segment :: "pystr \<Rightarrow> bool" where
  "good_segment p \<longleftrightarrow>
     p \<noteq> [] \<and> p \<noteq> dot_segment \<and> p \<noteq> dotdot_segment \<and> p \<notin> set unsafe_segments"

text \<open>
  The promise of the module: every segment is a plain name, and depth and size are
  bounded.
\<close>

definition safe_path :: "nat \<Rightarrow> nat \<Rightarrow> pystr \<Rightarrow> bool" where
  "safe_path depth bytes p \<longleftrightarrow>
     p \<noteq> [] \<and> list_all good_segment (split_on slash p) \<and> length (split_on slash p) \<le> depth
     \<and> (case utf8_len p of None \<Rightarrow> False | Some n \<Rightarrow> n \<le> bytes)"

lemma path_parts_Inr:
  "path_parts segs = Inr ps \<Longrightarrow>
     ps = filter (\<lambda>s. s \<noteq> [] \<and> s \<noteq> dot_segment) segs \<and> list_all good_segment ps"
  by (induction segs arbitrary: ps) (auto simp: rbind_Inr_iff good_segment_def split: if_splits)

lemma path_parts_good: "list_all good_segment segs \<Longrightarrow> path_parts segs = Inr segs"
  by (induction segs) (auto simp: good_segment_def)

lemma path_parts_error:
  "path_parts segs = Inl e \<Longrightarrow>
     (\<exists>m. e = InvalidRelativePathError m) \<and>
     (\<exists>s \<in> set segs. s = dotdot_segment \<or> s \<in> set unsafe_segments)"
proof (induction segs)
  case (Cons s segs)
  then show ?case by (cases "path_parts segs") (auto split: if_splits)
qed simp

lemma sdk_path_parts_agree: "path_parts segs = Inr ps \<Longrightarrow> sdk_path_parts segs = Inr ps"
  by (induction segs arbitrary: ps) (auto simp: rbind_Inr_iff split: if_splits)

lemma good_parts_join:
  assumes "list_all good_segment ps" "\<And>p. p \<in> set ps \<Longrightarrow> slash \<notin> set p" "ps \<noteq> []"
  shows "split_on slash (join_with slash ps) = ps" "join_with slash ps \<noteq> []"
proof -
  show "split_on slash (join_with slash ps) = ps" using assms by (intro split_join) auto
  show "join_with slash ps \<noteq> []"
    using assms by (subst join_with_eq_Nil) (auto simp: list_all_iff good_segment_def)
qed

lemma normalize_Inr:
  assumes "normalize_relative_path nfc d b raw = Inr p"
  obtains parts n where
    "path_parts (split_on slash (nfc (to_posix raw))) = Inr parts"
    "p = join_with slash parts" "p \<noteq> []" "length parts \<le> d" "utf8_len p = Some n" "n \<le> b"
    "split_on slash p = parts" "list_all good_segment parts" "\<forall>c \<in> set raw. \<not> control_char c"
    "\<not> starts_with (nfc (to_posix raw)) [slash]"
    "\<not> (2 \<le> length (nfc (to_posix raw)) \<and> nfc (to_posix raw) ! 1 = 58)"
proof -
  from assms obtain parts n where p: "path_parts (split_on slash (nfc (to_posix raw))) = Inr parts"
    "p = join_with slash parts" "p \<noteq> []" "length parts \<le> d" "utf8_len p = Some n" "n \<le> b"
    "\<forall>c \<in> set raw. \<not> control_char c" "\<not> starts_with (nfc (to_posix raw)) [slash]"
    "\<not> (2 \<le> length (nfc (to_posix raw)) \<and> nfc (to_posix raw) ! 1 = 58)"
    by (auto simp: normalize_relative_path_def rbind_Inr_iff Let_def split: if_splits option.splits)
  note parts = path_parts_Inr[OF p(1)]
  have "q \<in> set parts \<Longrightarrow> slash \<notin> set q" for q
    using parts by (auto dest: split_on_no_sep_part)
  moreover have "parts \<noteq> []" using p(2,3) by auto
  ultimately have "split_on slash p = parts"
    using parts p(2) by (auto intro: good_parts_join(1))
  with p(1-6) conjunct2[OF parts] p(7-9) show thesis by (intro that[of parts n])
qed

lemma normalize_safe: "normalize_relative_path nfc d b raw = Inr p \<Longrightarrow> safe_path d b p"
  by (erule normalize_Inr) (auto simp: safe_path_def)

lemma normalize_error:
  "normalize_relative_path nfc d b raw = Inl e \<Longrightarrow>
     (\<exists>m. e = InvalidRelativePathError m) \<or> e = Crash UnicodeEncodeError"
  unfolding normalize_relative_path_def
  by (cases "path_parts (split_on slash (nfc (to_posix raw)))")
    (auto simp: Let_def dest: path_parts_error split: if_splits option.splits)

section \<open>Normalizing twice\<close>

lemma nfc_split:
  assumes "nfc_laws nfc"
  shows "split_on slash (nfc s) = map nfc (split_on slash s)"
proof (induction "length s" arbitrary: s rule: less_induct)
  case less
  show ?case
  proof (cases "slash \<in> set s")
    case False
    then show ?thesis using assms by (simp add: nfc_laws_def split_on_no_sep)
  next
    case True
    then obtain a r where s: "s = a @ slash # r" "slash \<notin> set a" by (meson split_list_first)
    have "nfc s = nfc a @ slash # nfc r" "slash \<notin> set (nfc a)"
      using assms s by (auto simp: nfc_laws_def)
    then show ?thesis using less[of r] s by (simp add: split_on_append)
  qed
qed

lemma nfc_join:
  assumes "nfc_laws nfc"
  shows "nfc (join_with slash ps) = join_with slash (map nfc ps)"
proof (induction ps)
  case (Cons q ps)
  then show ?case using assms by (cases ps) (auto simp: nfc_laws_def)
qed (use assms in \<open>simp add: nfc_laws_def\<close>)

lemma set_nfc_clean:
  assumes "nfc_laws nfc" "\<forall>c \<in> set raw. \<not> control_char c" "c \<in> set (nfc (to_posix raw))"
  shows "\<not> control_char c \<and> c \<noteq> 92"
proof -
  have "control_char c \<or> c = 92 \<Longrightarrow> c \<notin> set (to_posix raw)"
    using assms(2) by (auto simp: to_posix_def control_char_def)
  then show ?thesis using assms(1,3) unfolding nfc_laws_def control_char_def by blast
qed

text \<open>
  A normalized path is a fixed point of the function, unless it starts with a drive
  letter: the drive test looks at the raw path, and a leading \<open>./\<close> hides the drive
  from it.
\<close>

lemma normalize_fixed_point:
  assumes laws: "nfc_laws nfc" and n: "normalize_relative_path nfc d b raw = Inr p"
    and drive: "\<not> (2 \<le> length p \<and> p ! 1 = 58)"
  shows "normalize_relative_path nfc d b p = Inr p"
proof -
  obtain parts n where p: "path_parts (split_on slash (nfc (to_posix raw))) = Inr parts"
    "p = join_with slash parts" "p \<noteq> []" "length parts \<le> d" "utf8_len p = Some n" "n \<le> b"
    "split_on slash p = parts" "list_all good_segment parts" "\<forall>c \<in> set raw. \<not> control_char c"
    using normalize_Inr[OF n] by metis
  have sub: "set parts \<subseteq> set (split_on slash (nfc (to_posix raw)))"
    using path_parts_Inr[OF p(1)] by auto
  have fixed: "nfc q = q" if "q \<in> set parts" for q
    using that sub laws by (auto simp: nfc_split[OF laws] nfc_laws_def)
  have clean: "\<not> control_char c \<and> c \<noteq> 92" if "c \<in> set p" for c
  proof -
    from that have "c = slash \<or> (\<exists>q \<in> set parts. c \<in> set q)" using set_join_with[of slash parts] p(2) by auto
    then show ?thesis
      using sub split_on_part_subset[of _ slash "nfc (to_posix raw)"]
        set_nfc_clean[OF laws p(9)] by (auto simp: control_char_def)
  qed
  then have posix: "to_posix p = p" by (auto simp: to_posix_def map_idI)
  have "nfc p = p" using fixed p(2) by (simp add: nfc_join[OF laws] map_idI)
  moreover have "\<not> starts_with p [slash]"
  proof -
    have "hd parts \<noteq> []" "parts \<noteq> []" using p(2,3,8) by (cases parts; auto simp: good_segment_def)+
    then have "hd p = hd (hd parts)" "slash \<notin> set (hd parts)"
      using p(2,7) split_on_no_sep_part[of "hd parts" slash p] by (simp_all add: hd_join_with)
    then show ?thesis using p(3) hd_in_set[OF \<open>hd parts \<noteq> []\<close>] by (cases p) (auto simp: starts_with_def)
  qed
  moreover have "\<not> (\<exists>c \<in> set p. control_char c)" "0 \<notin> set p"
    using clean clean[of 0] by (auto simp: control_char_def)
  ultimately show ?thesis
    using p drive posix path_parts_good[OF p(8)]
    by (auto simp: normalize_relative_path_def Let_def)
qed

text \<open>The SDK's rules are weaker than the server's, and the results agree.\<close>

lemma sdk_normalize_agrees:
  assumes "normalize_relative_path nfc d b raw = Inr p"
  shows "sdk_normalize_relative_path nfc d b raw = Inr p"
proof -
  obtain parts n where "path_parts (split_on slash (nfc (to_posix raw))) = Inr parts"
    "p = join_with slash parts" "p \<noteq> []" "length parts \<le> d" "utf8_len p = Some n" "n \<le> b"
    "\<not> starts_with (nfc (to_posix raw)) [slash]"
    "\<not> (2 \<le> length (nfc (to_posix raw)) \<and> nfc (to_posix raw) ! 1 = 58)"
    using normalize_Inr[OF assms] by metis
  then show ?thesis
    by (auto simp: sdk_normalize_relative_path_def Let_def sdk_path_parts_agree)
qed

section \<open>Prefixes\<close>

lemma join_prefix_Inr:
  assumes "join_prefix nfc prefix rel = Inr key"
  shows "\<exists>p. normalize_default nfc rel = Inr p \<and> safe_path 64 1024 p \<and>
           (let c = strip_by (\<lambda>c. c = slash) prefix in key = (if c = [] then p else c @ slash # p))"
  using assms normalize_safe by (auto simp: join_prefix_def rbind_Inr_iff Let_def split: if_splits)

text \<open>Different normalized paths get different keys under one prefix.\<close>

lemma join_prefix_inj:
  "join_prefix nfc prefix a = Inr k \<Longrightarrow> join_prefix nfc prefix b = Inr k \<Longrightarrow>
   normalize_default nfc a = normalize_default nfc b"
  by (auto simp: join_prefix_def rbind_Inr_iff Let_def split: if_splits)

end
