(* ===== verification/Service.thy ===== *)
theory Service
  imports Settings Storage Paths
begin

text \<open>
  What the services of \<open>src/app/services\<close> share: the state they work on (the database,
  the object store, the metrics of \<open>src/app/core/metrics.py\<close>), the objects they are
  built from, and the transaction of a request handler.

  Functions outside the repository are fields of the service record: NFC normalization,
  \<open>datetime.fromisoformat\<close> and \<open>isoformat\<close>, the JSON codec, SHA-256, and the HMAC of permanent links with the
  secret and the message as arguments. \<open>sv_like\<close> is the database's \<open>LIKE\<close>
  with a pattern and a text, \<open>sv_rank\<close> its order of texts and nulls. One request sees one clock reading
  \<open>now\<close>, and the ids the database layer draws for new rows are arguments.
\<close>

section \<open>State\<close>

record metrics =
  m_active_sessions :: int
  m_requests_initiate :: nat
  m_parts :: nat
  m_part_bytes :: int
  m_resume :: nat
  m_complete :: nat
  m_abort :: nat
  m_expired :: nat
  m_directory_jobs :: nat
  m_directory_active_jobs :: int
  m_directory_entries :: nat
  m_directory_bytes :: int
  m_lifecycle_actions :: "pystr \<Rightarrow> nat"
  m_lifecycle_failures :: nat

definition zero_metrics :: metrics where
  "zero_metrics =
     \<lparr>m_active_sessions = 0, m_requests_initiate = 0, m_parts = 0, m_part_bytes = 0, m_resume = 0,
      m_complete = 0, m_abort = 0, m_expired = 0, m_directory_jobs = 0,
      m_directory_active_jobs = 0, m_directory_entries = 0, m_directory_bytes = 0,
      m_lifecycle_actions = (\<lambda>_. 0), m_lifecycle_failures = 0\<rparr>"

record 's world =
  w_db :: db
  w_store :: 's
  w_metrics :: metrics

type_synonym ('s, 'a) act = "('s world, error, 'a) eff"

record identity =
  tenant_id :: pystr
  principal_id :: pystr

record 's service =
  sv_settings :: settings
  sv_storage :: "'s storage_adapter"
  sv_postgresql :: bool
  sv_nfc :: "pystr \<Rightarrow> pystr"
  sv_parse_iso :: "pystr \<Rightarrow> dt option"
  sv_isoformat :: "dt \<Rightarrow> pystr"
  sv_loads :: "pystr \<Rightarrow> json option"
  sv_dumps :: "jobject \<Rightarrow> pystr"
  sv_sha256 :: "bytes \<Rightarrow> pystr"
  sv_hmac_sha256 :: "pystr \<Rightarrow> pystr \<Rightarrow> pystr"
  sv_like :: "pystr \<Rightarrow> pystr \<Rightarrow> bool"
  sv_rank :: "pystr option \<Rightarrow> int"

section \<open>Access to the parts of the state\<close>

definition get_db :: "(db \<Rightarrow> 'a) \<Rightarrow> ('s, 'a) act" where
  "get_db f = get (\<lambda>w. f (w_db w))"

definition modify_db :: "(db \<Rightarrow> db) \<Rightarrow> ('s, unit) act" where
  "modify_db f = modify (\<lambda>w. w\<lparr>w_db := f (w_db w)\<rparr>)"

definition try_db :: "(db \<Rightarrow> error + db) \<Rightarrow> ('s, unit) act" where
  "try_db f = (\<lambda>w. case f (w_db w) of
                 Inl e \<Rightarrow> (Inl e, w) | Inr d \<Rightarrow> (Inr (), w\<lparr>w_db := d\<rparr>))"

definition on_store :: "('s, error, 'a) eff \<Rightarrow> ('s, 'a) act" where
  "on_store m = (\<lambda>w. case m (w_store w) of (r, s) \<Rightarrow> (r, w\<lparr>w_store := s\<rparr>))"

definition count :: "(metrics \<Rightarrow> metrics) \<Rightarrow> ('s, unit) act" where
  "count f = modify (\<lambda>w. w\<lparr>w_metrics := f (w_metrics w)\<rparr>)"

text \<open>A Prometheus counter refuses a negative increment with a \<open>ValueError\<close>.\<close>

definition count_by :: "int \<Rightarrow> (metrics \<Rightarrow> metrics) \<Rightarrow> ('s, unit) act" where
  "count_by n f = seq (guard (0 \<le> n) (Crash ValueError)) (count f)"

definition require :: "error \<Rightarrow> 'a option \<Rightarrow> ('s, 'a) act" where
  "require e x = (case x of None \<Rightarrow> raise e | Some a \<Rightarrow> ret a)"

text \<open>An instant beyond the range of \<open>datetime\<close> is an \<open>OverflowError\<close>.\<close>

definition after_seconds :: "dt \<Rightarrow> int \<Rightarrow> ('s, dt) act" where
  "after_seconds t n = require (Crash OverflowError) (add_seconds t n)"

text \<open>
  A request handler commits the session when the service call returns; an exception leaves
  the session to be rolled back. What storage and metrics did is not undone.
\<close>

definition transaction :: "('s, 'a) act \<Rightarrow> ('s, 'a) act" where
  "transaction m = (\<lambda>w. case m w of
     (Inl e, w') \<Rightarrow> (Inl e, w'\<lparr>w_db := w_db w\<rparr>)
   | (Inr a, w') \<Rightarrow> (Inr a, w'))"

section \<open>Lemmas\<close>

lemma get_db_bnd [simp]: "bnd (get_db f) g w = g (f (w_db w)) w"
  by (simp add: get_db_def)

lemma modify_db_seq [simp]: "seq (modify_db f) k w = k (w\<lparr>w_db := f (w_db w)\<rparr>)"
  by (simp add: modify_db_def)

lemma count_seq [simp]: "seq (count f) k w = k (w\<lparr>w_metrics := f (w_metrics w)\<rparr>)"
  by (simp add: count_def)

lemma count_by_seq [simp]: "seq (count_by n f) k = (if 0 \<le> n then seq (count f) k else raise (Crash ValueError))"
  by (auto simp: count_by_def seq_def fun_eq_iff bnd_def guard_def ret_def raise_def
      split: prod.splits sum.splits)

lemma require_bnd [simp]:
  "bnd (require e (Some a)) f = f a" "bnd (require e None) f = raise e"
  by (simp_all add: require_def)

lemma get_db_Inr [effs]: "get_db f w = (Inr x, w') \<longleftrightarrow> w' = w \<and> x = f (w_db w)"
  by (auto simp: get_db_def get_def)

lemma modify_db_Inr [effs]: "modify_db f w = (Inr x, w') \<longleftrightarrow> w' = w\<lparr>w_db := f (w_db w)\<rparr>"
  by (auto simp: modify_db_def modify_def)

lemma count_Inr [effs]: "count f w = (Inr x, w') \<longleftrightarrow> w' = w\<lparr>w_metrics := f (w_metrics w)\<rparr>"
  by (auto simp: count_def modify_def)

lemma count_by_Inr [effs]:
  "count_by n f w = (Inr x, w') \<longleftrightarrow> 0 \<le> n \<and> w' = w\<lparr>w_metrics := f (w_metrics w)\<rparr>"
  by (auto simp: count_by_def count_def modify_def seq_def bnd_def guard_def ret_def raise_def)

lemma require_Inr [effs]: "require e x w = (Inr a, w') \<longleftrightarrow> x = Some a \<and> w' = w"
  by (auto simp: require_def ret_def raise_def split: option.splits)

lemma try_db_Inr [effs]: "try_db f w = (Inr u, w') \<longleftrightarrow> (\<exists>d. f (w_db w) = Inr d \<and> w' = w\<lparr>w_db := d\<rparr>)"
  by (auto simp: try_db_def split: sum.splits)

lemma on_store_Inr [effs]:
  "on_store m w = (r, w') \<longleftrightarrow> (\<exists>s. m (w_store w) = (r, s) \<and> w' = w\<lparr>w_store := s\<rparr>)"
  by (auto simp: on_store_def split: prod.splits)

lemma after_seconds_Inr [effs]:
  "after_seconds t n w = (Inr a, w') \<longleftrightarrow> add_seconds t n = Some a \<and> w' = w"
  by (auto simp: after_seconds_def require_Inr)

lemma transaction_Inr [effs]: "transaction m w = (Inr a, w') \<longleftrightarrow> m w = (Inr a, w')"
  by (auto simp: transaction_def split: prod.splits sum.splits)

lemma transaction_Inl: "transaction m w = (Inl e, w') \<Longrightarrow> w_db w' = w_db w"
  by (auto simp: transaction_def split: prod.splits sum.splits)

text \<open>Invariants of the database alone.\<close>

abbreviation on_db :: "(db \<Rightarrow> bool) \<Rightarrow> 's world \<Rightarrow> bool" where
  "on_db P \<equiv> \<lambda>w. P (w_db w)"

lemma keeps_get_db [keeps]: "keeps P (get_db f)"
  by (simp add: get_db_def)

lemma keeps_modify_db: "(\<And>d. P d \<Longrightarrow> P (f d)) \<Longrightarrow> keeps (on_db P) (modify_db f)"
  by (simp add: modify_db_def keeps_modify)

lemma keeps_try_db: "(\<And>d d'. P d \<Longrightarrow> f d = Inr d' \<Longrightarrow> P d') \<Longrightarrow> keeps (on_db P) (try_db f)"
  by (auto simp: keeps_def try_db_def split: sum.splits)

lemma keeps_on_store [keeps]: "keeps (on_db P) (on_store m)"
  by (auto simp: keeps_def on_store_def split: prod.splits)

lemma keeps_count [keeps]: "keeps (on_db P) (count f)"
  by (simp add: count_def keeps_modify)

lemma keeps_count_by [keeps]: "keeps (on_db P) (count_by n f)"
  unfolding count_by_def by (intro keeps_seq keeps_guard keeps_count)

lemma keeps_require [keeps]: "keeps P (require e x)"
  by (cases x) (simp_all add: require_def)

lemma keeps_bnd_get_db: "(\<And>d. P d \<Longrightarrow> keeps (on_db P) (g (f d))) \<Longrightarrow> keeps (on_db P) (bnd (get_db f) g)"
  by (auto simp: keeps_def)

lemma keeps_bnd_require: "(\<And>a. x = Some a \<Longrightarrow> keeps P (f a)) \<Longrightarrow> keeps P (bnd (require e x) f)"
  by (cases x) (simp_all add: require_def)

lemma keeps_bnd_lift: "(\<And>a. r = Inr a \<Longrightarrow> keeps P (f a)) \<Longrightarrow> keeps P (bnd (lift r) f)"
  by (cases r) simp_all

lemma keeps_seq_guard: "(c \<Longrightarrow> keeps P m) \<Longrightarrow> keeps P (seq (guard c e) m)"
  by simp

lemma keeps_after_seconds [keeps]: "keeps P (after_seconds t n)"
  by (simp add: after_seconds_def keeps_require)

lemma keeps_transaction [keeps]: "keeps (on_db P) m \<Longrightarrow> keeps (on_db P) (transaction m)"
  by (fastforce simp: keeps_def transaction_def split: prod.splits sum.splits)

text \<open>Invariants of the store alone.\<close>

abbreviation in_store :: "('s \<Rightarrow> bool) \<Rightarrow> 's world \<Rightarrow> bool" where
  "in_store P \<equiv> \<lambda>w. P (w_store w)"

lemma keeps_store_modify_db [keeps]: "keeps (in_store P) (modify_db f)"
  by (simp add: modify_db_def keeps_modify)

lemma keeps_store_try_db [keeps]: "keeps (in_store P) (try_db f)"
  by (auto simp: keeps_def try_db_def split: sum.splits)

lemma keeps_store_count [keeps]: "keeps (in_store P) (count f)"
  by (simp add: count_def keeps_modify)

lemma keeps_store_count_by [keeps]: "keeps (in_store P) (count_by n f)"
  unfolding count_by_def by (intro keeps_seq keeps_guard keeps_store_count)

lemma keeps_store_on_store: "keeps P m \<Longrightarrow> keeps (in_store P) (on_store m)"
  by (fastforce simp: keeps_def on_store_def split: prod.splits)

lemma keeps_store_transaction [keeps]: "keeps (in_store P) m \<Longrightarrow> keeps (in_store P) (transaction m)"
  by (fastforce simp: keeps_def transaction_def split: prod.splits sum.splits)

end
