(* ===== verification/LocalStorage.thy ===== *)
theory LocalStorage
  imports Storage Paths
begin

text \<open>
  The local adapter, \<open>src/app/storage/local.py\<close>, on the file system of
  \<open>FileSystem\<close>, and the proof that it honours the contract \<open>object_storage\<close>.

  A path is returned resolved; the code keeps it unresolved once it has checked where it
  leads, which is the same file. \<open>la_bad\<close> are the paths the operating system refuses
  to write, \<open>la_sha256\<close> is \<open>hashlib.sha256(...).hexdigest()\<close>, and
  \<open>la_dir_size\<close> the size \<open>stat\<close> reports for a directory.
\<close>

section \<open>The adapter\<close>

record local_adapter =
  la_root :: path
  la_multipart_root :: path
  la_bad :: "path \<Rightarrow> bool"
  la_sha256 :: "bytes \<Rightarrow> pystr"
  la_dir_size :: int

definition local_capabilities :: storage_capabilities where
  "local_capabilities =
     \<lparr>cap_multipart = True, cap_presigned_put = False, cap_presigned_get = False,
      cap_presigned_upload_part = False, cap_list_parts = True, cap_server_side_checksum = True,
      cap_archive = False, cap_transition = False, cap_restore = False\<rparr>"

text \<open>A NUL in a path is a \<open>ValueError\<close> of the operating system interface.\<close>

definition safe_join :: "path \<Rightarrow> pystr list \<Rightarrow> error + path" where
  "safe_join root ps =
     (let resolved = resolve (joinpath root ps); resolved_root = resolve root
      in if \<exists>p\<in>set ps. 0 \<in> set p then Inl (Crash ValueError)
         else if resolved \<noteq> resolved_root \<and> \<not> is_relative_to resolved resolved_root
         then Inl (Crash ValueError)
         else Inr resolved)"

definition object_path :: "local_adapter \<Rightarrow> pystr \<Rightarrow> pystr \<Rightarrow> error + path" where
  "object_path A bucket object_key = safe_join (la_root A) (bucket # split_on slash object_key)"

text \<open>\<open>f"{part_number:08d}.part"\<close>.\<close>

definition pad8 :: "int \<Rightarrow> pystr" where
  "pad8 n =
     (if n < 0 then 45 # replicate (7 - length (nat_digits (nat (- n)))) 48 @ nat_digits (nat (- n))
      else replicate (8 - length (nat_digits (nat n))) 48 @ nat_digits (nat n))"

definition part_name :: "int \<Rightarrow> pystr" where
  "part_name n = pad8 n @ lit ''.part''"

definition parts_dir :: "local_adapter \<Rightarrow> pystr \<Rightarrow> error + path" where
  "parts_dir A upload_id = safe_join (la_multipart_root A) [upload_id, lit ''parts'']"

definition part_path :: "local_adapter \<Rightarrow> pystr \<Rightarrow> int \<Rightarrow> error + path" where
  "part_path A upload_id n = rbind (parts_dir A upload_id) (\<lambda>d. Inr (d @ [part_name n]))"

text \<open>\<open>destination.with_suffix(destination.suffix + ".tmp")\<close>.\<close>

definition temp_path :: "path \<Rightarrow> path" where
  "temp_path p = butlast p @ [last p @ lit ''.tmp'']"

text \<open>A file system operation, with the exception its failure becomes.\<close>

definition attempt :: "(fs \<Rightarrow> bool \<times> fs) \<Rightarrow> error \<Rightarrow> (fs, error, unit) eff" where
  "attempt f e = (\<lambda>t. case f t of (ok, t') \<Rightarrow> (if ok then Inr () else Inl e, t'))"

definition local_put_object ::
    "local_adapter \<Rightarrow> pystr \<Rightarrow> pystr \<Rightarrow> bytes \<Rightarrow> pystr option \<Rightarrow> int option \<Rightarrow> pystr option
     \<Rightarrow> (fs, error, stored_object) eff" where
  "local_put_object A bucket object_key stream content_type size_bytes checksum_sha256 =
     bnd (lift (object_path A bucket object_key)) (\<lambda>destination.
     let temporary = temp_path destination; bad = la_bad A; digest = la_sha256 A stream in
     seq (attempt (mkdirs bad [] (butlast destination)) (Crash OSError))
    (seq (catch
           (seq (attempt (write_file bad temporary stream) StorageUnavailableError)
                (attempt (replace_file bad temporary destination) StorageUnavailableError))
           (\<lambda>e. seq (attempt (unlink bad temporary) (Crash OSError)) (raise e)))
    (seq (case checksum_sha256 of
            None \<Rightarrow> ret ()
          | Some c \<Rightarrow>
              if c \<noteq> digest
              then seq (attempt (unlink bad destination) (Crash OSError)) (raise ChecksumMismatchError)
              else ret ())
         (ret \<lparr>so_bucket = bucket, so_object_key = object_key,
               so_size_bytes = (case size_bytes of None \<Rightarrow> int (length stream) | Some n \<Rightarrow> n),
               so_etag = Some digest, so_content_type = content_type\<rparr>))))"

definition local_get_object ::
    "local_adapter \<Rightarrow> pystr \<Rightarrow> pystr \<Rightarrow> nat \<Rightarrow> int option \<Rightarrow> (fs, error, object_stream) eff" where
  "local_get_object A bucket object_key offset len =
     bnd (lift (object_path A bucket object_key)) (\<lambda>p.
     bnd (get (\<lambda>t. node_at t p)) (\<lambda>n. case n of
       None \<Rightarrow> raise (ApiErr ''FILE_NOT_FOUND'' 404)
     | Some Dir \<Rightarrow> ret \<lparr>os_size_bytes = la_dir_size A, os_content_type = None, os_etag = None,
                       os_chunks = Inl (Crash OSError)\<rparr>
     | Some (File b) \<Rightarrow> ret \<lparr>os_size_bytes = int (length b), os_content_type = None, os_etag = None,
                            os_chunks = Inr (read_slice offset len b)\<rparr>))"

definition local_delete_object :: "local_adapter \<Rightarrow> pystr \<Rightarrow> pystr \<Rightarrow> (fs, error, unit) eff" where
  "local_delete_object A bucket object_key =
     bnd (lift (object_path A bucket object_key)) (\<lambda>p.
       attempt (unlink (la_bad A) p) (Crash OSError))"

definition local_create_bucket :: "local_adapter \<Rightarrow> pystr \<Rightarrow> (fs, error, unit) eff" where
  "local_create_bucket A bucket =
     bnd (lift (safe_join (la_root A) [bucket])) (\<lambda>p.
     bnd (get (path_exists p)) (\<lambda>there.
     seq (guard (\<not> there) (ApiErr ''BUCKET_ALREADY_EXISTS'' 409))
         (attempt (mkdirs (la_bad A) [] p) StorageUnavailableError)))"

text \<open>Only the \<open>ValueError\<close> of \<open>safe_join\<close> is caught.\<close>

definition local_bucket_exists :: "local_adapter \<Rightarrow> pystr \<Rightarrow> (fs, error, bool) eff" where
  "local_bucket_exists A bucket =
     (case safe_join (la_root A) [bucket] of
        Inl _ \<Rightarrow> ret False
      | Inr p \<Rightarrow> get (is_dir p))"

text \<open>
  \<open>shutil.rmtree\<close>: what cannot be removed stays, with the directories it is in.
\<close>

definition remains :: "(path \<Rightarrow> bool) \<Rightarrow> fs \<Rightarrow> path \<Rightarrow> bool" where
  "remains bad t q \<longleftrightarrow> (\<exists>e\<in>set t. prefix q (fst e) \<and> bad (fst e))"

definition rmtree :: "(path \<Rightarrow> bool) \<Rightarrow> path \<Rightarrow> fs \<Rightarrow> bool \<times> fs" where
  "rmtree bad p t =
     (\<not> remains bad t p, filter (\<lambda>e. \<not> prefix p (fst e) \<or> remains bad t (fst e)) t)"

definition local_delete_bucket :: "local_adapter \<Rightarrow> pystr \<Rightarrow> (fs, error, unit) eff" where
  "local_delete_bucket A bucket =
     bnd (lift (safe_join (la_root A) [bucket])) (\<lambda>p.
     bnd (get (\<lambda>t. (is_dir p t, has_file_below p t))) (\<lambda>(dir, used).
       if \<not> dir then ret ()
       else seq (guard (\<not> used) (ApiErr ''BUCKET_NOT_EMPTY'' 409))
                (attempt (rmtree (la_bad A) p) StorageUnavailableError)))"

definition local_object_exists :: "local_adapter \<Rightarrow> pystr \<Rightarrow> pystr \<Rightarrow> (fs, error, bool) eff" where
  "local_object_exists A bucket object_key =
     bnd (lift (object_path A bucket object_key)) (\<lambda>p. get (path_exists p))"

definition local_initiate_multipart_upload ::
    "local_adapter \<Rightarrow> pystr \<Rightarrow> pystr \<Rightarrow> pystr option \<Rightarrow> (fs, error, pystr) eff" where
  "local_initiate_multipart_upload A bucket object_key content_type = ret []"

definition local_upload_part ::
    "local_adapter \<Rightarrow> pystr \<Rightarrow> pystr \<Rightarrow> pystr \<Rightarrow> int \<Rightarrow> bytes \<Rightarrow> int \<Rightarrow> pystr option
     \<Rightarrow> (fs, error, uploaded_part) eff" where
  "local_upload_part A bucket object_key upload_id part_number stream size_bytes checksum =
     bnd (lift (part_path A upload_id part_number)) (\<lambda>p.
     let bad = la_bad A; written = int (length stream); digest = la_sha256 A stream in
     seq (attempt (mkdirs bad [] (butlast p)) (Crash OSError))
    (seq (catch (attempt (write_file bad p stream) StorageUnavailableError)
            (\<lambda>e. seq (attempt (unlink bad p) (Crash OSError)) (raise e)))
    (if written \<noteq> size_bytes
     then seq (attempt (unlink bad p) (Crash OSError)) (raise (Crash ValueError))
     else ret \<lparr>up_part_number = part_number, up_etag = digest, up_size_bytes = written,
               up_checksum_sha256 = Some digest\<rparr>)))"

text \<open>
  \<open>sorted(parts_dir.glob("*.part"))\<close>, with the number in each name; a name that is no
  number is a \<open>ValueError\<close>.
\<close>

fun parts_of_names :: "path \<Rightarrow> fs \<Rightarrow> int \<Rightarrow> pystr list \<Rightarrow> error + uploaded_part list" where
  "parts_of_names d t dir_size [] = Inr []"
| "parts_of_names d t dir_size (name # names) =
     (case py_int (take (length name - 5) name) of
        None \<Rightarrow> Inl (Crash ValueError)
      | Some n \<Rightarrow>
          rbind (parts_of_names d t dir_size names) (\<lambda>ps.
            Inr (\<lparr>up_part_number = n, up_etag = [],
                  up_size_bytes = (case node_at t (d @ [name]) of
                                     Some (File b) \<Rightarrow> int (length b) | _ \<Rightarrow> dir_size),
                  up_checksum_sha256 = None\<rparr> # ps)))"

definition local_list_parts ::
    "local_adapter \<Rightarrow> pystr \<Rightarrow> pystr \<Rightarrow> pystr \<Rightarrow> (fs, error, uploaded_part list) eff" where
  "local_list_parts A bucket object_key upload_id =
     bnd (lift (parts_dir A upload_id)) (\<lambda>d. \<lambda>t.
       if \<not> path_exists d t then (Inr [], t)
       else (parts_of_names d t (la_dir_size A)
               (sort (filter (\<lambda>n. ends_with n (lit ''.part'')) (children d t))), t))"

text \<open>The part files of a list of parts, up to the first one that is missing.\<close>

fun read_part_files :: "path \<Rightarrow> fs \<Rightarrow> uploaded_part list \<Rightarrow> bool \<times> bytes" where
  "read_part_files d t [] = (True, [])"
| "read_part_files d t (p # ps) =
     (case file_content (d @ [part_name (up_part_number p)]) t of
        None \<Rightarrow> (False, [])
      | Some b \<Rightarrow> (case read_part_files d t ps of (ok, bs) \<Rightarrow> (ok, b @ bs)))"

text \<open>The body of the \<open>try\<close>; a missing part file is a \<open>FileNotFoundError\<close>.\<close>

definition assemble :: "local_adapter \<Rightarrow> path \<Rightarrow> path \<Rightarrow> uploaded_part list \<Rightarrow> (fs, error, bytes) eff" where
  "assemble A destination d ps =
     bnd (get (\<lambda>t. read_part_files d t (sorted_parts ps))) (\<lambda>x.
     seq (attempt (write_file (la_bad A) (temp_path destination) (snd x)) (Crash OSError))
    (seq (guard (fst x) (Crash OSError))
    (seq (attempt (replace_file (la_bad A) (temp_path destination) destination) (Crash OSError))
         (ret (snd x)))))"

definition remove_upload_dir :: "local_adapter \<Rightarrow> pystr \<Rightarrow> (fs, error, unit) eff" where
  "remove_upload_dir A upload_id =
     bnd (lift (safe_join (la_multipart_root A) [upload_id])) (\<lambda>u.
       modify (\<lambda>t. snd (rmtree (la_bad A) u t)))"

definition local_complete_multipart_upload ::
    "local_adapter \<Rightarrow> pystr \<Rightarrow> pystr \<Rightarrow> pystr \<Rightarrow> uploaded_part list
     \<Rightarrow> (fs, error, stored_object) eff" where
  "local_complete_multipart_upload A bucket object_key upload_id ps =
     bnd (lift (object_path A bucket object_key)) (\<lambda>destination.
     seq (attempt (mkdirs (la_bad A) [] (butlast destination)) (Crash OSError))
    (bnd (lift (parts_dir A upload_id)) (\<lambda>d.
     bnd (ensure (assemble A destination d ps) (remove_upload_dir A upload_id)) (\<lambda>data.
       ret \<lparr>so_bucket = bucket, so_object_key = object_key,
            so_size_bytes = int (length data), so_etag = Some (la_sha256 A data),
            so_content_type = None\<rparr>))))"

definition local_abort_multipart_upload ::
    "local_adapter \<Rightarrow> pystr \<Rightarrow> pystr \<Rightarrow> pystr \<Rightarrow> (fs, error, unit) eff" where
  "local_abort_multipart_upload A bucket object_key upload_id = remove_upload_dir A upload_id"

definition local_storage :: "local_adapter \<Rightarrow> fs storage_adapter" where
  "local_storage A =
     \<lparr>st_capabilities = local_capabilities,
      st_backend_name = lit ''local'',
      st_is_local = True,
      st_create_bucket = local_create_bucket A,
      st_bucket_exists = local_bucket_exists A,
      st_delete_bucket = local_delete_bucket A,
      st_put_object = local_put_object A,
      st_get_object = local_get_object A,
      st_delete_object = local_delete_object A,
      st_object_exists = local_object_exists A,
      st_initiate_multipart_upload = local_initiate_multipart_upload A,
      st_upload_part = local_upload_part A,
      st_list_parts = local_list_parts A,
      st_complete_multipart_upload = local_complete_multipart_upload A,
      st_abort_multipart_upload = local_abort_multipart_upload A,
      st_create_presigned_put_url =
        (\<lambda>_ _ _. raise (StorageCapabilityNotSupportedError ''presigned_put'')),
      st_create_presigned_get_url =
        (\<lambda>_ _ _. raise (StorageCapabilityNotSupportedError ''presigned_get'')),
      st_create_presigned_upload_part_url =
        (\<lambda>_ _ _ _ _. raise (StorageCapabilityNotSupportedError ''presigned_upload_part''))\<rparr>"

section \<open>Where the paths lead\<close>

definition component :: "pystr \<Rightarrow> bool" where
  "component c \<longleftrightarrow> c \<noteq> [] \<and> c \<noteq> lit ''.'' \<and> c \<noteq> lit ''..'' \<and> slash \<notin> set c \<and> 0 \<notin> set c"

text \<open>The roots are resolved paths.\<close>

definition adapter_ok :: "local_adapter \<Rightarrow> bool" where
  "adapter_ok A \<longleftrightarrow> lit ''..'' \<notin> set (la_root A) \<and> lit ''..'' \<notin> set (la_multipart_root A)"

text \<open>
  The buckets and keys the contract covers: proper path components, a bucket directory apart
  from the multipart directory, and no name that ends like a temporary file.
\<close>

definition local_place :: "local_adapter \<Rightarrow> pystr \<Rightarrow> pystr \<Rightarrow> bool" where
  "local_place A b k \<longleftrightarrow>
     component b \<and> (\<forall>c\<in>set (split_on slash k). component c)
     \<and> \<not> ends_with (last (split_on slash k)) (lit ''.tmp'')
     \<and> \<not> prefix (la_multipart_root A) (la_root A @ [b])
     \<and> \<not> prefix (la_root A @ [b]) (la_multipart_root A)"

definition object_file :: "local_adapter \<Rightarrow> pystr \<Rightarrow> pystr \<Rightarrow> path" where
  "object_file A b k = la_root A @ b # split_on slash k"

definition part_file :: "local_adapter \<Rightarrow> pystr \<Rightarrow> int \<Rightarrow> path" where
  "part_file A u n = la_multipart_root A @ [u, lit ''parts'', part_name n]"

definition local_content :: "local_adapter \<Rightarrow> fs \<Rightarrow> pystr \<Rightarrow> pystr \<Rightarrow> bytes option" where
  "local_content A t b k = file_content (object_file A b k) t"

definition local_staged :: "local_adapter \<Rightarrow> fs \<Rightarrow> pystr \<Rightarrow> int \<Rightarrow> bytes option" where
  "local_staged A t u n = file_content (part_file A u n) t"

lemma starts_with_slash: "slash \<notin> set p \<Longrightarrow> \<not> starts_with p [slash]"
  by (auto simp: starts_with_iff)

lemma joinpath_components:
  "(\<And>c. c \<in> set ps \<Longrightarrow> component c) \<Longrightarrow> joinpath root ps = root @ ps"
  unfolding joinpath_def
  by (induction ps arbitrary: root)
    (auto simp: join_part_def component_def starts_with_slash split_on_no_sep)

lemma safe_join_components:
  assumes "lit ''..'' \<notin> set root" "\<And>c. c \<in> set ps \<Longrightarrow> component c"
  shows "safe_join root ps = Inr (root @ ps)"
proof -
  have "lit ''..'' \<notin> set ps" using assms(2) by (auto simp: component_def)
  then have "resolve (joinpath root ps) = root @ ps"
    using assms by (subst joinpath_components) (simp_all add: resolve_no_dots)
  moreover have "resolve root = root" using assms(1) by (rule resolve_no_dots)
  moreover have "\<not> (\<exists>p\<in>set ps. 0 \<in> set p)" using assms(2) by (auto simp: component_def)
  ultimately show ?thesis by (simp add: safe_join_def Let_def is_relative_to_def)
qed

text \<open>Whatever the parts are, the result lies under the root.\<close>

lemma safe_join_inside: "safe_join root ps = Inr p \<Longrightarrow> prefix (resolve root) p"
  by (auto simp: safe_join_def Let_def is_relative_to_prefix split: if_splits)

lemma object_path_place:
  "adapter_ok A \<Longrightarrow> local_place A b k \<Longrightarrow> object_path A b k = Inr (object_file A b k)"
  unfolding object_path_def object_file_def adapter_ok_def local_place_def
  by (subst safe_join_components) auto

lemma component_parts [simp]: "component (lit ''parts'')"
  by (simp add: component_def lit_def)

lemma parts_dir_token:
  "adapter_ok A \<Longrightarrow> component u \<Longrightarrow>
   parts_dir A u = Inr (la_multipart_root A @ [u, lit ''parts''])"
  unfolding parts_dir_def adapter_ok_def by (subst safe_join_components) auto

lemma part_path_token:
  "adapter_ok A \<Longrightarrow> component u \<Longrightarrow> part_path A u n = Inr (part_file A u n)"
  by (simp add: part_path_def parts_dir_token part_file_def)

lemma upload_dir_token:
  "adapter_ok A \<Longrightarrow> component u \<Longrightarrow>
   safe_join (la_multipart_root A) [u] = Inr (la_multipart_root A @ [u])"
  unfolding adapter_ok_def by (subst safe_join_components) auto

text \<open>Different places are different files.\<close>

lemma split_on_inj: "split_on c xs = split_on c ys \<Longrightarrow> xs = ys"
  by (metis join_split)

lemma object_file_inj: "object_file A b k = object_file A b' k' \<longleftrightarrow> b = b' \<and> k = k'"
  by (auto simp: object_file_def dest: split_on_inj)

lemma object_file_neq_Nil [simp]: "object_file A b k \<noteq> []"
  by (simp add: object_file_def)

lemma temp_path_neq_Nil [simp]: "temp_path p \<noteq> []"
  by (simp add: temp_path_def)

lemma butlast_object_file:
  "butlast (object_file A b k) = la_root A @ b # butlast (split_on slash k)"
  by (simp add: object_file_def butlast_append)

lemma temp_object_file:
  "temp_path (object_file A b k) =
     la_root A @ b # butlast (split_on slash k) @ [last (split_on slash k) @ lit ''.tmp'']"
  by (simp add: temp_path_def butlast_object_file) (simp add: object_file_def)

lemma temp_not_object:
  assumes "local_place A b' k'"
  shows "temp_path (object_file A b k) \<noteq> object_file A b' k'"
proof
  assume eq: "temp_path (object_file A b k) = object_file A b' k'"
  then have "split_on slash k' = butlast (split_on slash k) @ [last (split_on slash k) @ lit ''.tmp'']"
    by (simp add: temp_object_file) (simp add: object_file_def)
  then have "ends_with (last (split_on slash k')) (lit ''.tmp'')" by (simp add: ends_with_def)
  then show False using assms by (simp add: local_place_def)
qed

text \<open>Bucket directories and the multipart directory do not meet.\<close>

lemma apart:
  assumes "local_place A b k" "prefix (la_root A @ [b]) p" "prefix (la_multipart_root A) p"
  shows False
  using assms prefix_same_cases[OF assms(2,3)] by (auto simp: local_place_def)

lemma prefix_object_file: "prefix (la_root A @ [b]) (object_file A b k)"
  by (simp add: object_file_def)

lemma prefix_temp: "prefix (la_root A @ [b]) (temp_path (object_file A b k))"
  by (simp add: temp_object_file)

lemma prefix_part_file: "prefix (la_multipart_root A) (part_file A u n)"
  by (simp add: part_file_def)

section \<open>The contract holds\<close>

lemma int_digits_pad8:
  assumes "0 \<le> n"
  shows "int_digits 0 (pad8 n) = Some n"
proof -
  have zeros: "int_digits 0 (replicate k 48 @ ds) = int_digits 0 ds" for k ds
    using digit_val_ascii[of 0] by (induction k) auto
  obtain c cs d where "nat_digits (nat n) = c # cs" "digit_val c = Some d"
    "int_digits d cs = Some (int (nat n))" using int_digits_nat_digits by blast
  then show ?thesis using assms zeros by (simp add: pad8_def)
qed

lemma pad8_inj:
  assumes "0 \<le> n" "0 \<le> m"
  shows "pad8 n = pad8 m \<longleftrightarrow> n = m"
  by (metis int_digits_pad8 assms option.inject)

lemma part_file_inj:
  "0 \<le> n \<Longrightarrow> 0 \<le> m \<Longrightarrow> part_file A u n = part_file A v m \<longleftrightarrow> u = v \<and> n = m"
  by (auto simp: part_file_def part_name_def pad8_inj)

lemma keeps_attempt:
  "(\<And>t ok t'. P t \<Longrightarrow> f t = (ok, t') \<Longrightarrow> P t') \<Longrightarrow> keeps P (attempt f e)"
  by (auto simp: keeps_def attempt_def split: prod.splits)

lemma attempt_Inr [effs]: "attempt f e t = (Inr x, t') \<longleftrightarrow> f t = (True, t')"
  by (auto simp: attempt_def split: prod.splits)

lemma keeps_mkdirs [keeps]: "keeps (\<lambda>t. file_content q t = c) (attempt (mkdirs bad anc cs) e)"
  by (rule keeps_attempt) (simp add: mkdirs_file_content)

lemma keeps_write_file:
  assumes "p \<noteq> []" "q \<noteq> p"
  shows "keeps (\<lambda>t. file_content q t = c) (attempt (write_file bad p b) e)"
proof (rule keeps_attempt)
  fix t ok t' assume "file_content q t = c" "write_file bad p b t = (ok, t')"
  then show "file_content q t' = c"
    using write_file_content[of bad p b t t' q] write_file_failed[of bad p b t t'] assms
    by (cases ok) auto
qed

lemma keeps_replace_file:
  assumes "p \<noteq> []" "p' \<noteq> []" "q \<noteq> p" "q \<noteq> p'"
  shows "keeps (\<lambda>t. file_content q t = c) (attempt (replace_file bad p p') e)"
proof (rule keeps_attempt)
  fix t ok t' assume "file_content q t = c" "replace_file bad p p' t = (ok, t')"
  then show "file_content q t' = c"
    using replace_file_content[of bad p p' t t' q] replace_file_failed[of bad p p' t t'] assms
    by (cases ok) auto
qed

lemma keeps_unlink:
  assumes "p \<noteq> []" "q \<noteq> p"
  shows "keeps (\<lambda>t. file_content q t = c) (attempt (unlink bad p) e)"
proof (rule keeps_attempt)
  fix t ok t' assume "file_content q t = c" "unlink bad p t = (ok, t')"
  then show "file_content q t' = c" using unlink_content[of bad p t ok t' q] assms by simp
qed

lemma rmtree_content:
  assumes "\<not> prefix p q"
  shows "file_content q (snd (rmtree bad p t)) = file_content q t"
proof -
  have "node_at (snd (rmtree bad p t)) q = node_at t q"
    using map_of_filter_key[of "\<lambda>x. \<not> prefix p x \<or> remains bad t x" t q] assms
    by (simp add: rmtree_def node_at_def)
  then show ?thesis by (simp add: file_content_def)
qed

lemma keeps_rmtree:
  "\<not> prefix p q \<Longrightarrow> keeps (\<lambda>t. file_content q t = c) (modify (\<lambda>t. snd (rmtree bad p t)))"
  by (rule keeps_modify) (simp add: rmtree_content)

lemma keeps_checksum:
  "keeps P m \<Longrightarrow> keeps P (case x of None \<Rightarrow> ret () | Some c \<Rightarrow> if c \<noteq> d then seq m (raise e) else ret ())"
  by (auto split: option.split intro!: keeps)

text \<open>Which files an operation leaves alone.\<close>

lemma keeps_local_put:
  assumes "adapter_ok A" "local_place A b k"
    and q: "q \<noteq> object_file A b k" "q \<noteq> temp_path (object_file A b k)"
  shows "keeps (\<lambda>t. file_content q t = c) (local_put_object A b k data ct sz cs)"
  unfolding local_put_object_def Let_def object_path_place[OF assms(1,2)] bnd_simps
  by (intro keeps_seq keeps_mkdirs keeps_catch keeps_write_file keeps_replace_file keeps_unlink
      keeps_raise keeps_checksum keeps_ret) (simp_all add: q)

lemma keeps_local_delete:
  assumes "adapter_ok A" "local_place A b k" "q \<noteq> object_file A b k"
  shows "keeps (\<lambda>t. file_content q t = c) (local_delete_object A b k)"
  unfolding local_delete_object_def object_path_place[OF assms(1,2)] bnd_simps
  by (intro keeps_unlink) (simp_all add: assms(3))

lemma part_file_neq_Nil [simp]: "part_file A u n \<noteq> []"
  by (simp add: part_file_def)

lemma keeps_local_part:
  assumes "adapter_ok A" "component u" "q \<noteq> part_file A u n"
  shows "keeps (\<lambda>t. file_content q t = c) (local_upload_part A b k u n data sz cs)"
  unfolding local_upload_part_def Let_def part_path_token[OF assms(1,2)] bnd_simps
  by (intro keeps_seq keeps_mkdirs keeps_catch keeps_write_file keeps_unlink keeps_raise keeps_if
      keeps_ret) (simp_all add: assms(3))

lemma keeps_remove_upload_dir:
  assumes "adapter_ok A" "component u" "\<not> prefix (la_multipart_root A @ [u]) q"
  shows "keeps (\<lambda>t. file_content q t = c) (remove_upload_dir A u)"
  unfolding remove_upload_dir_def upload_dir_token[OF assms(1,2)] bnd_simps
  by (intro keeps_rmtree assms)

lemma keeps_local_complete:
  assumes "adapter_ok A" "local_place A b k" "component u"
    and q: "q \<noteq> object_file A b k" "q \<noteq> temp_path (object_file A b k)"
      "\<not> prefix (la_multipart_root A @ [u]) q"
  shows "keeps (\<lambda>t. file_content q t = c) (local_complete_multipart_upload A b k u ps)"
  unfolding local_complete_multipart_upload_def assemble_def object_path_place[OF assms(1,2)]
    parts_dir_token[OF assms(1,3)] bnd_simps(3)
  by (intro keeps_seq keeps_mkdirs keeps_bnd keeps_lift keeps_ensure keeps_get keeps_write_file
      keeps_guard keeps_replace_file keeps_ret keeps_remove_upload_dir[OF assms(1,3)])
    (simp_all add: q)

lemma read_part_files_all:
  "read_part_files d t ps = (True, data) \<Longrightarrow>
   \<exists>bs. map (\<lambda>p. file_content (d @ [part_name (up_part_number p)]) t) ps = map Some bs
      \<and> data = concat bs"
proof (induction ps arbitrary: data)
  case (Cons p ps)
  then obtain b data' where b: "file_content (d @ [part_name (up_part_number p)]) t = Some b"
    and r: "read_part_files d t ps = (True, data')" "data = b @ data'"
    by (auto split: option.splits prod.splits)
  from Cons.IH[OF r(1)] obtain bs where
    "map (\<lambda>p. file_content (d @ [part_name (up_part_number p)]) t) ps = map Some bs"
    "data' = concat bs" by blast
  then show ?case using b r(2) by (intro exI[of _ "b # bs"]) simp
qed simp

lemma local_complete_content:
  assumes "adapter_ok A" "local_place A b k" "component u"
    and run: "local_complete_multipart_upload A b k u ps s = (Inr x, s')"
  shows "\<exists>bs. map (\<lambda>p. local_staged A s u (up_part_number p)) (sorted_parts ps) = map Some bs
    \<and> local_content A s' b k = Some (concat bs)"
proof -
  let ?dest = "object_file A b k" and ?d = "la_multipart_root A @ [u, lit ''parts'']"
  obtain t1 t2 t3 where t1: "mkdirs (la_bad A) [] (butlast ?dest) s = (True, t1)"
    and all: "fst (read_part_files ?d t1 (sorted_parts ps))"
    and t2: "write_file (la_bad A) (temp_path ?dest) (snd (read_part_files ?d t1 (sorted_parts ps))) t1
             = (True, t2)"
    and t3: "replace_file (la_bad A) (temp_path ?dest) ?dest t2 = (True, t3)"
    and s': "remove_upload_dir A u t3 = (Inr (), s')"
    using run unfolding local_complete_multipart_upload_def assemble_def
      object_path_place[OF assms(1,2)] parts_dir_token[OF assms(1,3)]
    by (auto simp: effs split: if_splits)
  define data where "data = snd (read_part_files ?d t1 (sorted_parts ps))"
  have data: "read_part_files ?d t1 (sorted_parts ps) = (True, data)"
    using all by (simp add: data_def prod_eq_iff)
  have "file_content ?dest t3 = Some data"
    using replace_file_content[OF t3, of ?dest] write_file_content[OF t2, of "temp_path ?dest"]
    by (auto simp: data_def)
  moreover have "\<not> prefix (la_multipart_root A @ [u]) ?dest"
    using apart[OF assms(2) prefix_object_file] append_prefixD by metis
  ultimately have "file_content ?dest s' = Some data"
    using keepsD[OF keeps_remove_upload_dir[OF assms(1,3)] _ s', of ?dest "Some data"] by simp
  moreover have "file_content q t1 = file_content q s" for q by (rule mkdirs_file_content[OF t1])
  ultimately show ?thesis
    using read_part_files_all[OF data]
    by (auto simp: local_content_def local_staged_def part_file_def)
qed

lemma local_upload_part_staged:
  assumes "adapter_ok A" "component u"
    and run: "local_upload_part A b k u n data sz cs s = (Inr p, s')"
  shows "local_staged A s' u n = Some data \<and> up_part_number p = n
    \<and> up_size_bytes p = int (length data) \<and> sz = int (length data)"
proof -
  note r = run[unfolded local_upload_part_def part_path_token[OF assms(1,2)] bnd_simps(3) Let_def
      seq_def bnd_Inr_iff catch_reraise]
  then obtain t t' where t: "write_file (la_bad A) (part_file A u n) data t = (True, t')"
    and rest: "(if int (length data) \<noteq> sz
        then bnd (attempt (unlink (la_bad A) (part_file A u n)) (Crash OSError)) (\<lambda>_. raise (Crash ValueError))
        else ret \<lparr>up_part_number = n, up_etag = la_sha256 A data, up_size_bytes = int (length data),
              up_checksum_sha256 = Some (la_sha256 A data)\<rparr>) t' = (Inr p, s')"
    by (auto simp only: attempt_Inr)
  have "sz = int (length data)"
    using rest by (cases "int (length data) = sz") (simp_all add: bnd_Inr_iff raise_def)
  then have "t' = s'" "up_part_number p = n" "up_size_bytes p = int (length data)"
    using rest by (auto simp: ret_def)
  then show ?thesis
    using write_file_content[OF t, of "part_file A u n"] \<open>sz = int (length data)\<close>
    by (simp add: local_staged_def)
qed

lemma not_prefix_upload_dir:
  "local_place A b k \<Longrightarrow> \<not> prefix (la_multipart_root A @ [u]) (object_file A b k)"
  using apart[OF _ prefix_object_file] append_prefixD by metis

lemma object_not_part: "local_place A b k \<Longrightarrow> object_file A b k \<noteq> part_file A u n"
  using apart[OF _ prefix_object_file] prefix_part_file by metis

lemma temp_not_part: "local_place A b k \<Longrightarrow> temp_path (object_file A b k) \<noteq> part_file A u n"
  using apart[OF _ prefix_temp] prefix_part_file by metis

lemma upload_dir_part: "prefix (la_multipart_root A @ [u]) (part_file A v n) \<longleftrightarrow> u = v"
  by (auto simp: part_file_def)

text \<open>An action that keeps the content of every file but some keeps what is stored elsewhere.\<close>

lemma keeps_file:
  assumes "\<And>c. keeps (\<lambda>t. file_content q t = c) m" "m t = (r, t')"
  shows "file_content q t' = file_content q t"
  using keepsD[OF assms(1)[of "file_content q t"] _ assms(2)] by simp

lemma local_put_content:
  assumes "adapter_ok A" "local_place A b k"
    and run: "local_put_object A b k data ct sz cs s = (Inr x, s')"
  shows "local_content A s' b k = Some data"
proof -
  let ?dest = "object_file A b k"
  obtain t1 t2 where
    body: "catch (bnd (attempt (write_file (la_bad A) (temp_path ?dest) data) StorageUnavailableError)
        (\<lambda>_. attempt (replace_file (la_bad A) (temp_path ?dest) ?dest) StorageUnavailableError))
      (\<lambda>e. bnd (attempt (unlink (la_bad A) (temp_path ?dest)) (Crash OSError)) (\<lambda>_. raise e)) t1
        = (Inr (), t2)"
    and rest: "(case cs of None \<Rightarrow> ret ()
        | Some c \<Rightarrow> if c \<noteq> la_sha256 A data
            then bnd (attempt (unlink (la_bad A) ?dest) (Crash OSError)) (\<lambda>_. raise ChecksumMismatchError)
            else ret ()) t2 = (Inr (), s')"
    using run[unfolded local_put_object_def object_path_place[OF assms(1,2)] bnd_simps(3) Let_def seq_def]
    unfolding bnd_Inr_iff ret_def by auto
  have t2: "t2 = s'" using rest by (auto simp: bnd_Inr_iff raise_def ret_def split: option.splits if_splits)
  obtain t where "write_file (la_bad A) (temp_path ?dest) data t1 = (True, t)"
    and "replace_file (la_bad A) (temp_path ?dest) ?dest t = (True, s')"
    using body unfolding catch_reraise bnd_Inr_iff attempt_Inr t2 by auto
  then show ?thesis
    using replace_file_content[of "la_bad A" "temp_path ?dest" ?dest t s' ?dest]
      write_file_content[of "la_bad A" "temp_path ?dest" data t1 t "temp_path ?dest"]
    by (auto simp: local_content_def)
qed

lemma local_get_content:
  assumes "adapter_ok A" "local_place A b k" "local_content A s b k = Some data"
  shows "\<exists>y. local_get_object A b k off len s = (Inr y, s) \<and> os_chunks y = Inr (read_slice off len data)
    \<and> os_size_bytes y = int (length data)"
  using assms(3)
  by (auto simp: local_get_object_def object_path_place[OF assms(1,2)] local_content_def
      file_content_def ret_def split: option.splits node.splits)

lemma local_delete_content:
  assumes "adapter_ok A" "local_place A b k" "local_delete_object A b k s = (Inr (), s')"
  shows "local_content A s' b k = None"
  using assms(3) unlink_content[of "la_bad A" "object_file A b k" s True s' "object_file A b k"]
  by (auto simp: local_delete_object_def object_path_place[OF assms(1,2)] local_content_def attempt_Inr)

lemmas local_storage_sel = local_storage_def storage_adapter.simps local_content_def local_staged_def

lemma local_object_storage:
  assumes ok: "adapter_ok A"
  shows "object_storage (local_storage A) (local_content A) (local_staged A) (local_place A) component"
proof (unfold_locales, goal_cases)
  case (1 b k data ct osz cs s x s')
  then show ?case using local_put_content[OF ok] by (simp add: local_storage_def)
next
  case (2 b k b' k' data ct osz cs s r s')
  then show ?case unfolding local_storage_sel
    by (metis keeps_file keeps_local_put[OF ok] object_file_inj temp_not_object prod.inject)
next
  case (3 b k s data off len)
  then show ?case using local_get_content[OF ok] by (simp add: local_storage_def)
next
  case (4 b k s)
  then show ?case
    by (auto simp: local_storage_def local_object_exists_def object_path_place[OF ok] local_content_def
        file_content_def path_exists_def get_def split: option.splits)
next
  case (5 b k s s')
  then show ?case using local_delete_content[OF ok] by (simp add: local_storage_def)
next
  case (6 b k b' k' s rd s')
  then show ?case unfolding local_storage_sel
    by (metis keeps_file keeps_local_delete[OF ok] object_file_inj prod.inject)
next
  case (7 b k u n data sz cs s p s')
  then show ?case using local_upload_part_staged[OF ok 7(2), of b k n data sz cs s p s'] by (simp add: local_storage_def)
next
  case (8 b k u n data sz cs s rp s' b' k' u' n')
  have run: "local_upload_part A b k u n data sz cs s = (rp, s')" using 8 by (simp add: local_storage_def)
  have "file_content q s' = file_content q s" if "q \<noteq> part_file A u n" for q
    using keeps_file[OF keeps_local_part[OF ok 8(2) that] run] .
  then show ?case
    using 8(3) object_not_part[of A b' k'] part_file_inj[of n' n A u' u]
    by (auto simp: local_content_def local_staged_def)
next
  case (9 b k u ps s x s')
  then show ?case using local_complete_content[OF ok 9(1,2)] by (simp add: local_storage_def)
next
  case (10 b k u ps s rc s' b' k' u' n')
  have run: "local_complete_multipart_upload A b k u ps s = (rc, s')"
    using 10 by (simp add: local_storage_def)
  have frame: "file_content q s' = file_content q s"
    if "q \<noteq> object_file A b k" "q \<noteq> temp_path (object_file A b k)"
      "\<not> prefix (la_multipart_root A @ [u]) q" for q
    using keeps_file[OF keeps_local_complete[OF ok 10(1,2) that] run] .
  have "local_content A s' b' k' = local_content A s b' k'" if "local_place A b' k'" "(b', k') \<noteq> (b, k)"
    unfolding local_content_def
    using that temp_not_object[OF that(1), of b k] not_prefix_upload_dir[OF that(1)]
    by (intro frame) (auto simp: object_file_inj)
  moreover have "local_staged A s' u' n' = local_staged A s u' n'" if "u' \<noteq> u"
    unfolding local_staged_def
    using that object_not_part[OF 10(1)] temp_not_part[OF 10(1)]
    by (intro frame) (metis, metis, simp add: upload_dir_part)
  ultimately show ?case by blast
next
  case (11 b k u s ra s' b' k' u' n')
  have run: "remove_upload_dir A u s = (ra, s')"
    using 11 by (simp add: local_storage_def local_abort_multipart_upload_def)
  have frame: "file_content q s' = file_content q s" if "\<not> prefix (la_multipart_root A @ [u]) q" for q
    using keeps_file[OF keeps_remove_upload_dir[OF ok 11(2) that] run] .
  then show ?case
    by (auto simp: local_content_def local_staged_def not_prefix_upload_dir upload_dir_part)
qed

text \<open>
  The adapter with the default directories: \<open>.multipart\<close> lies inside the root, next to
  the buckets.
\<close>

definition default_adapter :: "(bytes \<Rightarrow> pystr) \<Rightarrow> local_adapter" where
  "default_adapter sha256 =
     \<lparr>la_root = [lit ''data'', lit ''storage''],
      la_multipart_root = [lit ''data'', lit ''storage'', lit ''.multipart''],
      la_bad = (\<lambda>_. False), la_sha256 = sha256, la_dir_size = 4096\<rparr>"

lemma default_adapter_ok: "adapter_ok (default_adapter sha256)"
  by (simp add: adapter_ok_def default_adapter_def lit_def)

interpretation local_default:
  object_storage "local_storage (default_adapter sha256)" "local_content (default_adapter sha256)"
    "local_staged (default_adapter sha256)" "local_place (default_adapter sha256)" component
  for sha256
  by (rule local_object_storage[OF default_adapter_ok])

end
