(* ===== verification/Buckets.thy ===== *)
theory Buckets
  imports Service LocalStorage
begin

text \<open>
  The bucket service, \<open>src/app/services/bucket_service.py\<close>, with the handlers of
  \<open>src/app/api/v1/buckets.py\<close>: buckets a tenant creates beside the configured ones.
\<close>

section \<open>Names\<close>

definition name_end_char :: "nat \<Rightarrow> bool" where
  "name_end_char c \<longleftrightarrow> (97 \<le> c \<and> c \<le> 122) \<or> (48 \<le> c \<and> c \<le> 57)"

definition name_char :: "nat \<Rightarrow> bool" where
  "name_char c \<longleftrightarrow> name_end_char c \<or> c = 46 \<or> c = 45"

text \<open>\<open>[a-z0-9][a-z0-9.-]{1,61}[a-z0-9]\<close> on the whole name.\<close>

definition BUCKET_NAME_RE :: "pystr \<Rightarrow> bool" where
  "BUCKET_NAME_RE s \<longleftrightarrow>
     3 \<le> length s \<and> length s \<le> 63 \<and> name_end_char (hd s) \<and> name_end_char (last s)
     \<and> (\<forall>c\<in>set s. name_char c)"

text \<open>The name comes from a JSON body: \<open>(name or "").strip()\<close>.\<close>

definition validate_name :: "json \<Rightarrow> error + pystr" where
  "validate_name name =
     (case (if truthy name then name else JStr []) of
        JStr s \<Rightarrow>
          (if \<not> BUCKET_NAME_RE (strip s) \<or> contains (strip s) (lit ''..'')
           then Inl (ApiErr ''INVALID_BUCKET_NAME'' 422)
           else Inr (strip s))
      | _ \<Rightarrow> Inl (Crash AttributeError))"

section \<open>Operations\<close>

definition list_for_tenant :: "pystr \<Rightarrow> db \<Rightarrow> storage_bucket list" where
  "list_for_tenant tenant d = sort_key sb_name (filter (\<lambda>b. sb_tenant_id b = tenant) (buckets d))"

definition create_bucket :: "'s service \<Rightarrow> identity \<Rightarrow> json \<Rightarrow> ('s, pystr) act" where
  "create_bucket sv i name =
     bnd (lift (validate_name name)) (\<lambda>name.
     bnd (on_store (st_bucket_exists (sv_storage sv) name)) (\<lambda>there.
     seq (guard (\<not> there) (ApiErr ''BUCKET_ALREADY_EXISTS'' 409))
    (bnd (get_db (bucket_get_by_name (tenant_id i) name)) (\<lambda>row.
     seq (guard (row = None) (ApiErr ''BUCKET_ALREADY_EXISTS'' 409))
    (seq (on_store (st_create_bucket (sv_storage sv) name))
    (seq (try_db (bucket_create \<lparr>sb_tenant_id = tenant_id i, sb_name = name,
                                 sb_created_by = principal_id i\<rparr>))
         (ret name)))))))"

text \<open>\<open>sorted(set)\<close>.\<close>

definition list_buckets_for_tenant :: "'s service \<Rightarrow> pystr \<Rightarrow> db \<Rightarrow> pystr list" where
  "list_buckets_for_tenant sv tenant d =
     sorted_list_of_set (set (sc_allowed_buckets (cf_storage (sv_settings sv)))
                         \<union> sb_name ` set (list_for_tenant tenant d))"

definition list_managed_buckets_for_tenant :: "pystr \<Rightarrow> db \<Rightarrow> pystr list" where
  "list_managed_buckets_for_tenant tenant d = map sb_name (list_for_tenant tenant d)"

definition delete_bucket :: "'s service \<Rightarrow> identity \<Rightarrow> json \<Rightarrow> ('s, pystr) act" where
  "delete_bucket sv i name =
     bnd (lift (validate_name name)) (\<lambda>name.
     seq (guard (name \<notin> set (sc_allowed_buckets (cf_storage (sv_settings sv))))
            (ApiErr ''BUCKET_NOT_DELETABLE'' 403))
    (bnd (get_db (bucket_get_by_name (tenant_id i) name)) (\<lambda>row.
     bnd (require (ApiErr ''BUCKET_NOT_FOUND'' 404) row) (\<lambda>row.
     bnd (on_store (st_bucket_exists (sv_storage sv) name)) (\<lambda>there.
     seq (guard there (ApiErr ''BUCKET_NOT_FOUND'' 404))
    (seq (on_store (st_delete_bucket (sv_storage sv) name))
    (seq (modify_db (bucket_delete row))
         (ret name))))))))"

definition is_bucket_allowed :: "'s service \<Rightarrow> pystr \<Rightarrow> pystr \<Rightarrow> db \<Rightarrow> bool" where
  "is_bucket_allowed sv tenant bucket d \<longleftrightarrow>
     bucket \<in> set (sc_allowed_buckets (cf_storage (sv_settings sv)))
     \<or> bucket_get_by_name tenant bucket d \<noteq> None"

definition create_bucket_handler :: "'s service \<Rightarrow> identity \<Rightarrow> jobject \<Rightarrow> ('s, pystr) act" where
  "create_bucket_handler sv i body = transaction (create_bucket sv i (jget ''name'' body))"

definition delete_bucket_handler :: "'s service \<Rightarrow> identity \<Rightarrow> pystr \<Rightarrow> ('s, pystr) act" where
  "delete_bucket_handler sv i name = transaction (delete_bucket sv i (JStr name))"

section \<open>Lemmas\<close>

lemma validate_name_Inr:
  assumes "validate_name name = Inr s"
  shows "BUCKET_NAME_RE s \<and> \<not> contains s (lit ''..'')"
  using assms by (auto simp: validate_name_def split: json.splits if_splits)

lemma contains_self: "contains s s"
  by (cases s) (auto simp: starts_with_iff)

text \<open>A valid name is a single proper path component that does not start with a dot.\<close>

lemma bucket_name_component:
  assumes "BUCKET_NAME_RE s"
  shows "component s \<and> hd s \<noteq> 46"
proof -
  have hd: "name_end_char (hd s)" and chars: "\<forall>c\<in>set s. name_char c" and len: "3 \<le> length s"
    using assms by (simp_all add: BUCKET_NAME_RE_def)
  have "slash \<notin> set s" "0 \<notin> set s" using chars by (auto simp: name_char_def name_end_char_def)
  moreover have "s \<noteq> []" "s \<noteq> lit ''.''" "s \<noteq> lit ''..''" using len by (auto simp: lit_def)
  moreover have "hd s \<noteq> 46" using hd by (auto simp: name_end_char_def)
  ultimately show ?thesis by (simp add: component_def)
qed

lemma bucket_allowed_after_create:
  "create_bucket sv i name w = (Inr n, w') \<Longrightarrow> is_bucket_allowed sv (tenant_id i) n (w_db w')"
  by (auto simp: create_bucket_def effs bucket_create_def is_bucket_allowed_def
      bucket_get_by_name_def find_snoc split: if_splits option.splits)

lemma create_bucket_other_tenant:
  assumes "create_bucket sv i name w = (r, w')" "t \<noteq> tenant_id i"
  shows "bucket_get_by_name t n (w_db w') = bucket_get_by_name t n (w_db w)"
proof -
  have "keeps (on_db (\<lambda>d. bucket_get_by_name t n d = x)) (create_bucket sv i name)" for x
    unfolding create_bucket_def
    using assms(2)
    by (intro keeps_bnd keeps_seq keeps_lift keeps_on_store keeps_guard keeps_get_db keeps_ret
        keeps_try_db) (auto simp: bucket_create_def bucket_get_by_name_def find_snoc split: if_splits option.splits)
  from keepsD[OF this _ assms(1)] show ?thesis by blast
qed

lemma delete_bucket_other_tenant:
  assumes "delete_bucket sv i name w = (r, w')" "t \<noteq> tenant_id i"
  shows "bucket_get_by_name t n (w_db w') = bucket_get_by_name t n (w_db w)"
proof -
  have filtered: "find P (filter Q bs) = find P bs" if "\<And>b. P b \<Longrightarrow> Q b"
    for P Q and bs :: "storage_bucket list"
    using that by (induction bs) auto
  have row: "bucket_get_by_name t n (bucket_delete b d) = bucket_get_by_name t n d"
    if "sb_tenant_id b \<noteq> t" for b d
    using that filtered[of "\<lambda>b. sb_tenant_id b = t \<and> sb_name b = n"
        "\<lambda>r. \<not> (sb_tenant_id r = sb_tenant_id b \<and> sb_name r = sb_name b)" "buckets d"]
    by (auto simp: bucket_get_by_name_def bucket_delete_def)
  have "keeps (on_db (\<lambda>d. bucket_get_by_name t n d = x)) (delete_bucket sv i name)" for x
    unfolding delete_bucket_def
  proof (intro keeps_bnd_lift keeps_seq keeps_on_store keeps_guard keeps_bnd_get_db keeps_bnd_require
      keeps_bnd keeps_ret keeps_modify_db)
    fix m d b d'
    assume "bucket_get_by_name (tenant_id i) m d = Some b" "bucket_get_by_name t n d' = x"
    then show "bucket_get_by_name t n (bucket_delete b d') = x"
      using row[of b d'] assms(2) by (auto simp: bucket_get_by_name_def find_Some_iff)
  qed
  from keepsD[OF this _ assms(1)] show ?thesis by blast
qed

end
