(* ===== verification/Uploads.thy ===== *)
theory Uploads
  imports Buckets
begin

text \<open>
  Upload sessions, \<open>src/app/services/upload_service.py\<close>, with the handlers of
  \<open>src/app/api/v1/uploads.py\<close> around it: creating a session, uploading and committing
  parts, resuming, completing, aborting and refreshing.

  A \<open>SELECT ... FOR UPDATE\<close> is the plain lookup: the model runs one request at a time.
\<close>

section \<open>Requests\<close>

record create_request =
  cr_bucket :: pystr
  cr_object_key :: pystr
  cr_original_filename :: pystr
  cr_content_type :: "pystr option"
  cr_total_size :: int
  cr_part_size :: "int option"
  cr_upload_mode :: pystr
  cr_file_fingerprint :: "pystr option"
  cr_expected_sha256 :: "pystr option"
  cr_lifecycle :: "jobject option"

section \<open>Creating a session\<close>

definition validate_bucket :: "'s service \<Rightarrow> identity \<Rightarrow> pystr \<Rightarrow> ('s, unit) act" where
  "validate_bucket sv i bucket =
     bnd (get_db (is_bucket_allowed sv (tenant_id i) bucket)) (\<lambda>ok.
       guard ok (ApiErr ''INVALID_BUCKET'' 422))"

definition validate_object_key :: "'s service \<Rightarrow> pystr \<Rightarrow> error + pystr" where
  "validate_object_key sv object_key = normalize_relative_path (sv_nfc sv) 64 1024 object_key"

text \<open>The number of parts; the quotient is a float, as in the code.\<close>

definition count_parts :: "int \<Rightarrow> int \<Rightarrow> error + int" where
  "count_parts total_size part_size =
     (case ceil_truediv total_size part_size of
        None \<Rightarrow> Inl (Crash ZeroDivisionError)
      | Some n \<Rightarrow> Inr (max 1 n))"

definition choose_mode ::
    "'s service \<Rightarrow> db \<Rightarrow> pystr \<Rightarrow> int \<Rightarrow> error + upload_mode" where
  "choose_mode sv d requested total_size =
     (let c = sv_settings sv;
          mode_value = (if requested \<noteq> [] then requested else get_default_mode c d)
      in if mode_value = lit ''automatic''
         then Inr (if mp_enabled (uc_multipart (cf_uploads c))
                      \<and> get_direct_threshold c d < total_size
                   then ModePresigned else ModeProxy)
         else if mode_value = lit ''proxy'' then Inr ModeProxy
         else if mode_value = lit ''presigned''
         then (if \<not> cap_multipart (st_capabilities (sv_storage sv)) \<and> 0 < total_size
               then Inl (StorageCapabilityNotSupportedError ''multipart'')
               else Inr ModePresigned)
         else Inl (ApiErr ''INVALID_UPLOAD_MODE'' 422))"

text \<open>\<open>object_conflict_policy == "reject"\<close> and the object is there.\<close>

definition check_conflict :: "'s service \<Rightarrow> pystr \<Rightarrow> pystr \<Rightarrow> ('s, unit) act" where
  "check_conflict sv bucket key =
     (if uc_object_conflict_policy (cf_uploads (sv_settings sv)) = lit ''reject''
      then bnd (on_store (st_object_exists (sv_storage sv) bucket key)) (\<lambda>there.
             guard (\<not> there) (ObjectAlreadyExistsError bucket key))
      else ret ())"

text \<open>The effective policy of a new upload; \<open>None\<close> when lifecycles are switched off.\<close>

definition effective_for ::
    "'s service \<Rightarrow> jobject option \<Rightarrow> dt option \<Rightarrow> dt \<Rightarrow> ('s, effective option) act" where
  "effective_for sv requested completed_at now =
     (let c = sv_settings sv
      in if lf_enabled (cf_lifecycle c)
         then bnd (get_db (get_lifecycle_default (sv_loads sv) c)) (\<lambda>server_default.
              bnd (lift (compute_effective_lifecycle (sv_parse_iso sv) (lf_policy (cf_lifecycle c))
                           server_default requested completed_at now)) (\<lambda>e. ret (Some e)))
         else ret None)"

definition plan_upload ::
    "'s service \<Rightarrow> identity \<Rightarrow> create_request \<Rightarrow> ('s, pystr \<times> int \<times> int \<times> upload_mode) act" where
  "plan_upload sv i rq =
     (let c = sv_settings sv; mp = uc_multipart (cf_uploads c); total_size = cr_total_size rq
      in seq (validate_bucket sv i (cr_bucket rq))
        (bnd (lift (validate_object_key sv (cr_object_key rq))) (\<lambda>safe_key.
         bnd (get_db (get_max_file_size c)) (\<lambda>maximum_bytes.
         seq (guard (0 \<le> total_size) (ApiErr ''INVALID_FILE_SIZE'' 422))
        (seq (guard (total_size \<le> maximum_bytes) (ApiErr ''FILE_TOO_LARGE'' 422))
        (bnd (get_db (\<lambda>d. case cr_part_size rq of None \<Rightarrow> get_default_part_size c d | Some n \<Rightarrow> n))
           (\<lambda>part_size.
         seq (guard (mp_minimum_part_size_bytes mp \<le> part_size
                     \<and> part_size \<le> mp_maximum_part_size_bytes mp)
                (InvalidPartSizeError part_size (mp_minimum_part_size_bytes mp)
                   (mp_maximum_part_size_bytes mp)))
        (bnd (lift (count_parts total_size part_size)) (\<lambda>total_parts.
         seq (guard (total_parts \<le> mp_maximum_parts mp) (ApiErr ''TOO_MANY_PARTS'' 422))
        (bnd (get_db (\<lambda>d. choose_mode sv d (cr_upload_mode rq) total_size)) (\<lambda>mode.
         bnd (lift mode) (\<lambda>mode.
         seq (check_conflict sv (cr_bucket rq) safe_key)
             (ret (safe_key, part_size, total_parts, mode))))))))))))))"

text \<open>The row of the new session, before it is added.\<close>

definition build_session ::
    "'s service \<Rightarrow> identity \<Rightarrow> create_request \<Rightarrow> pystr \<Rightarrow> dt \<Rightarrow> ('s, upload_session) act" where
  "build_session sv i rq new_id now =
     (let c = sv_settings sv; st = sv_storage sv
      in bnd (plan_upload sv i rq) (\<lambda>(safe_key, part_size, total_parts, mode).
         bnd (effective_for sv (cr_lifecycle rq) None now) (\<lambda>effective_lifecycle.
         bnd (if mode = ModePresigned
              then bnd (on_store (st_initiate_multipart_upload st (cr_bucket rq) safe_key
                                    (cr_content_type rq)))
                     (\<lambda>sid. ret (if st_is_local st then None else Some sid))
              else ret None) (\<lambda>storage_upload_id.
         bnd (get_db (get_session_expiry c)) (\<lambda>expiry.
         bnd (after_seconds now expiry) (\<lambda>expires_at.
         ret \<lparr>us_id = new_id, us_tenant_id = tenant_id i, us_principal_id = principal_id i,
          us_backend = sc_backend (cf_storage c), us_upload_mode = mode,
          us_bucket = cr_bucket rq, us_object_key = safe_key,
          us_storage_upload_id = (if st_is_local st then Some new_id else storage_upload_id),
          us_original_filename =
            (if cr_original_filename rq = [] then last_segment safe_key
             else cr_original_filename rq),
          us_content_type = cr_content_type rq, us_total_size = cr_total_size rq,
          us_part_size = part_size, us_total_parts = total_parts,
          us_file_fingerprint = cr_file_fingerprint rq,
          us_expected_sha256 = cr_expected_sha256 rq, us_status = Initiated,
          us_requested_lifecycle = cr_lifecycle rq, us_effective_lifecycle = effective_lifecycle,
          us_completed_file_id = None, us_expires_at = expires_at, us_last_activity_at = now,
          us_created_at = now, us_updated_at = now\<rparr>))))))"

definition create_session ::
    "'s service \<Rightarrow> identity \<Rightarrow> create_request \<Rightarrow> pystr \<Rightarrow> dt \<Rightarrow> ('s, upload_session) act" where
  "create_session sv i rq new_id now =
     bnd (build_session sv i rq new_id now) (\<lambda>upload.
     seq (modify_db (\<lambda>d. d\<lparr>uploads := uploads d @ [upload]\<rparr>))
    (seq (count (\<lambda>m. m\<lparr>m_active_sessions := m_active_sessions m + 1,
                       m_requests_initiate := m_requests_initiate m + 1\<rparr>))
         (ret upload)))"

section \<open>Looking at a session\<close>

definition get_session :: "identity \<Rightarrow> pystr \<Rightarrow> ('s, upload_session) act" where
  "get_session i upload_id =
     bnd (get_db (get_upload upload_id (Some (tenant_id i)))) (\<lambda>u.
       require (UploadNotFoundError upload_id) u)"

definition list_committed_parts :: "identity \<Rightarrow> pystr \<Rightarrow> ('s, upload_part list) act" where
  "list_committed_parts i upload_id =
     bnd (get_session i upload_id) (\<lambda>_. get_db (list_parts_for_upload upload_id))"

definition ensure_active :: "upload_session \<Rightarrow> ('s, unit) act" where
  "ensure_active u =
     (case us_status u of
        Completed \<Rightarrow> raise UploadAlreadyCompletedError
      | Aborted \<Rightarrow> raise UploadAbortedError
      | Expired \<Rightarrow> raise UploadExpiredError
      | _ \<Rightarrow> ret ())"

section \<open>Parts\<close>

text \<open>The loop of \<open>presign_parts\<close> over the sorted part numbers.\<close>

fun presign_each ::
    "'s service \<Rightarrow> upload_session \<Rightarrow> pystr \<Rightarrow> int \<Rightarrow> int list \<Rightarrow> ('s, (int \<times> pystr) list) act" where
  "presign_each sv u sid expires [] = ret []"
| "presign_each sv u sid expires (n # ns) =
     seq (guard (1 \<le> n \<and> n \<le> us_total_parts u) (InvalidPartNumberError n (us_total_parts u)))
    (bnd (on_store (st_create_presigned_upload_part_url (sv_storage sv) (us_bucket u)
                      (us_object_key u) sid n expires)) (\<lambda>url.
     bnd (presign_each sv u sid expires ns) (\<lambda>urls. ret ((n, url) # urls))))"

definition presign_parts ::
    "'s service \<Rightarrow> identity \<Rightarrow> pystr \<Rightarrow> int list \<Rightarrow> int option \<Rightarrow> ('s, (int \<times> pystr) list) act" where
  "presign_parts sv i upload_id part_numbers expires_seconds =
     bnd (get_session i upload_id) (\<lambda>u.
     seq (ensure_active u)
    (let c = sv_settings sv;
         asked = (case expires_seconds of
                    None \<Rightarrow> ps_upload_part_expires_seconds (cf_presign c)
                  | Some n \<Rightarrow> if n = 0 then ps_upload_part_expires_seconds (cf_presign c) else n)
     in seq (guard (cap_presigned_upload_part (st_capabilities (sv_storage sv))
                    \<and> present (us_storage_upload_id u))
               (StorageCapabilityNotSupportedError ''presigned_upload_part''))
       (seq (guard (length part_numbers \<le> mp_maximum_presign_batch_size (uc_multipart (cf_uploads c)))
               (ApiErr ''PRESIGN_BATCH_TOO_LARGE'' 422))
            (presign_each sv u (the_default [] (us_storage_upload_id u))
               (min asked (ps_maximum_expires_seconds (cf_presign c)))
               (sorted_list_of_set (set part_numbers))))))"

text \<open>\<open>upload.storage_upload_id or str(upload.id)\<close>.\<close>

definition storage_id :: "upload_session \<Rightarrow> pystr" where
  "storage_id u =
     (case us_storage_upload_id u of None \<Rightarrow> us_id u | Some s \<Rightarrow> if s = [] then us_id u else s)"

definition proxy_upload_part ::
    "'s service \<Rightarrow> identity \<Rightarrow> pystr \<Rightarrow> int \<Rightarrow> bytes \<Rightarrow> int \<Rightarrow> pystr option \<Rightarrow> dt
     \<Rightarrow> ('s, upload_part) act" where
  "proxy_upload_part sv i upload_id part_number stream size_bytes checksum_sha256 now =
     bnd (get_session i upload_id) (\<lambda>u.
     seq (ensure_active u)
    (seq (guard (1 \<le> part_number \<and> part_number \<le> us_total_parts u)
            (InvalidPartNumberError part_number (us_total_parts u)))
    (let minimum = mp_minimum_part_size_bytes (uc_multipart (cf_uploads (sv_settings sv)));
         last_part = (part_number = us_total_parts u)
     in seq (guard (\<not> (us_part_size u < size_bytes
                       \<or> (size_bytes < minimum \<and> \<not> last_part \<and> 1 < us_total_parts u)))
               (InvalidPartSizeError size_bytes minimum (us_part_size u)))
       (seq (if us_status u = Initiated
             then modify_db (update_status (us_id u) Uploading now) else ret ())
       (bnd (on_store (st_upload_part (sv_storage sv) (us_bucket u) (us_object_key u)
                         (storage_id u) part_number stream size_bytes checksum_sha256))
          (\<lambda>stored.
        let part =
          \<lparr>pa_upload_id = us_id u, pa_part_number = part_number,
           pa_offset_bytes = (part_number - 1) * us_part_size u,
           pa_size_bytes = up_size_bytes stored, pa_etag = Some (up_etag stored),
           pa_checksum_sha256 =
             (if present (up_checksum_sha256 stored) then up_checksum_sha256 stored
              else checksum_sha256),
           pa_status = PartCommitted, pa_updated_at = now\<rparr>
        in seq (modify_db (upsert_part (sv_postgresql sv) part))
          (seq (count (\<lambda>m. m\<lparr>m_parts := m_parts m + 1\<rparr>))
          (seq (count_by (up_size_bytes stored)
                  (\<lambda>m. m\<lparr>m_part_bytes := m_part_bytes m + up_size_bytes stored\<rparr>))
          (seq (modify_db (touch_activity (us_id u) now))
               (ret part))))))))))"

definition commit_part ::
    "'s service \<Rightarrow> identity \<Rightarrow> pystr \<Rightarrow> int \<Rightarrow> pystr \<Rightarrow> int \<Rightarrow> pystr option \<Rightarrow> dt \<Rightarrow> ('s, unit) act" where
  "commit_part sv i upload_id part_number etag size_bytes checksum_sha256 now =
     bnd (get_session i upload_id) (\<lambda>u.
     seq (ensure_active u)
    (seq (guard (1 \<le> part_number \<and> part_number \<le> us_total_parts u)
            (InvalidPartNumberError part_number (us_total_parts u)))
    (seq (modify_db (upsert_part (sv_postgresql sv)
            \<lparr>pa_upload_id = us_id u, pa_part_number = part_number,
             pa_offset_bytes = (part_number - 1) * us_part_size u, pa_size_bytes = size_bytes,
             pa_etag = Some etag, pa_checksum_sha256 = checksum_sha256,
             pa_status = PartCommitted, pa_updated_at = now\<rparr>))
    (seq (count (\<lambda>m. m\<lparr>m_parts := m_parts m + 1\<rparr>))
    (seq (count_by size_bytes (\<lambda>m. m\<lparr>m_part_bytes := m_part_bytes m + size_bytes\<rparr>))
         (modify_db (touch_activity (us_id u) now)))))))"

section \<open>Resuming\<close>

definition committed_parts :: "pystr \<Rightarrow> db \<Rightarrow> upload_part list" where
  "committed_parts upload_id d =
     filter (\<lambda>p. pa_status p = PartCommitted) (list_parts_for_upload upload_id d)"

text \<open>\<open>[n for n in range(1, total + 1) if n not in numbers]\<close>.\<close>

definition missing_numbers :: "int \<Rightarrow> int set \<Rightarrow> int list" where
  "missing_numbers parts_total numbers = filter (\<lambda>n. n \<notin> numbers) [1..parts_total]"

definition lists_parts :: "'s service \<Rightarrow> upload_session \<Rightarrow> bool" where
  "lists_parts sv u \<longleftrightarrow>
     present (us_storage_upload_id u) \<and> cap_list_parts (st_capabilities (sv_storage sv))"

definition resume ::
    "'s service \<Rightarrow> identity \<Rightarrow> pystr \<Rightarrow> dt \<Rightarrow> ('s, upload_session \<times> int list) act" where
  "resume sv i upload_id now =
     bnd (get_session i upload_id) (\<lambda>u.
     seq (guard (us_status u \<noteq> Aborted) UploadAbortedError)
    (seq (guard (us_status u \<noteq> Expired) UploadExpiredError)
    (bnd (get_db (committed_parts (us_id u))) (\<lambda>committed.
     bnd (if lists_parts sv u
          then catch (on_store (st_list_parts (sv_storage sv) (us_bucket u) (us_object_key u)
                                  (storage_id u)))
                 (\<lambda>e. if is_api_error e then ret [] else raise e)
          else ret []) (\<lambda>stored.
     seq (count (\<lambda>m. m\<lparr>m_resume := m_resume m + 1\<rparr>))
    (seq (modify_db (touch_activity (us_id u) now))
         (ret (u, missing_numbers (us_total_parts u)
                    (pa_part_number ` set committed \<union> up_part_number ` set stored)))))))))"

section \<open>Completing\<close>

text \<open>A committed part as the storage adapter is given it.\<close>

definition as_uploaded_part :: "upload_part \<Rightarrow> uploaded_part" where
  "as_uploaded_part p =
     \<lparr>up_part_number = pa_part_number p, up_etag = the_default [] (pa_etag p),
      up_size_bytes = pa_size_bytes p, up_checksum_sha256 = None\<rparr>"

text \<open>A stored part with another ETag than the committed part of the same number.\<close>

definition etag_differs :: "upload_part list \<Rightarrow> uploaded_part \<Rightarrow> bool" where
  "etag_differs committed stored =
     (case find (\<lambda>p. pa_part_number p = up_part_number stored) committed of
        None \<Rightarrow> False
      | Some p \<Rightarrow>
          present (pa_etag p) \<and> up_etag stored \<noteq> [] \<and> pa_etag p \<noteq> Some (up_etag stored))"

text \<open>The parts handed to the storage adapter.\<close>

definition parts_to_assemble ::
    "'s service \<Rightarrow> upload_session \<Rightarrow> upload_part list \<Rightarrow> ('s, uploaded_part list) act" where
  "parts_to_assemble sv u committed =
     (if \<not> lists_parts sv u then ret (map as_uploaded_part committed)
      else bnd (on_store (st_list_parts (sv_storage sv) (us_bucket u) (us_object_key u) (storage_id u)))
        (\<lambda>stored.
          let stored = (if stored = [] \<and> st_is_local (sv_storage sv)
                        then map as_uploaded_part committed else stored)
          in seq (guard (\<not> (\<exists>s\<in>set stored. etag_differs committed s)) (ApiErr ''PART_ETAG_MISMATCH'' 409))
                 (ret stored)))"

definition completed_file ::
    "'s service \<Rightarrow> identity \<Rightarrow> upload_session \<Rightarrow> stored_object \<Rightarrow> pystr \<Rightarrow> dt \<Rightarrow> file_object" where
  "completed_file sv i u stored file_id now =
     (let cols = lifecycle_columns_of (if lf_enabled (cf_lifecycle (sv_settings sv))
                                       then us_effective_lifecycle u else None)
      in \<lparr>fo_id = file_id, fo_tenant_id = tenant_id i, fo_principal_id = principal_id i,
          fo_bucket = us_bucket u, fo_object_key = us_object_key u,
          fo_storage_backend = us_backend u, fo_original_filename = us_original_filename u,
          fo_size_bytes = us_total_size u, fo_content_type = us_content_type u,
          fo_etag = so_etag stored,
          fo_checksum_algorithm =
            (if present (us_expected_sha256 u) then Some (lit ''sha256'') else None),
          fo_checksum_value = us_expected_sha256 u,
          fo_file_fingerprint = us_file_fingerprint u, fo_upload_id = Some (us_id u),
          fo_metadata = [], fo_status = FileActive, fo_lifecycle_mode = cl_mode cols,
          fo_lifecycle_action =
            (case us_effective_lifecycle u of None \<Rightarrow> lit ''delete'' | Some e \<Rightarrow> ef_action e),
          fo_lifecycle_status = LcActive, fo_ttl_seconds = cl_ttl_seconds cols,
          fo_expires_at = cl_expires_at cols, fo_next_action_at = cl_next_action_at cols,
          fo_legal_hold = False,
          fo_lifecycle_source =
            (case us_requested_lifecycle u of
               Some d \<Rightarrow> if d = [] then lit ''server'' else lit ''client''
             | None \<Rightarrow> lit ''server''),
          fo_delete_attempts = 0, fo_completed_at = now, fo_deleted_at = None,
          fo_created_at = now, fo_updated_at = now\<rparr>)"

text \<open>The file an earlier completion created, if it is still there.\<close>

definition existing_file :: "identity \<Rightarrow> upload_session \<Rightarrow> db \<Rightarrow> file_object option" where
  "existing_file i u d =
     (if us_status u = Completed
      then (case us_completed_file_id u of
              None \<Rightarrow> None
            | Some f \<Rightarrow> get_file f (Some (tenant_id i)) d)
      else None)"

definition complete_new ::
    "'s service \<Rightarrow> identity \<Rightarrow> upload_session \<Rightarrow> pystr \<Rightarrow> dt \<Rightarrow> ('s, file_object) act" where
  "complete_new sv i u file_id now =
     bnd (get_db (committed_parts (us_id u))) (\<lambda>committed.
     seq (guard (us_total_parts u \<le> int (length committed))
            (MissingPartsError (missing_numbers (us_total_parts u) (pa_part_number ` set committed))))
    (bnd (parts_to_assemble sv u committed) (\<lambda>stored_parts.
     seq (if us_status u = Uploading \<or> us_status u = Initiated then ret ()
          else bnd (lift (transition_upload (us_status u) Completing)) (\<lambda>_. ret ()))
    (seq (modify_db (update_upload (us_id u) (\<lambda>u. u\<lparr>us_status := Completing\<rparr>)))
    (bnd (on_store (st_complete_multipart_upload (sv_storage sv) (us_bucket u) (us_object_key u)
                      (storage_id u) stored_parts)) (\<lambda>stored.
     let file_obj = completed_file sv i u stored file_id now
     in seq (try_db (insert_file file_obj))
       (seq (modify_db (update_upload (us_id u)
               (\<lambda>u. u\<lparr>us_status := Completed, us_completed_file_id := Some file_id,
                      us_updated_at := now\<rparr>)))
       (seq (count (\<lambda>m. m\<lparr>m_complete := m_complete m + 1,
                          m_active_sessions := m_active_sessions m - 1\<rparr>))
            (ret file_obj)))))))))"

definition complete ::
    "'s service \<Rightarrow> identity \<Rightarrow> pystr \<Rightarrow> pystr \<Rightarrow> dt \<Rightarrow> ('s, file_object) act" where
  "complete sv i upload_id file_id now =
     bnd (get_session i upload_id) (\<lambda>u.
     bnd (get_db (existing_file i u)) (\<lambda>existing.
     case existing of
       Some f \<Rightarrow> ret f
     | None \<Rightarrow>
         seq (guard (us_status u \<noteq> Aborted) UploadAbortedError)
        (seq (guard (us_status u \<noteq> Expired) UploadExpiredError)
             (complete_new sv i u file_id now))))"

section \<open>Aborting and refreshing\<close>

definition abort :: "'s service \<Rightarrow> identity \<Rightarrow> pystr \<Rightarrow> dt \<Rightarrow> ('s, upload_session) act" where
  "abort sv i upload_id now =
     bnd (get_session i upload_id) (\<lambda>u.
     seq (guard (us_status u \<noteq> Completed) UploadAlreadyCompletedError)
    (if us_status u = Aborted \<or> us_status u = Expired then ret u
     else
       bnd (lift (transition_upload (us_status u) Aborting)) (\<lambda>_.
       seq (modify_db (update_upload (us_id u) (\<lambda>u. u\<lparr>us_status := Aborting\<rparr>)))
      (seq (if present (us_storage_upload_id u)
            then catch (on_store (st_abort_multipart_upload (sv_storage sv) (us_bucket u)
                                    (us_object_key u) (storage_id u)))
                   (\<lambda>e. if is_api_error e then ret () else raise e)
            else ret ())
      (seq (modify_db (update_upload (us_id u) (\<lambda>u. u\<lparr>us_status := Aborted, us_updated_at := now\<rparr>)))
      (seq (count (\<lambda>m. m\<lparr>m_abort := m_abort m + 1,
                         m_active_sessions := m_active_sessions m - 1\<rparr>))
           (ret (u\<lparr>us_status := Aborted, us_updated_at := now\<rparr>))))))))"

definition refresh :: "'s service \<Rightarrow> identity \<Rightarrow> pystr \<Rightarrow> dt \<Rightarrow> ('s, upload_session) act" where
  "refresh sv i upload_id now =
     (let c = sv_settings sv; se = uc_session (cf_uploads c)
      in seq (guard (se_refresh_enabled se) (ApiErr ''REFRESH_DISABLED'' 409))
        (bnd (get_session i upload_id) (\<lambda>u.
         seq (guard (us_status u \<notin> {Completed, Aborted, Expired})
                (UploadStateConflictError ''Cannot refresh a finished upload session.''))
        (bnd (get_db (get_session_expiry c)) (\<lambda>lifetime.
         bnd (after_seconds (us_created_at u) (se_maximum_lifetime_seconds se)) (\<lambda>deadline.
         seq (guard (now \<le> deadline) UploadExpiredError)
        (bnd (after_seconds now lifetime) (\<lambda>expires_at.
         let f = (\<lambda>u. u\<lparr>us_expires_at := expires_at, us_last_activity_at := now\<rparr>)
         in seq (modify_db (update_upload (us_id u) f)) (ret (f u))))))))))"

section \<open>Handlers\<close>

text \<open>
  \<open>POST /uploads\<close>. The body is read as typed fields; the mode defaults to
  \<open>automatic\<close> here already, so the run-time setting of the default mode is not reached.
\<close>

definition create_upload_handler ::
    "'s service \<Rightarrow> identity \<Rightarrow> create_request \<Rightarrow> pystr \<Rightarrow> dt \<Rightarrow> ('s, upload_session) act" where
  "create_upload_handler sv i rq new_id now =
     transaction (bnd (get_db (get_default_bucket (sv_settings sv))) (\<lambda>default.
       create_session sv i
         (rq\<lparr>cr_bucket := if cr_bucket rq = [] then default else cr_bucket rq,
             cr_upload_mode := if cr_upload_mode rq = [] then lit ''automatic''
                               else cr_upload_mode rq\<rparr>) new_id now))"

text \<open>The body has been spooled, with its size and digest; a header may give another digest.\<close>

definition proxy_upload_part_handler ::
    "'s service \<Rightarrow> identity \<Rightarrow> pystr \<Rightarrow> int \<Rightarrow> bytes \<Rightarrow> pystr option \<Rightarrow> dt \<Rightarrow> ('s, upload_part) act" where
  "proxy_upload_part_handler sv i upload_id part_number body header now =
     transaction (proxy_upload_part sv i upload_id part_number body (int (length body))
       (if present header then header else Some (sv_sha256 sv body)) now)"

definition commit_part_handler ::
    "'s service \<Rightarrow> identity \<Rightarrow> pystr \<Rightarrow> int \<Rightarrow> pystr \<Rightarrow> int \<Rightarrow> pystr option \<Rightarrow> dt \<Rightarrow> ('s, unit) act" where
  "commit_part_handler sv i upload_id n etag sz cs now =
     transaction (commit_part sv i upload_id n etag sz cs now)"

definition resume_handler ::
    "'s service \<Rightarrow> identity \<Rightarrow> pystr \<Rightarrow> dt \<Rightarrow> ('s, upload_session \<times> int list) act" where
  "resume_handler sv i upload_id now = transaction (resume sv i upload_id now)"

definition refresh_handler ::
    "'s service \<Rightarrow> identity \<Rightarrow> pystr \<Rightarrow> dt \<Rightarrow> ('s, upload_session) act" where
  "refresh_handler sv i upload_id now = transaction (refresh sv i upload_id now)"

definition abort_handler ::
    "'s service \<Rightarrow> identity \<Rightarrow> pystr \<Rightarrow> dt \<Rightarrow> ('s, upload_session) act" where
  "abort_handler sv i upload_id now = transaction (abort sv i upload_id now)"

end
