(* ===== verification/UploadInvariant.thy ===== *)
theory UploadInvariant
  imports Uploads
begin

text \<open>
  The invariant of the upload tables and the proof that every operation of
  \<open>Uploads\<close> keeps it, on every path, errors included; then what completing an upload
  guarantees.
\<close>

section \<open>The invariant\<close>

text \<open>What never changes in a session.\<close>

definition upload_shape :: "upload_session \<Rightarrow> pystr \<times> pystr \<times> pystr \<times> pystr \<times> int \<times> int \<times> int" where
  "upload_shape u =
     (us_id u, us_tenant_id u, us_bucket u, us_object_key u, us_total_size u, us_part_size u,
      us_total_parts u)"

definition session_ok :: "upload_session \<Rightarrow> bool" where
  "session_ok u \<longleftrightarrow>
     count_parts (us_total_size u) (us_part_size u) = Inr (us_total_parts u)
     \<and> 0 \<le> us_total_size u
     \<and> (us_status u = Completed \<longrightarrow> us_completed_file_id u \<noteq> None)"

definition part_fits :: "upload_part \<Rightarrow> upload_session \<Rightarrow> bool" where
  "part_fits p u \<longleftrightarrow>
     us_id u = pa_upload_id p \<and> 1 \<le> pa_part_number p \<and> pa_part_number p \<le> us_total_parts u
     \<and> pa_offset_bytes p = (pa_part_number p - 1) * us_part_size u
     \<and> pa_status p = PartCommitted"

definition uploads_inv :: "db \<Rightarrow> bool" where
  "uploads_inv d \<longleftrightarrow>
     distinct (map us_id (uploads d))
     \<and> (\<forall>u\<in>set (uploads d). session_ok u)
     \<and> distinct (map part_key (parts d))
     \<and> (\<forall>p\<in>set (parts d). \<exists>u\<in>set (uploads d). part_fits p u)
     \<and> distinct (map file_key (files d))"

lemma uploads_inv_empty: "uploads_inv empty_db"
  by (simp add: uploads_inv_def empty_db_def)

section \<open>Changes of the database\<close>

lemma part_fits_shape: "upload_shape u = upload_shape v \<Longrightarrow> part_fits p u \<Longrightarrow> part_fits p v"
  by (simp add: part_fits_def upload_shape_def)

lemma inv_update_upload:
  assumes inv: "uploads_inv d" and shape: "\<And>u. upload_shape (f u) = upload_shape u"
    and ok: "\<And>u. session_ok u \<Longrightarrow> session_ok (f u)"
  shows "uploads_inv (update_upload i f d)"
proof -
  have ids: "us_id (f u) = us_id u" for u using shape[of u] by (simp add: upload_shape_def)
  have "\<exists>u\<in>set (uploads (update_upload i f d)). part_fits p u" if p: "p \<in> set (parts d)" for p
  proof -
    obtain u where u: "u \<in> set (uploads d)" "part_fits p u" using inv p by (auto simp: uploads_inv_def)
    then have "part_fits p (f u)" using part_fits_shape[OF shape[symmetric]] by blast
    then show ?thesis using u by (auto simp: update_upload_def set_update_rows)
  qed
  then show ?thesis
    using inv ok ids
    by (auto simp: uploads_inv_def update_upload_def map_key_update set_update_rows)
qed

lemma shape_update_upload:
  assumes "\<And>u. upload_shape (f u) = upload_shape u"
  shows "upload_shape ` set (uploads (update_upload i f d)) = upload_shape ` set (uploads d)"
proof -
  have same: "upload_shape (if us_id u = i then f u else u) = upload_shape u" for u
    by (simp add: assms)
  have "uploads (update_upload i f d) = update_rows (\<lambda>u. us_id u = i) f (uploads d)"
    by (simp add: update_upload_def)
  then show ?thesis by (simp only: set_update_rows image_image same)
qed

lemma inv_upsert:
  assumes inv: "uploads_inv d" and fits: "\<exists>u\<in>set (uploads d). part_fits p u"
  shows "uploads_inv (upsert_part pg p d)"
proof -
  let ?rows = "update_rows (\<lambda>q. part_key q = part_key p) (\<lambda>_. p) (parts d)"
  have "pa_offset_bytes q = pa_offset_bytes p" if "q \<in> set (parts d)" "part_key q = part_key p" for q
  proof -
    obtain u v where "u \<in> set (uploads d)" "part_fits q u" "v \<in> set (uploads d)" "part_fits p v"
      using inv fits \<open>q \<in> set (parts d)\<close> by (auto simp: uploads_inv_def)
    moreover from this have "u = v"
      using inv that(2) by (auto simp: uploads_inv_def part_fits_def part_key_def distinct_map inj_on_def)
    ultimately show ?thesis using that(2) by (simp add: part_fits_def part_key_def)
  qed
  from upsert_part_agree[of d p, OF this]
  have up: "upsert_part pg p d = upsert_part_generic p d" by (simp add: upsert_part_def)
  have keys: "map part_key ?rows = map part_key (parts d)" by (auto simp: update_rows_def)
  show ?thesis
  proof (cases "part_key p \<in> part_key ` set (parts d)")
    case True
    then have "upsert_part pg p d = d\<lparr>parts := ?rows\<rparr>"
      unfolding up upsert_part_generic_def by (simp add: find_row_None_iff)
    then show ?thesis using inv fits keys by (auto simp: uploads_inv_def set_update_rows)
  next
    case False
    then have "upsert_part pg p d = d\<lparr>parts := parts d @ [p]\<rparr>"
      unfolding up upsert_part_generic_def by (simp add: find_row_None_iff)
    then show ?thesis using inv fits False by (auto simp: uploads_inv_def)
  qed
qed

lemma inv_insert_file:
  "uploads_inv d \<Longrightarrow> insert_file f d = Inr d' \<Longrightarrow> uploads_inv d'"
  by (auto simp: insert_file_def uploads_inv_def split: if_splits)

lemma shape_insert_file: "insert_file f d = Inr d' \<Longrightarrow> uploads d' = uploads d"
  by (auto simp: insert_file_def split: if_splits)

section \<open>Actions that change nothing in the database\<close>

lemma keeps_ensure_active [keeps]: "keeps P (ensure_active u)"
  by (simp add: ensure_active_def split: upload_status.split)

lemma keeps_validate_bucket [keeps]: "keeps P (validate_bucket sv i b)"
  unfolding validate_bucket_def by (intro keeps)

lemma keeps_check_conflict [keeps]: "keeps (on_db P) (check_conflict sv b k)"
  unfolding check_conflict_def by (intro keeps)

lemma keeps_effective_for [keeps]: "keeps (on_db P) (effective_for sv rq c now)"
  unfolding effective_for_def Let_def by (intro keeps)

lemma keeps_plan_upload [keeps]: "keeps (on_db P) (plan_upload sv i rq)"
  unfolding plan_upload_def Let_def by (intro keeps)

lemma keeps_presign_each [keeps]: "keeps (on_db P) (presign_each sv u sid e ns)"
  by (induction ns) (simp_all del: seq_guard, intro keeps)

lemma keeps_parts_to_assemble [keeps]: "keeps (on_db P) (parts_to_assemble sv u ps)"
  unfolding parts_to_assemble_def Let_def by (intro keeps)

lemma keeps_get_session_any: "(\<And>u. keeps P (g u)) \<Longrightarrow> keeps P (bnd (get_session i x) g)"
  unfolding get_session_def by (intro keeps)

lemma keeps_presign_parts: "keeps (on_db P) (presign_parts sv i x ns e)"
  unfolding presign_parts_def Let_def by (intro keeps_get_session_any keeps)

lemma plan_upload_Inr:
  assumes "plan_upload sv i rq w = (Inr (k, ps, n, m), w')"
  shows "count_parts (cr_total_size rq) ps = Inr n \<and> 0 \<le> cr_total_size rq
    \<and> validate_object_key sv (cr_object_key rq) = Inr k
    \<and> is_bucket_allowed sv (tenant_id i) (cr_bucket rq) (w_db w)
    \<and> cr_total_size rq \<le> get_max_file_size (sv_settings sv) (w_db w)
    \<and> mp_minimum_part_size_bytes (uc_multipart (cf_uploads (sv_settings sv))) \<le> ps
    \<and> ps \<le> mp_maximum_part_size_bytes (uc_multipart (cf_uploads (sv_settings sv)))
    \<and> n \<le> mp_maximum_parts (uc_multipart (cf_uploads (sv_settings sv)))
    \<and> w_db w' = w_db w \<and> w_metrics w' = w_metrics w"
  using assms
  by (auto simp: plan_upload_def Let_def effs validate_bucket_def check_conflict_def split: if_splits)

lemma keeps_split [keeps]: "(\<And>a b. keeps P (f a b)) \<Longrightarrow> keeps P (case x of (a, b) \<Rightarrow> f a b)"
  by (cases x) simp

lemma keeps_build_session: "keeps (on_db P) (build_session sv i rq new_id now)"
  unfolding build_session_def Let_def by (intro keeps)

lemma build_session_Inr:
  assumes "build_session sv i rq new_id now w = (Inr u, w')"
  shows "session_ok u \<and> us_id u = new_id \<and> us_tenant_id u = tenant_id i \<and> us_status u = Initiated
    \<and> us_bucket u = cr_bucket rq \<and> us_total_size u = cr_total_size rq
    \<and> validate_object_key sv (cr_object_key rq) = Inr (us_object_key u)
    \<and> is_bucket_allowed sv (tenant_id i) (cr_bucket rq) (w_db w) \<and> w_db w' = w_db w"
proof -
  obtain k ps n m w1 w2 where plan: "plan_upload sv i rq w = (Inr (k, ps, n, m), w1)"
    and u: "us_total_size u = cr_total_size rq" "us_part_size u = ps" "us_total_parts u = n"
      "us_id u = new_id" "us_tenant_id u = tenant_id i" "us_status u = Initiated"
      "us_bucket u = cr_bucket rq" "us_object_key u = k"
    using assms by (auto simp: build_session_def Let_def effs)
  have "w_db w' = w_db w"
    using keepsD[OF keeps_build_session[of "\<lambda>d. d = w_db w"] _ assms] by simp
  then show ?thesis using plan_upload_Inr[OF plan] u by (simp add: session_ok_def)
qed

section \<open>Every operation keeps the invariant\<close>

text \<open>
  The proof is done once for the invariant together with any further property \<open>Q\<close> that
  survives the four kinds of change a request of the tenant makes. \<open>Q\<close> is instantiated
  by the trivial property and by what a tenant may not do to the rows of another.
\<close>

locale upload_frame =
  fixes Q :: "db \<Rightarrow> bool" and mine :: "pystr \<Rightarrow> pystr \<Rightarrow> bool"
  assumes Q_update:
      "uploads_inv d \<Longrightarrow> Q d \<Longrightarrow> v \<in> set (uploads d) \<Longrightarrow> mine (us_tenant_id v) (us_id v) \<Longrightarrow>
       (\<And>u. upload_shape (f u) = upload_shape u) \<Longrightarrow> Q (update_upload (us_id v) f d)"
    and Q_upsert:
      "uploads_inv d \<Longrightarrow> Q d \<Longrightarrow> v \<in> set (uploads d) \<Longrightarrow> mine (us_tenant_id v) (us_id v) \<Longrightarrow>
       part_fits p v \<Longrightarrow> Q (upsert_part pg p d)"
    and Q_insert: 
      "Q d \<Longrightarrow> fo_upload_id r = Some x \<Longrightarrow> mine (fo_tenant_id r) x \<Longrightarrow> insert_file r d = Inr d' \<Longrightarrow> Q d'"
    and Q_add:
      "uploads_inv d \<Longrightarrow> Q d \<Longrightarrow> mine (us_tenant_id u) (us_id u) \<Longrightarrow> us_id u \<notin> us_id ` set (uploads d) \<Longrightarrow>
       Q (d\<lparr>uploads := uploads d @ [u]\<rparr>)"
begin

definition frame_inv :: "db \<Rightarrow> bool" where
  "frame_inv d \<longleftrightarrow> uploads_inv d \<and> Q d"

text \<open>The invariant while a request holds the session \<open>u\<close>.\<close>

definition session_inv :: "upload_session \<Rightarrow> db \<Rightarrow> bool" where
  "session_inv u d \<longleftrightarrow>
     frame_inv d \<and> mine (us_tenant_id u) (us_id u) \<and> upload_shape u \<in> upload_shape ` set (uploads d)"

lemma session_row:
  assumes "session_inv u d"
  obtains v where "v \<in> set (uploads d)" "upload_shape v = upload_shape u" "us_id v = us_id u"
    "mine (us_tenant_id v) (us_id v)"
  using assms by (auto simp: session_inv_def upload_shape_def)

lemma keeps_get_session:
  assumes "\<And>u. us_id u = upload_id \<Longrightarrow> us_tenant_id u = tenant_id i \<Longrightarrow> keeps (on_db (session_inv u)) (g u)"
    and "mine (tenant_id i) upload_id"
  shows "keeps (on_db frame_inv) (bnd (get_session i upload_id) g)"
proof (rule keepsI)
  fix w :: "'a world" assume inv: "frame_inv (w_db w)"
  show "frame_inv (w_db (snd (bnd (get_session i upload_id) g w)))"
  proof (cases "get_upload upload_id (Some (tenant_id i)) (w_db w)")
    case None
    then show ?thesis using inv by (simp add: get_session_def require_def raise_def bnd_def get_db_def get_def)
  next
    case (Some u)
    then have "session_inv u (w_db w)"
      using inv get_upload_SomeD[OF Some] assms(2) by (auto simp: session_inv_def)
    then have "session_inv u (w_db (snd (g u w)))"
      using assms(1) get_upload_SomeD[OF Some] by (simp add: keeps_def)
    then show ?thesis
      using Some by (simp add: get_session_def require_def ret_def bnd_def get_db_def get_def session_inv_def)
  qed
qed

lemma keeps_update_upload:
  assumes "\<And>u. upload_shape (f u) = upload_shape u" "\<And>u. session_ok u \<Longrightarrow> session_ok (f u)"
  shows "keeps (on_db (session_inv v)) (modify_db (update_upload (us_id v) f))"
proof (rule keeps_modify_db)
  fix d assume inv: "session_inv v d"
  obtain r where r: "r \<in> set (uploads d)" "us_id r = us_id v" "mine (us_tenant_id r) (us_id r)"
    by (rule session_row[OF inv]) blast
  have "Q (update_upload (us_id r) f d)"
    using inv by (intro Q_update r assms) (auto simp: session_inv_def frame_inv_def)
  then show "session_inv v (update_upload (us_id v) f d)"
    using inv assms r(2) by (simp add: session_inv_def frame_inv_def inv_update_upload shape_update_upload)
qed

lemma keeps_touch: "keeps (on_db (session_inv v)) (modify_db (touch_activity (us_id v) now))"
  unfolding touch_activity_def by (rule keeps_update_upload) (auto simp: upload_shape_def session_ok_def)

lemma keeps_set_status:
  assumes "s \<noteq> Completed"
  shows "keeps (on_db (session_inv v)) (modify_db (update_upload (us_id v) (\<lambda>u. u\<lparr>us_status := s\<rparr>)))"
  using assms by (intro keeps_update_upload) (auto simp: upload_shape_def session_ok_def)

lemma keeps_upsert:
  assumes "part_fits p v"
  shows "keeps (on_db (session_inv v)) (modify_db (upsert_part pg p))"
proof (rule keeps_modify_db)
  fix d assume inv: "session_inv v d"
  obtain r where r: "r \<in> set (uploads d)" "mine (us_tenant_id r) (us_id r)" "part_fits p r"
    using part_fits_shape[OF _ assms] session_row[OF inv] by metis
  then have "uploads_inv (upsert_part pg p d)" "Q (upsert_part pg p d)"
    using inv by (auto intro: inv_upsert Q_upsert simp: session_inv_def frame_inv_def)
  then show "session_inv v (upsert_part pg p d)" using inv by (simp add: session_inv_def frame_inv_def)
qed

lemma keeps_insert_file:
  assumes "fo_upload_id f = Some x" "mine (fo_tenant_id f) x"
  shows "keeps (on_db (session_inv v)) (try_db (insert_file f))"
  by (rule keeps_try_db)
    (auto simp: session_inv_def frame_inv_def shape_insert_file dest: inv_insert_file Q_insert[OF _ assms])

lemma keeps_proxy_upload_part:
  assumes "mine (tenant_id i) x"
  shows "keeps (on_db frame_inv) (proxy_upload_part sv i x n data sz cs now)"
  unfolding proxy_upload_part_def Let_def
proof (rule keeps_get_session[OF _ assms], goal_cases)
  case (1 u)
  have st: "keeps (on_db (session_inv u)) (modify_db (update_status (us_id u) Uploading now))"
    unfolding update_status_def by (rule keeps_update_upload) (auto simp: upload_shape_def session_ok_def)
  show ?case
    by (intro keeps_seq[OF keeps_ensure_active] keeps_seq_guard)
      (intro keeps_seq keeps_if st keeps_ret keeps_bnd keeps_on_store keeps_upsert keeps_count
        keeps_count_by keeps_touch, simp add: part_fits_def)
qed

lemma keeps_commit_part:
  assumes "mine (tenant_id i) x"
  shows "keeps (on_db frame_inv) (commit_part sv i x n etag sz cs now)"
  unfolding commit_part_def
proof (rule keeps_get_session[OF _ assms], goal_cases)
  case (1 u)
  show ?case
    by (intro keeps_seq[OF keeps_ensure_active] keeps_seq_guard)
      (intro keeps_seq keeps_upsert keeps_count keeps_count_by keeps_touch, simp add: part_fits_def)
qed

lemma keeps_resume: "mine (tenant_id i) x \<Longrightarrow> keeps (on_db frame_inv) (resume sv i x now)"
  unfolding resume_def by (rule keeps_get_session) (intro keeps_touch keeps)

lemma keeps_complete:
  assumes "mine (tenant_id i) x"
  shows "keeps (on_db frame_inv) (complete sv i x fid now)"
  unfolding complete_def complete_new_def Let_def
proof (rule keeps_get_session[OF _ assms], goal_cases)
  case (1 u)
  have fin: "keeps (on_db (session_inv u)) (modify_db (update_upload (us_id u)
      (\<lambda>u. u\<lparr>us_status := Completed, us_completed_file_id := Some fid, us_updated_at := now\<rparr>)))"
    by (rule keeps_update_upload) (auto simp: upload_shape_def session_ok_def)
  have ins: "keeps (on_db (session_inv u)) (try_db (insert_file (completed_file sv i u stored fid now)))"
    for stored by (rule keeps_insert_file[of _ x]) (simp_all add: completed_file_def Let_def assms 1)
  show ?case by (intro fin ins keeps_set_status keeps) simp
qed

lemma keeps_abort:
  assumes "mine (tenant_id i) x"
  shows "keeps (on_db frame_inv) (abort sv i x now)"
  unfolding abort_def
proof (rule keeps_get_session[OF _ assms], goal_cases)
  case (1 u)
  have fin: "keeps (on_db (session_inv u)) (modify_db (update_upload (us_id u)
      (\<lambda>u. u\<lparr>us_status := Aborted, us_updated_at := now\<rparr>)))"
    by (rule keeps_update_upload) (auto simp: upload_shape_def session_ok_def)
  show ?case by (intro fin keeps_set_status keeps) simp
qed

lemma keeps_refresh:
  assumes "mine (tenant_id i) x"
  shows "keeps (on_db frame_inv) (refresh sv i x now)"
proof -
  have up: "keeps (on_db (session_inv v)) (modify_db (update_upload (us_id v)
      (\<lambda>u. u\<lparr>us_expires_at := e, us_last_activity_at := now\<rparr>)))" for v e
    by (rule keeps_update_upload) (auto simp: upload_shape_def session_ok_def)
  show ?thesis
    unfolding refresh_def Let_def
    by (intro keeps_seq[OF keeps_guard] keeps_get_session[OF _ assms]) (intro up keeps)
qed

lemma keeps_create_session:
  assumes inv: "frame_inv (w_db w)" and i: "mine (tenant_id i) new_id"
    and fresh: "new_id \<notin> us_id ` set (uploads (w_db w))"
  shows "frame_inv (w_db (snd (create_session sv i rq new_id now w)))"
proof -
  obtain r w' where run: "build_session sv i rq new_id now w = (r, w')" by fastforce
  have db: "w_db w' = w_db w"
    using keepsD[OF keeps_build_session[of "\<lambda>d. d = w_db w"] _ run] by simp
  show ?thesis
  proof (cases r)
    case (Inl e)
    then show ?thesis using run db inv by (simp add: create_session_def bnd_def)
  next
    case (Inr u)
    have u: "session_ok u" "us_id u = new_id" "mine (us_tenant_id u) (us_id u)"
      using build_session_Inr[of sv i rq new_id now w u w'] run Inr i by auto
    have "w_db (snd (create_session sv i rq new_id now w))
        = (w_db w)\<lparr>uploads := uploads (w_db w) @ [u]\<rparr>"
      using run Inr db by (simp add: create_session_def bnd_def ret_def)
    moreover have "Q ((w_db w)\<lparr>uploads := uploads (w_db w) @ [u]\<rparr>)"
      using inv u fresh by (intro Q_add) (auto simp: frame_inv_def)
    ultimately show ?thesis using inv fresh u by (auto simp: frame_inv_def uploads_inv_def)
  qed
qed

end

section \<open>Completing\<close>

lemma sorted_list_parts: "sorted (map pa_part_number (list_parts_for_upload x d))"
  by (simp add: list_parts_for_upload_def)

lemma committed_parts_all:
  assumes "uploads_inv d"
  shows "committed_parts x d = list_parts_for_upload x d"
  using assms
  by (force simp: committed_parts_def set_list_parts uploads_inv_def part_fits_def
      intro!: filter_True)

lemma session_unique:
  "uploads_inv d \<Longrightarrow> u \<in> set (uploads d) \<Longrightarrow> v \<in> set (uploads d) \<Longrightarrow> us_id u = us_id v \<Longrightarrow> u = v"
  by (auto simp: uploads_inv_def distinct_map inj_on_def)

lemma distinct_part_numbers:
  assumes "uploads_inv d"
  shows "distinct (map pa_part_number (list_parts_for_upload x d))"
proof -
  have "inj_on pa_part_number {p \<in> set (parts d). pa_upload_id p = x}"
    using assms by (auto simp: uploads_inv_def distinct_map inj_on_def part_key_def)
  moreover have "distinct (parts d)" using assms by (simp add: uploads_inv_def distinct_map)
  ultimately show ?thesis
    by (auto simp: distinct_map list_parts_for_upload_def set_list_parts[unfolded list_parts_for_upload_def])
qed

lemma committed_numbers:
  assumes "uploads_inv d" "u \<in> set (uploads d)"
  shows "pa_part_number ` set (committed_parts (us_id u) d) \<subseteq> {1..us_total_parts u}"
proof
  fix n assume "n \<in> pa_part_number ` set (committed_parts (us_id u) d)"
  then obtain p where p: "p \<in> set (parts d)" "pa_upload_id p = us_id u" "n = pa_part_number p"
    by (auto simp: committed_parts_def set_list_parts)
  then obtain v where "v \<in> set (uploads d)" "part_fits p v" using assms(1) by (auto simp: uploads_inv_def)
  then show "n \<in> {1..us_total_parts u}"
    using p session_unique[OF assms(1,2), of v] by (auto simp: part_fits_def)
qed

lemma total_parts_pos: "session_ok u \<Longrightarrow> 1 \<le> us_total_parts u"
  by (auto simp: session_ok_def count_parts_def split: option.splits)

text \<open>Enough committed parts are all parts.\<close>

lemma enough_parts_iff:
  assumes "uploads_inv d" "u \<in> set (uploads d)"
  shows "us_total_parts u \<le> int (length (committed_parts (us_id u) d))
    \<longleftrightarrow> pa_part_number ` set (committed_parts (us_id u) d) = {1..us_total_parts u}"
proof -
  let ?ns = "pa_part_number ` set (committed_parts (us_id u) d)"
  have len: "card ?ns = length (committed_parts (us_id u) d)"
    using distinct_part_numbers[OF assms(1), of "us_id u"] committed_parts_all[OF assms(1), of "us_id u"]
    by (metis distinct_card length_map list.set_map)
  have sub: "?ns \<subseteq> {1..us_total_parts u}" by (rule committed_numbers[OF assms])
  have "1 \<le> us_total_parts u"
    using assms by (intro total_parts_pos) (auto simp: uploads_inv_def)
  then have card: "int (card {1..us_total_parts u}) = us_total_parts u" by simp
  show ?thesis
  proof
    assume "us_total_parts u \<le> int (length (committed_parts (us_id u) d))"
    then have "card {1..us_total_parts u} \<le> card ?ns" using card len by linarith
    then show "?ns = {1..us_total_parts u}" using card_subset_eq[OF _ sub] card_mono[OF _ sub] by fastforce
  next
    assume "?ns = {1..us_total_parts u}"
    then have "card ?ns = card {1..us_total_parts u}" by simp
    then show "us_total_parts u \<le> int (length (committed_parts (us_id u) d))" using card len by linarith
  qed
qed

lemma get_session_eval:
  "get_upload x (Some (tenant_id i)) (w_db w) = Some u \<Longrightarrow> bnd (get_session i x) g w = g u w"
  "get_upload x (Some (tenant_id i)) (w_db w) = None \<Longrightarrow>
     bnd (get_session i x) g w = (Inl (UploadNotFoundError x), w)"
  by (simp_all add: get_session_def bnd_def require_def ret_def raise_def get_db_def get_def)

text \<open>What a first completion did, when it succeeded.\<close>

lemma complete_new_Inr:
  assumes "complete_new sv i u fid now w = (Inr f, w')"
  shows "us_total_parts u \<le> int (length (committed_parts (us_id u) (w_db w)))
    \<and> us_status u \<in> {Initiated, Uploading}
    \<and> (\<exists>ps s1 stored s2 d.
         parts_to_assemble sv u (committed_parts (us_id u) (w_db w)) w = (Inr ps, w\<lparr>w_store := s1\<rparr>)
         \<and> st_complete_multipart_upload (sv_storage sv) (us_bucket u) (us_object_key u) (storage_id u) ps s1
             = (Inr stored, s2)
         \<and> f = completed_file sv i u stored fid now
         \<and> insert_file f (update_upload (us_id u) (\<lambda>u. u\<lparr>us_status := Completing\<rparr>) (w_db w)) = Inr d
         \<and> w_db w' = update_upload (us_id u) (\<lambda>u. u\<lparr>us_status := Completed,
              us_completed_file_id := Some fid, us_updated_at := now\<rparr>) d
         \<and> w_store w' = s2)"
proof -
  let ?ps = "committed_parts (us_id u) (w_db w)"
  have assembled: "\<exists>s1. w1 = w0\<lparr>w_store := s1\<rparr>"
    if "parts_to_assemble sv u ps w0 = (Inr x, w1)" for ps x w0 w1
    using that by (auto simp: parts_to_assemble_def Let_def effs split: if_splits) (metis world.surjective world.update_convs(2))
  have completing: "s = Uploading" if "Completing \<in> set (allowed upload_transitions s)" for s
    using that by (cases s) simp_all
  obtain ps w1 w2 where enough: "us_total_parts u \<le> int (length ?ps)"
    and ps: "parts_to_assemble sv u ?ps w = (Inr ps, w1)"
    and status: "(if us_status u = Uploading \<or> us_status u = Initiated then ret ()
        else bnd (lift (transition_upload (us_status u) Completing)) (\<lambda>_. ret ())) w1 = (Inr (), w2)"
    and rest: "seq (modify_db (update_upload (us_id u) (\<lambda>u. u\<lparr>us_status := Completing\<rparr>)))
      (bnd (on_store (st_complete_multipart_upload (sv_storage sv) (us_bucket u) (us_object_key u)
                        (storage_id u) ps)) (\<lambda>stored.
       seq (try_db (insert_file (completed_file sv i u stored fid now)))
       (seq (modify_db (update_upload (us_id u)
               (\<lambda>u. u\<lparr>us_status := Completed, us_completed_file_id := Some fid,
                      us_updated_at := now\<rparr>)))
       (seq (count (\<lambda>m. m\<lparr>m_complete := m_complete m + 1,
                          m_active_sessions := m_active_sessions m - 1\<rparr>))
            (ret (completed_file sv i u stored fid now)))))) w2 = (Inr f, w')"
    using assms unfolding complete_new_def Let_def
    by (auto simp: bnd_Inr_iff seq_def guard_def ret_def raise_def get_db_Inr split: if_splits)
  have st: "us_status u \<in> {Initiated, Uploading}" "w2 = w1"
    using status completing by (auto simp: transition_upload_def lift_def bnd_def ret_def raise_def split: if_splits)
  obtain s1 where w1: "w1 = w\<lparr>w_store := s1\<rparr>" using assembled[OF ps] by blast
  show ?thesis
    using enough ps st rest w1 by (auto simp: effs)
qed

text \<open>The first completion of a session: all parts are there, and the file and session are recorded.\<close>

lemma insert_file_Inr:
  "insert_file f d = Inr d' \<Longrightarrow> d' = d\<lparr>files := files d @ [f]\<rparr> \<and> file_key f \<notin> file_key ` set (files d)"
  by (auto simp: insert_file_def split: if_splits)

lemma complete_first:
  assumes inv: "uploads_inv (w_db w)"
    and u: "get_upload x (Some (tenant_id i)) (w_db w) = Some u" "us_status u \<noteq> Completed"
    and run: "complete sv i x fid now w = (Inr f, w')"
  shows "pa_part_number ` set (committed_parts x (w_db w)) = {1..us_total_parts u}
    \<and> files (w_db w') = files (w_db w) @ [f]
    \<and> fo_id f = fid \<and> fo_tenant_id f = tenant_id i \<and> fo_bucket f = us_bucket u
    \<and> fo_object_key f = us_object_key u \<and> fo_size_bytes f = us_total_size u
    \<and> fo_status f = FileActive \<and> fo_upload_id f = Some x
    \<and> get_upload x (Some (tenant_id i)) (w_db w') =
        Some (u\<lparr>us_status := Completed, us_completed_file_id := Some fid, us_updated_at := now\<rparr>)"
proof -
  have x: "us_id u = x" "u \<in> set (uploads (w_db w))" using get_upload_SomeD[OF u(1)] by auto
  have "complete sv i x fid now w =
      seq (guard (us_status u \<noteq> Aborted) UploadAbortedError)
        (seq (guard (us_status u \<noteq> Expired) UploadExpiredError) (complete_new sv i u fid now)) w"
    using u by (simp add: complete_def get_session_eval(1)[OF u(1)] existing_file_def)
  then have run': "complete_new sv i u fid now w = (Inr f, w')"
    using run by (auto simp: raise_def split: if_splits)
  from complete_new_Inr[OF this] obtain stored d
    where enough: "us_total_parts u \<le> int (length (committed_parts (us_id u) (w_db w)))"
      and f: "f = completed_file sv i u stored fid now"
      and d: "insert_file f (update_upload (us_id u) (\<lambda>u. u\<lparr>us_status := Completing\<rparr>) (w_db w)) = Inr d"
      and w': "w_db w' = update_upload (us_id u) (\<lambda>u. u\<lparr>us_status := Completed,
              us_completed_file_id := Some fid, us_updated_at := now\<rparr>) d"
    by blast
  have all: "pa_part_number ` set (committed_parts x (w_db w)) = {1..us_total_parts u}"
    using enough_parts_iff[OF inv x(2)] enough x(1) by simp
  have d': "d = (update_upload x (\<lambda>u. u\<lparr>us_status := Completing\<rparr>) (w_db w))\<lparr>files := files (w_db w) @ [f]\<rparr>"
    using insert_file_Inr[OF d] x(1) by simp
  have "get_upload x (Some (tenant_id i)) (update_upload x g (d0\<lparr>files := fs\<rparr>)) =
      get_upload x (Some (tenant_id i)) (update_upload x g d0)" for g d0 fs
    by (simp add: get_upload_def update_upload_def)
  then have "get_upload x (Some (tenant_id i)) (w_db w') =
        Some (u\<lparr>us_status := Completed, us_completed_file_id := Some fid, us_updated_at := now\<rparr>)"
    using u(1) x(1) by (simp add: w' d' get_upload_update)
  then show ?thesis
    using all x(1) f d' w' by (simp add: completed_file_def Let_def)
qed

text \<open>Completing again returns the same file and changes nothing.\<close>

lemma complete_again:
  assumes "get_upload x (Some (tenant_id i)) (w_db w) = Some u" "us_status u = Completed"
    and "us_completed_file_id u = Some fid" "get_file fid (Some (tenant_id i)) (w_db w) = Some f"
  shows "complete sv i x fid' now w = (Inr f, w)"
  using assms by (simp add: complete_def get_session_eval(1)[OF assms(1)] existing_file_def ret_def)

lemma complete_missing:
  assumes inv: "uploads_inv (w_db w)"
    and u: "get_upload x (Some (tenant_id i)) (w_db w) = Some u"
    and open': "us_status u \<in> {Initiated, Uploading}"
    and missing: "n \<in> {1..us_total_parts u}" "n \<notin> pa_part_number ` set (committed_parts x (w_db w))"
  shows "complete sv i x fid now w =
    (Inl (MissingPartsError (missing_numbers (us_total_parts u)
       (pa_part_number ` set (committed_parts x (w_db w))))), w)"
proof -
  have x: "us_id u = x" "u \<in> set (uploads (w_db w))" using get_upload_SomeD[OF u] by auto
  have "\<not> us_total_parts u \<le> int (length (committed_parts x (w_db w)))"
    using enough_parts_iff[OF inv x(2)] missing x(1) by auto
  moreover have "complete sv i x fid now w = complete_new sv i u fid now w"
    using open' by (auto simp: complete_def get_session_eval(1)[OF u] existing_file_def)
  ultimately show ?thesis by (simp add: complete_new_def x(1) raise_def)
qed

end
