(* ===== verification/UploadRequests.thy ===== *)
theory UploadRequests
  imports UploadInvariant
begin

text \<open>
  The upload API as a whole: the requests of \<open>src/app/api/v1/uploads.py\<close> as a datatype,
  a service that answers them one after the other, and what holds of every state it reaches.
\<close>

section \<open>Requests\<close>

datatype upload_request =
    CreateUpload create_request pystr
  | PutPart pystr int bytes "pystr option"
  | CommitPart pystr int pystr int "pystr option"
  | ResumeUpload pystr
  | CompleteUpload pystr pystr
  | AbortUpload pystr
  | RefreshUpload pystr

definition ignore_result :: "('s, 'a) act \<Rightarrow> ('s, unit) act" where
  "ignore_result m = bnd m (\<lambda>_. ret ())"

definition complete_handler ::
    "'s service \<Rightarrow> identity \<Rightarrow> pystr \<Rightarrow> pystr \<Rightarrow> dt \<Rightarrow> ('s, file_object) act" where
  "complete_handler sv i upload_id file_id now = transaction (complete sv i upload_id file_id now)"

fun serve :: "'s service \<Rightarrow> identity \<Rightarrow> dt \<Rightarrow> upload_request \<Rightarrow> ('s, unit) act" where
  "serve sv i now (CreateUpload rq new_id) = ignore_result (create_upload_handler sv i rq new_id now)"
| "serve sv i now (PutPart x n body header) =
     ignore_result (proxy_upload_part_handler sv i x n body header now)"
| "serve sv i now (CommitPart x n etag sz cs) = commit_part_handler sv i x n etag sz cs now"
| "serve sv i now (ResumeUpload x) = ignore_result (resume_handler sv i x now)"
| "serve sv i now (CompleteUpload x fid) = ignore_result (complete_handler sv i x fid now)"
| "serve sv i now (AbortUpload x) = ignore_result (abort_handler sv i x now)"
| "serve sv i now (RefreshUpload x) = ignore_result (refresh_handler sv i x now)"

text \<open>Ids drawn for new rows are new.\<close>

fun fresh_ids :: "upload_request \<Rightarrow> db \<Rightarrow> bool" where
  "fresh_ids (CreateUpload _ new_id) d = (new_id \<notin> us_id ` set (uploads d))"
| "fresh_ids (CompleteUpload _ fid) d = (fid \<notin> fo_id ` set (files d))"
| "fresh_ids _ d = True"

inductive served :: "'s service \<Rightarrow> 's world \<Rightarrow> 's world \<Rightarrow> bool" for sv w where
  served_start: "served sv w w"
| served_step:
    "served sv w w1 \<Longrightarrow> fresh_ids rq (w_db w1) \<Longrightarrow> serve sv i now rq w1 = (r, w2) \<Longrightarrow> served sv w w2"

fun target :: "upload_request \<Rightarrow> pystr" where
  "target (CreateUpload _ new_id) = new_id"
| "target (PutPart x _ _ _) = x"
| "target (CommitPart x _ _ _ _) = x"
| "target (ResumeUpload x) = x"
| "target (CompleteUpload x _) = x"
| "target (AbortUpload x) = x"
| "target (RefreshUpload x) = x"

lemma keeps_ignore: "keeps P m \<Longrightarrow> keeps P (ignore_result m)"
  unfolding ignore_result_def by (intro keeps)

section \<open>One request\<close>

context upload_frame
begin

lemma serve_keeps:
  assumes inv: "frame_inv (w_db w)" and fresh: "fresh_ids rq (w_db w)" and i: "mine (tenant_id i) (target rq)"
    and run: "serve sv i now rq w = (r, w')"
  shows "frame_inv (w_db w')"
proof (cases rq)
  case (CreateUpload c new_id)
  have "frame_inv (w_db (snd (create_upload_handler sv i c new_id now w)))"
  proof -
    obtain q w1 where q: "create_session sv i (c\<lparr>cr_bucket := if cr_bucket c = []
        then get_default_bucket (sv_settings sv) (w_db w) else cr_bucket c,
        cr_upload_mode := if cr_upload_mode c = [] then lit ''automatic'' else cr_upload_mode c\<rparr>)
        new_id now w = (q, w1)" by fastforce
    have "frame_inv (w_db w1)"
      using keeps_create_session[OF inv _, of i new_id sv _ now] i fresh q CreateUpload
      by (metis fresh_ids.simps(1) target.simps(1) snd_conv)
    then show ?thesis
      using inv q by (cases q) (simp_all add: create_upload_handler_def transaction_def get_db_def)
  qed
  then show ?thesis
    using run CreateUpload
    by (auto simp: ignore_result_def bnd_def ret_def split: prod.splits sum.splits)
next
  case (PutPart x n body header)
  have "keeps (on_db frame_inv) (serve sv i now rq)"
    unfolding PutPart serve.simps proxy_upload_part_handler_def
    by (intro keeps_ignore keeps_transaction keeps_proxy_upload_part) (use i in \<open>simp add: PutPart\<close>)
  from keepsD[OF this inv run] show ?thesis .
next
  case (CommitPart x n etag sz cs)
  have "keeps (on_db frame_inv) (serve sv i now rq)"
    unfolding CommitPart serve.simps commit_part_handler_def
    by (intro keeps_transaction keeps_commit_part) (use i in \<open>simp add: CommitPart\<close>)
  from keepsD[OF this inv run] show ?thesis .
next
  case (ResumeUpload x)
  have "keeps (on_db frame_inv) (serve sv i now rq)"
    unfolding ResumeUpload serve.simps resume_handler_def
    by (intro keeps_ignore keeps_transaction keeps_resume) (use i in \<open>simp add: ResumeUpload\<close>)
  from keepsD[OF this inv run] show ?thesis .
next
  case (CompleteUpload x fid)
  have "keeps (on_db frame_inv) (serve sv i now rq)"
    unfolding CompleteUpload serve.simps complete_handler_def
    by (intro keeps_ignore keeps_transaction keeps_complete) (use i in \<open>simp add: CompleteUpload\<close>)
  from keepsD[OF this inv run] show ?thesis .
next
  case (AbortUpload x)
  have "keeps (on_db frame_inv) (serve sv i now rq)"
    unfolding AbortUpload serve.simps abort_handler_def
    by (intro keeps_ignore keeps_transaction keeps_abort) (use i in \<open>simp add: AbortUpload\<close>)
  from keepsD[OF this inv run] show ?thesis .
next
  case (RefreshUpload x)
  have "keeps (on_db frame_inv) (serve sv i now rq)"
    unfolding RefreshUpload serve.simps refresh_handler_def
    by (intro keeps_ignore keeps_transaction keeps_refresh) (use i in \<open>simp add: RefreshUpload\<close>)
  from keepsD[OF this inv run] show ?thesis .
qed

end

section \<open>Instances\<close>

interpretation plain: upload_frame "\<lambda>_. True" "\<lambda>_ _. True"
  by unfold_locales auto

lemma serve_inv:
  "uploads_inv (w_db w) \<Longrightarrow> fresh_ids rq (w_db w) \<Longrightarrow> serve sv i now rq w = (r, w') \<Longrightarrow>
   uploads_inv (w_db w')"
  using plain.serve_keeps[where w = w and i = i and rq = rq] unfolding plain.frame_inv_def by blast

lemma served_inv: "served sv w w' \<Longrightarrow> uploads_inv (w_db w) \<Longrightarrow> uploads_inv (w_db w')"
  by (induction rule: served.induct) (auto intro: serve_inv)

text \<open>The rows of a tenant: sessions, files, and the parts of its sessions.\<close>

definition rows_of :: "pystr \<Rightarrow> db \<Rightarrow> upload_session list \<times> file_object list \<times> upload_part list" where
  "rows_of t d =
     (filter (\<lambda>u. us_tenant_id u = t) (uploads d),
      filter (\<lambda>f. fo_tenant_id f = t) (files d),
      filter (\<lambda>p. pa_upload_id p \<in> us_id ` set (filter (\<lambda>u. us_tenant_id u = t) (uploads d))) (parts d))"

lemma filter_update_rows:
  assumes "\<And>r. r \<in> set rows \<Longrightarrow> p r \<Longrightarrow> \<not> q r \<and> \<not> q (f r)"
  shows "filter q (update_rows p f rows) = filter q rows"
  using assms by (induction rows) (auto simp: update_rows_def)

lemma rows_of_update:
  assumes inv: "uploads_inv d" and v: "v \<in> set (uploads d)" "us_tenant_id v \<noteq> t"
    and f: "\<And>u. upload_shape (f u) = upload_shape u"
  shows "rows_of t (update_upload (us_id v) f d) = rows_of t d"
proof -
  have tf: "us_tenant_id (f u) = us_tenant_id u" for u using f[of u] by (simp add: upload_shape_def)
  have "filter (\<lambda>u. us_tenant_id u = t) (update_rows (\<lambda>u. us_id u = us_id v) f (uploads d))
      = filter (\<lambda>u. us_tenant_id u = t) (uploads d)"
    using v session_unique[OF inv _ v(1)] tf by (intro filter_update_rows) auto
  then show ?thesis by (simp add: rows_of_def update_upload_def)
qed

lemma rows_of_upsert:
  assumes inv: "uploads_inv d" and v: "v \<in> set (uploads d)" "us_tenant_id v \<noteq> t" and p: "part_fits p v"
  shows "rows_of t (upsert_part pg p d) = rows_of t d"
proof -
  let ?mine = "\<lambda>q. pa_upload_id q \<in> us_id ` set (filter (\<lambda>u. us_tenant_id u = t) (uploads d))"
  have other: "\<not> ?mine q" if "pa_upload_id q = pa_upload_id p" for q
  proof
    assume "?mine q"
    then obtain r where r: "r \<in> set (uploads d)" "us_tenant_id r = t" "us_id r = pa_upload_id q" by auto
    have "us_id r = us_id v" using r(3) that p by (simp add: part_fits_def)
    from session_unique[OF inv r(1) v(1) this] show False using r(2) v(2) by simp
  qed
  have upd: "filter ?mine (update_rows (\<lambda>q. part_key q = part_key p) g (parts d)) = filter ?mine (parts d)"
    if "\<And>q. pa_upload_id (g q) = pa_upload_id q \<or> g q = p" for g
  proof (rule filter_update_rows)
    fix r assume "part_key r = part_key p"
    then have "pa_upload_id r = pa_upload_id p" by (simp add: part_key_def)
    moreover from this that[of r] have "pa_upload_id (g r) = pa_upload_id p" by auto
    ultimately show "\<not> ?mine r \<and> \<not> ?mine (g r)" using other[of r] other[of "g r"] by blast
  qed
  have "\<not> ?mine p" by (rule other) simp
  then have "filter ?mine (parts (upsert_part pg p d)) = filter ?mine (parts d)"
    unfolding upsert_part_def upsert_part_postgresql_def upsert_part_generic_def
    using upd[of "\<lambda>_. p"] upd[of "\<lambda>q. q\<lparr>pa_etag := pa_etag p, pa_size_bytes := pa_size_bytes p,
      pa_status := pa_status p, pa_checksum_sha256 := pa_checksum_sha256 p, pa_updated_at := pa_updated_at p\<rparr>"]
    by simp
  then show ?thesis by (simp add: rows_of_def)
qed

interpretation others: upload_frame "\<lambda>d. rows_of t d = x" "\<lambda>tenant _. tenant \<noteq> t" for t x
proof (unfold_locales, goal_cases)
  case (1 d v f)
  then show ?case using rows_of_update[of d v t f] by auto
next
  case (2 d v p pg)
  then show ?case using rows_of_upsert[of d v t p pg] by auto
next
  case (3 d f y d')
  then show ?case by (auto simp: rows_of_def dest!: insert_file_Inr)
next
  case (4 d u)
  have "us_tenant_id u \<noteq> t \<Longrightarrow> rows_of t (d\<lparr>uploads := uploads d @ [u]\<rparr>) = rows_of t d"
    by (simp add: rows_of_def)
  with 4 show ?case by simp
qed

lemma serve_others:
  assumes "uploads_inv (w_db w)" "fresh_ids rq (w_db w)" "serve sv i now rq w = (r, w')" "t \<noteq> tenant_id i"
  shows "rows_of t (w_db w') = rows_of t (w_db w)"
proof -
  have "others.frame_inv t (rows_of t (w_db w)) (w_db w)"
    unfolding others.frame_inv_def using assms(1) by blast
  from others.serve_keeps[OF this assms(2) assms(4)[symmetric] assms(3)] show ?thesis
    unfolding others.frame_inv_def by blast
qed

text \<open>The row of one session under requests about other sessions.\<close>

interpretation aside: upload_frame "\<lambda>d. get_upload x None d = Some u" "\<lambda>_ y. y \<noteq> x" for x u
proof (unfold_locales, goal_cases)
  case (1 d v f)
  have "us_id (f r) = us_id r \<and> us_tenant_id (f r) = us_tenant_id r" for r
    using 1(5)[of r] by (simp add: upload_shape_def)
  then show ?case using 1 get_upload_SomeD[OF 1(2)] by (simp add: get_upload_update)
next
  case (2 d v p pg)
  then show ?case by (simp add: get_upload_def)
next
  case (3 d f y d')
  then show ?case by (auto simp: get_upload_def dest!: insert_file_Inr)
next
  case (4 d v)
  then show ?case by (simp add: get_upload_def find_snoc)
qed

lemma serve_aside:
  assumes "uploads_inv (w_db w)" "fresh_ids rq (w_db w)" "serve sv i now rq w = (r, w')"
    and "target rq \<noteq> x" "get_upload x None (w_db w) = Some u"
  shows "get_upload x None (w_db w') = Some u"
proof -
  have "aside.frame_inv x u (w_db w)" unfolding aside.frame_inv_def using assms(1,5) by blast
  from aside.serve_keeps[OF this assms(2,4,3)] show ?thesis unfolding aside.frame_inv_def by blast
qed

section \<open>Finished sessions\<close>

definition finished :: "upload_session \<Rightarrow> bool" where
  "finished u \<longleftrightarrow> us_status u \<in> {Completed, Aborted, Expired}"

lemma get_upload_tenant:
  assumes "uploads_inv d" "get_upload x None d = Some u"
  shows "get_upload x (Some t) d = (if us_tenant_id u = t then Some u else None)"
proof (cases "get_upload x (Some t) d")
  case None
  then show ?thesis using get_upload_SomeD[OF assms(2)] by (auto simp: get_upload_def find_None_iff)
next
  case (Some v)
  then show ?thesis
    using get_upload_SomeD[OF Some] get_upload_SomeD[OF assms(2)] session_unique[OF assms(1), of u v]
    by auto
qed

lemma transaction_error:
  assumes "\<And>a w'. m w \<noteq> (Inr a, w')"
  shows "w_db (snd (transaction m w)) = w_db w"
  using assms by (auto simp: transaction_def split: prod.splits sum.splits)

lemma ignore_transaction:
  "w_db (snd (ignore_result (transaction m) w)) = w_db (snd (transaction m w))"
  by (auto simp: ignore_result_def bnd_def ret_def split: prod.splits sum.splits)

lemma seq_raise [simp]: "seq (raise e) m = raise e"
  by (simp add: seq_def)

lemma raise_Inr [simp]: "raise e w = (Inr a, w') \<longleftrightarrow> False"
  by (simp add: raise_def)

lemma ensure_active_finished: "finished u \<Longrightarrow> seq (ensure_active u) m w \<noteq> (Inr a, w')"
  by (auto simp: ensure_active_def finished_def)

lemma get_session_Inr [effs]:
  "get_session i x w = (Inr u, w') \<longleftrightarrow> get_upload x (Some (tenant_id i)) (w_db w) = Some u \<and> w' = w"
  by (auto simp: get_session_def effs)

text \<open>A request about a finished session changes nothing but its time of last activity.\<close>

lemma serve_finished:
  assumes inv: "uploads_inv (w_db w)" and u: "get_upload (target rq) None (w_db w) = Some u" "finished u"
    and fresh: "fresh_ids rq (w_db w)" and run: "serve sv i now rq w = (r, w')"
  shows "w_db w' = w_db w \<or> w_db w' = touch_activity (us_id u) now (w_db w)"
proof -
  have get: "get_upload (target rq) (Some (tenant_id i)) (w_db w) = (if us_tenant_id u = tenant_id i then Some u else None)"
    by (rule get_upload_tenant[OF inv u(1)])
  have w': "w' = snd (serve sv i now rq w)" using run by simp
  show ?thesis
  proof (cases rq)
    case (CreateUpload c new_id)
    then show ?thesis using fresh get_upload_SomeD[OF u(1)] by auto
  next
    case (PutPart x n body header)
    have "proxy_upload_part sv i x n body sz cs now w \<noteq> (Inr a, w'')" for sz cs a w''
    proof (cases "us_tenant_id u = tenant_id i")
      case True
      then have g: "get_upload x (Some (tenant_id i)) (w_db w) = Some u" using get PutPart by simp
      show ?thesis unfolding proxy_upload_part_def get_session_eval(1)[OF g] by (rule ensure_active_finished[OF u(2)])
    qed (use get PutPart in \<open>simp add: proxy_upload_part_def get_session_eval(2)\<close>)
    then show ?thesis
      unfolding w' PutPart serve.simps ignore_transaction proxy_upload_part_handler_def
      by (intro disjI1 transaction_error)
  next
    case (CommitPart x n etag sz cs)
    have "commit_part sv i x n etag sz cs now w \<noteq> (Inr a, w'')" for a w''
    proof (cases "us_tenant_id u = tenant_id i")
      case True
      then have g: "get_upload x (Some (tenant_id i)) (w_db w) = Some u" using get CommitPart by simp
      show ?thesis unfolding commit_part_def get_session_eval(1)[OF g] by (rule ensure_active_finished[OF u(2)])
    qed (use get CommitPart in \<open>simp add: commit_part_def get_session_eval(2)\<close>)
    then show ?thesis
      unfolding w' CommitPart serve.simps commit_part_handler_def by (intro disjI1 transaction_error)
  next
    case (ResumeUpload x)
    have "w_db w'' = touch_activity (us_id u) now (w_db w)" if "resume sv i x now w = (Inr a, w'')" for a w''
      using that get ResumeUpload
      by (auto simp: resume_def effs catch_def on_store_def split: if_splits prod.splits sum.splits)
    then show ?thesis
      unfolding w' ResumeUpload serve.simps ignore_transaction resume_handler_def
      by (cases "resume sv i x now w") (auto simp: transaction_def split: sum.splits)
  next
    case (CompleteUpload x fid)
    have "w_db w'' = w_db w" if run': "complete sv i x fid now w = (Inr a, w'')" for a w''
    proof (cases "us_tenant_id u = tenant_id i")
      case True
      then have g: "get_upload x (Some (tenant_id i)) (w_db w) = Some u" using get CompleteUpload by simp
      have "complete_new sv i u fid now w \<noteq> (Inr a, w'')"
        using complete_new_Inr[of sv i u fid now w a w''] u(2) by (auto simp: finished_def)
      then show ?thesis
        using run' by (auto simp: complete_def get_session_eval(1)[OF g] ret_def split: option.splits if_splits)
    qed (use run' get CompleteUpload in \<open>simp add: complete_def get_session_eval(2)\<close>)
    then show ?thesis
      unfolding w' CompleteUpload serve.simps ignore_transaction complete_handler_def
      by (cases "complete sv i x fid now w") (auto simp: transaction_def split: sum.splits)
  next
    case (AbortUpload x)
    have "w_db w'' = w_db w" if "abort sv i x now w = (Inr a, w'')" for a w''
      using that get AbortUpload u(2)
      by (auto simp: abort_def effs finished_def split: if_splits)
    then show ?thesis
      unfolding w' AbortUpload serve.simps ignore_transaction abort_handler_def
      by (cases "abort sv i x now w") (auto simp: transaction_def split: sum.splits)
  next
    case (RefreshUpload x)
    have "refresh sv i x now w \<noteq> (Inr a, w'')" for a w''
      using get u(2) RefreshUpload
      by (auto simp: refresh_def Let_def effs finished_def split: if_splits)
    then show ?thesis
      unfolding w' RefreshUpload serve.simps ignore_transaction refresh_handler_def
      by (intro disjI1 transaction_error)
  qed
qed

lemma serve_keeps_finished:
  assumes inv: "uploads_inv (w_db w)" and fresh: "fresh_ids rq (w_db w)"
    and u: "get_upload x None (w_db w) = Some u" "finished u"
    and run: "serve sv i now rq w = (r, w')"
  shows "\<exists>v. get_upload x None (w_db w') = Some v \<and> us_status v = us_status u
    \<and> us_completed_file_id v = us_completed_file_id u"
proof (cases "target rq = x")
  case False
  from serve_aside[OF inv fresh run this u(1)] show ?thesis by blast
next
  case True
  from serve_finished[OF inv _ u(2) fresh run] u(1) True
  have "w_db w' = w_db w \<or> w_db w' = touch_activity (us_id u) now (w_db w)" by simp
  then show ?thesis
  proof
    assume "w_db w' = touch_activity (us_id u) now (w_db w)"
    then show ?thesis using u(1) by (simp add: touch_activity_def get_upload_update)
  qed (use u in simp)
qed

lemma served_finished:
  assumes "served sv w w'" "uploads_inv (w_db w)" "get_upload x None (w_db w) = Some u" "finished u"
  shows "\<exists>v. get_upload x None (w_db w') = Some v \<and> us_status v = us_status u
    \<and> us_completed_file_id v = us_completed_file_id u"
  using assms
proof (induction rule: served.induct)
  case (served_step w1 rq i now r w2)
  then obtain v where v: "get_upload x None (w_db w1) = Some v" "us_status v = us_status u"
    "us_completed_file_id v = us_completed_file_id u" by blast
  then have "finished v" using served_step.prems by (simp add: finished_def)
  from serve_keeps_finished[OF served_inv[OF served_step(1)] served_step(2) v(1) this served_step(3)]
  show ?case using served_step.prems(1) v by auto
qed auto

end
