(* ===== verification/Ranges.thy ===== *)
theory Ranges
  imports ApiErrors
begin

text \<open>
  \<open>src/app/core/ranges.py\<close>: the single byte range of an HTTP \<open>Range\<close> header
  against an object of a known size. The end of a range is inclusive.
\<close>

record byte_range =
  br_start :: int
  br_end :: int

definition range_length :: "byte_range \<Rightarrow> int" where
  "range_length r = br_end r - br_start r + 1"

definition range_error :: error where
  "range_error = ApiErr ''RANGE_NOT_SATISFIABLE'' 416"

text \<open>\<open>spec.split("-", 1)\<close>: what precedes and what follows the first dash.\<close>

definition split_once :: "nat \<Rightarrow> pystr \<Rightarrow> pystr \<times> pystr" where
  "split_once c s = (takeWhile (\<lambda>x. x \<noteq> c) s, tl (dropWhile (\<lambda>x. x \<noteq> c) s))"

text \<open>The two integers the specification denotes; \<open>None\<close> is the \<open>ValueError\<close>.\<close>

definition range_bounds :: "pystr \<Rightarrow> pystr \<Rightarrow> int \<Rightarrow> (int \<times> int) option" where
  "range_bounds start_text end_text sz =
     (if start_text = []
      then (case py_int end_text of
              None \<Rightarrow> None
            | Some suffix \<Rightarrow>
                if suffix \<le> 0 then None else Some (max 0 (sz - suffix), sz - 1))
      else (case py_int start_text of
              None \<Rightarrow> None
            | Some start \<Rightarrow>
                if end_text = [] then Some (start, sz - 1)
                else (case py_int end_text of
                        None \<Rightarrow> None
                      | Some finish \<Rightarrow> Some (start, finish))))"

definition parse_byte_range :: "pystr option \<Rightarrow> int \<Rightarrow> error + byte_range option" where
  "parse_byte_range header sz =
     (case header of
        None \<Rightarrow> Inr None
      | Some h \<Rightarrow>
          if \<not> starts_with h (lit ''bytes='') then Inl range_error
          else
            let spec = strip (drop 6 h) in
            if 44 \<in> set spec then Inl range_error
            else if 45 \<notin> set spec then Inl range_error
            else
              case split_once 45 spec of (start_text, end_text) \<Rightarrow>
                (case range_bounds start_text end_text sz of
                   None \<Rightarrow> Inl range_error
                 | Some (start, finish) \<Rightarrow>
                     if sz \<le> 0 \<or> sz \<le> start \<or> finish < start then Inl range_error
                     else Inr (Some \<lparr>br_start = start, br_end = min finish (sz - 1)\<rparr>)))"

text \<open>
  The \<open>Range\<close> header the SDK and the S3 adapter build for the bytes from \<open>a\<close> to
  \<open>b\<close>, for a suffix, and for an open end.
\<close>

definition range_header :: "nat \<Rightarrow> nat \<Rightarrow> pystr" where
  "range_header a b = lit ''bytes='' @ nat_digits a @ 45 # nat_digits b"

lemma split_once_dash:
  "c \<notin> set a \<Longrightarrow> split_once c (a @ c # b) = (a, b)"
  by (induction a) (auto simp: split_once_def)

lemma range_bounds_start:
  "range_bounds a b sz = Some (s, e) \<Longrightarrow> 45 \<notin> set a \<Longrightarrow> 0 \<le> s"
proof -
  assume r: "range_bounds a b sz = Some (s, e)" and dash: "45 \<notin> set a"
  have "0 \<le> i" if "py_int a = Some i" for i
  proof -
    have "45 \<notin> set (strip_by int_space a)" using dash set_strip_by by blast
    with that show ?thesis
      by (auto simp: py_int_def split: list.splits if_splits dest: int_unsigned_nonneg)
  qed
  with r show ?thesis by (auto simp: range_bounds_def split: if_splits option.splits)
qed

lemma parse_byte_range_bounds:
  assumes "parse_byte_range (Some h) sz = Inr r"
  shows "\<exists>b. r = Some b \<and> 0 \<le> br_start b \<and> br_start b \<le> br_end b \<and> br_end b < sz"
proof -
  let ?spec = "strip (drop 6 h)"
  let ?a = "fst (split_once 45 ?spec)" and ?b = "snd (split_once 45 ?spec)"
  from assms obtain s e where r: "range_bounds ?a ?b sz = Some (s, e)"
    "\<not> (sz \<le> 0 \<or> sz \<le> s \<or> e < s)" "r = Some \<lparr>br_start = s, br_end = min e (sz - 1)\<rparr>"
    by (auto simp: parse_byte_range_def Let_def split_once_def split: if_splits option.splits)
  have "45 \<notin> set ?a" by (auto simp: split_once_def dest: set_takeWhileD)
  then have "0 \<le> s" using range_bounds_start[OF r(1)] by simp
  with r show ?thesis by auto
qed

lemma parse_byte_range_error: "parse_byte_range h sz = Inl e \<Longrightarrow> e = range_error"
  by (auto simp: parse_byte_range_def Let_def split: option.splits if_splits prod.splits)

lemma last_nat_digits_not_space: "\<not> is_space (last (nat_digits n))"
  using nat_digits_ascii[of "last (nat_digits n)" n] by (auto simp: is_space_def)

lemma hd_nat_digits_not_space: "\<not> is_space (hd (nat_digits n))"
  using nat_digits_ascii[of "hd (nat_digits n)" n] by (auto simp: is_space_def)

lemma strip_range_spec: "strip (nat_digits a @ 45 # nat_digits b) = nat_digits a @ 45 # nat_digits b"
  unfolding strip_def
  by (rule strip_by_id) (simp add: last_nat_digits_not_space hd_nat_digits_not_space hd_append)

lemma digits_no_special: "44 \<notin> set (nat_digits n)" "45 \<notin> set (nat_digits n)"
  using nat_digits_ascii[of 44 n] nat_digits_ascii[of 45 n] by auto

lemma drop_range_header: "drop 6 (range_header a b) = nat_digits a @ 45 # nat_digits b"
  by (simp add: range_header_def lit_def)

text \<open>A header built from two numbers is read back as these numbers, cut at the size.\<close>

lemma parse_range_header:
  assumes "a \<le> b" "a < n" "b < 10 ^ max_str_digits"
  shows "parse_byte_range (Some (range_header a b)) (int n) =
           Inr (Some \<lparr>br_start = int a, br_end = min (int b) (int n - 1)\<rparr>)"
proof -
  have "starts_with (range_header a b) (lit ''bytes='')" by (simp add: range_header_def)
  moreover have "py_int (nat_digits a) = Some (int a)" "py_int (nat_digits b) = Some (int b)"
    using assms by (auto intro: py_int_nat_digits)
  ultimately show ?thesis
    using assms
    by (simp add: parse_byte_range_def drop_range_header strip_range_spec digits_no_special
        split_once_dash range_bounds_def)
qed

text \<open>A header with an open end reaches to the end of the object.\<close>

lemma parse_open_header:
  assumes "a < n" "a < 10 ^ max_str_digits"
  shows "parse_byte_range (Some (lit ''bytes='' @ nat_digits a @ lit ''-'')) (int n) =
           Inr (Some \<lparr>br_start = int a, br_end = int n - 1\<rparr>)"
proof -
  have dash: "\<not> is_space 45" by (simp add: is_space_def)
  have "strip (nat_digits a @ [45]) = nat_digits a @ [45]"
    unfolding strip_def by (rule strip_by_id) (simp add: hd_nat_digits_not_space hd_append dash)
  moreover have "split_once 45 (nat_digits a @ [45]) = (nat_digits a, [])"
    using split_once_dash[of 45 "nat_digits a" "[]"] digits_no_special by simp
  moreover have "drop 6 (lit ''bytes='' @ nat_digits a @ lit ''-'') = nat_digits a @ [45]" by (simp add: lit_def)
  moreover have "py_int (nat_digits a) = Some (int a)" using assms by (auto intro: py_int_nat_digits)
  ultimately show ?thesis
    using assms by (simp add: parse_byte_range_def digits_no_special range_bounds_def)
qed

section \<open>The total of a \<open>Content-Range\<close> header\<close>

text \<open>\<open>int(header.rsplit("/", 1)[1])\<close>, as the S3 adapter and the SDK compute it.\<close>

definition total_after_slash :: "pystr \<Rightarrow> py_exn + int" where
  "total_after_slash header =
     (if slash \<notin> set header then Inl IndexError
      else case py_int (last_segment header) of None \<Rightarrow> Inl ValueError | Some n \<Rightarrow> Inr n)"

definition content_range_text :: "int \<Rightarrow> int \<Rightarrow> int \<Rightarrow> pystr" where
  "content_range_text a b n =
     lit ''bytes '' @ py_str_int a @ lit ''-'' @ py_str_int b @ lit ''/'' @ py_str_int n"

lemma total_after_slash_text:
  assumes "n < 10 ^ max_str_digits"
  shows "total_after_slash (content_range_text a b (int n)) = Inr (int n)"
proof -
  let ?head = "lit ''bytes '' @ py_str_int a @ lit ''-'' @ py_str_int b"
  have no_slash: "slash \<notin> set (py_str_int k)" for k
    using nat_digits_ascii[of slash] by (auto simp: py_str_int_def)
  have shape: "content_range_text a b (int n) = ?head @ slash # py_str_int (int n)"
    by (simp add: content_range_text_def lit_def)
  have "slash \<notin> set ?head" using no_slash by (simp add: lit_def)
  from split_on_append[OF this, of "py_str_int (int n)"]
  have "last_segment (?head @ slash # py_str_int (int n)) = py_str_int (int n)"
    using no_slash[of "int n"] by (simp add: last_segment_def split_on_no_sep)
  then show ?thesis
    unfolding total_after_slash_def shape using assms py_int_nat_digits[of n]
    by (simp add: py_str_int_def)
qed

end
