(* ===== verification/Files.thy ===== *)
theory Files
  imports Uploads Ranges "HOL-Library.Product_Lexorder"
begin

text \<open>
  File objects: \<open>src/app/services/file_service.py\<close>,
  \<open>src/app/core/permanent_links.py\<close>, the list query of
  \<open>src/app/db/repositories/file_repository.py\<close> and the handlers of
  \<open>src/app/api/v1/files.py\<close>.
\<close>

section \<open>Uploading through the service\<close>

record file_request =
  fr_bucket :: pystr
  fr_object_key :: pystr
  fr_original_filename :: pystr
  fr_content_type :: "pystr option"
  fr_size_bytes :: int
  fr_checksum_sha256 :: "pystr option"
  fr_file_fingerprint :: "pystr option"
  fr_lifecycle :: "jobject option"
  fr_metadata :: "jobject option"

definition file_not_found :: error where
  "file_not_found = ApiErr ''FILE_NOT_FOUND'' 404"

text \<open>\<open>backend_name\<close> as the enum it is stored as.\<close>

definition storage_backend_of :: "'s storage_adapter \<Rightarrow> storage_backend" where
  "storage_backend_of st =
     (if st_backend_name st = lit ''local'' then BackendLocal else BackendS3)"

definition uploaded_file ::
    "'s service \<Rightarrow> identity \<Rightarrow> file_request \<Rightarrow> pystr \<Rightarrow> effective option \<Rightarrow> stored_object \<Rightarrow> pystr \<Rightarrow> dt
     \<Rightarrow> file_object" where
  "uploaded_file sv i rq safe_key e stored file_id now =
     (let cols = lifecycle_columns_of e
      in \<lparr>fo_id = file_id, fo_tenant_id = tenant_id i, fo_principal_id = principal_id i,
          fo_bucket = fr_bucket rq, fo_object_key = safe_key,
          fo_storage_backend = storage_backend_of (sv_storage sv),
          fo_original_filename =
            (if fr_original_filename rq = [] then last_segment safe_key
             else fr_original_filename rq),
          fo_size_bytes = so_size_bytes stored, fo_content_type = fr_content_type rq,
          fo_etag = so_etag stored,
          fo_checksum_algorithm =
            (if present (fr_checksum_sha256 rq) then Some (lit ''sha256'') else None),
          fo_checksum_value = fr_checksum_sha256 rq,
          fo_file_fingerprint = fr_file_fingerprint rq, fo_upload_id = None,
          fo_metadata = the_default [] (fr_metadata rq), fo_status = FileActive,
          fo_lifecycle_mode = cl_mode cols, fo_lifecycle_action = cl_action cols,
          fo_lifecycle_status = LcActive, fo_ttl_seconds = cl_ttl_seconds cols,
          fo_expires_at = cl_expires_at cols, fo_next_action_at = cl_next_action_at cols,
          fo_legal_hold = False,
          fo_lifecycle_source =
            (case fr_lifecycle rq of
               Some d \<Rightarrow> if d = [] then lit ''server'' else lit ''client''
             | None \<Rightarrow> lit ''server''),
          fo_delete_attempts = 0, fo_completed_at = now, fo_deleted_at = None,
          fo_created_at = now, fo_updated_at = now\<rparr>)"

definition proxy_upload ::
    "'s service \<Rightarrow> identity \<Rightarrow> file_request \<Rightarrow> bytes \<Rightarrow> pystr \<Rightarrow> dt \<Rightarrow> ('s, file_object) act" where
  "proxy_upload sv i rq stream file_id now =
     seq (validate_bucket sv i (fr_bucket rq))
    (bnd (lift (normalize_relative_path (sv_nfc sv) 64 1024 (fr_object_key rq))) (\<lambda>safe_key.
     bnd (get_db (get_max_file_size (sv_settings sv))) (\<lambda>maximum_bytes.
     seq (guard (fr_size_bytes rq \<le> maximum_bytes) (ApiErr ''FILE_TOO_LARGE'' 422))
    (seq (check_conflict sv (fr_bucket rq) safe_key)
    (bnd (effective_for sv (fr_lifecycle rq) (Some now) now) (\<lambda>e.
     bnd (on_store (st_put_object (sv_storage sv) (fr_bucket rq) safe_key stream
                      (fr_content_type rq) (Some (fr_size_bytes rq)) (fr_checksum_sha256 rq)))
       (\<lambda>stored.
     let file_obj = uploaded_file sv i rq safe_key e stored file_id now
     in seq (try_db (insert_file file_obj)) (ret file_obj))))))))"

section \<open>Reading\<close>

definition get_file_object :: "identity \<Rightarrow> pystr \<Rightarrow> ('s, file_object) act" where
  "get_file_object i file_id =
     bnd (get_db (get_file file_id (Some (tenant_id i)))) (\<lambda>f.
     bnd (require file_not_found f) (\<lambda>f.
     seq (guard (fo_status f \<noteq> FileDeleted) file_not_found) (ret f)))"

text \<open>The shared end of the two downloads; an empty header counts as none.\<close>

definition stream_file ::
    "'s service \<Rightarrow> file_object \<Rightarrow> pystr option
     \<Rightarrow> ('s, file_object \<times> object_stream \<times> byte_range option) act" where
  "stream_file sv f header =
     bnd (lift (if present header then parse_byte_range header (fo_size_bytes f)
                else Inr None)) (\<lambda>r.
     bnd (on_store (st_get_object (sv_storage sv) (fo_bucket f) (fo_object_key f)
                      (case r of None \<Rightarrow> 0 | Some b \<Rightarrow> nat (br_start b))
                      (map_option range_length r))) (\<lambda>stream.
       ret (f, stream, r)))"

definition download ::
    "'s service \<Rightarrow> identity \<Rightarrow> pystr \<Rightarrow> pystr option
     \<Rightarrow> ('s, file_object \<times> object_stream \<times> byte_range option) act" where
  "download sv i file_id header =
     bnd (get_file_object i file_id) (\<lambda>f. stream_file sv f header)"

section \<open>Permanent links\<close>

text \<open>\<open>secret.encode("utf-8")\<close> fails on a lone surrogate.\<close>

definition sign :: "'s service \<Rightarrow> pystr \<Rightarrow> pystr \<Rightarrow> error + pystr" where
  "sign sv file_id secret =
     (if utf8_len secret = None then Inl (Crash UnicodeEncodeError)
      else Inr (sv_hmac_sha256 sv secret file_id))"

text \<open>\<open>hmac.compare_digest\<close> on texts raises a \<open>TypeError\<close> unless they are ASCII.\<close>

definition verify :: "'s service \<Rightarrow> pystr \<Rightarrow> pystr \<Rightarrow> pystr \<Rightarrow> error + bool" where
  "verify sv file_id secret token =
     (if token = [] \<or> secret = [] then Inr False
      else rbind (sign sv file_id secret) (\<lambda>s.
             if \<exists>c\<in>set token. 128 \<le> c then Inl (Crash TypeError) else Inr (s = token)))"

definition verify_link_token :: "'s service \<Rightarrow> pystr \<Rightarrow> pystr \<Rightarrow> error + bool" where
  "verify_link_token sv file_id token =
     (case pl_secret (cf_permanent_link (sv_settings sv)) of
        None \<Rightarrow> Inr False
      | Some secret \<Rightarrow> if secret = [] then Inr False else verify sv file_id secret token)"

text \<open>\<open>base_url.rstrip("/")\<close>.\<close>

definition rstrip_slash :: "pystr \<Rightarrow> pystr" where
  "rstrip_slash s = rev (dropWhile (\<lambda>c. c = slash) (rev s))"

definition create_permanent_link ::
    "'s service \<Rightarrow> identity \<Rightarrow> pystr \<Rightarrow> pystr \<Rightarrow> ('s, pystr) act" where
  "create_permanent_link sv i file_id base_url =
     (let pl = cf_permanent_link (sv_settings sv); secret = the_default [] (pl_secret pl)
      in seq (guard (pl_enabled pl) (ApiErr ''PERMANENT_LINK_DISABLED'' 501))
        (seq (guard (secret \<noteq> []) (ApiErr ''PERMANENT_LINK_NOT_CONFIGURED'' 501))
        (bnd (get_file_object i file_id) (\<lambda>_.
         bnd (lift (sign sv file_id secret)) (\<lambda>token.
           ret (rstrip_slash base_url @ lit ''/v1/files/'' @ file_id
                @ lit ''/download-link?token='' @ token))))))"

definition download_for_link ::
    "'s service \<Rightarrow> pystr \<Rightarrow> pystr option
     \<Rightarrow> ('s, file_object \<times> object_stream \<times> byte_range option) act" where
  "download_for_link sv file_id header =
     bnd (get_db (get_file file_id None)) (\<lambda>f.
     bnd (require file_not_found f) (\<lambda>f.
     seq (guard (fo_status f \<noteq> FileDeleted) file_not_found) (stream_file sv f header)))"

definition download_link_handler ::
    "'s service \<Rightarrow> pystr \<Rightarrow> pystr \<Rightarrow> pystr option
     \<Rightarrow> ('s, file_object \<times> object_stream \<times> byte_range option) act" where
  "download_link_handler sv file_id token header =
     bnd (lift (verify_link_token sv file_id token)) (\<lambda>ok.
     seq (guard ok (ApiErr ''INVALID_DOWNLOAD_LINK'' 403))
         (download_for_link sv file_id header))"

text \<open>The status and the \<open>Content-Range\<close> header of a download.\<close>

definition response_head :: "file_object \<Rightarrow> byte_range option \<Rightarrow> int \<times> pystr option" where
  "response_head f r =
     (case r of
        None \<Rightarrow> (200, None)
      | Some b \<Rightarrow>
          (206, Some (lit ''bytes '' @ py_str_int (br_start b) @ lit ''-'' @ py_str_int (br_end b)
                      @ lit ''/'' @ py_str_int (fo_size_bytes f))))"

section \<open>Deleting\<close>

definition delete_file :: "'s service \<Rightarrow> identity \<Rightarrow> pystr \<Rightarrow> dt \<Rightarrow> ('s, unit) act" where
  "delete_file sv i file_id now =
     bnd (get_db (get_file file_id (Some (tenant_id i)))) (\<lambda>f.
     bnd (require file_not_found f) (\<lambda>f.
     seq (guard (fo_status f \<noteq> FileDeleted) file_not_found)
    (seq (guard (\<not> fo_legal_hold f) FileUnderLegalHoldError)
    (seq (on_store (st_delete_object (sv_storage sv) (fo_bucket f) (fo_object_key f)))
         (modify_db (update_file (fo_id f)
            (\<lambda>r. r\<lparr>fo_status := FileDeleted, fo_deleted_at := Some now,
                   fo_lifecycle_status := LcDeleted\<rparr>)))))))"

definition delete_file_handler :: "'s service \<Rightarrow> identity \<Rightarrow> pystr \<Rightarrow> dt \<Rightarrow> ('s, unit) act" where
  "delete_file_handler sv i file_id now = transaction (delete_file sv i file_id now)"

section \<open>Presigned URLs\<close>

text \<open>\<open>min(expires_seconds or default, maximum)\<close>.\<close>

definition presign_expiry :: "settings \<Rightarrow> int option \<Rightarrow> int" where
  "presign_expiry c expires_seconds =
     (let asked = (case expires_seconds of
                     None \<Rightarrow> ps_default_expires_seconds (cf_presign c)
                   | Some n \<Rightarrow> if n = 0 then ps_default_expires_seconds (cf_presign c) else n)
      in min asked (ps_maximum_expires_seconds (cf_presign c)))"

definition presign_download :: "'s service \<Rightarrow> identity \<Rightarrow> pystr \<Rightarrow> int option \<Rightarrow> ('s, pystr) act" where
  "presign_download sv i file_id expires_seconds =
     bnd (get_file_object i file_id) (\<lambda>f.
     seq (guard (cap_presigned_get (st_capabilities (sv_storage sv)))
            (StorageCapabilityNotSupportedError ''presigned_get''))
         (on_store (st_create_presigned_get_url (sv_storage sv) (fo_bucket f) (fo_object_key f)
                      (presign_expiry (sv_settings sv) expires_seconds))))"

text \<open>The \<open>download_url\<close> and \<open>expires_in\<close> of an upload result.\<close>

definition upload_result_url ::
    "'s service \<Rightarrow> file_object \<Rightarrow> ('s, (pystr \<times> int) option) act" where
  "upload_result_url sv f =
     (if cap_presigned_get (st_capabilities (sv_storage sv))
      then let expires = min (ps_default_expires_seconds (cf_presign (sv_settings sv)))
                             (ps_maximum_expires_seconds (cf_presign (sv_settings sv)))
           in catch (bnd (on_store (st_create_presigned_get_url (sv_storage sv) (fo_bucket f)
                                      (fo_object_key f) expires)) (\<lambda>url. ret (Some (url, expires))))
                (\<lambda>e. case e of StorageCapabilityNotSupportedError _ \<Rightarrow> ret None | _ \<Rightarrow> raise e)
      else ret None)"

definition presign_put ::
    "'s service \<Rightarrow> identity \<Rightarrow> pystr \<Rightarrow> pystr \<Rightarrow> int option \<Rightarrow> ('s, pystr) act" where
  "presign_put sv i bucket object_key expires_seconds =
     seq (validate_bucket sv i bucket)
    (bnd (lift (normalize_relative_path (sv_nfc sv) 64 1024 object_key)) (\<lambda>safe_key.
     seq (guard (cap_presigned_put (st_capabilities (sv_storage sv)))
            (StorageCapabilityNotSupportedError ''presigned_put''))
         (on_store (st_create_presigned_put_url (sv_storage sv) bucket safe_key
                      (presign_expiry (sv_settings sv) expires_seconds)))))"

section \<open>Listing\<close>

datatype sort_field =
    SortObjectKey | SortBucket | SortSize | SortContentType | SortStatus | SortExpiresAt
  | SortCreatedAt

text \<open>\<open>None\<close> for a field that is none of the sortable ones; it sorts by key.\<close>

definition sort_field_of :: "pystr \<Rightarrow> sort_field option" where
  "sort_field_of s =
     (let s = (if s = lit ''name'' then lit ''object_key'' else s)
      in map_of [(lit ''object_key'', SortObjectKey), (lit ''bucket'', SortBucket),
                 (lit ''size_bytes'', SortSize), (lit ''content_type'', SortContentType),
                 (lit ''status'', SortStatus), (lit ''expires_at'', SortExpiresAt),
                 (lit ''created_at'', SortCreatedAt)] s)"

definition status_text :: "file_status \<Rightarrow> pystr" where
  "status_text s = (case s of FileActive \<Rightarrow> lit ''active'' | FileDeleted \<Rightarrow> lit ''deleted'')"

definition sort_value :: "'s service \<Rightarrow> sort_field \<Rightarrow> file_object \<Rightarrow> int" where
  "sort_value sv field f =
     (case field of
        SortObjectKey \<Rightarrow> sv_rank sv (Some (fo_object_key f))
      | SortBucket \<Rightarrow> sv_rank sv (Some (fo_bucket f))
      | SortSize \<Rightarrow> fo_size_bytes f
      | SortContentType \<Rightarrow> sv_rank sv (fo_content_type f)
      | SortStatus \<Rightarrow> sv_rank sv (Some (status_text (fo_status f)))
      | SortExpiresAt \<Rightarrow> the_default 0 (fo_expires_at f)
      | SortCreatedAt \<Rightarrow> fo_created_at f)"

definition descending :: "sort_field \<Rightarrow> pystr option \<Rightarrow> bool" where
  "descending field order =
     (if order = Some (lit ''asc'') then False
      else if order = Some (lit ''desc'') then True
      else field = SortCreatedAt)"

text \<open>
  The sort key of a row: files without an expiry last, then the value, then the object key
  and the id as tie-breakers.
\<close>

definition sort_tuple ::
    "'s service \<Rightarrow> sort_field \<Rightarrow> bool \<Rightarrow> file_object \<Rightarrow> int \<times> int \<times> int \<times> pystr" where
  "sort_tuple sv field desc f =
     (if field = SortExpiresAt \<and> fo_expires_at f = None then 1 else 0,
      if desc then - sort_value sv field f else sort_value sv field f,
      sv_rank sv (Some (fo_object_key f)),
      fo_id f)"

record list_query =
  lq_bucket :: "pystr option"
  lq_prefix :: "pystr option"
  lq_status :: "file_status option"
  lq_order_by :: pystr
  lq_order :: "pystr option"

text \<open>\<open>startswith(prefix)\<close> becomes \<open>LIKE prefix || '%'\<close>.\<close>

definition matching_files :: "'s service \<Rightarrow> pystr \<Rightarrow> list_query \<Rightarrow> db \<Rightarrow> file_object list" where
  "matching_files sv tenant q d =
     filter (\<lambda>f. fo_tenant_id f = tenant
        \<and> (case lq_bucket q of None \<Rightarrow> True | Some b \<Rightarrow> fo_bucket f = b)
        \<and> (case lq_prefix q of
             None \<Rightarrow> True
           | Some p \<Rightarrow> p = [] \<or> sv_like sv (p @ lit ''%'') (fo_object_key f))
        \<and> (case lq_status q of None \<Rightarrow> True | Some s \<Rightarrow> fo_status f = s))
       (files d)"

definition ordered_files :: "'s service \<Rightarrow> pystr \<Rightarrow> list_query \<Rightarrow> db \<Rightarrow> file_object list" where
  "ordered_files sv tenant q d =
     (let field = (case sort_field_of (lq_order_by q) of None \<Rightarrow> SortObjectKey | Some f \<Rightarrow> f)
      in sort_key (sort_tuple sv field (descending field (lq_order q))) (matching_files sv tenant q d))"

definition list_files ::
    "'s service \<Rightarrow> pystr \<Rightarrow> list_query \<Rightarrow> nat \<Rightarrow> nat \<Rightarrow> db \<Rightarrow> file_object list \<times> nat" where
  "list_files sv tenant q limit offset d =
     (take limit (drop offset (ordered_files sv tenant q d)), length (matching_files sv tenant q d))"

section \<open>Lemmas\<close>

text \<open>Walking through the pages, one after the other, lists every file once.\<close>

lemma pages_concat:
  assumes "0 < n"
  shows "concat (map (\<lambda>k. take n (drop (k * n) xs)) [0..<m]) = take (m * n) xs"
proof (induction m)
  case (Suc m)
  have "take (Suc m * n) xs = take (m * n) xs @ take n (drop (m * n) xs)"
    by (metis add.commute mult_Suc take_add)
  then show ?case using Suc by simp
qed simp

lemma list_files_pages:
  assumes "0 < limit" "length (matching_files sv t q d) \<le> m * limit"
  shows "concat (map (\<lambda>k. fst (list_files sv t q limit (k * limit) d)) [0..<m])
    = ordered_files sv t q d"
  using assms pages_concat[OF assms(1), of "ordered_files sv t q d" m]
  by (simp add: list_files_def ordered_files_def Let_def)

text \<open>The order has no ties between different files.\<close>

lemma sort_tuple_inj:
  "distinct (map fo_id fs) \<Longrightarrow> f \<in> set fs \<Longrightarrow> g \<in> set fs \<Longrightarrow>
   sort_tuple sv field dsc f = sort_tuple sv field dsc g \<Longrightarrow> f = g"
  by (auto simp: sort_tuple_def distinct_map inj_on_def)

text \<open>Deterministic: two stored orders of the same rows give the same listing.\<close>

lemma ordered_files_deterministic:
  assumes "distinct (map fo_id (files d))" "set (files d) = set (files d')" "distinct (map fo_id (files d'))"
  shows "ordered_files sv t q d = ordered_files sv t q d'"
proof -
  let ?field = "case sort_field_of (lq_order_by q) of None \<Rightarrow> SortObjectKey | Some f \<Rightarrow> f"
  let ?key = "sort_tuple sv ?field (descending ?field (lq_order q))"
  let ?xs = "matching_files sv t q d" and ?ys = "matching_files sv t q d'"
  have sub: "set ?xs \<subseteq> set (files d)" by (auto simp: matching_files_def)
  have same: "set ?xs = set ?ys" using assms(2) by (auto simp: matching_files_def)
  have dist: "distinct ?xs" "distinct ?ys" using assms(1,3) by (auto simp: matching_files_def distinct_map)
  have inj: "inj_on ?key (set ?xs)"
  proof (rule inj_onI)
    fix x y assume "x \<in> set ?xs" "y \<in> set ?xs" "?key x = ?key y"
    with sub show "x = y" by (intro sort_tuple_inj[OF assms(1), of x y]) auto
  qed
  have "map ?key (sort_key ?key ?xs) = map ?key (sort_key ?key ?ys)"
    by (rule sorted_distinct_set_unique) (use same dist inj in \<open>auto simp: distinct_map\<close>)
  then have "sort_key ?key ?xs = sort_key ?key ?ys"
    using inj same by (intro map_inj_on[of ?key]) auto
  then show ?thesis by (simp add: ordered_files_def Let_def)
qed

lemma delete_under_hold:
  assumes "get_file file_id (Some (tenant_id i)) (w_db w) = Some f" "fo_legal_hold f"
  shows "\<exists>e. delete_file sv i file_id now w = (Inl e, w)"
  using assms by (auto simp: delete_file_def raise_def)

end
