(* ===== verification/LocalUploads.thy ===== *)
theory LocalUploads
  imports UploadRequests Files
begin

text \<open>
  Uploading through the service on the local backend, from the parts to the object: what the
  part files of a session are while its parts come in, what \<open>list_parts\<close> makes of them,
  and that completing the session yields the concatenation of the parts.
\<close>

section \<open>Names of part files\<close>

lemma pad8_chars: "0 \<le> n \<Longrightarrow> c \<in> set (pad8 n) \<Longrightarrow> 48 \<le> c \<and> c \<le> 57"
  by (auto simp: pad8_def dest: nat_digits_ascii)

lemma pad8_neq_Nil: "0 \<le> n \<Longrightarrow> pad8 n \<noteq> []"
  by (simp add: pad8_def)

lemma length_pad8:
  assumes "0 \<le> n" "n < 10 ^ 8"
  shows "length (pad8 n) = 8"
proof -
  have "length (nat_digits (nat n)) \<le> 8" using assms by (intro length_nat_digits) simp_all
  then show ?thesis using assms by (simp add: pad8_def)
qed

lemma py_int_pad8:
  assumes "0 \<le> n" "n < 10 ^ 8"
  shows "py_int (pad8 n) = Some n"
proof -
  obtain c cs where c: "pad8 n = c # cs" using pad8_neq_Nil[OF assms(1)] by (cases "pad8 n") auto
  have digits: "48 \<le> c \<and> c \<le> 57" "48 \<le> last (pad8 n) \<and> last (pad8 n) \<le> 57"
    using pad8_chars[OF assms(1)] pad8_neq_Nil[OF assms(1)] c by (auto intro: last_in_set)
  then have "strip_by int_space (pad8 n) = pad8 n"
    by (intro strip_by_id) (auto simp: c int_space_not_digit)
  moreover obtain d where d: "digit_val c = Some d" and "int_digits d cs = Some n"
    using int_digits_pad8[OF assms(1)] c digits(1) by (auto split: option.splits if_splits)
  moreover have "length (filter (\<lambda>x. digit_val x \<noteq> None) (pad8 n)) \<le> max_str_digits"
    using length_filter_le[of "\<lambda>x. digit_val x \<noteq> None" "pad8 n"] length_pad8[OF assms]
    by (simp add: max_str_digits_def)
  ultimately show ?thesis using digits c by (simp add: py_int_def int_unsigned_def)
qed

lemma part_name_parts:
  "ends_with (part_name n) (lit ''.part'')" "take (length (part_name n) - 5) (part_name n) = pad8 n"
  by (auto simp: part_name_def ends_with_def lit_def starts_with_def)

section \<open>The files of the adapter\<close>

lemma distinct_put_node: "distinct (map fst t) \<Longrightarrow> distinct (map fst (put_node p n t))"
  by (auto simp: put_node_def distinct_map_filter)

lemma distinct_drop_node: "distinct (map fst t) \<Longrightarrow> distinct (map fst (drop_node p t))"
  by (simp add: drop_node_def distinct_map_filter)

lemma distinct_mkdirs:
  "mkdirs bad anc cs t = (r, t') \<Longrightarrow> distinct (map fst t) \<Longrightarrow> distinct (map fst t')"
proof (induction cs arbitrary: anc t)
  case (Cons c cs)
  then show ?case
    by (auto simp: Let_def distinct_put_node split: option.splits node.splits if_splits)
qed simp

lemma node_below_not_made:
  assumes "mkdirs bad [] d t = (r, t')"
  shows "node_at t' (d @ [c]) = node_at t (d @ [c])"
  using mkdirs_frame[OF assms, of "d @ [c]"] prefix_length_le[of "d @ [c]" d] by auto

lemma set_children:
  "distinct (map fst t) \<Longrightarrow> set (children d t) = {c. node_at t (d @ [c]) \<noteq> None}"
proof -
  assume keys: "distinct (map fst t)"
  have "c \<in> set (children d t) \<longleftrightarrow> d @ [c] \<in> fst ` set t" for c
  proof
    assume "c \<in> set (children d t)"
    then obtain e where "e \<in> set t" "fst e \<noteq> []" "butlast (fst e) = d" "c = last (fst e)"
      by (auto simp: children_def)
    moreover from this have "d @ [c] = fst e" using append_butlast_last_id[of "fst e"] by simp
    ultimately show "d @ [c] \<in> fst ` set t" by auto
  next
    assume "d @ [c] \<in> fst ` set t"
    then obtain e where e: "e \<in> set t" "fst e = d @ [c]" by force
    then have "e \<in> set (filter (\<lambda>e. fst e \<noteq> [] \<and> butlast (fst e) = d) t)" "last (fst e) = c" by simp_all
    then show "c \<in> set (children d t)" unfolding children_def set_map by blast
  qed
  then show ?thesis by (auto simp: node_at_def map_of_eq_None_iff)
qed

lemma distinct_children:
  assumes "distinct (map fst t)"
  shows "distinct (children d t)"
proof -
  let ?es = "filter (\<lambda>e. fst e \<noteq> [] \<and> butlast (fst e) = d) t"
  have "inj_on last (set (map fst ?es))"
  proof (rule inj_onI)
    fix p q assume "p \<in> set (map fst ?es)" "q \<in> set (map fst ?es)" "last p = last q"
    then have "p \<noteq> []" "q \<noteq> []" "butlast p = butlast q" by auto
    then show "p = q" using \<open>last p = last q\<close> append_butlast_last_id by metis
  qed
  moreover have "distinct (map fst ?es)" using assms by (simp add: distinct_map_filter)
  ultimately have "distinct (map last (map fst ?es))" by (simp only: distinct_map)
  then show ?thesis by (simp add: children_def comp_def)
qed

lemma local_upload_part_store:
  assumes "adapter_ok A" "component u"
    and run: "local_upload_part A b k u n data sz cs s = (Inr p, s')"
  shows "\<exists>t. mkdirs (la_bad A) [] (la_multipart_root A @ [u, lit ''parts'']) s = (True, t)
    \<and> s' = put_node (part_file A u n) (File data) t \<and> up_etag p = la_sha256 A data"
proof -
  note r = run[unfolded local_upload_part_def part_path_token[OF assms(1,2)] bnd_simps(3) Let_def
      seq_def bnd_Inr_iff catch_reraise attempt_Inr]
  have dir: "butlast (part_file A u n) = la_multipart_root A @ [u, lit ''parts'']"
    by (simp add: part_file_def butlast_append)
  obtain t t' where t: "mkdirs (la_bad A) [] (butlast (part_file A u n)) s = (True, t)"
    "write_file (la_bad A) (part_file A u n) data t = (True, t')"
    and rest: "(if int (length data) \<noteq> sz
        then bnd (attempt (unlink (la_bad A) (part_file A u n)) (Crash OSError)) (\<lambda>_. raise (Crash ValueError))
        else ret \<lparr>up_part_number = n, up_etag = la_sha256 A data, up_size_bytes = int (length data),
              up_checksum_sha256 = Some (la_sha256 A data)\<rparr>) t' = (Inr p, s')"
    using r by auto
  have "t' = s'" "up_etag p = la_sha256 A data"
    using rest by (auto simp: bnd_Inr_iff raise_def ret_def split: if_splits)
  then show ?thesis
    using t unfolding dir by (auto simp: write_file_def split: if_splits)
qed

section \<open>The parts of a session on disk\<close>

text \<open>
  \<open>m\<close> gives the bytes of the parts that have come in. The part directory holds exactly
  their files.
\<close>

definition parts_dir_is :: "local_adapter \<Rightarrow> pystr \<Rightarrow> (int \<Rightarrow> bytes option) \<Rightarrow> fs \<Rightarrow> bool" where
  "parts_dir_is A x m t \<longleftrightarrow>
     distinct (map fst t)
     \<and> (dom m \<noteq> {} \<longrightarrow> is_dir (la_multipart_root A @ [x, lit ''parts'']) t)
     \<and> (\<forall>n\<in>dom m. 0 \<le> n \<and> n < 10 ^ 8)
     \<and> (\<forall>n\<in>dom m. node_at t (part_file A x n) = map_option File (m n))
     \<and> (\<forall>c. node_at t (la_multipart_root A @ [x, lit ''parts'', c]) \<noteq> None \<longrightarrow> (\<exists>n\<in>dom m. c = part_name n))"

lemma part_name_inj: "0 \<le> n \<Longrightarrow> 0 \<le> k \<Longrightarrow> part_name n = part_name k \<longleftrightarrow> n = k"
  by (simp add: part_name_def pad8_inj)

lemma parts_dir_upload:
  assumes dir: "parts_dir_is A x m s" and ok: "adapter_ok A" "component x" and n: "0 \<le> n" "n < 10 ^ 8"
    and run: "local_upload_part A b k x n data sz cs s = (Inr p, s')"
  shows "parts_dir_is A x (m(n \<mapsto> data)) s'"
proof -
  obtain t where t: "mkdirs (la_bad A) [] (la_multipart_root A @ [x, lit ''parts'']) s = (True, t)"
    and s': "s' = put_node (part_file A x n) (File data) t"
    using local_upload_part_store[OF ok run] by blast
  have below: "node_at t (la_multipart_root A @ [x, lit ''parts'', c])
      = node_at s (la_multipart_root A @ [x, lit ''parts'', c])" for c
    using node_below_not_made[OF t, of c] by simp
  have at: "node_at s' (la_multipart_root A @ [x, lit ''parts'', c]) =
      (if c = part_name n then Some (File data) else node_at s (la_multipart_root A @ [x, lit ''parts'', c]))" for c
    using below by (simp add: s' node_at_put part_file_def)
  have "distinct (map fst s')"
    using dir distinct_mkdirs[OF t] by (simp add: s' distinct_put_node parts_dir_is_def)
  moreover have "is_dir (la_multipart_root A @ [x, lit ''parts'']) s'"
    using mkdirs_dir[OF t] by (simp add: s' is_dir_def node_at_put part_file_def)
  ultimately show ?thesis
    using dir n at by (auto simp: parts_dir_is_def part_file_def part_name_inj split: if_splits)
qed

text \<open>What \<open>list_parts\<close> answers then.\<close>

lemma parts_of_names_pads:
  assumes "\<And>c. c \<in> set names \<Longrightarrow> \<exists>n. 0 \<le> n \<and> n < 10 ^ 8 \<and> c = part_name n"
  shows "\<exists>ps. parts_of_names d t sz names = Inr ps \<and> map (\<lambda>p. part_name (up_part_number p)) ps = names
    \<and> (\<forall>p\<in>set ps. up_etag p = [] \<and> 0 \<le> up_part_number p)"
  using assms
proof (induction names)
  case (Cons c names)
  obtain n where n: "0 \<le> n" "n < 10 ^ 8" "c = part_name n" using Cons.prems[of c] by auto
  obtain ps where "parts_of_names d t sz names = Inr ps"
    "map (\<lambda>p. part_name (up_part_number p)) ps = names"
    "\<forall>p\<in>set ps. up_etag p = [] \<and> 0 \<le> up_part_number p"
    using Cons by (metis list.set_intros(2))
  then show ?case
    using n py_int_pad8[OF n(1,2)] part_name_parts(2)[of n] by simp
qed simp

lemma local_list_parts_dir:
  assumes dir: "parts_dir_is A x m s" and ok: "adapter_ok A" "component x"
  shows "\<exists>ps. local_list_parts A b k x s = (Inr ps, s) \<and> distinct (map up_part_number ps)
    \<and> up_part_number ` set ps = dom m \<and> (\<forall>p\<in>set ps. up_etag p = [])"
proof -
  let ?d = "la_multipart_root A @ [x, lit ''parts'']"
  have keys: "distinct (map fst s)" using dir by (simp add: parts_dir_is_def)
  have kids: "set (children ?d s) = part_name ` dom m"
  proof -
    have "node_at s (?d @ [part_name n]) \<noteq> None" if "n \<in> dom m" for n
      using dir that by (auto simp: parts_dir_is_def part_file_def)
    then have "part_name ` dom m \<subseteq> set (children ?d s)" by (auto simp: set_children[OF keys])
    moreover have "set (children ?d s) \<subseteq> part_name ` dom m"
      using dir unfolding set_children[OF keys] parts_dir_is_def by (auto simp: image_iff)
    ultimately show ?thesis by blast
  qed
  show ?thesis
  proof (cases "path_exists ?d s")
    case False
    then have "dom m = {}" using dir by (auto simp: parts_dir_is_def is_dir_def path_exists_def)
    then show ?thesis
      using False by (intro exI[of _ "[]"]) (simp add: local_list_parts_def parts_dir_token[OF ok])
  next
    case True
    define names where "names = sort (filter (\<lambda>n. ends_with n (lit ''.part'')) (children ?d s))"
    have names: "set names = part_name ` dom m" "distinct names"
      using kids distinct_children[OF keys, of ?d] part_name_parts(1) by (auto simp: names_def)
    have "\<exists>n. 0 \<le> n \<and> n < 10 ^ 8 \<and> c = part_name n" if "c \<in> set names" for c
      using that dir by (auto simp: names parts_dir_is_def)
    from parts_of_names_pads[OF this] obtain ps where
      ps: "parts_of_names ?d s (la_dir_size A) names = Inr ps"
        "map (\<lambda>p. part_name (up_part_number p)) ps = names" "\<forall>p\<in>set ps. up_etag p = [] \<and> 0 \<le> up_part_number p"
      by blast
    have "distinct (map part_name (map up_part_number ps))" using ps(2) names(2) by (simp add: comp_def)
    then have "distinct (map up_part_number ps)" by (auto simp: distinct_map dest: inj_on_imageI2)
    moreover have "up_part_number ` set ps = dom m"
    proof -
      have "part_name ` up_part_number ` set ps = part_name ` dom m"
        using arg_cong[OF ps(2), of set] names(1) by (simp add: image_image)
      moreover have "inj_on part_name {n. 0 \<le> n}" using part_name_inj by (auto simp: inj_on_def)
      ultimately show ?thesis
        using ps(3) dir by (subst (asm) inj_on_image_eq_iff[of _ "{n. 0 \<le> n}"]) (auto simp: parts_dir_is_def)
    qed
    ultimately show ?thesis
      using ps True by (simp add: local_list_parts_def parts_dir_token[OF ok] names_def)
  qed
qed


section \<open>A session and its part files\<close>

text \<open>
  The numbers of the parts the database has committed for an open session are the numbers of
  its part files, \<open>m\<close> being what they hold.
\<close>

definition session_on_disk ::
    "local_adapter \<Rightarrow> identity \<Rightarrow> pystr \<Rightarrow> pystr \<Rightarrow> pystr \<Rightarrow> int \<Rightarrow> int \<Rightarrow> (int \<Rightarrow> bytes option) \<Rightarrow> fs world \<Rightarrow> bool" where
  "session_on_disk A i x b k N S m w \<longleftrightarrow>
     uploads_inv (w_db w)
     \<and> (\<exists>u. get_upload x (Some (tenant_id i)) (w_db w) = Some u \<and> us_status u \<in> {Initiated, Uploading}
          \<and> us_storage_upload_id u = Some x \<and> us_bucket u = b \<and> us_object_key u = k \<and> us_total_parts u = N
          \<and> us_total_size u = S)
     \<and> pa_part_number ` set (committed_parts x (w_db w)) = dom m
     \<and> parts_dir_is A x m (w_store w)"

lemma part_keys_upsert:
  "part_key ` set (parts (upsert_part pg p d)) = insert (part_key p) (part_key ` set (parts d))"
proof -
  have "map part_key (update_rows (\<lambda>q. part_key q = part_key p)
      (\<lambda>q. q\<lparr>pa_etag := a, pa_size_bytes := s, pa_status := st, pa_checksum_sha256 := c, pa_updated_at := n\<rparr>)
      (parts d)) = map part_key (parts d)" for a s st c n
    by (simp add: update_rows_def part_key_def)
  note this[THEN arg_cong[of _ _ set], simplified, simp]
  have "map part_key (update_rows (\<lambda>q. part_key q = part_key p) (\<lambda>_. p) (parts d)) = map part_key (parts d)"
    by (simp add: update_rows_def)
  note this[THEN arg_cong[of _ _ set], simplified, simp]
  show ?thesis
    by (simp add: upsert_part_def upsert_part_postgresql_def upsert_part_generic_def find_row_None_iff insert_absorb)
qed

lemma committed_number_iff:
  assumes "uploads_inv d"
  shows "n \<in> pa_part_number ` set (committed_parts x d) \<longleftrightarrow> (x, n) \<in> part_key ` set (parts d)"
  by (auto simp: committed_parts_all[OF assms] set_list_parts part_key_def)

lemma proxy_upload_part_Inr:
  assumes "proxy_upload_part sv i x n data sz cs now w = (Inr p, w')"
  shows "\<exists>u stored s'. get_upload x (Some (tenant_id i)) (w_db w) = Some u
    \<and> 1 \<le> n \<and> n \<le> us_total_parts u
    \<and> st_upload_part (sv_storage sv) (us_bucket u) (us_object_key u) (storage_id u) n data sz cs (w_store w)
        = (Inr stored, s')
    \<and> w_store w' = s' \<and> part_key p = (us_id u, n)
    \<and> w_db w' = touch_activity (us_id u) now (upsert_part (sv_postgresql sv) p
        (if us_status u = Initiated then update_status (us_id u) Uploading now (w_db w) else w_db w))"
proof -
  have active: "ensure_active u v = (Inr y, v') \<Longrightarrow> v' = v" for u v v' y
    by (auto simp: ensure_active_def effs split: upload_status.splits)
  have started: "(if c then modify_db f else ret ()) v = (Inr y, v') \<Longrightarrow>
      v' = (if c then v\<lparr>w_db := f (w_db v)\<rparr> else v)" for c f v v' y
    by (auto simp: effs split: if_splits)
  show ?thesis
    using assms unfolding proxy_upload_part_def Let_def
    by (auto simp: effs part_key_def dest!: active started split: if_splits)
qed

lemma session_on_disk_put:
  assumes at: "session_on_disk A i x b k N S m w" and N: "N < 10 ^ 8"
    and st: "sv_storage sv = local_storage A" and ok: "adapter_ok A" "component x"
    and run: "proxy_upload_part sv i x n data sz cs now w = (Inr p, w')"
  shows "session_on_disk A i x b k N S (m(n \<mapsto> data)) w' \<and> n \<in> {1..N}"
proof -
  obtain u stored s' where u: "get_upload x (Some (tenant_id i)) (w_db w) = Some u"
    and n: "1 \<le> n" "n \<le> us_total_parts u"
    and up: "st_upload_part (sv_storage sv) (us_bucket u) (us_object_key u) (storage_id u) n data sz cs (w_store w)
        = (Inr stored, s')"
    and s': "w_store w' = s'" and p: "part_key p = (us_id u, n)"
    and d: "w_db w' = touch_activity (us_id u) now (upsert_part (sv_postgresql sv) p
        (if us_status u = Initiated then update_status (us_id u) Uploading now (w_db w) else w_db w))"
    using proxy_upload_part_Inr[OF run] by blast
  have row: "us_status u \<in> {Initiated, Uploading}" "us_storage_upload_id u = Some x" "us_bucket u = b"
    "us_object_key u = k" "us_total_parts u = N" "us_total_size u = S"
    using at u by (auto simp: session_on_disk_def)
  have x: "us_id u = x" using get_upload_SomeD[OF u] by simp
  have sid: "storage_id u = x" using row(2) x by (simp add: storage_id_def)
  have inv: "uploads_inv (w_db w)" using at by (simp add: session_on_disk_def)
  have inv': "uploads_inv (w_db w')"
    using keepsD[OF plain.keeps_proxy_upload_part _ run] inv by (simp add: plain.frame_inv_def)
  have "parts_dir_is A x (m(n \<mapsto> data)) s'"
  proof (rule parts_dir_upload[OF _ ok])
    show "parts_dir_is A x m (w_store w)" using at by (simp add: session_on_disk_def)
    show "local_upload_part A (us_bucket u) (us_object_key u) x n data sz cs (w_store w) = (Inr stored, s')"
      using up sid by (simp add: st local_storage_def)
  qed (use n N row in auto)
  moreover have "get_upload x (Some (tenant_id i)) (w_db w') =
      Some (u\<lparr>us_status := Uploading, us_updated_at := now, us_last_activity_at := now\<rparr>)
    \<or> get_upload x (Some (tenant_id i)) (w_db w') = Some (u\<lparr>us_last_activity_at := now, us_updated_at := now\<rparr>)"
  proof -
    have same: "get_upload x t (upsert_part pg q d0) = get_upload x t d0" for t pg q d0
      by (simp add: get_upload_def)
    show ?thesis
      using u x by (auto simp: d touch_activity_def update_status_def get_upload_update same)
  qed
  moreover have "pa_part_number ` set (committed_parts x (w_db w')) = dom (m(n \<mapsto> data))"
  proof -
    have "part_key ` set (parts (w_db w')) = insert (x, n) (part_key ` set (parts (w_db w)))"
      using p x by (simp add: d touch_activity_def update_status_def part_keys_upsert)
    then have "c \<in> pa_part_number ` set (committed_parts x (w_db w')) \<longleftrightarrow>
        c = n \<or> c \<in> pa_part_number ` set (committed_parts x (w_db w))" for c
      by (simp add: committed_number_iff[OF inv'] committed_number_iff[OF inv])
    then show ?thesis using at by (auto simp: session_on_disk_def)
  qed
  ultimately show ?thesis
    using inv' s' row n unfolding session_on_disk_def by auto
qed


section \<open>From the parts to the object\<close>

text \<open>A client puts parts one after the other, and gives up at the first refusal.\<close>

fun put_parts :: "'s service \<Rightarrow> identity \<Rightarrow> pystr \<Rightarrow> dt \<Rightarrow> (int \<times> bytes) list \<Rightarrow> ('s, unit) act" where
  "put_parts sv i x now [] = ret ()"
| "put_parts sv i x now ((n, data) # rest) =
     bnd (proxy_upload_part_handler sv i x n data None now) (\<lambda>_. put_parts sv i x now rest)"

lemma session_on_disk_puts:
  assumes "session_on_disk A i x b k N S m w" and N: "N < 10 ^ 8"
    and st: "sv_storage sv = local_storage A" and ok: "adapter_ok A" "component x"
    and "put_parts sv i x now xs w = (Inr (), w')"
  shows "session_on_disk A i x b k N S (m ++ map_of (rev xs)) w' \<and> fst ` set xs \<subseteq> {1..N}"
  using assms(1,6)
proof (induction xs arbitrary: m w)
  case Nil
  then show ?case by (simp add: ret_def)
next
  case (Cons nd rest)
  obtain n data where nd: "nd = (n, data)" by fastforce
  obtain p w1 where p: "proxy_upload_part_handler sv i x n data None now w = (Inr p, w1)"
    and r: "put_parts sv i x now rest w1 = (Inr (), w')"
    using Cons.prems(2) nd by (auto simp: effs)
  have "session_on_disk A i x b k N S (m(n \<mapsto> data)) w1 \<and> n \<in> {1..N}"
    using session_on_disk_put[OF Cons.prems(1) N st ok] p
    by (simp add: proxy_upload_part_handler_def transaction_Inr)
  moreover have "m ++ map_of (rev (nd # rest)) = m(n \<mapsto> data) ++ map_of (rev rest)"
    by (simp add: nd map_of_append map_add_assoc)
  ultimately show ?case using Cons.IH[OF _ r] nd by auto
qed

lemma create_session_on_disk:
  assumes inv: "uploads_inv (w_db w)" and fresh: "x \<notin> us_id ` set (uploads (w_db w))"
    and empty: "parts_dir_is A x Map.empty (w_store w)"
    and st: "sv_storage sv = local_storage A"
    and run: "create_session sv i rq x now w = (Inr u, w')"
  shows "session_on_disk A i x (us_bucket u) (us_object_key u) (us_total_parts u) (us_total_size u) Map.empty w'"
proof -
  obtain w1 where b: "build_session sv i rq x now w = (Inr u, w1)"
    and w': "w_db w' = (w_db w1)\<lparr>uploads := uploads (w_db w1) @ [u]\<rparr>" "w_store w' = w_store w1"
    using run by (auto simp: create_session_def effs)
  have u: "us_id u = x" "us_tenant_id u = tenant_id i" "us_status u = Initiated" "w_db w1 = w_db w"
    using build_session_Inr[OF b] by auto
  have sid: "us_storage_upload_id u = Some x"
    using b by (auto simp: build_session_def Let_def effs st local_storage_def)
  have store: "w_store w1 = w_store w"
  proof -
    have init: "keeps (\<lambda>t. t = s) (st_initiate_multipart_upload (sv_storage sv) c k y)" for s c k y
      by (simp add: st local_storage_def local_initiate_multipart_upload_def keeps_ret)
    have there: "keeps (\<lambda>t. t = s) (st_object_exists (sv_storage sv) c k)" for s c k
      unfolding st local_storage_def local_object_exists_def by (simp add: keeps_bnd keeps_lift keeps_get)
    have "keeps (in_store (\<lambda>t. t = s)) (build_session sv i rq x now)" for s
      unfolding build_session_def plan_upload_def effective_for_def validate_bucket_def check_conflict_def Let_def
      by (intro keeps keeps_store_on_store init there)
    from keepsD[OF this _ b] show ?thesis by simp
  qed
  have inv': "uploads_inv (w_db w')"
    using plain.keeps_create_session[where w = w and i = i and new_id = x and sv = sv and rq = rq and now = now] inv fresh run by (simp add: plain.frame_inv_def)
  have "find (\<lambda>v. us_id v = x \<and> us_tenant_id v = tenant_id i) (uploads (w_db w)) = None"
    using fresh by (auto simp: find_None_iff)
  then have "get_upload x (Some (tenant_id i)) (w_db w') = Some u"
    using u w' by (simp add: get_upload_def find_snoc)
  moreover have "committed_parts x (w_db w') = []"
  proof -
    have "pa_upload_id p \<noteq> x" if "p \<in> set (parts (w_db w))" for p
      using inv fresh that by (force simp: uploads_inv_def part_fits_def)
    then show ?thesis using w' u
      by (auto simp: committed_parts_def list_parts_for_upload_def filter_empty_conv)
  qed
  ultimately show ?thesis
    using inv' sid u(3) empty w' store by (auto simp: session_on_disk_def)
qed

lemma complete_on_disk:
  assumes at: "session_on_disk A i x b k N S m w" and place: "local_place A b k"
    and st: "sv_storage sv = local_storage A" and ok: "adapter_ok A" "component x"
    and run: "complete sv i x fid now w = (Inr f, w')"
  shows "dom m = {1..N} \<and> local_content A (w_store w') b k = Some (concat (map (\<lambda>n. the (m n)) [1..N]))"
proof -
  obtain u where u: "get_upload x (Some (tenant_id i)) (w_db w) = Some u" "us_status u \<in> {Initiated, Uploading}"
    and row: "us_storage_upload_id u = Some x" "us_bucket u = b" "us_object_key u = k" "us_total_parts u = N"
    using at by (auto simp: session_on_disk_def)
  have x: "us_id u = x" using get_upload_SomeD[OF u(1)] by simp
  have dom: "dom m = {1..N}"
  proof -
    have "us_status u \<noteq> Completed" "uploads_inv (w_db w)" using u(2) at by (auto simp: session_on_disk_def)
    from complete_first[OF this(2) u(1) this(1) run] show ?thesis using at row(4) by (simp add: session_on_disk_def)
  qed
  have "complete sv i x fid now w = complete_new sv i u fid now w"
    using u by (auto simp: complete_def get_session_eval(1)[OF u(1)] existing_file_def)
  then have "complete_new sv i u fid now w = (Inr f, w')" using run by simp
  from complete_new_Inr[OF this] obtain ps s1 stored s2 where
    ps: "parts_to_assemble sv u (committed_parts x (w_db w)) w = (Inr ps, w\<lparr>w_store := s1\<rparr>)"
    and fin: "st_complete_multipart_upload (sv_storage sv) (us_bucket u) (us_object_key u) (storage_id u) ps s1
        = (Inr stored, s2)" and s2: "w_store w' = s2"
    using x by auto
  have sid: "storage_id u = x" using row(1) x by (simp add: storage_id_def)
  have lists: "lists_parts sv u" using row(1) ok(2)
    by (auto simp: lists_parts_def present_def component_def st local_storage_def local_capabilities_def)
  obtain qs where qs: "local_list_parts A b k x (w_store w) = (Inr qs, w_store w)" "distinct (map up_part_number qs)"
    "up_part_number ` set qs = dom m"
  proof -
    have "parts_dir_is A x m (w_store w)" using at by (simp add: session_on_disk_def)
    from local_list_parts_dir[OF this ok] that show ?thesis by metis
  qed
  have "dom m \<noteq> {}"
  proof -
    have "1 \<le> us_total_parts u"
      using at get_upload_SomeD[OF u(1)] by (intro total_parts_pos) (auto simp: session_on_disk_def uploads_inv_def)
    then show ?thesis using dom row(4) by simp
  qed
  then have "qs \<noteq> []" using qs(3) by (metis image_is_empty set_empty)
  have same: "s = w_store w" if "w = w\<lparr>w_store := s\<rparr>" for s
    using arg_cong[OF that, of w_store] by simp
  from \<open>qs \<noteq> []\<close> have ps': "ps = qs" "s1 = w_store w"
    using ps qs(1) row sid lists
    by (auto simp: parts_to_assemble_def st local_storage_def Let_def effs dest!: same split: if_splits)
  have "local_complete_multipart_upload A b k x qs (w_store w) = (Inr stored, w_store w')"
    using fin s2 ps' sid row by (simp add: st local_storage_def)
  from local_complete_content[OF ok(1) place ok(2) this] obtain bs where
    bs: "map (\<lambda>p. local_staged A (w_store w) x (up_part_number p)) (sorted_parts qs) = map Some bs"
      "local_content A (w_store w') b k = Some (concat bs)" by blast
  have nums: "map up_part_number (sorted_parts qs) = [1..N]"
    unfolding sorted_parts_def
    by (rule sorted_distinct_set_unique) (use qs dom in \<open>simp_all add: distinct_map\<close>)
  have staged: "local_staged A (w_store w) x n = m n" if "n \<in> {1..N}" for n
    using at that dom
    by (cases "m n") (auto simp: session_on_disk_def parts_dir_is_def local_staged_def file_content_def)
  have there: "m n = Some (the (m n))" if "n \<in> {1..N}" for n
    using that dom by (metis domD option.sel)
  have "map Some bs = map (local_staged A (w_store w) x) [1..N]"
    using bs(1) nums by (metis (no_types, lifting) map_eq_conv map_map comp_apply)
  also have "\<dots> = map (\<lambda>n. Some (the (m n))) [1..N]"
    proof (rule map_cong)
    fix n assume "n \<in> set [1..N]"
    then have n: "n \<in> {1..N}" by simp
    show "local_staged A (w_store w) x n = Some (the (m n))" using staged[OF n] there[OF n] by (rule trans)
  qed simp
  finally have "map the (map Some bs) = map the (map (\<lambda>n. Some (the (m n))) [1..N])" by (rule arg_cong)
  then have "bs = map (\<lambda>n. the (m n)) [1..N]" by (simp add: comp_def)
  then show ?thesis using bs(2) dom by simp
qed


text \<open>The file a completion leaves behind.\<close>

lemma completed_on_disk:
  assumes at: "session_on_disk A i x b k N S m w" and place: "local_place A b k"
    and st: "sv_storage sv = local_storage A" and ok: "adapter_ok A" "component x"
    and fin: "complete sv i x fid now w = (Inr f, w')" "fid \<notin> fo_id ` set (files (w_db w))"
  shows "dom m = {1..N} \<and> get_file fid (Some (tenant_id i)) (w_db w') = Some f
    \<and> fo_id f = fid \<and> fo_status f = FileActive \<and> fo_size_bytes f = S \<and> fo_bucket f = b \<and> fo_object_key f = k
    \<and> local_content A (w_store w') b k = Some (concat (map (\<lambda>n. the (m n)) [1..N]))"
proof -
  obtain v where v: "get_upload x (Some (tenant_id i)) (w_db w) = Some v" "us_status v \<noteq> Completed"
    "us_bucket v = b" "us_object_key v = k" "us_total_size v = S"
    and inv: "uploads_inv (w_db w)"
    using at by (auto simp: session_on_disk_def)
  from complete_first[OF inv v(1,2) fin(1)] v(3-5)
  have f: "files (w_db w') = files (w_db w) @ [f]" "fo_id f = fid" "fo_tenant_id f = tenant_id i"
    "fo_bucket f = b" "fo_object_key f = k" "fo_status f = FileActive" "fo_size_bytes f = S"
    by simp_all
  have "find (\<lambda>f. fo_id f = fid \<and> fo_tenant_id f = tenant_id i) (files (w_db w)) = None"
    using fin(2) by (auto simp: find_None_iff)
  then have "get_file fid (Some (tenant_id i)) (w_db w') = Some f"
    using f by (simp add: get_file_def find_snoc)
  then show ?thesis using f complete_on_disk[OF at place st ok fin(1)] by simp
qed

text \<open>From the creation of the session to the download of the file.\<close>

lemma uploaded_file_here:
  assumes st: "sv_storage sv = local_storage A" and ok: "adapter_ok A" "component x"
    and inv: "uploads_inv (w_db w)" "x \<notin> us_id ` set (uploads (w_db w))"
    and empty: "parts_dir_is A x Map.empty (w_store w)"
    and created: "create_session sv i rq x now w = (Inr u, w0)"
    and place: "local_place A (us_bucket u) (us_object_key u)" and N: "us_total_parts u < 10 ^ 8"
    and put: "put_parts sv i x now xs w0 = (Inr (), w1)"
    and fin: "complete sv i x fid now w1 = (Inr f, w2)" "fid \<notin> fo_id ` set (files (w_db w1))"
  shows "fst ` set xs = {1..us_total_parts u}
    \<and> get_file fid (Some (tenant_id i)) (w_db w2) = Some f \<and> fo_status f = FileActive
    \<and> fo_size_bytes f = us_total_size u \<and> fo_bucket f = us_bucket u \<and> fo_object_key f = us_object_key u
    \<and> local_content A (w_store w2) (us_bucket u) (us_object_key u)
        = Some (concat (map (\<lambda>n. the (map_of (rev xs) n)) [1..us_total_parts u]))"
proof -
  have "session_on_disk A i x (us_bucket u) (us_object_key u) (us_total_parts u) (us_total_size u)
      (map_of (rev xs)) w1"
    using session_on_disk_puts[OF create_session_on_disk[OF inv empty st created] N st ok put] by simp
  from completed_on_disk[OF this place st ok fin] show ?thesis
    by (simp add: dom_map_of_conv_image_fst)
qed

lemma uploaded_file_downloads:
  assumes st: "sv_storage sv = local_storage A" and ok: "adapter_ok A" "component x"
    and inv: "uploads_inv (w_db w)" "x \<notin> us_id ` set (uploads (w_db w))"
    and empty: "parts_dir_is A x Map.empty (w_store w)"
    and created: "create_session sv i rq x now w = (Inr u, w0)"
    and place: "local_place A (us_bucket u) (us_object_key u)" and N: "us_total_parts u < 10 ^ 8"
    and put: "put_parts sv i x now xs w0 = (Inr (), w1)"
    and fin: "complete sv i x fid now w1 = (Inr f, w2)" "fid \<notin> fo_id ` set (files (w_db w1))"
  shows "fst ` set xs = {1..us_total_parts u}
    \<and> (\<exists>stream. download sv i fid None w2 = (Inr (f, stream, None), w2)
        \<and> os_chunks stream = Inr (concat (map (\<lambda>n. the (map_of (rev xs) n)) [1..us_total_parts u])))"
proof -
  let ?m = "map_of (rev xs)"
  note here = uploaded_file_here[OF st ok inv empty created place N put fin]
  then have f: "get_file fid (Some (tenant_id i)) (w_db w2) = Some f" "fo_status f = FileActive"
    "fo_bucket f = us_bucket u" "fo_object_key f = us_object_key u"
    and content: "local_content A (w_store w2) (us_bucket u) (us_object_key u)
      = Some (concat (map (\<lambda>n. the (?m n)) [1..us_total_parts u]))" by simp_all
  have ran: "get_file_object i fid w2 = (Inr f, w2)"
    using f by (simp add: get_file_object_def require_def ret_def guard_def bnd_def seq_def
        get_db_def get_def)
  from local_get_content[OF ok(1) place content, of 0 None] obtain y where
    y: "local_get_object A (us_bucket u) (us_object_key u) 0 None (w_store w2) = (Inr y, w_store w2)"
      "os_chunks y = Inr (concat (map (\<lambda>n. the (?m n)) [1..us_total_parts u]))"
    by (auto simp: read_slice_def)
  have "download sv i fid None w2 = (Inr (f, y, None), w2)"
    using ran y(1) f(3,4)
    by (simp add: download_def stream_file_def bnd_def lift_def present_def on_store_def st local_storage_def
        ret_def)
  then show ?thesis using y(2) here by blast
qed

end
