(* ===== verification/FileLifecycles.thy ===== *)
theory FileLifecycles
  imports Files
begin

text \<open>
  The lifecycle of a file: \<open>src/app/services/lifecycle_service.py\<close> with the handlers of
  \<open>src/app/api/v1/lifecycle.py\<close>, the worker \<open>src/app/worker/lifecycle.py\<close> and
  the outbox of \<open>src/app/services/webhook_service.py\<close>.
\<close>

section \<open>The service\<close>

definition service_effective ::
    "'s service \<Rightarrow> jobject \<Rightarrow> dt \<Rightarrow> dt \<Rightarrow> error + effective" where
  "service_effective sv requested completed_at now =
     (let lf = cf_lifecycle (sv_settings sv)
      in compute_effective_lifecycle (sv_parse_iso sv) (lf_policy lf) (policy_dump (lf_default_policy lf))
           (Some requested) (Some completed_at) now)"

definition apply_effective :: "effective \<Rightarrow> file_object \<Rightarrow> file_object" where
  "apply_effective e f =
     f\<lparr>fo_lifecycle_mode := ef_mode e, fo_lifecycle_action := ef_action e,
       fo_ttl_seconds := ef_ttl_seconds e, fo_expires_at := ef_expires_at e,
       fo_next_action_at := (if ef_action e \<noteq> lit ''none'' then ef_expires_at e else None)\<rparr>"

record lifecycle_view =
  lv_mode :: pystr
  lv_action :: pystr
  lv_ttl_seconds :: "int option"
  lv_expires_at :: "dt option"
  lv_status :: lifecycle_status

definition lifecycle_dict :: "file_object \<Rightarrow> lifecycle_view" where
  "lifecycle_dict f =
     \<lparr>lv_mode = fo_lifecycle_mode f, lv_action = fo_lifecycle_action f,
      lv_ttl_seconds = fo_ttl_seconds f, lv_expires_at = fo_expires_at f,
      lv_status = fo_lifecycle_status f\<rparr>"

definition add_event ::
    "pystr \<Rightarrow> pystr \<Rightarrow> pystr \<Rightarrow> lifecycle_status \<Rightarrow> lifecycle_status \<Rightarrow> pystr option
     \<Rightarrow> ('s, unit) act" where
  "add_event tenant file_id event_type from_status to_status reason =
     modify_db (\<lambda>d. d\<lparr>events := events d @
       [\<lparr>le_tenant_id = tenant, le_file_id = file_id, le_event_type = event_type,
         le_from_status = from_status, le_to_status = to_status, le_reason = reason\<rparr>]\<rparr>)"

text \<open>The row of the tenant; a deleted file is still found.\<close>

definition lifecycle_file :: "identity \<Rightarrow> pystr \<Rightarrow> ('s, file_object) act" where
  "lifecycle_file i file_id =
     bnd (get_db (get_file file_id (Some (tenant_id i)))) (require file_not_found)"

definition get_lifecycle :: "identity \<Rightarrow> pystr \<Rightarrow> ('s, lifecycle_view) act" where
  "get_lifecycle i file_id = bnd (lifecycle_file i file_id) (\<lambda>f. ret (lifecycle_dict f))"

text \<open>The common end of the operations: store the row, note the event, answer.\<close>

definition store_file :: "identity \<Rightarrow> file_object \<Rightarrow> string \<Rightarrow> ('s, unit) act" where
  "store_file i f event_type =
     seq (modify_db (update_file (fo_id f) (\<lambda>_. f)))
         (add_event (tenant_id i) (fo_id f) (lit event_type) (fo_lifecycle_status f)
            (fo_lifecycle_status f) None)"

definition update_file_lifecycle ::
    "'s service \<Rightarrow> identity \<Rightarrow> pystr \<Rightarrow> jobject \<Rightarrow> dt \<Rightarrow> ('s, lifecycle_view) act" where
  "update_file_lifecycle sv i file_id requested now =
     bnd (lifecycle_file i file_id) (\<lambda>f.
     seq (guard (\<not> fo_legal_hold f) FileUnderLegalHoldError)
    (bnd (lift (service_effective sv requested (fo_completed_at f) now)) (\<lambda>e.
     let f' = (apply_effective e f)\<lparr>fo_lifecycle_source := lit ''client''\<rparr>
     in seq (store_file i f' ''lifecycle.updated'') (ret (lifecycle_dict f')))))"

definition extend ::
    "'s service \<Rightarrow> identity \<Rightarrow> pystr \<Rightarrow> int \<Rightarrow> dt \<Rightarrow> ('s, lifecycle_view) act" where
  "extend sv i file_id extend_seconds now =
     bnd (lifecycle_file i file_id) (\<lambda>f.
     seq (guard (fo_lifecycle_mode f \<notin> {lit ''permanent'', lit ''expires_at''})
            (InvalidLifecyclePolicyError ''cannot extend''))
    (seq (guard (0 < extend_seconds) (InvalidLifecyclePolicyError ''extend_seconds must be positive''))
    (bnd (after_seconds (the_default now (fo_expires_at f)) extend_seconds) (\<lambda>extended.
     bnd (lift (service_effective sv
            [(lit ''mode'', JStr (fo_lifecycle_mode f)), (lit ''action'', JStr (fo_lifecycle_action f)),
             (lit ''ttl_seconds'', case fo_ttl_seconds f of None \<Rightarrow> JNull | Some n \<Rightarrow> JInt n),
             (lit ''expires_at'', JStr (sv_isoformat sv extended))] (fo_completed_at f) now)) (\<lambda>e.
     let f' = apply_effective e f
     in seq (store_file i f' ''lifecycle.extended'') (ret (lifecycle_dict f')))))))"

definition make_permanent :: "'s service \<Rightarrow> identity \<Rightarrow> pystr \<Rightarrow> ('s, lifecycle_view) act" where
  "make_permanent sv i file_id =
     seq (guard (lr_permanent_allowed (lf_policy (cf_lifecycle (sv_settings sv))))
            (InvalidLifecyclePolicyError ''permanent lifecycle is not allowed by server policy''))
    (bnd (lifecycle_file i file_id) (\<lambda>f.
     seq (guard (\<not> fo_legal_hold f) FileUnderLegalHoldError)
    (let f' = f\<lparr>fo_lifecycle_mode := lit ''permanent'', fo_lifecycle_action := lit ''none'',
               fo_ttl_seconds := None, fo_expires_at := None, fo_next_action_at := None\<rparr>
     in seq (store_file i f' ''lifecycle.make_permanent'') (ret (lifecycle_dict f')))))"

definition set_legal_hold :: "identity \<Rightarrow> pystr \<Rightarrow> bool \<Rightarrow> ('s, bool \<times> pystr) act" where
  "set_legal_hold i file_id hold =
     bnd (lifecycle_file i file_id) (\<lambda>f.
     let f' = f\<lparr>fo_legal_hold := hold\<rparr>
     in seq (store_file i f' (if hold then ''legal_hold.set'' else ''legal_hold.released''))
            (ret (hold, fo_id f)))"

section \<open>The outbox\<close>

definition enqueue :: "pystr \<Rightarrow> pystr \<Rightarrow> jobject \<Rightarrow> dt \<Rightarrow> ('s, unit) act" where
  "enqueue tenant event_type payload now =
     modify_db (\<lambda>d. d\<lparr>outbox := outbox d @
       [\<lparr>wm_id = length (outbox d), wm_tenant_id = tenant, wm_event_type = event_type,
         wm_payload = payload, wm_status = WebhookPending, wm_attempts = 0,
         wm_next_attempt_at = now, wm_created_at = now\<rparr>]\<rparr>)"

section \<open>The worker\<close>

text \<open>
  \<open>action\<close> is an enum member here; from Python 3.11 on, an f-string and \<open>str\<close>
  write it with its class, before that an f-string writes its value.
\<close>

definition action_text :: "bool \<Rightarrow> pystr \<Rightarrow> pystr" where
  "action_text py311 action = (if py311 then lit ''LifecycleAction.'' @ action else action)"

definition due :: "dt \<Rightarrow> file_object \<Rightarrow> bool" where
  "due now f \<longleftrightarrow>
     fo_status f = FileActive
     \<and> (case fo_next_action_at f of None \<Rightarrow> False | Some t \<Rightarrow> t \<le> now)
     \<and> fo_lifecycle_status f = LcActive"

definition due_files :: "dt \<Rightarrow> nat \<Rightarrow> db \<Rightarrow> file_object list" where
  "due_files now batch_size d =
     take batch_size (sort_key (\<lambda>f. the_default 0 (fo_next_action_at f)) (filter (due now) (files d)))"

text \<open>The body of the \<open>try\<close>, on the row as it was selected.\<close>

definition run_action :: "'s service \<Rightarrow> bool \<Rightarrow> file_object \<Rightarrow> dt \<Rightarrow> ('s, unit) act" where
  "run_action sv py311 f now =
     (let action = fo_lifecycle_action f;
          set = (\<lambda>g. modify_db (update_file (fo_id f) g));
          event_type = lit ''lifecycle.'' @ action_text py311 action;
          to_status = (if action = lit ''delete'' then LcDeleted
                       else if action = lit ''notify'' then LcExpired else fo_lifecycle_status f)
      in seq (if action = lit ''delete''
              then seq (set (\<lambda>r. r\<lparr>fo_lifecycle_status := LcDeleting\<rparr>))
                  (seq (on_store (st_delete_object (sv_storage sv) (fo_bucket f) (fo_object_key f)))
                       (set (\<lambda>r. r\<lparr>fo_status := FileDeleted, fo_lifecycle_status := LcDeleted,
                                   fo_deleted_at := Some now\<rparr>)))
              else if action = lit ''notify''
              then set (\<lambda>r. r\<lparr>fo_lifecycle_status := LcExpired\<rparr>)
              else set (\<lambda>r. r\<lparr>fo_next_action_at := None\<rparr>))
        (seq (count (\<lambda>m. m\<lparr>m_lifecycle_actions :=
                (m_lifecycle_actions m)(action := m_lifecycle_actions m action + 1)\<rparr>))
        (seq (add_event (fo_tenant_id f) (fo_id f) event_type (fo_lifecycle_status f) to_status None)
             (enqueue (fo_tenant_id f) event_type
                [(lit ''file_id'', JStr (fo_id f)), (lit ''bucket'', JStr (fo_bucket f)),
                 (lit ''object_key'', JStr (fo_object_key f)), (lit ''action'', JStr action)] now))))"

text \<open>One file of the batch; \<open>except Exception\<close> catches everything.\<close>

definition process_file :: "'s service \<Rightarrow> bool \<Rightarrow> dt \<Rightarrow> file_object \<Rightarrow> ('s, nat) act" where
  "process_file sv py311 now f =
     (if fo_legal_hold f
      then seq (add_event (fo_tenant_id f) (fo_id f) (lit ''lifecycle.blocked'')
                  (fo_lifecycle_status f) (fo_lifecycle_status f) (Some (lit ''legal_hold'')))
               (ret 0)
      else catch (seq (run_action sv py311 f now) (ret 1))
             (\<lambda>_. seq (count (\<lambda>m. m\<lparr>m_lifecycle_failures := m_lifecycle_failures m + 1\<rparr>))
                 (seq (modify_db (update_file (fo_id f)
                         (\<lambda>r. r\<lparr>fo_delete_attempts := fo_delete_attempts r + 1\<rparr>)))
                      (ret 0))))"

fun process_files :: "'s service \<Rightarrow> bool \<Rightarrow> dt \<Rightarrow> file_object list \<Rightarrow> ('s, nat) act" where
  "process_files sv py311 now [] = ret 0"
| "process_files sv py311 now (f # fs) =
     bnd (process_file sv py311 now f) (\<lambda>n.
     bnd (process_files sv py311 now fs) (\<lambda>m. ret (n + m)))"

definition process_batch :: "'s service \<Rightarrow> bool \<Rightarrow> dt \<Rightarrow> nat \<Rightarrow> ('s, nat) act" where
  "process_batch sv py311 now batch_size =
     bnd (get_db (due_files now batch_size)) (process_files sv py311 now)"

section \<open>Lemmas\<close>

lemma set_due_files: "f \<in> set (due_files now n d) \<Longrightarrow> f \<in> set (files d) \<and> due now f"
  by (auto simp: due_files_def dest: in_set_takeD)

lemma keeps_add_event:
  "(\<And>d es. P d \<Longrightarrow> P (d\<lparr>events := es\<rparr>)) \<Longrightarrow> keeps (on_db P) (add_event t i e a b r)"
  unfolding add_event_def by (rule keeps_modify_db)

lemma keeps_enqueue:
  "(\<And>d es. P d \<Longrightarrow> P (d\<lparr>outbox := es\<rparr>)) \<Longrightarrow> keeps (on_db P) (enqueue t e p now)"
  unfolding enqueue_def by (rule keeps_modify_db)

text \<open>A row other than the one worked on is left alone.\<close>

definition row_is :: "file_object \<Rightarrow> db \<Rightarrow> bool" where
  "row_is g d \<longleftrightarrow> g \<in> set (files d)"

lemma row_is_update:
  "row_is g d \<Longrightarrow> fo_id g \<noteq> i \<Longrightarrow> row_is g (update_file i h d)"
  by (force simp: row_is_def update_file_def set_update_rows)

lemma keeps_row_update:
  "fo_id g \<noteq> i \<Longrightarrow> keeps (on_db (row_is g)) (modify_db (update_file i h))"
  by (rule keeps_modify_db) (rule row_is_update)

lemma keeps_row_event [keeps]: "keeps (on_db (row_is g)) (add_event t i e a b r)"
  by (rule keeps_add_event) (simp add: row_is_def)

lemma keeps_row_enqueue [keeps]: "keeps (on_db (row_is g)) (enqueue t e p now)"
  by (rule keeps_enqueue) (simp add: row_is_def)

lemma keeps_row_process:
  assumes "fo_legal_hold f \<or> fo_id g \<noteq> fo_id f"
  shows "keeps (on_db (row_is g)) (process_file sv py now f)"
proof (cases "fo_legal_hold f")
  case False
  then have "fo_id g \<noteq> fo_id f" using assms by simp
  then show ?thesis
    unfolding process_file_def run_action_def Let_def
    by (intro keeps_row_update keeps)
next
  case True
  then show ?thesis unfolding process_file_def by (simp del: seq_modify) (intro keeps)
qed

lemma keeps_row_process_files:
  "(\<And>f. f \<in> set fs \<Longrightarrow> fo_legal_hold f \<or> fo_id g \<noteq> fo_id f) \<Longrightarrow>
   keeps (on_db (row_is g)) (process_files sv py now fs)"
proof (induction fs)
  case (Cons f fs)
  then have "keeps (on_db (row_is g)) (process_file sv py now f)"
    "keeps (on_db (row_is g)) (process_files sv py now fs)" by (auto intro: keeps_row_process)
  then show ?case by (simp only: process_files.simps) (intro keeps)
qed simp

text \<open>
  The worker leaves a file alone that is not due, and one under legal hold whatever its state.
\<close>

lemma process_batch_spares:
  assumes ids: "distinct (map fo_id (files (w_db w)))"
    and g: "g \<in> set (files (w_db w))" "\<not> due now g \<or> fo_legal_hold g"
    and run: "process_batch sv py now n w = (r, w')"
  shows "g \<in> set (files (w_db w'))"
proof -
  have "fo_legal_hold f \<or> fo_id g \<noteq> fo_id f" if "f \<in> set (due_files now n (w_db w))" for f
  proof -
    have "f \<in> set (files (w_db w))" "due now f" using set_due_files[OF that] by auto
    then show ?thesis using ids g by (auto simp: distinct_map inj_on_def)
  qed
  then have "keeps (on_db (row_is g)) (process_files sv py now (due_files now n (w_db w)))"
    by (rule keeps_row_process_files)
  moreover have "process_files sv py now (due_files now n (w_db w)) w = (r, w')"
    using run by (simp add: process_batch_def)
  ultimately show ?thesis using keepsD[of "on_db (row_is g)"] g(1) by (fastforce simp: row_is_def)
qed

lemma length_due_files: "length (due_files now n d) \<le> n"
  by (simp add: due_files_def)

lemma process_files_count:
  "process_files sv py now fs w = (Inr k, w') \<Longrightarrow> k \<le> length fs"
proof (induction fs arbitrary: w k)
  case (Cons f fs)
  then obtain a w1 b where a: "process_file sv py now f w = (Inr a, w1)"
    and b: "process_files sv py now fs w1 = (Inr b, w')" "k = a + b"
    by (auto simp: effs)
  have "a \<le> 1"
    using a by (auto simp: process_file_def catch_def effs split: if_splits prod.splits sum.splits)
  then show ?case using Cons.IH[OF b(1)] b(2) by simp
qed (simp add: ret_def)

end
