(* ===== verification/Directories.thy ===== *)
theory Directories
  imports Uploads
begin

text \<open>
  Directory uploads: \<open>src/app/services/directory_upload_service.py\<close>,
  \<open>src/app/directory_upload/aggregation.py\<close>, the manifest hash of
  \<open>src/app/directory_upload/manifest.py\<close> and the handlers of
  \<open>src/app/api/v1/directory_uploads.py\<close>.

  The database compares and orders paths by its collation, the parameter \<open>sv_rank\<close>.
\<close>

section \<open>The manifest hash\<close>

text \<open>
  \<open>json.dumps(..., ensure_ascii=False)\<close> of a text: the quote, the backslash and the
  control characters are escaped, everything else is copied.
\<close>

definition hex_digit :: "nat \<Rightarrow> nat" where
  "hex_digit n = (if n < 10 then 48 + n else 87 + n)"

definition escape_char :: "nat \<Rightarrow> pystr" where
  "escape_char c =
     (if c = 34 then [92, 34]
      else if c = 92 then [92, 92]
      else if c = 10 then [92, 110]
      else if c = 13 then [92, 114]
      else if c = 9 then [92, 116]
      else if c = 12 then [92, 102]
      else if c = 8 then [92, 98]
      else if c < 32 then [92, 117, 48, 48, hex_digit (c div 16), hex_digit (c mod 16)]
      else [c])"

definition json_string :: "pystr \<Rightarrow> pystr" where
  "json_string s = [34] @ concat (map escape_char s) @ [34]"

record manifest_entry =
  me_relative_path :: pystr
  me_size_bytes :: int
  me_fingerprint :: "pystr option"

text \<open>The keys in sorted order, with the separators \<open>json.dumps\<close> writes.\<close>

definition manifest_line :: "manifest_entry \<Rightarrow> pystr" where
  "manifest_line e =
     lit ''{'' @ [34] @ lit ''fingerprint'' @ [34] @ lit '': ''
     @ (case me_fingerprint e of None \<Rightarrow> lit ''null'' | Some f \<Rightarrow> json_string f)
     @ lit '', '' @ [34] @ lit ''relative_path'' @ [34] @ lit '': '' @ json_string (me_relative_path e)
     @ lit '', '' @ [34] @ lit ''size_bytes'' @ [34] @ lit '': '' @ py_str_int (me_size_bytes e)
     @ lit ''}''"

definition manifest_text :: "manifest_entry list \<Rightarrow> pystr" where
  "manifest_text es = join_with 10 (map manifest_line (sort_key me_relative_path es))"

text \<open>\<open>str.encode("utf-8")\<close>; a lone surrogate is an error.\<close>

definition utf8_char :: "nat \<Rightarrow> bytes" where
  "utf8_char c =
     map word_of_nat
       (if c < 128 then [c]
        else if c < 2048 then [192 + c div 64, 128 + c mod 64]
        else if c < 65536 then [224 + c div 4096, 128 + c div 64 mod 64, 128 + c mod 64]
        else [240 + c div 262144, 128 + c div 4096 mod 64, 128 + c div 64 mod 64, 128 + c mod 64])"

definition utf8_encode :: "pystr \<Rightarrow> error + bytes" where
  "utf8_encode s =
     (if utf8_len s = None then Inl (Crash UnicodeEncodeError)
      else Inr (concat (map utf8_char s)))"

definition manifest_hash_from_entries :: "'s service \<Rightarrow> manifest_entry list \<Rightarrow> error + pystr" where
  "manifest_hash_from_entries sv es =
     rbind (utf8_encode (manifest_text es)) (\<lambda>b. Inr (sv_sha256 sv b))"

definition verify_manifest_hash :: "'s service \<Rightarrow> manifest_entry list \<Rightarrow> pystr option \<Rightarrow> error + unit" where
  "verify_manifest_hash sv es expected =
     (case expected of
        None \<Rightarrow> Inr ()
      | Some h \<Rightarrow>
          rbind (manifest_hash_from_entries sv es) (\<lambda>actual.
            rguard (actual = h) (ManifestHashMismatchError h actual)))"

section \<open>Jobs\<close>

definition directory_not_found :: error where
  "directory_not_found = ApiErr ''DIRECTORY_UPLOAD_NOT_FOUND'' 404"

definition entry_not_found :: error where
  "entry_not_found = ApiErr ''ENTRY_NOT_FOUND'' 404"

record job_request =
  jr_root_directory_name :: pystr
  jr_bucket :: pystr
  jr_destination_prefix :: pystr
  jr_conflict_policy :: pystr
  jr_source :: pystr
  jr_lifecycle :: "jobject option"

text \<open>An enum is looked up by its value; an unknown one is a \<open>ValueError\<close>.\<close>

definition enum_value :: "'a option \<Rightarrow> error + 'a" where
  "enum_value x = (case x of None \<Rightarrow> Inl (Crash ValueError) | Some a \<Rightarrow> Inr a)"

definition build_job ::
    "'s service \<Rightarrow> identity \<Rightarrow> job_request \<Rightarrow> pystr \<Rightarrow> dt \<Rightarrow> ('s, directory_job) act" where
  "build_job sv i rq new_id now =
     (let c = sv_settings sv; du = cf_directory_upload c;
          policy = (if jr_conflict_policy rq = [] then du_default_policy du
                    else jr_conflict_policy rq);
          prefix = strip_by (\<lambda>x. x = slash) (jr_destination_prefix rq)
      in seq (guard (du_enabled du) (ApiErr ''DIRECTORY_UPLOAD_DISABLED'' 409))
        (seq (guard (jr_bucket rq \<in> set (sc_allowed_buckets (cf_storage c))) (ApiErr ''INVALID_BUCKET'' 422))
        (seq (guard (policy \<in> set (du_allowed_policies du)) (ApiErr ''INVALID_CONFLICT_POLICY'' 422))
        (bnd (lift (if prefix = [] then Inr []
                    else normalize_relative_path (sv_nfc sv) 64 1024 prefix)) (\<lambda>_.
         bnd (effective_for sv (jr_lifecycle rq) None now) (\<lambda>e.
         bnd (lift (enum_value (source_of (jr_source rq)))) (\<lambda>source.
         seq (guard (policy \<in> set known_conflict_policies) (Crash ValueError))
        (bnd (get_db (get_session_expiry c)) (\<lambda>expiry.
         bnd (after_seconds now expiry) (\<lambda>expires_at.
         ret \<lparr>dj_id = new_id, dj_tenant_id = tenant_id i, dj_principal_id = principal_id i,
              dj_source = source, dj_root_directory_name = jr_root_directory_name rq,
              dj_bucket = jr_bucket rq, dj_destination_prefix = prefix, dj_status = JobCreated,
              dj_conflict_policy = policy, dj_total_entries = 0, dj_total_files = 0,
              dj_total_directories = 0, dj_total_bytes = 0, dj_uploaded_files = 0,
              dj_failed_files = 0, dj_skipped_files = 0, dj_manifest_hash = None,
              dj_requested_lifecycle = jr_lifecycle rq, dj_effective_lifecycle = e,
              dj_expires_at = expires_at, dj_created_at = now, dj_updated_at = now\<rparr>))))))))))"

definition create_job ::
    "'s service \<Rightarrow> identity \<Rightarrow> job_request \<Rightarrow> pystr \<Rightarrow> dt \<Rightarrow> ('s, directory_job) act" where
  "create_job sv i rq new_id now =
     bnd (build_job sv i rq new_id now) (\<lambda>job.
     seq (modify_db (\<lambda>d. d\<lparr>jobs := jobs d @ [job]\<rparr>))
    (seq (count (\<lambda>m. m\<lparr>m_directory_jobs := m_directory_jobs m + 1,
                       m_directory_active_jobs := m_directory_active_jobs m + 1\<rparr>))
         (ret job)))"

definition find_job :: "identity \<Rightarrow> pystr \<Rightarrow> ('s, directory_job) act" where
  "find_job i job_id =
     bnd (get_db (get_job job_id (Some (tenant_id i)))) (require directory_not_found)"

text \<open>\<open>_transition\<close>, with the row it leaves.\<close>

definition transition_to :: "directory_job \<Rightarrow> job_status \<Rightarrow> dt \<Rightarrow> ('s, directory_job) act" where
  "transition_to job target now =
     bnd (lift (transition_job (dj_status job) target)) (\<lambda>target.
     seq (modify_db (update_job (dj_id job) (\<lambda>j. j\<lparr>dj_status := target, dj_updated_at := now\<rparr>)))
         (ret (job\<lparr>dj_status := target, dj_updated_at := now\<rparr>)))"

section \<open>Entries\<close>

record raw_entry =
  re_entry_type :: pystr
  re_relative_path :: pystr
  re_size_bytes :: int
  re_last_modified_ns :: "int option"
  re_content_type :: "pystr option"
  re_fingerprint :: "pystr option"
  re_full_sha256 :: "pystr option"
  re_lifecycle :: "jobject option"

definition build_entry ::
    "'s service \<Rightarrow> directory_job \<Rightarrow> raw_entry \<Rightarrow> pystr \<Rightarrow> pystr \<Rightarrow> error + directory_entry" where
  "build_entry sv job raw normalized new_id =
     rbind (join_prefix (sv_nfc sv) (dj_destination_prefix job) normalized) (\<lambda>object_key.
     rbind (enum_value (entry_type_of (re_entry_type raw))) (\<lambda>entry_type.
       Inr \<lparr>de_id = new_id, de_job_id = dj_id job, de_entry_type = entry_type,
            de_relative_path = re_relative_path raw, de_normalized_path = normalized,
            de_object_key = object_key, de_size_bytes = re_size_bytes raw,
            de_last_modified_ns = re_last_modified_ns raw, de_content_type = re_content_type raw,
            de_fingerprint = re_fingerprint raw, de_full_sha256 = re_full_sha256 raw,
            de_file_id = None, de_status = EntryPending, de_error_code = None,
            de_error_message = None,
            de_requested_lifecycle =
              (case re_lifecycle raw of
                 Some d \<Rightarrow> if d = [] then dj_requested_lifecycle job else Some d
               | None \<Rightarrow> dj_requested_lifecycle job),
            de_effective_lifecycle = dj_effective_lifecycle job, de_attempt_count = 0\<rparr>))"

text \<open>The loop over the entries of a request; \<open>existing\<close> are the paths of the job so far.\<close>

fun build_entries ::
    "'s service \<Rightarrow> directory_job \<Rightarrow> pystr set \<Rightarrow> (raw_entry \<times> pystr) list \<Rightarrow> error + directory_entry list" where
  "build_entries sv job existing [] = Inr []"
| "build_entries sv job existing ((raw, new_id) # rest) =
     (let limits = du_limits (cf_directory_upload (sv_settings sv))
      in rbind (normalize_relative_path (sv_nfc sv) (dl_maximum_path_depth limits)
                  (dl_maximum_relative_path_bytes limits) (re_relative_path raw)) (\<lambda>normalized.
         rbind (rguard (normalized \<notin> existing) (DuplicateNormalizedPathError normalized)) (\<lambda>_.
         rbind (build_entry sv job raw normalized new_id) (\<lambda>e.
         rbind (build_entries sv job (insert normalized existing) rest) (\<lambda>es. Inr (e # es))))))"

definition is_file_entry :: "directory_entry \<Rightarrow> bool" where
  "is_file_entry e \<longleftrightarrow> de_entry_type e = EntryFile"

definition total_size_of :: "directory_entry list \<Rightarrow> int" where
  "total_size_of es = sum_list (map de_size_bytes es)"

definition add_entries ::
    "'s service \<Rightarrow> identity \<Rightarrow> pystr \<Rightarrow> (raw_entry \<times> pystr) list \<Rightarrow> dt \<Rightarrow> ('s, nat) act" where
  "add_entries sv i job_id raws now =
     bnd (find_job i job_id) (\<lambda>job.
     seq (guard (dj_status job \<in> {JobCreated, JobManifestUploading})
            (UploadStateConflictError ''Entries can only be added before the manifest is finalized.''))
    (bnd (if dj_status job = JobCreated then transition_to job JobManifestUploading now else ret job)
       (\<lambda>job.
     seq (guard (length raws \<le> dl_maximum_entries_per_manifest_request
                                (du_limits (cf_directory_upload (sv_settings sv))))
            (ApiErr ''TOO_MANY_ENTRIES'' 422))
    (bnd (get_db (\<lambda>d. de_normalized_path ` set (job_entries (dj_id job) d))) (\<lambda>existing.
     bnd (lift (build_entries sv job existing raws)) (\<lambda>es.
     let fs = filter is_file_entry es; ds = filter (\<lambda>e. \<not> is_file_entry e) es
     in seq (modify_db (\<lambda>d. update_job (dj_id job) (\<lambda>j.
               j\<lparr>dj_total_files := dj_total_files j + int (length fs),
                 dj_total_directories := dj_total_directories j + int (length ds),
                 dj_total_bytes := dj_total_bytes j + total_size_of fs,
                 dj_total_entries := dj_total_entries j + int (length es)\<rparr>)
               (d\<lparr>entries := entries d @ es\<rparr>)))
       (seq (count (\<lambda>m. m\<lparr>m_directory_entries := m_directory_entries m + length es\<rparr>))
       (seq (count_by (total_size_of fs)
               (\<lambda>m. m\<lparr>m_directory_bytes := m_directory_bytes m + total_size_of fs\<rparr>))
            (ret (length es))))))))))"

definition manifest_of :: "directory_entry list \<Rightarrow> manifest_entry list" where
  "manifest_of es =
     map (\<lambda>e. \<lparr>me_relative_path = de_normalized_path e, me_size_bytes = de_size_bytes e,
               me_fingerprint = de_fingerprint e\<rparr>) (filter is_file_entry es)"

text \<open>\<open>counts.get(key) != n\<close>.\<close>

definition json_is_int :: "json \<Rightarrow> int \<Rightarrow> bool" where
  "json_is_int v n = (case json_number v of None \<Rightarrow> False | Some (m, k) \<Rightarrow> m = n * 2 ^ k)"

definition manifest_incomplete :: error where
  "manifest_incomplete = ApiErr ''MANIFEST_INCOMPLETE'' 409"

definition complete_manifest ::
    "'s service \<Rightarrow> identity \<Rightarrow> pystr \<Rightarrow> pystr option \<Rightarrow> jobject option \<Rightarrow> dt \<Rightarrow> ('s, directory_job) act" where
  "complete_manifest sv i job_id expected_hash counts now =
     bnd (find_job i job_id) (\<lambda>job.
     seq (guard (dj_status job \<in> {JobCreated, JobManifestUploading})
            (UploadStateConflictError ''Manifest has already been completed.''))
    (bnd (get_db (job_entries (dj_id job))) (\<lambda>es.
     seq (guard (es \<noteq> []) manifest_incomplete)
    (bnd (lift (manifest_hash_from_entries sv (manifest_of es))) (\<lambda>actual.
     seq (guard (\<not> (present expected_hash \<and> expected_hash \<noteq> Some actual))
            (ManifestHashMismatchError (the_default [] expected_hash) actual))
    (seq (guard (case counts of
                   None \<Rightarrow> True
                 | Some c \<Rightarrow> c = [] \<or> (json_is_int (jget ''files'' c) (dj_total_files job)
                                      \<and> json_is_int (jget ''directories'' c) (dj_total_directories job)))
            manifest_incomplete)
    (seq (modify_db (update_job (dj_id job) (\<lambda>j. j\<lparr>dj_manifest_hash := Some actual\<rparr>)))
         (transition_to (job\<lparr>dj_manifest_hash := Some actual\<rparr>) JobReady now))))))))"

section \<open>Listing entries\<close>

definition path_rank :: "'s service \<Rightarrow> directory_entry \<Rightarrow> int" where
  "path_rank sv e = sv_rank sv (Some (de_normalized_path e))"

definition entry_page ::
    "'s service \<Rightarrow> pystr \<Rightarrow> pystr option \<Rightarrow> int \<Rightarrow> db \<Rightarrow> directory_entry list \<times> pystr option" where
  "entry_page sv job_id cursor limit d =
     (let limit = nat (min (max limit 1) 1000);
          es = filter (\<lambda>e. \<not> present cursor \<or> sv_rank sv cursor < path_rank sv e) (job_entries job_id d);
          rows = take (limit + 1) (sort_key (path_rank sv) es)
      in if limit < length rows
         then (take limit rows, Some (de_normalized_path (last (take limit rows))))
         else (rows, None))"

definition list_entries ::
    "'s service \<Rightarrow> identity \<Rightarrow> pystr \<Rightarrow> pystr option \<Rightarrow> int
     \<Rightarrow> ('s, directory_entry list \<times> pystr option) act" where
  "list_entries sv i job_id cursor limit =
     bnd (find_job i job_id) (\<lambda>_. get_db (entry_page sv job_id cursor limit))"

text \<open>The rows behind \<open>GET /{job_id}/manifest\<close>.\<close>

definition get_manifest_rows :: "'s service \<Rightarrow> identity \<Rightarrow> pystr \<Rightarrow> ('s, directory_entry list) act" where
  "get_manifest_rows sv i job_id =
     bnd (list_entries sv i job_id None 100000) (\<lambda>(rows, _). ret rows)"

section \<open>Working on a job\<close>

definition find_entry :: "pystr \<Rightarrow> pystr \<Rightarrow> ('s, directory_entry) act" where
  "find_entry job_id entry_id =
     bnd (get_db (\<lambda>d. find_row de_id entry_id (entries d))) (\<lambda>e.
     bnd (require entry_not_found e) (\<lambda>e.
     seq (guard (de_job_id e = job_id) entry_not_found) (ret e)))"

definition initiate_entry ::
    "identity \<Rightarrow> pystr \<Rightarrow> pystr \<Rightarrow> dt \<Rightarrow> ('s, directory_entry) act" where
  "initiate_entry i job_id entry_id now =
     bnd (find_entry job_id entry_id) (\<lambda>e.
     bnd (find_job i job_id) (\<lambda>job.
     bnd (if dj_status job = JobCreated then transition_to job JobManifestUploading now else ret job)
       (\<lambda>_.
     let f = (\<lambda>e. e\<lparr>de_status := EntryUploading, de_attempt_count := de_attempt_count e + 1\<rparr>)
     in seq (modify_db (update_entry (de_id e) f)) (ret (f e)))))"

text \<open>The counts of the entries, written into the job row.\<close>

definition aggregate_progress :: "pystr \<Rightarrow> db \<Rightarrow> db" where
  "aggregate_progress job_id d =
     (let es = job_entries job_id d;
          with_status = (\<lambda>s. int (length (filter (\<lambda>e. de_status e = s) es)))
      in update_job job_id (\<lambda>j.
           j\<lparr>dj_total_entries := int (length es), dj_total_bytes := total_size_of es,
             dj_uploaded_files := with_status EntryUploaded,
             dj_failed_files := with_status EntryFailed,
             dj_skipped_files := with_status EntrySkipped\<rparr>) d)"

definition mark_entry_result ::
    "identity \<Rightarrow> pystr \<Rightarrow> pystr \<Rightarrow> entry_status \<Rightarrow> pystr option \<Rightarrow> pystr option \<Rightarrow> pystr option
     \<Rightarrow> ('s, directory_entry) act" where
  "mark_entry_result i job_id entry_id status file_id err_code err_message =
     bnd (find_entry job_id entry_id) (\<lambda>e.
     bnd (find_job i job_id) (\<lambda>_.
     let f = (\<lambda>e. e\<lparr>de_status := status, de_file_id := file_id, de_error_code := err_code,
                    de_error_message := err_message\<rparr>)
     in seq (modify_db (update_entry (de_id e) f))
       (seq (modify_db (aggregate_progress job_id)) (ret (f e)))))"

definition retry :: "identity \<Rightarrow> pystr \<Rightarrow> dt \<Rightarrow> ('s, directory_job) act" where
  "retry i job_id now =
     bnd (find_job i job_id) (\<lambda>job.
     seq (guard (dj_status job \<notin> {JobCompleted, JobCompletedWithErrors, JobCancelled})
            (UploadStateConflictError ''Job has already finished.''))
         (transition_to job JobUploading now))"

definition complete_job :: "identity \<Rightarrow> pystr \<Rightarrow> dt \<Rightarrow> ('s, directory_job) act" where
  "complete_job i job_id now =
     bnd (find_job i job_id) (\<lambda>job.
     if dj_status job = JobCompleted then ret job
     else
       seq (guard (dj_status job \<in> {JobUploading, JobReady, JobPaused})
              (UploadStateConflictError ''Job is not in an uploadable state.''))
      (bnd (get_db (count_entries_by_status (dj_id job) [EntryFailed])) (\<lambda>failed.
       seq (guard (failed = 0) (DirectoryHasFailedEntriesError (int failed)))
      (bnd (transition_to job JobFinalizing now) (\<lambda>job.
       seq (modify_db (aggregate_progress (dj_id job)))
      (bnd (transition_to job JobCompleted now) (\<lambda>_.
       seq (count (\<lambda>m. m\<lparr>m_directory_active_jobs := m_directory_active_jobs m - 1\<rparr>))
      (bnd (get_db (get_job job_id (Some (tenant_id i)))) (require directory_not_found)))))))))"

definition cancel_job :: "identity \<Rightarrow> pystr \<Rightarrow> dt \<Rightarrow> ('s, directory_job) act" where
  "cancel_job i job_id now =
     bnd (find_job i job_id) (\<lambda>job.
     seq (guard (dj_status job \<notin> {JobCompleted, JobCompletedWithErrors})
            (UploadStateConflictError ''Job has already completed.''))
    (bnd (if dj_status job \<noteq> JobCancelled then transition_to job JobCancelling now else ret job) (\<lambda>job.
     bnd (transition_to job JobCancelled now) (\<lambda>job.
     seq (count (\<lambda>m. m\<lparr>m_directory_active_jobs := m_directory_active_jobs m - 1\<rparr>))
         (ret job)))))"

definition patch_job_lifecycle ::
    "'s service \<Rightarrow> identity \<Rightarrow> pystr \<Rightarrow> jobject \<Rightarrow> dt \<Rightarrow> ('s, directory_job) act" where
  "patch_job_lifecycle sv i job_id body now =
     (let lf = cf_lifecycle (sv_settings sv)
      in bnd (find_job i job_id) (\<lambda>job.
         bnd (lift (compute_effective_lifecycle (sv_parse_iso sv) (lf_policy lf)
                      (policy_dump (lf_default_policy lf)) (Some body) None now)) (\<lambda>e.
         let f = (\<lambda>j. j\<lparr>dj_requested_lifecycle := Some body, dj_effective_lifecycle := Some e\<rparr>)
         in seq (modify_db (update_job (dj_id job) f)) (ret (f job)))))"

end
