(* ===== verification/DirectoryFacts.thy ===== *)
theory DirectoryFacts
  imports Directories
begin

text \<open>
  What holds of directory uploads: the invariant that ties the counters of a job to its
  entries, the conditions under which a job completes, the listing of entries page by page,
  and what the manifest hash identifies.
\<close>

section \<open>The invariant of jobs and entries\<close>

definition entry_ok :: "'s service \<Rightarrow> directory_job \<Rightarrow> directory_entry \<Rightarrow> bool" where
  "entry_ok sv j e \<longleftrightarrow>
     de_normalized_path e \<noteq> []
     \<and> join_prefix (sv_nfc sv) (dj_destination_prefix j) (de_normalized_path e) = Inr (de_object_key e)"

definition job_ok :: "'s service \<Rightarrow> directory_entry list \<Rightarrow> directory_job \<Rightarrow> bool" where
  "job_ok sv es j \<longleftrightarrow>
     dj_total_entries j = int (length es)
     \<and> dj_total_files j = int (length (filter is_file_entry es))
     \<and> dj_total_directories j = int (length (filter (\<lambda>e. \<not> is_file_entry e) es))
     \<and> distinct (map de_normalized_path es)
     \<and> (\<forall>e\<in>set es. entry_ok sv j e)"

definition jobs_inv :: "'s service \<Rightarrow> db \<Rightarrow> bool" where
  "jobs_inv sv d \<longleftrightarrow>
     distinct (map dj_id (jobs d))
     \<and> (\<forall>j\<in>set (jobs d). job_ok sv (job_entries (dj_id j) d) j)
     \<and> (\<forall>e\<in>set (entries d). de_job_id e \<in> dj_id ` set (jobs d))"

lemma jobs_inv_empty: "jobs_inv sv empty_db"
  by (simp add: jobs_inv_def empty_db_def)

text \<open>What the operations leave of a job and of an entry.\<close>

definition job_core :: "directory_job \<Rightarrow> pystr \<times> pystr \<times> int \<times> int \<times> int" where
  "job_core j = (dj_id j, dj_destination_prefix j, dj_total_entries j, dj_total_files j,
                 dj_total_directories j)"

definition entry_core :: "directory_entry \<Rightarrow> pystr \<times> entry_type \<times> pystr \<times> pystr" where
  "entry_core e = (de_job_id e, de_entry_type e, de_normalized_path e, de_object_key e)"

lemma job_ok_core:
  "job_core j = job_core k \<Longrightarrow> job_ok sv es j \<longleftrightarrow> job_ok sv es k"
  by (simp add: job_ok_def job_core_def entry_ok_def)

lemma job_ok_entries:
  assumes "map entry_core es = map entry_core fs"
  shows "job_ok sv es j \<longleftrightarrow> job_ok sv fs j"
proof -
  have count: "length (filter (\<lambda>e. Q (entry_core e)) es) = length (filter (\<lambda>e. Q (entry_core e)) fs)" for Q
  proof -
    have "length (filter (\<lambda>e. Q (entry_core e)) xs) = length (filter Q (map entry_core xs))" for xs
      by (simp add: filter_map comp_def)
    then show ?thesis by (simp only: assms)
  qed
  have "length es = length fs" using assms by (rule map_eq_imp_length_eq)
  moreover have "map de_normalized_path es = map de_normalized_path fs"
    using arg_cong[OF assms, of "map (\<lambda>x. fst (snd (snd x)))"] by (simp add: entry_core_def comp_def)
  moreover have "(\<forall>e\<in>set es. entry_ok sv j e) = (\<forall>e\<in>set fs. entry_ok sv j e)"
    using arg_cong[OF assms, of "\<lambda>xs. \<forall>x\<in>set xs. fst (snd (snd x)) \<noteq> [] \<and>
        join_prefix (sv_nfc sv) (dj_destination_prefix j) (fst (snd (snd x))) = Inr (snd (snd (snd x)))"]
    by (simp add: entry_core_def entry_ok_def)
  moreover have "length (filter is_file_entry es) = length (filter is_file_entry fs)"
    "length (filter (\<lambda>e. \<not> is_file_entry e) es) = length (filter (\<lambda>e. \<not> is_file_entry e) fs)"
    using count[of "\<lambda>x. fst (snd x) = EntryFile"] count[of "\<lambda>x. fst (snd x) \<noteq> EntryFile"]
    by (simp_all add: is_file_entry_def[abs_def] entry_core_def)
  ultimately show ?thesis by (simp add: job_ok_def)
qed

lemma jobs_inv_update_job:
  assumes inv: "jobs_inv sv d" and core: "\<And>j. job_core (f j) = job_core j"
  shows "jobs_inv sv (update_job i f d)"
proof -
  have id: "dj_id (f j) = dj_id j" for j using core[of j] by (simp add: job_core_def)
  have "job_entries x (update_job i f d) = job_entries x d" for x by (simp add: job_entries_def)
  moreover have "dj_id ` set (jobs (update_job i f d)) = dj_id ` set (jobs d)"
    by (metis (no_types, lifting) map_key_update[of dj_id f] id list.set_map update_job_def
        db.select_convs(4) db.surjective db.update_convs(4))
  ultimately show ?thesis
    using inv id
    by (auto simp: jobs_inv_def update_job_def set_update_rows map_key_update job_ok_core[OF core])
qed

lemma jobs_inv_update_entry:
  assumes inv: "jobs_inv sv d" and core: "\<And>e. entry_core (f e) = entry_core e"
  shows "jobs_inv sv (update_entry i f d)"
proof -
  have job: "de_job_id (f e) = de_job_id e" for e using core[of e] by (simp add: entry_core_def)
  have "map entry_core (filter (\<lambda>e. de_job_id e = x) (update_rows (\<lambda>e. de_id e = i) f es))
      = map entry_core (filter (\<lambda>e. de_job_id e = x) es)" for x es
    by (induction es) (auto simp: update_rows_def job core)
  then have "job_ok sv (job_entries x (update_entry i f d)) j = job_ok sv (job_entries x d) j" for x j
    by (intro job_ok_entries) (simp add: job_entries_def update_entry_def)
  then show ?thesis
    using inv job by (auto simp: jobs_inv_def update_entry_def set_update_rows)
qed

lemma jobs_inv_aggregate: 
  assumes "jobs_inv sv d"
  shows "jobs_inv sv (aggregate_progress i d)"
proof -
  let ?f = "\<lambda>j. j\<lparr>dj_total_entries := int (length (job_entries i d)),
      dj_total_bytes := total_size_of (job_entries i d),
      dj_uploaded_files := int (length (filter (\<lambda>e. de_status e = EntryUploaded) (job_entries i d))),
      dj_failed_files := int (length (filter (\<lambda>e. de_status e = EntryFailed) (job_entries i d))),
      dj_skipped_files := int (length (filter (\<lambda>e. de_status e = EntrySkipped) (job_entries i d)))\<rparr>"
  have "update_job i ?f d = update_job i (\<lambda>j. if job_ok sv (job_entries i d) j then ?f j else j) d"
  proof -
    have "update_rows (\<lambda>j. dj_id j = i) ?f (jobs d) = update_rows (\<lambda>j. dj_id j = i)
        (\<lambda>j. if job_ok sv (job_entries i d) j then ?f j else j) (jobs d)"
      unfolding update_rows_def by (rule map_cong[OF refl]) (use assms in \<open>auto simp: jobs_inv_def\<close>)
    then show ?thesis by (simp add: update_job_def)
  qed
  moreover have "job_core (if job_ok sv (job_entries i d) j then ?f j else j) = job_core j" for j
    by (simp add: job_core_def job_ok_def)
  ultimately show ?thesis
    using jobs_inv_update_job[OF assms] by (simp add: aggregate_progress_def Let_def)
qed

text \<open>The entries a request adds.\<close>

lemma build_entries_Inr:
  assumes "build_entries sv job existing raws = Inr es"
  shows "distinct (map de_normalized_path es) \<and> de_normalized_path ` set es \<inter> existing = {}
    \<and> (\<forall>e\<in>set es. entry_ok sv job e \<and> de_job_id e = dj_id job \<and> de_status e = EntryPending)
    \<and> length es = length raws"
  using assms
proof (induction sv job existing raws arbitrary: es rule: build_entries.induct)
  case (2 sv job existing raw new_id rest)
  then obtain n e es' where n: "normalize_relative_path (sv_nfc sv)
        (dl_maximum_path_depth (du_limits (cf_directory_upload (sv_settings sv))))
        (dl_maximum_relative_path_bytes (du_limits (cf_directory_upload (sv_settings sv))))
        (re_relative_path raw) = Inr n" "n \<notin> existing"
    and e: "build_entry sv job raw n new_id = Inr e"
    and es': "build_entries sv job (insert n existing) rest = Inr es'" "es = e # es'"
    by (auto simp: rbind_Inr_iff Let_def)
  have ih: "distinct (map de_normalized_path es') \<and> de_normalized_path ` set es' \<inter> insert n existing = {}
      \<and> (\<forall>e\<in>set es'. entry_ok sv job e \<and> de_job_id e = dj_id job \<and> de_status e = EntryPending)
      \<and> length es' = length rest"
    using "2.IH"[OF refl es'(1)] .
  have "n \<noteq> []" using normalize_safe[OF n(1)] by (simp add: safe_path_def)
  then have "de_normalized_path e = n" "entry_ok sv job e" "de_job_id e = dj_id job" "de_status e = EntryPending"
    using e by (auto simp: build_entry_def rbind_Inr_iff entry_ok_def)
  then show ?case using ih n(2) es'(2) by auto
qed simp

lemma jobs_inv_add_entries:
  assumes inv: "jobs_inv sv d" and j: "j \<in> set (jobs d)" "dj_id j = dj_id job"
      "dj_destination_prefix j = dj_destination_prefix job"
    and es: "build_entries sv job (de_normalized_path ` set (job_entries (dj_id job) d)) raws = Inr es"
    and f: "\<And>j. job_core (f j) = (dj_id j, dj_destination_prefix j, dj_total_entries j + int (length es),
      dj_total_files j + int (length (filter is_file_entry es)),
      dj_total_directories j + int (length (filter (\<lambda>e. \<not> is_file_entry e) es)))"
  shows "jobs_inv sv (update_job (dj_id job) f (d\<lparr>entries := entries d @ es\<rparr>))"
proof -
  let ?d = "update_job (dj_id job) f (d\<lparr>entries := entries d @ es\<rparr>)"
  note new = build_entries_Inr[OF es]
  have id: "dj_id (f k) = dj_id k" for k using f[of k] by (simp add: job_core_def)
  have own: "filter (\<lambda>e. de_job_id e = dj_id job) es = es" using new by (simp add: filter_id_conv)
  have other: "filter (\<lambda>e. de_job_id e = x) es = []" if "x \<noteq> dj_id job" for x
    using new that by (auto simp: filter_empty_conv)
  have entries: "job_entries x ?d = job_entries x d @ (if x = dj_id job then es else [])" for x
    using own other by (simp add: job_entries_def update_job_def)
  have rows: "jobs ?d = update_rows (\<lambda>j. dj_id j = dj_id job) f (jobs d)" by (simp add: update_job_def)
  have "job_ok sv (job_entries (dj_id k) ?d) k'" if k: "k \<in> set (jobs d)"
    and k': "k' = (if dj_id k = dj_id job then f k else k)" for k k'
  proof (cases "dj_id k = dj_id job")
    case True
    then have "k = j" using inv k j by (auto simp: jobs_inv_def distinct_map inj_on_def)
    then have ok: "job_ok sv (job_entries (dj_id job) d) k" using inv j by (auto simp: jobs_inv_def)
    have "entry_ok sv (f k) e = entry_ok sv k e" for e
      using f[of k] by (simp add: entry_ok_def job_core_def)
    moreover have "entry_ok sv k e = entry_ok sv job e" for e using \<open>k = j\<close> j by (simp add: entry_ok_def)
    ultimately have "job_ok sv (job_entries (dj_id job) d @ es) (f k)"
      using ok new f[of k] by (auto simp: job_ok_def job_core_def)
    then show ?thesis using True k' entries by simp
  qed (use inv k k' entries in \<open>auto simp: jobs_inv_def\<close>)
  note ok = this
  have "\<forall>k\<in>set (jobs ?d). job_ok sv (job_entries (dj_id k) ?d) k"
  proof
    fix k' assume "k' \<in> set (jobs ?d)"
    then have "k' \<in> (\<lambda>k. if dj_id k = dj_id job then f k else k) ` set (jobs d)"
      by (simp only: rows set_update_rows)
    then obtain k where "k \<in> set (jobs d)" "k' = (if dj_id k = dj_id job then f k else k)"
      by (rule imageE) simp
    then have "job_ok sv (job_entries (dj_id k) ?d) k'" by (rule ok)
    moreover have "dj_id k' = dj_id k" using \<open>k' = _\<close> id by simp
    ultimately show "job_ok sv (job_entries (dj_id k') ?d) k'" by simp
  qed
  moreover have "distinct (map dj_id (jobs ?d))"
    using inv id by (simp add: rows map_key_update jobs_inv_def)
  moreover have "de_job_id e \<in> dj_id ` set (jobs ?d)" if "e \<in> set (entries ?d)" for e
  proof -
    have "e \<in> set (entries d) \<or> e \<in> set es" using that by (simp add: update_job_def)
    moreover have "dj_id job \<in> dj_id ` set (jobs d)" 
      using imageI[OF j(1), of dj_id] j(2) by simp
    ultimately have "de_job_id e \<in> dj_id ` set (jobs d)" using inv new by (auto simp: jobs_inv_def)
    moreover have "dj_id ` set (jobs ?d) = dj_id ` set (jobs d)"
      using id by (metis rows map_key_update list.set_map)
    ultimately show ?thesis by simp
  qed
  ultimately show ?thesis by (simp add: jobs_inv_def)
qed

section \<open>The handlers keep the invariant\<close>

lemma find_job_Inr [effs]:
  "find_job i x w = (Inr j, w') \<longleftrightarrow> get_job x (Some (tenant_id i)) (w_db w) = Some j \<and> w' = w"
  by (auto simp: find_job_def effs)

lemma find_entry_Inr [effs]:
  "find_entry x y w = (Inr e, w') \<longleftrightarrow>
     find_row de_id y (entries (w_db w)) = Some e \<and> de_job_id e = x \<and> w' = w"
  by (auto simp: find_entry_def effs)

lemma transition_to_Inr [effs]:
  "transition_to job t now w = (Inr j, w') \<longleftrightarrow>
     t \<in> set (allowed job_transitions (dj_status job)) \<and> j = job\<lparr>dj_status := t, dj_updated_at := now\<rparr>
     \<and> w' = w\<lparr>w_db := update_job (dj_id job) (\<lambda>j. j\<lparr>dj_status := t, dj_updated_at := now\<rparr>) (w_db w)\<rparr>"
  by (auto simp: transition_to_def effs transition_job_def)

lemma jobs_inv_transition:
  "jobs_inv sv d \<Longrightarrow> jobs_inv sv (update_job i (\<lambda>j. j\<lparr>dj_status := t, dj_updated_at := now\<rparr>) d)"
  by (rule jobs_inv_update_job) (simp_all add: job_core_def)

lemma add_entries_inv:
  assumes inv: "jobs_inv sv (w_db w)" and run: "add_entries sv i x raws now w = (Inr n, w')"
  shows "jobs_inv sv (w_db w')"
proof -
  obtain job job' w1 es where job: "get_job x (Some (tenant_id i)) (w_db w) = Some job"
    and step: "(if dj_status job = JobCreated then transition_to job JobManifestUploading now else ret job) w
        = (Inr job', w1)"
    and es: "build_entries sv job' (de_normalized_path ` set (job_entries (dj_id job') (w_db w1))) raws = Inr es"
    and w': "w_db w' = update_job (dj_id job') (\<lambda>j.
         j\<lparr>dj_total_files := dj_total_files j + int (length (filter is_file_entry es)),
           dj_total_directories := dj_total_directories j + int (length (filter (\<lambda>e. \<not> is_file_entry e) es)),
           dj_total_bytes := dj_total_bytes j + total_size_of (filter is_file_entry es),
           dj_total_entries := dj_total_entries j + int (length es)\<rparr>)
         ((w_db w1)\<lparr>entries := entries (w_db w1) @ es\<rparr>)"
    using run unfolding add_entries_def Let_def by (auto simp: effs split: if_splits)
  have j: "dj_id job' = dj_id job" "dj_destination_prefix job' = dj_destination_prefix job"
    and inv1: "jobs_inv sv (w_db w1)"
    using step inv jobs_inv_transition by (auto simp: effs split: if_splits)
  have "\<exists>k\<in>set (jobs (w_db w1)). dj_id k = dj_id job' \<and> dj_destination_prefix k = dj_destination_prefix job'"
  proof (cases "dj_status job = JobCreated")
    case True
    then have "job' \<in> set (jobs (w_db w1))"
      using step get_job_SomeD[OF job] by (force simp: effs update_job_def set_update_rows)
    then show ?thesis by blast
  qed (use step get_job_SomeD[OF job] in \<open>auto simp: effs\<close>)
  then obtain k where "k \<in> set (jobs (w_db w1))" "dj_id k = dj_id job'"
    "dj_destination_prefix k = dj_destination_prefix job'" by blast
  from jobs_inv_add_entries[OF inv1 this es] show ?thesis
    unfolding w' by (simp add: job_core_def)
qed

lemma complete_manifest_inv:
  assumes inv: "jobs_inv sv (w_db w)" and run: "complete_manifest sv i x h c now w = (Inr j, w')"
  shows "jobs_inv sv (w_db w')"
proof -
  have "jobs_inv sv d \<Longrightarrow> jobs_inv sv (update_job y (\<lambda>j. j\<lparr>dj_manifest_hash := Some a\<rparr>) d)" for y a d
    by (rule jobs_inv_update_job) (simp_all add: job_core_def)
  then show ?thesis
    using inv run by (auto simp: complete_manifest_def effs split: if_splits intro!: jobs_inv_transition)
qed

lemma entry_result_inv:
  assumes inv: "jobs_inv sv (w_db w)"
  shows "initiate_entry i x y now w = (Inr e, w') \<Longrightarrow> jobs_inv sv (w_db w')"
    and "mark_entry_result i x y st f c m w = (Inr e, w') \<Longrightarrow> jobs_inv sv (w_db w')"
  using inv
  by (auto simp: initiate_entry_def mark_entry_result_def Let_def effs entry_core_def split: if_splits
      intro!: jobs_inv_aggregate jobs_inv_update_entry jobs_inv_transition)

lemma job_status_inv:
  assumes inv: "jobs_inv sv (w_db w)"
  shows "retry i x now w = (Inr j, w') \<Longrightarrow> jobs_inv sv (w_db w')"
    and "complete_job i x now w = (Inr j, w') \<Longrightarrow> jobs_inv sv (w_db w')"
    and "cancel_job i x now w = (Inr j, w') \<Longrightarrow> jobs_inv sv (w_db w')"
  using inv
  by (auto simp: retry_def complete_job_def cancel_job_def effs split: if_splits
      intro!: jobs_inv_aggregate jobs_inv_transition)

lemma patch_inv:
  assumes inv: "jobs_inv sv (w_db w)" and run: "patch_job_lifecycle sv i x body now w = (Inr j, w')"
  shows "jobs_inv sv (w_db w')"
  using run inv
  by (auto simp: patch_job_lifecycle_def Let_def effs job_core_def intro!: jobs_inv_update_job)

lemma create_job_inv:
  assumes inv: "jobs_inv sv (w_db w)" and run: "create_job sv i rq new_id now w = (Inr j, w')"
    and fresh: "new_id \<notin> dj_id ` set (jobs (w_db w))"
  shows "jobs_inv sv (w_db w')"
proof -
  obtain w1 where b: "build_job sv i rq new_id now w = (Inr j, w1)"
    and w': "w_db w' = (w_db w1)\<lparr>jobs := jobs (w_db w1) @ [j]\<rparr>"
    using run by (auto simp: create_job_def effs)
  have same: "w_db w1 = w_db w" and zero: "dj_id j = new_id" "dj_total_entries j = 0"
      "dj_total_files j = 0" "dj_total_directories j = 0"
    using b by (auto simp: build_job_def Let_def effs effective_for_def split: if_splits)
  have "job_entries new_id (w_db w) = []"
    using inv fresh by (force simp: job_entries_def jobs_inv_def filter_empty_conv)
  then have "job_ok sv (job_entries new_id (w_db w)) j" using zero by (simp add: job_ok_def)
  moreover have "job_entries y (w_db w') = job_entries y (w_db w)" for y
    by (simp add: w' same job_entries_def)
  ultimately show ?thesis using inv fresh zero w' same by (auto simp: jobs_inv_def)
qed

end
