(* ===== verification/DirectoryRequests.thy ===== *)
theory DirectoryRequests
  imports DirectoryFacts UploadRequests
begin

text \<open>
  The directory upload API as a whole: the requests of
  \<open>src/app/api/v1/directory_uploads.py\<close> as a datatype, the states a sequence of them
  reaches, when a job completes, and the walk through the pages of its entries.
\<close>

section \<open>Requests\<close>

datatype directory_request =
    CreateJob job_request pystr
  | AddEntries pystr "(raw_entry \<times> pystr) list"
  | CompleteManifest pystr "pystr option" "jobject option"
  | InitiateEntry pystr pystr
  | MarkEntryResult pystr pystr pystr "pystr option" "pystr option" "pystr option"
  | RetryJob pystr
  | CompleteJob pystr
  | CancelJob pystr
  | PatchJobLifecycle pystr jobject

text \<open>\<open>body.get("bucket") or\<close> the default bucket; the other fields have their defaults.\<close>

definition create_directory_upload_handler ::
    "'s service \<Rightarrow> identity \<Rightarrow> job_request \<Rightarrow> pystr \<Rightarrow> dt \<Rightarrow> ('s, directory_job) act" where
  "create_directory_upload_handler sv i rq new_id now =
     transaction (bnd (get_db (get_default_bucket (sv_settings sv))) (\<lambda>default.
       create_job sv i
         (rq\<lparr>jr_bucket := if jr_bucket rq = [] then default else jr_bucket rq\<rparr>) new_id now))"

text \<open>The status of a result is an enum value given as text.\<close>

definition entry_status_of :: "pystr \<Rightarrow> entry_status option" where
  "entry_status_of s =
     map_of [(lit ''pending'', EntryPending), (lit ''uploading'', EntryUploading),
             (lit ''uploaded'', EntryUploaded), (lit ''skipped'', EntrySkipped),
             (lit ''failed'', EntryFailed)] s"

definition mark_entry_result_handler ::
    "identity \<Rightarrow> pystr \<Rightarrow> pystr \<Rightarrow> pystr \<Rightarrow> pystr option \<Rightarrow> pystr option \<Rightarrow> pystr option
     \<Rightarrow> ('s, directory_entry) act" where
  "mark_entry_result_handler i job_id entry_id status file_id err_code err_message =
     transaction (bnd (lift (enum_value (entry_status_of status))) (\<lambda>st.
       mark_entry_result i job_id entry_id st (if present file_id then file_id else None)
         err_code err_message))"

fun serve_directory ::
    "'s service \<Rightarrow> identity \<Rightarrow> dt \<Rightarrow> directory_request \<Rightarrow> ('s, unit) act" where
  "serve_directory sv i now (CreateJob rq new_id) =
     ignore_result (create_directory_upload_handler sv i rq new_id now)"
| "serve_directory sv i now (AddEntries x raws) =
     ignore_result (transaction (add_entries sv i x raws now))"
| "serve_directory sv i now (CompleteManifest x h c) =
     ignore_result (transaction (complete_manifest sv i x h c now))"
| "serve_directory sv i now (InitiateEntry x y) =
     ignore_result (transaction (initiate_entry i x y now))"
| "serve_directory sv i now (MarkEntryResult x y st f c m) =
     ignore_result (mark_entry_result_handler i x y st f c m)"
| "serve_directory sv i now (RetryJob x) = ignore_result (transaction (retry i x now))"
| "serve_directory sv i now (CompleteJob x) = ignore_result (transaction (complete_job i x now))"
| "serve_directory sv i now (CancelJob x) = ignore_result (transaction (cancel_job i x now))"
| "serve_directory sv i now (PatchJobLifecycle x body) =
     ignore_result (transaction (patch_job_lifecycle sv i x body now))"

fun fresh_job :: "directory_request \<Rightarrow> db \<Rightarrow> bool" where
  "fresh_job (CreateJob _ new_id) d = (new_id \<notin> dj_id ` set (jobs d))"
| "fresh_job _ d = True"

inductive directory_served :: "'s service \<Rightarrow> 's world \<Rightarrow> 's world \<Rightarrow> bool" for sv w where
  directory_start: "directory_served sv w w"
| directory_step:
    "directory_served sv w w1 \<Longrightarrow> fresh_job rq (w_db w1) \<Longrightarrow>
     serve_directory sv i now rq w1 = (r, w2) \<Longrightarrow> directory_served sv w w2"

section \<open>The invariant over requests\<close>

text \<open>A request that fails leaves the database; one that succeeds has run to its end.\<close>

lemma handled_transaction:
  assumes "ignore_result (transaction m) w = (r, w')" "P (w_db w)"
    and "\<And>a v. m w = (Inr a, v) \<Longrightarrow> P (w_db v)"
  shows "P (w_db w')"
  using assms
  by (auto simp: ignore_result_def transaction_def bnd_def ret_def split: sum.splits prod.splits)

lemma serve_directory_inv:
  assumes inv: "jobs_inv sv (w_db w)" and fresh: "fresh_job rq (w_db w)"
    and run: "serve_directory sv i now rq w = (r, w')"
  shows "jobs_inv sv (w_db w')"
proof (cases rq)
  case (CreateJob jr new_id)
  show ?thesis
    using run fresh inv unfolding CreateJob serve_directory.simps create_directory_upload_handler_def
    by (elim handled_transaction) (auto simp: effs elim: create_job_inv[OF inv])
next
  case (AddEntries x raws)
  show ?thesis
    using run inv unfolding AddEntries serve_directory.simps
    by (elim handled_transaction) (auto elim: add_entries_inv[OF inv])
next
  case (CompleteManifest x h c)
  show ?thesis
    using run inv unfolding CompleteManifest serve_directory.simps
    by (elim handled_transaction) (auto elim: complete_manifest_inv[OF inv])
next
  case (InitiateEntry x y)
  show ?thesis
    using run inv unfolding InitiateEntry serve_directory.simps
    by (elim handled_transaction) (auto elim: entry_result_inv[OF inv])
next
  case (MarkEntryResult x y st f c m)
  show ?thesis
    using run inv unfolding MarkEntryResult serve_directory.simps mark_entry_result_handler_def
    by (elim handled_transaction) (auto simp: effs elim: entry_result_inv[OF inv])
next
  case (RetryJob x)
  show ?thesis
    using run inv unfolding RetryJob serve_directory.simps
    by (elim handled_transaction) (auto elim: job_status_inv[OF inv])
next
  case (CompleteJob x)
  show ?thesis
    using run inv unfolding CompleteJob serve_directory.simps
    by (elim handled_transaction) (auto elim: job_status_inv[OF inv])
next
  case (CancelJob x)
  show ?thesis
    using run inv unfolding CancelJob serve_directory.simps
    by (elim handled_transaction) (auto elim: job_status_inv[OF inv])
next
  case (PatchJobLifecycle x body)
  show ?thesis
    using run inv unfolding PatchJobLifecycle serve_directory.simps
    by (elim handled_transaction) (auto elim: patch_inv[OF inv])
qed

lemma directory_served_inv:
  "directory_served sv w w' \<Longrightarrow> jobs_inv sv (w_db w) \<Longrightarrow> jobs_inv sv (w_db w')"
  by (induction rule: directory_served.induct) (auto dest: serve_directory_inv)

section \<open>Completing a job\<close>

lemma find_job_eval:
  "get_job x (Some (tenant_id i)) (w_db w) = Some j \<Longrightarrow> bnd (find_job i x) g w = g j w"
  by (simp add: find_job_def bnd_def get_db_def get_def require_def ret_def)

lemma transition_to_refused:
  "t \<notin> set (allowed job_transitions (dj_status j)) \<Longrightarrow>
   \<exists>e. bnd (transition_to j t now) g w = (Inl e, w) \<and> error_status e = 409"
  by (simp add: transition_to_def transition_job_def raise_def lift_def bnd_def)

lemma complete_job_Inr:
  assumes run: "complete_job i x now w = (Inr j, w')"
  shows "\<exists>k. get_job x (Some (tenant_id i)) (w_db w) = Some k \<and>
    (dj_status k = JobCompleted \<and> j = k \<and> w' = w \<or>
     dj_status k = JobUploading \<and> count_entries_by_status x [EntryFailed] (w_db w) = 0
     \<and> get_job x (Some (tenant_id i)) (w_db w') = Some j)"
proof -
  obtain k where k: "get_job x (Some (tenant_id i)) (w_db w) = Some k"
    using run unfolding complete_job_def bnd_Inr_iff find_job_Inr by blast
  note id = get_job_SomeD[OF k]
  show ?thesis
  proof (cases "dj_status k = JobCompleted")
    case True
    then show ?thesis
      using run k unfolding complete_job_def find_job_eval[OF k] by (simp add: ret_def)
  next
    case False
    have body: "seq (guard (dj_status k \<in> {JobUploading, JobReady, JobPaused})
          (UploadStateConflictError ''Job is not in an uploadable state.''))
        (bnd (get_db (count_entries_by_status (dj_id k) [EntryFailed])) (\<lambda>failed.
         seq (guard (failed = 0) (DirectoryHasFailedEntriesError (int failed)))
        (bnd (transition_to k JobFinalizing now) (\<lambda>job.
         seq (modify_db (aggregate_progress (dj_id job)))
        (bnd (transition_to job JobCompleted now) (\<lambda>_.
         seq (count (\<lambda>m. m\<lparr>m_directory_active_jobs := m_directory_active_jobs m - 1\<rparr>))
        (bnd (get_db (get_job x (Some (tenant_id i)))) (require directory_not_found)))))))) w = (Inr j, w')"
      using run False unfolding complete_job_def find_job_eval[OF k] by simp
    then have failed: "count_entries_by_status (dj_id k) [EntryFailed] (w_db w) = 0"
      by (auto simp: effs split: if_splits)
    moreover obtain w2 w3 where "transition_to k JobFinalizing now w = (Inr w2, w3)"
      using body failed by (cases "transition_to k JobFinalizing now w" rule: prod.exhaust)
        (auto simp: effs bnd_def[of "transition_to k JobFinalizing now"] split: if_splits sum.splits)
    then have "JobFinalizing \<in> set (allowed job_transitions (dj_status k))"
      by (simp add: transition_to_Inr)
    then have "dj_status k = JobUploading" by (cases "dj_status k") auto
    moreover have "get_job x (Some (tenant_id i)) (w_db w') = Some j"
      using body by (auto simp: effs split: if_splits)
    ultimately show ?thesis using k id by simp
  qed
qed

lemma complete_job_refused:
  assumes "get_job x (Some (tenant_id i)) (w_db w) = Some j" "dj_status j \<in> {JobReady, JobPaused}"
  shows "\<exists>e. complete_job i x now w = (Inl e, w) \<and> error_status e = 409"
proof (cases "count_entries_by_status (dj_id j) [EntryFailed] (w_db w) = 0")
  case True
  have "JobFinalizing \<notin> set (allowed job_transitions (dj_status j))" using assms(2) by auto
  from transition_to_refused[OF this] show ?thesis
    using assms(2) True unfolding complete_job_def find_job_eval[OF assms(1)] by auto
next
  case False
  then show ?thesis
    using assms(2) unfolding complete_job_def find_job_eval[OF assms(1)] by (auto simp: raise_def)
qed

section \<open>The walk through the entries\<close>

text \<open>
  A client reads the pages one after the other, handing back each cursor, until a page comes
  without one; \<open>fuel\<close> bounds the number of pages.
\<close>

fun walk_pages ::
    "nat \<Rightarrow> 's service \<Rightarrow> pystr \<Rightarrow> pystr option \<Rightarrow> int \<Rightarrow> db \<Rightarrow> directory_entry list option" where
  "walk_pages 0 sv job_id cursor limit d = None"
| "walk_pages (Suc fuel) sv job_id cursor limit d =
     (case entry_page sv job_id cursor limit d of
        (rows, None) \<Rightarrow> Some rows
      | (rows, Some c) \<Rightarrow> map_option ((@) rows) (walk_pages fuel sv job_id (Some c) limit d))"

lemma filter_sort_key: "filter P (sort_key f xs) = sort_key f (filter P xs)"
  by (induction xs) (simp_all add: filter_insort filter_insort_triv)

lemma filter_above:
  assumes "sorted_wrt (<) (map r xs)" "0 < k" "k \<le> length xs"
  shows "filter (\<lambda>e. r (xs ! (k - 1)) < (r e :: int)) xs = drop k xs"
proof -
  have lt: "r (xs ! i) < r (xs ! j)" if "i < j" "j < length xs" for i j
    using assms(1) that by (simp add: sorted_wrt_iff_nth_less)
  have "filter (\<lambda>e. r (xs ! (k - 1)) < r e) (take k xs) = []"
  proof (intro filter_False ballI)
    fix e assume "e \<in> set (take k xs)"
    then obtain i where "i < k" "e = xs ! i" by (auto simp: in_set_conv_nth)
    moreover have "i = k - 1 \<or> i < k - 1 \<and> k - 1 < length xs" using \<open>i < k\<close> assms(2,3) by linarith
    ultimately show "\<not> r (xs ! (k - 1)) < r e" using lt[of i "k - 1"] by auto
  qed
  moreover have "filter (\<lambda>e. r (xs ! (k - 1)) < r e) (drop k xs) = drop k xs"
  proof (intro filter_True ballI)
    fix e assume "e \<in> set (drop k xs)"
    then obtain j where "j < length xs - k" "e = xs ! (k + j)" by (auto simp: in_set_conv_nth)
    then show "r (xs ! (k - 1)) < r e" using lt[of "k - 1" "k + j"] assms(2) by auto
  qed
  ultimately show ?thesis by (metis append_take_drop_id filter_append append_Nil)
qed

lemma entry_page_drop:
  fixes sv x d
  defines "S \<equiv> sort_key (path_rank sv) (job_entries x d)"
  assumes sorted: "sorted_wrt (<) (map (path_rank sv) S)"
    and paths: "\<forall>e\<in>set S. de_normalized_path e \<noteq> []"
    and cursor: "k = 0 \<and> cursor = None \<or> 0 < k \<and> k \<le> length S \<and> cursor = Some (de_normalized_path (S ! (k - 1)))"
    and n: "n = nat (min (max limit 1) 1000)"
  shows "entry_page sv x cursor limit d =
    (if n < length (drop k S) then (take n (drop k S), Some (de_normalized_path (S ! (k + n - 1))))
     else (drop k S, None))"
proof -
  have "0 < n" using n by auto
  have rows: "sort_key (path_rank sv) (filter (\<lambda>e. \<not> present cursor \<or> sv_rank sv cursor < path_rank sv e)
      (job_entries x d)) = drop k S"
  proof (cases "k = 0")
    case True
    then show ?thesis using cursor by (simp add: S_def present_def)
  next
    case False
    then have c: "cursor = Some (de_normalized_path (S ! (k - 1)))" "k \<le> length S" "0 < k"
      using cursor by auto
    then have "S ! (k - 1) \<in> set S" by simp
    then have "present cursor" "sv_rank sv cursor = path_rank sv (S ! (k - 1))"
      using paths c(1) by (auto simp: present_def path_rank_def)
    then show ?thesis
      using filter_above[OF sorted c(3,2)] by (simp add: S_def filter_sort_key[symmetric])
  qed
  show ?thesis
  proof (cases "n < length (drop k S)")
    case True
    then have "last (take n (drop k S)) = S ! (k + n - 1)"
      using \<open>0 < n\<close> by (simp add: last_conv_nth)
    then show ?thesis
      using True rows \<open>0 < n\<close> unfolding entry_page_def n[symmetric] Let_def
      by (simp add: min_def)
  next
    case False
    then show ?thesis using rows unfolding entry_page_def n[symmetric] Let_def by simp
  qed
qed

lemma walk_pages_drop:
  fixes sv x d
  defines "S \<equiv> sort_key (path_rank sv) (job_entries x d)"
  assumes sorted: "sorted_wrt (<) (map (path_rank sv) S)"
    and paths: "\<forall>e\<in>set S. de_normalized_path e \<noteq> []"
    and "k = 0 \<and> cursor = None \<or> 0 < k \<and> k \<le> length S \<and> cursor = Some (de_normalized_path (S ! (k - 1)))"
    and "length S < k + fuel"
  shows "walk_pages fuel sv x cursor limit d = Some (drop k S)"
  using assms(4,5)
proof (induction fuel arbitrary: k cursor)
  case 0
  then show ?case by auto
next
  case (Suc fuel)
  define n where "n = nat (min (max limit 1) 1000)"
  have "0 < n" by (simp add: n_def)
  note page = entry_page_drop[OF sorted[unfolded S_def] paths[unfolded S_def] Suc.prems(1)[unfolded S_def] n_def,
      folded S_def]
  show ?case
  proof (cases "n < length (drop k S)")
    case True
    then have "walk_pages fuel sv x (Some (de_normalized_path (S ! (k + n - 1)))) limit d = Some (drop (k + n) S)"
      using Suc.prems(2) \<open>0 < n\<close> by (intro Suc.IH) auto
    moreover have "take n (drop k S) @ drop (k + n) S = drop k S"
      by (metis add.commute append_take_drop_id drop_drop)
    ultimately show ?thesis using page True by simp
  next
    case False
    then show ?thesis using page by simp
  qed
qed

text \<open>With one page per entry and one more, the walk ends with all entries in order of path.\<close>

lemma walk_pages_all:
  assumes inv: "jobs_inv sv d" and inj: "inj_on (\<lambda>s. sv_rank sv (Some s)) (de_normalized_path ` set (job_entries x d))"
  shows "walk_pages (Suc (length (job_entries x d))) sv x None limit d
    = Some (sort_key (path_rank sv) (job_entries x d))"
proof -
  let ?es = "job_entries x d" and ?S = "sort_key (path_rank sv) (job_entries x d)"
  have ok: "distinct (map de_normalized_path ?es) \<and> (\<forall>e\<in>set ?es. de_normalized_path e \<noteq> [])"
  proof (cases "?es = []")
    case False
    then obtain e where "e \<in> set (entries d)" "de_job_id e = x"
      by (auto simp: job_entries_def filter_empty_conv)
    then obtain j where "j \<in> set (jobs d)" "dj_id j = x" using inv by (auto simp: jobs_inv_def)
    then have "job_ok sv ?es j" using inv by (auto simp: jobs_inv_def)
    then show ?thesis by (simp add: job_ok_def entry_ok_def)
  qed simp
  have "map (path_rank sv) ?es = map (\<lambda>s. sv_rank sv (Some s)) (map de_normalized_path ?es)"
    by (simp add: path_rank_def)
  then have "distinct (map (path_rank sv) ?es)"
    using ok inj by (simp add: distinct_map del: map_map)
  then have "distinct (map (path_rank sv) ?S)" by (simp add: distinct_map)
  then have "sorted_wrt (<) (map (path_rank sv) ?S)" by (simp add: strict_sorted_iff)
  from walk_pages_drop[OF this, of 0 None] show ?thesis using ok by (simp del: walk_pages.simps)
qed

end
