(* ===== verification/Examples.thy ===== *)
theory Examples
  imports LocalUploads FileLifecycles DirectoryRequests "HOL-Library.Code_Target_Numeral"
begin

text \<open>
  A small service on the local adapter, with simple stand-ins for the functions outside the
  repository, and a few worlds and requests. The witnesses of the properties run on them.
\<close>

definition demo_sha256 :: "bytes \<Rightarrow> pystr" where
  "demo_sha256 b = lit ''sha-'' @ nat_digits (length b)"

text \<open>The defaults, on the local backend and with parts of four bytes and more.\<close>

definition demo_settings :: settings where
  "demo_settings = default_settings
     \<lparr>cf_storage := default_storage\<lparr>sc_backend := BackendLocal\<rparr>,
      cf_uploads := default_uploads\<lparr>uc_multipart :=
        (uc_multipart default_uploads)\<lparr>mp_minimum_part_size_bytes := 4,
                                        mp_default_part_size_bytes := 4\<rparr>\<rparr>,
      cf_permanent_link := \<lparr>pl_enabled = True, pl_secret = Some (lit ''k'')\<rparr>\<rparr>"

definition demo_service :: "fs service" where
  "demo_service =
     \<lparr>sv_settings = demo_settings,
      sv_storage = local_storage (default_adapter demo_sha256),
      sv_postgresql = False, sv_nfc = (\<lambda>s. s), sv_parse_iso = (\<lambda>_. None),
      sv_isoformat = (\<lambda>_. []), sv_loads = (\<lambda>_. None), sv_dumps = (\<lambda>_. []),
      sv_sha256 = demo_sha256, sv_hmac_sha256 = (\<lambda>secret message. secret @ [58] @ message),
      sv_like = (\<lambda>p s. starts_with s (butlast p)),
      sv_rank = (\<lambda>s. case s of None \<Rightarrow> -1 | Some s \<Rightarrow> int (foldl (\<lambda>n c. n * 1114112 + c + 1) 0 s))\<rparr>"

definition demo_identity :: identity where
  "demo_identity = \<lparr>tenant_id = lit ''acme'', principal_id = lit ''ann''\<rparr>"

definition other_identity :: identity where
  "other_identity = \<lparr>tenant_id = lit ''umbra'', principal_id = lit ''bob''\<rparr>"

definition demo_world :: "fs world" where
  "demo_world = \<lparr>w_db = empty_db, w_store = [], w_metrics = zero_metrics\<rparr>"

definition demo_request :: create_request where
  "demo_request =
     \<lparr>cr_bucket = lit ''app-default'', cr_object_key = lit ''docs/a.txt'',
      cr_original_filename = [], cr_content_type = None, cr_total_size = 10,
      cr_part_size = Some 4, cr_upload_mode = lit ''proxy'', cr_file_fingerprint = None,
      cr_expected_sha256 = None, cr_lifecycle = None\<rparr>"

text \<open>Answering requests one after the other, and the worlds this leads through.\<close>

fun serve_all :: "'s service \<Rightarrow> identity \<Rightarrow> dt \<Rightarrow> upload_request list \<Rightarrow> 's world \<Rightarrow> 's world" where
  "serve_all sv i now [] w = w"
| "serve_all sv i now (rq # rqs) w = serve_all sv i now rqs (snd (serve sv i now rq w))"

fun all_fresh :: "'s service \<Rightarrow> identity \<Rightarrow> dt \<Rightarrow> upload_request list \<Rightarrow> 's world \<Rightarrow> bool" where
  "all_fresh sv i now [] w = True"
| "all_fresh sv i now (rq # rqs) w =
     (fresh_ids rq (w_db w) \<and> all_fresh sv i now rqs (snd (serve sv i now rq w)))"

lemma served_all: "served sv v w \<Longrightarrow> all_fresh sv i now rqs w \<Longrightarrow> served sv v (serve_all sv i now rqs w)"
  by (induction rqs arbitrary: w) (auto intro: served_step[OF _ _ prod.collapse[symmetric]])

definition demo_requests :: "upload_request list" where
  "demo_requests =
     [CreateUpload demo_request (lit ''u1''), PutPart (lit ''u1'') 3 [9, 10] None,
      PutPart (lit ''u1'') 1 [1, 2, 3, 4] None, PutPart (lit ''u1'') 2 [5, 6, 7, 8] None]"

definition demo_partial :: "fs world" where
  "demo_partial = serve_all demo_service demo_identity 0 (take 2 demo_requests) demo_world"

definition demo_uploaded :: "fs world" where
  "demo_uploaded = serve_all demo_service demo_identity 0 demo_requests demo_world"

definition demo_completion :: "(error + file_object) \<times> fs world" where
  "demo_completion = complete demo_service demo_identity (lit ''u1'') (lit ''f1'') 0 demo_uploaded"

definition demo_file :: file_object where
  "demo_file = projr (fst demo_completion)"

definition demo_done :: "fs world" where
  "demo_done = snd demo_completion"

definition demo_session :: "fs world \<Rightarrow> upload_session" where
  "demo_session w = the (get_upload (lit ''u1'') None (w_db w))"

definition object_content :: "pystr \<Rightarrow> pystr \<Rightarrow> fs world \<Rightarrow> bytes option" where
  "object_content b k w = local_content (default_adapter demo_sha256) (w_store w) b k"

lemma outcome: "\<not> isl (fst x) \<Longrightarrow> x = (Inr (projr (fst x)), snd x)"
  by (cases x) auto

lemma the_there: "x \<noteq> None \<Longrightarrow> x = Some (the x)"
  by auto

lemma demo_served: "served demo_service demo_world demo_uploaded" "served demo_service demo_world demo_partial"
proof -
  have "all_fresh demo_service demo_identity 0 demo_requests demo_world" by code_simp
  then show "served demo_service demo_world demo_uploaded"
    unfolding demo_uploaded_def by (rule served_all[OF served_start])
  have "all_fresh demo_service demo_identity 0 (take 2 demo_requests) demo_world" by code_simp
  then show "served demo_service demo_world demo_partial"
    unfolding demo_partial_def by (rule served_all[OF served_start])
qed

lemma demo_inv: "uploads_inv (w_db demo_uploaded)" "uploads_inv (w_db demo_partial)"
  using demo_served served_inv[of demo_service demo_world] uploads_inv_empty
  by (simp_all add: demo_world_def)

text \<open>What the worlds look like, each checked by one evaluation.\<close>

definition sees_session :: "fs world \<Rightarrow> upload_status \<Rightarrow> int list \<Rightarrow> bool" where
  "sees_session w st ns \<longleftrightarrow>
     get_upload (lit ''u1'') None (w_db w) = Some (demo_session w)
     \<and> get_upload (lit ''u1'') (Some (tenant_id demo_identity)) (w_db w) = Some (demo_session w)
     \<and> us_status (demo_session w) = st \<and> us_total_parts (demo_session w) = 3
     \<and> us_total_size (demo_session w) = 10
     \<and> map pa_part_number (committed_parts (lit ''u1'') (w_db w)) = ns"

definition sees_file :: "fs world \<Rightarrow> file_object \<Rightarrow> bool" where
  "sees_file w f \<longleftrightarrow>
     us_completed_file_id (demo_session w) = Some (lit ''f1'')
     \<and> get_file (lit ''f1'') (Some (tenant_id demo_identity)) (w_db w) = Some f
     \<and> files (w_db w) = [f]
     \<and> object_content (fo_bucket f) (fo_object_key f) w = Some [1, 2, 3, 4, 5, 6, 7, 8, 9, 10]"

fun sees_completion :: "(error + file_object) \<times> fs world \<Rightarrow> bool" where
  "sees_completion (Inl e, w) = False"
| "sees_completion (Inr f, w) = (sees_session w Completed [1, 2, 3] \<and> sees_file w f)"

lemma demo_partial_sees: "sees_session demo_partial Uploading [3]"
  by code_simp

lemma demo_uploaded_sees: "sees_session demo_uploaded Uploading [1, 2, 3]"
  by code_simp

lemma demo_completion_sees: "sees_completion demo_completion"
  by code_simp

lemma demo_complete:
  "complete demo_service demo_identity (lit ''u1'') (lit ''f1'') 0 demo_uploaded = (Inr demo_file, demo_done)"
proof -
  have "\<not> isl (fst demo_completion)"
    using demo_completion_sees by (metis isl_def prod.collapse sees_completion.simps(1))
  then show ?thesis unfolding demo_file_def demo_done_def using outcome demo_completion_def by metis
qed

lemma demo_done_sees: "sees_session demo_done Completed [1, 2, 3] \<and> sees_file demo_done demo_file"
  using demo_completion_sees demo_complete by (simp add: demo_completion_def)

lemma demo_uploaded_parts: "map pa_part_number (parts (w_db demo_uploaded)) = [3, 1, 2]"
  by code_simp

lemma demo_done_inv: "uploads_inv (w_db demo_done)"
proof -
  have "serve demo_service demo_identity 0 (CompleteUpload (lit ''u1'') (lit ''f1'')) demo_uploaded = (Inr (), demo_done)"
    by (simp add: complete_handler_def transaction_def ignore_result_def demo_complete bnd_def ret_def)
  moreover have "fresh_ids (CompleteUpload (lit ''u1'') (lit ''f1'')) (w_db demo_uploaded)" by code_simp
  ultimately show ?thesis using serve_inv[OF demo_inv(1)] by blast
qed

lemma committed_set:
  "sees_session w st ns \<Longrightarrow> pa_part_number ` set (committed_parts (lit ''u1'') (w_db w)) = set ns"
  by (metis list.set_map sees_session_def)


section \<open>A directory\<close>

definition demo_job_request :: job_request where
  "demo_job_request =
     \<lparr>jr_root_directory_name = lit ''photos'', jr_bucket = [], jr_destination_prefix = lit ''2026'',
      jr_conflict_policy = [], jr_source = lit ''sdk'', jr_lifecycle = None\<rparr>"

definition demo_entry :: "pystr \<Rightarrow> pystr \<Rightarrow> int \<Rightarrow> raw_entry" where
  "demo_entry kind path n =
     \<lparr>re_entry_type = kind, re_relative_path = path, re_size_bytes = n, re_last_modified_ns = None,
      re_content_type = None, re_fingerprint = Some (lit ''fp''), re_full_sha256 = None, re_lifecycle = None\<rparr>"

definition demo_directory_requests :: "directory_request list" where
  "demo_directory_requests =
     [CreateJob demo_job_request (lit ''j1''),
      AddEntries (lit ''j1'')
        [(demo_entry (lit ''directory'') (lit ''b'') 0, lit ''e1''), (demo_entry (lit ''file'') (lit ''b/x'') 5, lit ''e2''),
         (demo_entry (lit ''file'') (lit ''a'') 7, lit ''e3'')],
      CompleteManifest (lit ''j1'') None None]"

fun serve_directories ::
    "'s service \<Rightarrow> identity \<Rightarrow> dt \<Rightarrow> directory_request list \<Rightarrow> 's world \<Rightarrow> 's world" where
  "serve_directories sv i now [] w = w"
| "serve_directories sv i now (rq # rqs) w =
     serve_directories sv i now rqs (snd (serve_directory sv i now rq w))"

fun all_fresh_jobs ::
    "'s service \<Rightarrow> identity \<Rightarrow> dt \<Rightarrow> directory_request list \<Rightarrow> 's world \<Rightarrow> bool" where
  "all_fresh_jobs sv i now [] w = True"
| "all_fresh_jobs sv i now (rq # rqs) w =
     (fresh_job rq (w_db w) \<and> all_fresh_jobs sv i now rqs (snd (serve_directory sv i now rq w)))"

lemma directories_served:
  "directory_served sv v w \<Longrightarrow> all_fresh_jobs sv i now rqs w \<Longrightarrow>
   directory_served sv v (serve_directories sv i now rqs w)"
  by (induction rqs arbitrary: w) (auto intro: directory_step[OF _ _ prod.collapse[symmetric]])

definition demo_ready :: "fs world" where
  "demo_ready = serve_directories demo_service demo_identity 0 demo_directory_requests demo_world"

definition demo_uploading :: "fs world" where
  "demo_uploading = serve_directories demo_service demo_identity 0
     [RetryJob (lit ''j1''), MarkEntryResult (lit ''j1'') (lit ''e2'') (lit ''uploaded'') None None None] demo_ready"

definition demo_job :: "fs world \<Rightarrow> directory_job" where
  "demo_job w = the (get_job (lit ''j1'') None (w_db w))"

definition sees_job :: "fs world \<Rightarrow> job_status \<Rightarrow> bool" where
  "sees_job w st \<longleftrightarrow>
     get_job (lit ''j1'') (Some (tenant_id demo_identity)) (w_db w) = Some (demo_job w)
     \<and> dj_status (demo_job w) = st
     \<and> (dj_total_entries (demo_job w), dj_total_files (demo_job w), dj_total_directories (demo_job w)) = (3, 2, 1)
     \<and> map de_normalized_path (job_entries (lit ''j1'') (w_db w)) = [lit ''b'', lit ''b/x'', lit ''a'']"

lemma demo_ready_sees: "sees_job demo_ready JobReady"
  by code_simp

lemma demo_uploading_sees: "sees_job demo_uploading JobUploading"
  by code_simp

lemma demo_directory_served:
  "directory_served demo_service demo_world demo_ready"
  unfolding demo_ready_def by (rule directories_served[OF directory_start]) code_simp

end
