(* ===== verification/SdkRetry.thy ===== *)
theory SdkRetry
  imports Prelude ApiErrors "HOL-Library.Multiset"
begin

text \<open>
  How the SDK repeats requests and spreads them over threads:
  \<open>src/sdk/pyuploadx/retry.py\<close> and \<open>src/sdk/pyuploadx/scheduler.py\<close>. A call is a
  state transformer that answers or raises an \<open>sdk_error\<close>; the floating-point delays are
  numbers of an ordered field.
\<close>

section \<open>Delays\<close>

text \<open>\<open>jitter\<close> is what \<open>random.uniform(0, min(delay, 1.0))\<close> draws.\<close>

definition exponential_delay :: "('n \<Rightarrow> 'n) \<Rightarrow> nat \<Rightarrow> 'n \<Rightarrow> 'n \<Rightarrow> ('n :: linordered_field)" where
  "exponential_delay jitter attempt base_delay max_delay =
     (let delay = min max_delay (base_delay * 2 ^ attempt) in delay + jitter (min delay 1))"

lemma exponential_delay_bounds:
  assumes "0 \<le> base" "0 \<le> mx" "\<And>m. 0 \<le> m \<Longrightarrow> 0 \<le> jitter m \<and> jitter m \<le> m"
  shows "0 \<le> exponential_delay jitter n base mx \<and> exponential_delay jitter n base mx \<le> mx + 1"
proof -
  let ?d = "min mx (base * 2 ^ n)"
  have d: "0 \<le> ?d" "?d \<le> mx" using assms(1,2) by simp_all
  then have "0 \<le> jitter (min ?d 1)" "jitter (min ?d 1) \<le> 1" using assms(3)[of "min ?d 1"] by simp_all
  then have "0 \<le> ?d + jitter (min ?d 1) \<and> ?d + jitter (min ?d 1) \<le> mx + 1" using d by linarith
  then show ?thesis by (simp only: exponential_delay_def Let_def)
qed

section \<open>Retrying\<close>

definition retryable_status_codes :: "int list" where
  "retryable_status_codes = [408, 429, 500, 502, 503, 504]"

definition is_retryable_exception :: "sdk_error \<Rightarrow> bool" where
  "is_retryable_exception e =
     (case e of SdkErr c _ \<Rightarrow> c \<in> {SdkServerError, SdkStorageUnavailableError} | _ \<Rightarrow> False)"

text \<open>The exceptions the loop goes on after, as long as attempts are left.\<close>

definition goes_on :: "int list \<Rightarrow> sdk_error \<Rightarrow> bool" where
  "goes_on statuses e =
     (case e of
        SdkErr _ status \<Rightarrow> (case status of None \<Rightarrow> False | Some n \<Rightarrow> n \<in> set statuses)
      | SdkCrash x \<Rightarrow> x = ConnectionError \<or> x = TimeoutError)"

type_synonym ('s, 'a) call = "('s, sdk_error, 'a) eff"

text \<open>The loop at a number of failed attempts; \<open>pause n\<close> is the sleep after the \<open>n\<close>-th.\<close>

function retry_from ::
    "('s, 'a) call \<Rightarrow> (nat \<Rightarrow> 's \<Rightarrow> 's) \<Rightarrow> int list \<Rightarrow> int \<Rightarrow> nat \<Rightarrow> ('s, 'a) call" where
  "retry_from fn pause statuses max_attempts attempt s =
     (case fn s of
        (Inr a, s') \<Rightarrow> (Inr a, s')
      | (Inl e, s') \<Rightarrow>
          if \<not> goes_on statuses e \<or> max_attempts - 1 \<le> int attempt then (Inl e, s')
          else retry_from fn pause statuses max_attempts (attempt + 1) (pause (attempt + 1) s'))"
  by pat_completeness auto
termination
  by (relation "measure (\<lambda>(_, _, _, m, n, _). nat (m - int n))") auto

declare retry_from.simps [simp del]

text \<open>An empty set of statuses counts as none given.\<close>

definition statuses_given :: "int list option \<Rightarrow> int list" where
  "statuses_given statuses =
     (case statuses of None \<Rightarrow> retryable_status_codes
      | Some s \<Rightarrow> if s = [] then retryable_status_codes else s)"

definition sdk_retry ::
    "('s, 'a) call \<Rightarrow> (nat \<Rightarrow> 's \<Rightarrow> 's) \<Rightarrow> int \<Rightarrow> int list option \<Rightarrow> ('s, 'a) call" where
  "sdk_retry fn pause max_attempts statuses =
     retry_from fn pause (statuses_given statuses) max_attempts 0"

text \<open>The defaults the client uses.\<close>

definition retry_default :: "(nat \<Rightarrow> 's \<Rightarrow> 's) \<Rightarrow> ('s, 'a) call \<Rightarrow> ('s, 'a) call" where
  "retry_default pause fn = sdk_retry fn pause 5 None"

section \<open>How often a call is made\<close>

definition counted :: "('s, 'a) call \<Rightarrow> ('s \<times> nat, 'a) call" where
  "counted fn = (\<lambda>(s, n). case fn s of (r, s') \<Rightarrow> (r, (s', n + 1)))"

lemma retry_from_attempts:
  assumes "retry_from (counted fn) (\<lambda>k. map_prod (pause k) id) statuses m k (s, c) = (r, (s', c'))"
  shows "c < c' \<and> int (c' - c) \<le> max 1 (m - int k)
    \<and> (\<forall>e. r = Inl e \<longrightarrow> goes_on statuses e \<longrightarrow> int (c' - c) = max 1 (m - int k))"
  using assms
proof (induction "nat (m - int k)" arbitrary: k s c)
  case 0
  then show ?case
    by (subst (asm) retry_from.simps) (auto simp: counted_def split: prod.splits sum.splits if_splits)
next
  case (Suc x)
  obtain q t where q: "fn s = (q, t)" by fastforce
  show ?case
  proof (cases "\<exists>e. q = Inl e \<and> goes_on statuses e \<and> \<not> m - 1 \<le> int k")
    case True
    then have "retry_from (counted fn) (\<lambda>k. map_prod (pause k) id) statuses m (k + 1) (pause (k + 1) t, c + 1)
        = (r, (s', c'))"
      using Suc.prems q by (subst (asm) retry_from.simps) (auto simp: counted_def)
    moreover have "x = nat (m - int (k + 1))" using Suc.hyps(2) by simp
    ultimately have "c + 1 < c' \<and> int (c' - (c + 1)) \<le> max 1 (m - int (k + 1))
      \<and> (\<forall>e. r = Inl e \<longrightarrow> goes_on statuses e \<longrightarrow> int (c' - (c + 1)) = max 1 (m - int (k + 1)))"
      using Suc.hyps(1) by blast
    then show ?thesis using True by (auto simp: of_nat_diff)
  next
    case False
    then have "(r, (s', c')) = (q, (t, c + 1))"
      using Suc.prems q
      by (subst (asm) retry_from.simps) (auto simp: counted_def split: sum.splits)
    then show ?thesis using False by auto
  qed
qed

text \<open>The answer of a run of failing calls that ends in a success within the attempts.\<close>

lemma retry_from_succeeds:
  assumes "\<And>j. j < n \<Longrightarrow> \<exists>e t. fn (st j) = (Inl e, t) \<and> goes_on statuses e \<and> st (Suc j) = pause (k + j + 1) t"
    and "fn (st n) = (Inr a, s')" "int (k + n) < m \<or> n = 0"
  shows "retry_from fn pause statuses m k (st 0) = (Inr a, s')"
  using assms
proof (induction n arbitrary: k st)
  case 0
  then show ?case by (subst retry_from.simps) simp
next
  case (Suc n)
  from Suc.prems(1)[of 0] obtain e t where e: "fn (st 0) = (Inl e, t)" "goes_on statuses e" "st (Suc 0) = pause (k + 1) t"
    by auto
  have "retry_from fn pause statuses m (k + 1) (st (Suc 0)) = (Inr a, s')"
  proof (rule Suc.IH)
    show "\<And>j. j < n \<Longrightarrow> \<exists>e t. fn (st (Suc j)) = (Inl e, t) \<and> goes_on statuses e
        \<and> st (Suc (Suc j)) = pause (k + 1 + j + 1) t"
      using Suc.prems(1)[of "Suc _"] by simp
  qed (use Suc.prems in auto)
  moreover have "\<not> m - 1 \<le> int k" using Suc.prems(3) by auto
  ultimately show ?case using e by (subst retry_from.simps) simp
qed

section \<open>The scheduler\<close>

text \<open>
  Tasks wait in the queue of the executor, then occupy one of its \<open>workers\<close> threads, then
  hold one of the \<open>permits\<close> of the global semaphore while they run, and are done. The
  queue is served in order; which of the threads goes on is not determined.
\<close>

record 't pool =
  po_queue :: "'t list"
  po_waiting :: "'t list"
  po_running :: "'t list"
  po_done :: "'t list"

definition submitted :: "'t list \<Rightarrow> 't pool" where
  "submitted ts = \<lparr>po_queue = ts, po_waiting = [], po_running = [], po_done = []\<rparr>"

inductive pool_step :: "nat \<Rightarrow> nat \<Rightarrow> 't pool \<Rightarrow> 't pool \<Rightarrow> bool" for workers permits where
  pool_start:
    "po_queue p = t # ts \<Longrightarrow> length (po_waiting p) + length (po_running p) < workers \<Longrightarrow>
     pool_step workers permits p (p\<lparr>po_queue := ts, po_waiting := po_waiting p @ [t]\<rparr>)"
| pool_acquire:
    "t \<in> set (po_waiting p) \<Longrightarrow> length (po_running p) < permits \<Longrightarrow>
     pool_step workers permits p
       (p\<lparr>po_waiting := remove1 t (po_waiting p), po_running := po_running p @ [t]\<rparr>)"
| pool_finish:
    "t \<in> set (po_running p) \<Longrightarrow>
     pool_step workers permits p
       (p\<lparr>po_running := remove1 t (po_running p), po_done := po_done p @ [t]\<rparr>)"

inductive_cases pool_stepE: "pool_step workers permits p q"

inductive pool_run :: "nat \<Rightarrow> nat \<Rightarrow> nat \<Rightarrow> 't pool \<Rightarrow> 't pool \<Rightarrow> bool" for workers permits where
  pool_stop: "pool_run workers permits 0 p p"
| pool_go: "pool_run workers permits n p q \<Longrightarrow> pool_step workers permits q r \<Longrightarrow> pool_run workers permits (Suc n) p r"

definition pool_tasks :: "'t pool \<Rightarrow> 't multiset" where
  "pool_tasks p = mset (po_queue p) + mset (po_waiting p) + mset (po_running p) + mset (po_done p)"

definition pool_ok :: "nat \<Rightarrow> nat \<Rightarrow> 't pool \<Rightarrow> bool" where
  "pool_ok workers permits p \<longleftrightarrow>
     length (po_waiting p) + length (po_running p) \<le> workers \<and> length (po_running p) \<le> permits"

definition pool_work :: "'t pool \<Rightarrow> nat" where
  "pool_work p = 3 * length (po_queue p) + 2 * length (po_waiting p) + length (po_running p)"

lemma length_remove1_in: "t \<in> set xs \<Longrightarrow> length (remove1 t xs) = length xs - 1"
  by (simp add: length_remove1)

lemma pool_step_keeps:
  assumes "pool_step workers permits p q" "pool_ok workers permits p"
  shows "pool_ok workers permits q \<and> pool_tasks q = pool_tasks p \<and> Suc (pool_work q) = pool_work p"
  using assms(1)
proof cases
  case (pool_start t ts)
  then show ?thesis using assms(2) by (simp add: pool_ok_def pool_tasks_def pool_work_def)
next
  case (pool_acquire t)
  then obtain n where "length (po_waiting p) = Suc n" by (cases "length (po_waiting p)") auto
  then show ?thesis
    using pool_acquire assms(2)
    by (auto simp: pool_ok_def pool_tasks_def pool_work_def length_remove1_in)
next
  case (pool_finish t)
  then obtain n where "length (po_running p) = Suc n" by (cases "length (po_running p)") auto
  then show ?thesis
    using pool_finish assms(2)
    by (auto simp: pool_ok_def pool_tasks_def pool_work_def length_remove1_in)
qed

text \<open>Some thread can always go on while a task is not done.\<close>

lemma pool_progress:
  assumes "0 < workers" "0 < permits" "pool_work p \<noteq> 0"
  shows "\<exists>q. pool_step workers permits p q"
proof (cases "po_running p")
  case (Cons t ts)
  then show ?thesis using pool_step.pool_finish[of t p] by auto
next
  case running: Nil
  show ?thesis
  proof (cases "po_waiting p")
    case (Cons t ts)
    then show ?thesis using running assms(2) pool_step.pool_acquire[of t p permits workers] by auto
  next
    case Nil
    then obtain t ts where "po_queue p = t # ts"
      using running assms(3) by (cases "po_queue p") (auto simp: pool_work_def)
    then show ?thesis using running Nil assms(1) pool_step.pool_start[of p t ts workers permits] by auto
  qed
qed

lemma pool_run_keeps:
  assumes "pool_run workers permits n p q" "pool_ok workers permits p"
  shows "pool_ok workers permits q \<and> pool_tasks q = pool_tasks p \<and> pool_work q + n = pool_work p"
  using assms by (induction rule: pool_run.induct) (auto dest: pool_step_keeps)

lemma pool_submitted: "pool_ok workers permits (submitted ts)" "pool_tasks (submitted ts) = mset ts"
  "pool_work (submitted ts) = 3 * length ts"
  by (simp_all add: submitted_def pool_ok_def pool_tasks_def pool_work_def)

lemma pool_all_done: "pool_work p = 0 \<longleftrightarrow> po_queue p = [] \<and> po_waiting p = [] \<and> po_running p = []"
  by (auto simp: pool_work_def)

lemma pool_runs_out:
  assumes "pool_run workers permits n (submitted ts) q" "0 < workers" "0 < permits"
  shows "n \<le> 3 * length ts \<and> length (po_running q) \<le> permits
    \<and> ((\<nexists>r. pool_step workers permits q r) \<longleftrightarrow> n = 3 * length ts)
    \<and> (n = 3 * length ts \<longrightarrow> mset (po_done q) = mset ts)"
proof -
  have q: "pool_ok workers permits q" "pool_tasks q = mset ts" "pool_work q + n = 3 * length ts"
    using pool_run_keeps[OF assms(1) pool_submitted(1)] by (simp_all add: pool_submitted)
  have "n = 3 * length ts \<longleftrightarrow> pool_work q = 0" using q(3) by auto
  moreover have "(\<nexists>r. pool_step workers permits q r) \<longleftrightarrow> pool_work q = 0"
    using pool_progress[OF assms(2,3), of q] pool_step_keeps[OF _ q(1)] by fastforce
  moreover have "pool_work q = 0 \<longrightarrow> mset (po_done q) = mset ts"
    using q(2) by (auto simp: pool_all_done pool_tasks_def)
  moreover have "n \<le> 3 * length ts" using q(3) by simp
  ultimately show ?thesis using q(1) by (simp add: pool_ok_def)
qed

end
