(* ===== verification/SdkTransfer.thy ===== *)
theory SdkTransfer
  imports SdkRetry Ranges Storage
begin

text \<open>
  How the SDK moves the bytes of large files: the parallel download of
  \<open>src/sdk/pyuploadx/client.py\<close> (\<open>_stream_parallel\<close>) and the upload in parts of
  \<open>src/sdk/pyuploadx/multipart.py\<close>. The HTTP client is a parameter.
\<close>

section \<open>Responses\<close>

text \<open>A response with the chunks of its body; \<open>rs_broken\<close> says that the stream fails after them.\<close>

record http_response =
  rs_status :: int
  rs_content_range :: pystr
  rs_chunks :: "bytes list"
  rs_broken :: bool

text \<open>A \<open>GET\<close> of one URL, with the value of the \<open>Range\<close> header.\<close>

type_synonym getter = "pystr option \<Rightarrow> sdk_error + http_response"

abbreviation client_error :: sdk_error where
  "client_error \<equiv> SdkErr SdkUploadClientError None"

section \<open>Writing to a file at offsets\<close>

text \<open>\<open>seek\<close> and \<open>write\<close>; a gap is filled with zeros.\<close>

definition write_at :: "nat \<Rightarrow> bytes \<Rightarrow> bytes \<Rightarrow> bytes" where
  "write_at off chunk f =
     (if chunk = [] then f
      else take off (f @ replicate (off - length f) 0) @ chunk @ drop (off + length chunk) f)"

definition write_all :: "(nat \<times> bytes) list \<Rightarrow> bytes \<Rightarrow> bytes" where
  "write_all ws f = foldl (\<lambda>f (off, chunk). write_at off chunk f) f ws"

text \<open>The writes of one stream, from an offset on.\<close>

fun chunk_writes :: "nat \<Rightarrow> bytes list \<Rightarrow> (nat \<times> bytes) list" where
  "chunk_writes off [] = []"
| "chunk_writes off (c # cs) = (off, c) # chunk_writes (off + length c) cs"

section \<open>The parallel download\<close>

text \<open>The result: an error if there was one, and the content of the file if it was created.\<close>

type_synonym download_result = "sdk_error option \<times> bytes option"

definition stream_response :: "http_response \<Rightarrow> download_result" where
  "stream_response r =
     (if rs_broken r then Some (SdkCrash ConnectionError) else None, Some (concat (rs_chunks r)))"

definition stream_whole :: "getter \<Rightarrow> download_result" where
  "stream_whole http_get =
     (case http_get None of
        Inl e \<Rightarrow> (Some e, None)
      | Inr r \<Rightarrow> if 400 \<le> rs_status r then (Some client_error, None) else stream_response r)"

text \<open>\<open>int(header.rsplit("/", 1)[1])\<close>.\<close>

definition content_range_total :: "pystr \<Rightarrow> sdk_error + int" where
  "content_range_total header =
     (case total_after_slash header of Inl x \<Rightarrow> Inl (SdkCrash x) | Inr n \<Rightarrow> Inr n)"

text \<open>The loop over \<open>range(concurrency)\<close>, with the number of ranges still to come.\<close>

fun download_ranges :: "nat \<Rightarrow> nat \<Rightarrow> nat \<Rightarrow> nat \<Rightarrow> (nat \<times> nat) list" where
  "download_ranges whole step 0 start = []"
| "download_ranges whole step (Suc n) start =
     (let finish = (if n = 0 then whole - 1 else start + step - 1)
      in (start, finish) # download_ranges whole step n (finish + 1))"

definition split_ranges :: "nat \<Rightarrow> nat \<Rightarrow> (nat \<times> nat) list" where
  "split_ranges whole concurrency = download_ranges whole (whole div concurrency) concurrency 0"

text \<open>What one worker writes, and whether it fails.\<close>

definition range_worker :: "getter \<Rightarrow> nat \<times> nat \<Rightarrow> (nat \<times> bytes) list \<times> bool" where
  "range_worker http_get r =
     (case r of (a, b) \<Rightarrow>
        case http_get (Some (range_header a b)) of
          Inl e \<Rightarrow> ([], True)
        | Inr p \<Rightarrow>
            if 400 \<le> rs_status p \<or> rs_status p \<noteq> 206 then ([], True)
            else (chunk_writes a (rs_chunks p), rs_broken p))"

text \<open>\<open>order\<close> is the order in which the writes of the workers happen to come.\<close>

definition stream_parallel ::
    "((nat \<times> bytes) list \<Rightarrow> (nat \<times> bytes) list) \<Rightarrow> getter \<Rightarrow> nat \<Rightarrow> download_result" where
  "stream_parallel order http_get concurrency =
     (case http_get (Some (range_header 0 0)) of
        Inl e \<Rightarrow> (Some e, None)
      | Inr probe \<Rightarrow>
          if rs_status probe \<noteq> 206
          then if 400 \<le> rs_status probe then (Some client_error, None) else stream_whole http_get
          else
            case content_range_total (rs_content_range probe) of
              Inl e \<Rightarrow> (Some e, None)
            | Inr whole \<Rightarrow>
                if whole < 0 then (Some (SdkCrash OSError), Some [])
                else if whole = 0 then (None, Some [])
                else
                  let n = min concurrency (nat whole);
                      workers = map (range_worker http_get) (split_ranges (nat whole) n);
                      f = write_all (order (concat (map fst workers))) (replicate (nat whole) 0)
                  in (if \<exists>w\<in>set workers. snd w then Some client_error else None, Some f))"

text \<open>\<open>_stream_to_disk\<close>: one stream, or several when asked for.\<close>

definition stream_to_disk ::
    "((nat \<times> bytes) list \<Rightarrow> (nat \<times> bytes) list) \<Rightarrow> getter \<Rightarrow> nat \<Rightarrow> download_result" where
  "stream_to_disk order http_get concurrency =
     (if 1 < concurrency then stream_parallel order http_get concurrency else stream_whole http_get)"

section \<open>The ranges partition the file\<close>

text \<open>Consecutive ranges from \<open>s\<close> up to \<open>n\<close>.\<close>

fun tiles :: "nat \<Rightarrow> nat \<Rightarrow> (nat \<times> nat) list \<Rightarrow> bool" where
  "tiles s n [] = (s = n)"
| "tiles s n ((a, b) # rs) = (a = s \<and> a \<le> b \<and> b < n \<and> tiles (b + 1) n rs)"

lemma tiles_download_ranges:
  assumes "0 < step" "0 < k" "s + k * step \<le> whole"
  shows "tiles s whole (download_ranges whole step k s)"
  using assms(2,3)
proof (induction k arbitrary: s)
  case (Suc k)
  show ?case
  proof (cases "k = 0")
    case True
    then show ?thesis using Suc.prems assms(1) by auto
  next
    case False
    have "s + step + k * step \<le> whole" using Suc.prems(2) by (simp add: add.assoc)
    then have "tiles (s + step) whole (download_ranges whole step k (s + step))"
      using False by (intro Suc.IH) simp_all
    moreover have "s + step - 1 < whole" "s \<le> s + step - 1" "s + step - 1 + 1 = s + step"
      using Suc.prems(2) assms(1) by auto
    ultimately show ?thesis using False by simp
  qed
qed simp

lemma length_download_ranges: "length (download_ranges whole step k s) = k"
  by (induction k arbitrary: s) (simp_all add: Let_def)

lemma tiles_split_ranges:
  assumes "0 < n" "n \<le> whole"
  shows "tiles 0 whole (split_ranges whole n)"
proof -
  have "0 < whole div n" using assms by (simp add: div_greater_zero_iff)
  moreover have "n * (whole div n) \<le> whole" by simp
  ultimately show ?thesis unfolding split_ranges_def using assms(1) by (intro tiles_download_ranges) simp_all
qed

text \<open>Every position below \<open>n\<close> is in a range.\<close>

lemma tiles_cover: "tiles s n rs \<Longrightarrow> s \<le> i \<Longrightarrow> i < n \<Longrightarrow> \<exists>(a, b)\<in>set rs. a \<le> i \<and> i \<le> b"
proof (induction rs arbitrary: s)
  case (Cons r rs)
  obtain a b where r: "r = (a, b)" by fastforce
  show ?case
  proof (cases "i \<le> b")
    case False
    then show ?thesis using Cons.IH[of "b + 1"] Cons.prems r by auto
  qed (use Cons.prems r in auto)
qed simp

lemma tiles_inside: "tiles s n rs \<Longrightarrow> (a, b) \<in> set rs \<Longrightarrow> s \<le> a \<and> a \<le> b \<and> b < n"
  by (induction rs arbitrary: s) fastforce+

section \<open>The order of the writes does not matter\<close>

lemma write_at_inside:
  assumes "off + length c \<le> length f"
  shows "length (write_at off c f) = length f
    \<and> (i < length f \<longrightarrow> write_at off c f ! i = (if off \<le> i \<and> i < off + length c then c ! (i - off) else f ! i))"
  using assms by (auto simp: write_at_def nth_append)

text \<open>A write of what the data has there.\<close>

definition writes_data :: "bytes \<Rightarrow> nat \<times> bytes \<Rightarrow> bool" where
  "writes_data data w \<longleftrightarrow>
     fst w + length (snd w) \<le> length data \<and> snd w = take (length (snd w)) (drop (fst w) data)"

lemma write_all_data:
  assumes "\<forall>w\<in>set ws. writes_data data w" "length f = length data"
    and "\<forall>i<length data. f ! i = data ! i \<or> (\<exists>(off, c)\<in>set ws. off \<le> i \<and> i < off + length c)"
  shows "write_all ws f = data"
  using assms
proof (induction ws arbitrary: f)
  case Nil
  then show ?case by (simp add: write_all_def list_eq_iff_nth_eq)
next
  case (Cons w ws)
  obtain off c where w: "w = (off, c)" by fastforce
  have d: "off + length c \<le> length data" "c = take (length c) (drop off data)"
    using Cons.prems(1) w by (auto simp: writes_data_def)
  note at = write_at_inside[of off c f]
  have nth: "c ! j = data ! (off + j)" if "j < length c" for j
  proof -
    have "c ! j = take (length c) (drop off data) ! j" using d(2) by metis
    then show ?thesis using that d(1) by simp
  qed
  have "write_all ws (write_at off c f) = data"
  proof (rule Cons.IH)
    show "\<forall>w\<in>set ws. writes_data data w" using Cons.prems(1) by simp
    show "length (write_at off c f) = length data" using at d(1) Cons.prems(2) by simp
    show "\<forall>i<length data. write_at off c f ! i = data ! i
        \<or> (\<exists>(off, c)\<in>set ws. off \<le> i \<and> i < off + length c)"
    proof (intro allI impI)
      fix i assume i: "i < length data"
      show "write_at off c f ! i = data ! i \<or> (\<exists>(off, c)\<in>set ws. off \<le> i \<and> i < off + length c)"
      proof (cases "off \<le> i \<and> i < off + length c")
        case True
        then have "write_at off c f ! i = c ! (i - off)" using at[of i] d(1) i Cons.prems(2) by simp
        also have "\<dots> = data ! i" using nth[of "i - off"] True by (simp add: less_diff_conv2)
        finally show ?thesis by simp
      next
        case False
        then have "write_at off c f ! i = f ! i" using at[of i] d(1) i Cons.prems(2) by auto
        moreover have "f ! i = data ! i \<or> (\<exists>(off, c)\<in>set (w # ws). off \<le> i \<and> i < off + length c)"
          using Cons.prems(3) i by blast
        ultimately show ?thesis using False w by auto
      qed
    qed
  qed
  then show ?case by (simp add: write_all_def w)
qed

section \<open>A server that answers ranges\<close>

text \<open>
  What the workers rely on: a range of the resource is answered with status 206, its bytes and
  the size of the whole.
\<close>

definition serves_ranges :: "getter \<Rightarrow> bytes \<Rightarrow> bool" where
  "serves_ranges http_get data \<longleftrightarrow>
     (\<forall>a b. a \<le> b \<longrightarrow> b < length data \<longrightarrow>
        (\<exists>r. http_get (Some (range_header a b)) = Inr r \<and> rs_status r = 206 \<and> \<not> rs_broken r
           \<and> content_range_total (rs_content_range r) = Inr (int (length data))
           \<and> concat (rs_chunks r) = take (b - a + 1) (drop a data)))"

lemma chunk_writes_data:
  assumes "concat cs = take n (drop off data)" "off + n \<le> length data"
  shows "\<forall>w\<in>set (chunk_writes off cs). writes_data data w
    \<and> off \<le> fst w \<and> fst w + length (snd w) \<le> off + n"
    and "\<forall>i. off \<le> i \<longrightarrow> i < off + n \<longrightarrow> (\<exists>(p, c)\<in>set (chunk_writes off cs). p \<le> i \<and> i < p + length c)"
proof -
  have "(\<forall>w\<in>set (chunk_writes off cs). writes_data data w \<and> off \<le> fst w \<and> fst w + length (snd w) \<le> off + n)
    \<and> (\<forall>i. off \<le> i \<longrightarrow> i < off + n \<longrightarrow> (\<exists>(p, c)\<in>set (chunk_writes off cs). p \<le> i \<and> i < p + length c))"
    using assms
  proof (induction cs arbitrary: off n)
    case Nil
    then have "n = 0" by (auto dest: sym)
    then show ?case by simp
  next
    case (Cons c cs)
    have len: "length c + length (concat cs) = n"
      using arg_cong[OF Cons.prems(1), of length] Cons.prems(2) by simp
    have c: "c = take (length c) (drop off data)"
    proof -
      have "take (length c) (c @ concat cs) = take (length c) (take n (drop off data))"
        using Cons.prems(1) by simp
      then show ?thesis using len by (simp add: min_def)
    qed
    have "concat cs = drop (length c) (take n (drop off data))" using Cons.prems(1) by (metis append_eq_conv_conj concat.simps(2))
    then have rest: "concat cs = take (n - length c) (drop (off + length c) data)"
      by (simp add: drop_take add.commute)
    have ih: "(\<forall>w\<in>set (chunk_writes (off + length c) cs). writes_data data w \<and> off + length c \<le> fst w
        \<and> fst w + length (snd w) \<le> off + length c + (n - length c))
      \<and> (\<forall>i. off + length c \<le> i \<longrightarrow> i < off + length c + (n - length c) \<longrightarrow>
          (\<exists>(p, c)\<in>set (chunk_writes (off + length c) cs). p \<le> i \<and> i < p + length c))"
      by (rule Cons.IH[OF rest]) (use len Cons.prems(2) in simp)
    have now: "writes_data data (off, c)" using c len Cons.prems(2) by (simp add: writes_data_def)
    have "off + length c + (n - length c) = off + n" using len by simp
    note ih = ih[unfolded this]
    have "\<exists>(p, d)\<in>set (chunk_writes off (c # cs)). p \<le> i \<and> i < p + length d" if "off \<le> i" "i < off + n" for i
      using ih that by (cases "off + length c \<le> i") auto
    then show ?case using now ih len by auto
  qed
  then show "\<forall>w\<in>set (chunk_writes off cs). writes_data data w \<and> off \<le> fst w \<and> fst w + length (snd w) \<le> off + n"
    and "\<forall>i. off \<le> i \<longrightarrow> i < off + n \<longrightarrow> (\<exists>(p, c)\<in>set (chunk_writes off cs). p \<le> i \<and> i < p + length c)"
    by blast+
qed

lemma range_worker_data:
  assumes "serves_ranges http_get data" "a \<le> b" "b < length data"
  shows "\<not> snd (range_worker http_get (a, b))"
    and "\<forall>w\<in>set (fst (range_worker http_get (a, b))). writes_data data w"
    and "a \<le> i \<Longrightarrow> i \<le> b \<Longrightarrow> \<exists>(p, c)\<in>set (fst (range_worker http_get (a, b))). p \<le> i \<and> i < p + length c"
proof -
  obtain r where r: "http_get (Some (range_header a b)) = Inr r" "rs_status r = 206" "\<not> rs_broken r"
    "concat (rs_chunks r) = take (b - a + 1) (drop a data)"
    using assms by (auto simp: serves_ranges_def)
  have w: "range_worker http_get (a, b) = (chunk_writes a (rs_chunks r), False)"
    using r by (simp add: range_worker_def)
  have le: "a + (b - a + 1) \<le> length data" using assms by simp
  note cw = chunk_writes_data[OF r(4) le]
  show "\<not> snd (range_worker http_get (a, b))"
    and "\<forall>w\<in>set (fst (range_worker http_get (a, b))). writes_data data w"
    using w cw(1) by auto
  show "\<exists>(p, c)\<in>set (fst (range_worker http_get (a, b))). p \<le> i \<and> i < p + length c" if "a \<le> i" "i \<le> b"
    using w cw(2) that assms by auto
qed

lemma stream_parallel_data:
  assumes serves: "serves_ranges http_get data" and "data \<noteq> []" "0 < concurrency"
    and order: "\<And>ws. mset (order ws) = mset ws"
  shows "stream_parallel order http_get concurrency = (None, Some data)"
proof -
  obtain p where p: "http_get (Some (range_header 0 0)) = Inr p" "rs_status p = 206"
    "content_range_total (rs_content_range p) = Inr (int (length data))"
    using serves \<open>data \<noteq> []\<close> unfolding serves_ranges_def by (metis le_refl length_greater_0_conv)
  let ?n = "min concurrency (length data)" and ?rs = "split_ranges (length data) (min concurrency (length data))"
  have tiles: "tiles 0 (length data) ?rs" using assms(2,3) by (intro tiles_split_ranges) auto
  let ?ws = "concat (map fst (map (range_worker http_get) ?rs))"
  have in_range: "a \<le> b \<and> b < length data" if "(a, b) \<in> set ?rs" for a b
    using tiles_inside[OF tiles that] by simp
  have set_order: "set (order ?ws) = set ?ws" using order by (metis set_mset_mset)
  have "write_all (order ?ws) (replicate (length data) 0) = data"
  proof (rule write_all_data)
    show "\<forall>w\<in>set (order ?ws). writes_data data w"
    proof
      fix w assume "w \<in> set (order ?ws)"
      then obtain a b where ab: "(a, b) \<in> set ?rs" "w \<in> set (fst (range_worker http_get (a, b)))"
        unfolding set_order by auto
      then show "writes_data data w" using range_worker_data(2)[OF serves, of a b] in_range[OF ab(1)] by blast
    qed
    show "\<forall>i<length data. replicate (length data) 0 ! i = data ! i
        \<or> (\<exists>(off, c)\<in>set (order ?ws). off \<le> i \<and> i < off + length c)"
    proof (intro allI impI)
      fix i assume "i < length data"
      then obtain a b where ab: "(a, b) \<in> set ?rs" "a \<le> i" "i \<le> b" using tiles_cover[OF tiles] by blast
      with range_worker_data(3)[OF serves, of a b i] in_range
      obtain q c where "(q, c) \<in> set (fst (range_worker http_get (a, b)))" "q \<le> i \<and> i < q + length c" by blast
      then show "replicate (length data) 0 ! i = data ! i
        \<or> (\<exists>(off, c)\<in>set (order ?ws). off \<le> i \<and> i < off + length c)"
        unfolding set_order using ab(1) by (intro disjI2 bexI[of _ "(q, c)"]) auto
    qed
  qed simp
  moreover have "\<not> (\<exists>w\<in>set (map (range_worker http_get) ?rs). snd w)"
  proof
    assume "\<exists>w\<in>set (map (range_worker http_get) ?rs). snd w"
    then obtain a b where ab: "(a, b) \<in> set ?rs" "snd (range_worker http_get (a, b))" by auto
    then show False using range_worker_data(1)[OF serves, of a b] in_range[OF ab(1)] by blast
  qed
  ultimately show ?thesis
    using p \<open>data \<noteq> []\<close> by (simp add: stream_parallel_def Let_def)
qed


section \<open>Uploading in parts\<close>

text \<open>
  The bytes of one part: \<open>seek(offset)\<close> and \<open>read(size)\<close>, a negative size reading
  to the end.
\<close>

definition part_body :: "bytes \<Rightarrow> int \<Rightarrow> int \<Rightarrow> int \<Rightarrow> bytes" where
  "part_body data whole part_size n =
     (let offset = (n - 1) * part_size; sz = min part_size (whole - offset); rest = drop (nat offset) data
      in if sz < 0 then rest else take (nat sz) rest)"

text \<open>
  What the endpoint answers: the status and the fields of the part, \<open>None\<close> when one is
  missing. \<open>put\<close> sends one part with its digest.
\<close>

definition upload_one_part ::
    "(nat \<Rightarrow> 's \<Rightarrow> 's) \<Rightarrow> (int \<Rightarrow> bytes \<Rightarrow> pystr \<Rightarrow> ('s, int \<times> uploaded_part option) call)
     \<Rightarrow> (bytes \<Rightarrow> pystr) \<Rightarrow> bytes \<Rightarrow> int \<Rightarrow> int \<Rightarrow> int \<Rightarrow> ('s, uploaded_part) call" where
  "upload_one_part pause put sha256 data whole part_size n =
     (let body = part_body data whole part_size n
      in bnd (retry_default pause (put n body (sha256 body))) (\<lambda>(status, part).
         if 400 \<le> status then raise (SdkErr SdkMultipartError None)
         else case part of None \<Rightarrow> raise (SdkCrash KeyError) | Some p \<Rightarrow> ret p))"

text \<open>The threads work through the parts in some order, each part on its own.\<close>

fun run_each :: "(int \<Rightarrow> ('s, 'a) call) \<Rightarrow> int list \<Rightarrow> 's \<Rightarrow> (int \<times> (sdk_error + 'a)) list \<times> 's" where
  "run_each act [] s = ([], s)"
| "run_each act (n # ns) s =
     (case act n s of (r, s1) \<Rightarrow> case run_each act ns s1 of (rs, s2) \<Rightarrow> ((n, r) # rs, s2))"

text \<open>
  \<open>wait_all\<close> raises the first error in the order of submission, after \<open>shutdown\<close> has
  let every part finish. \<open>order\<close> is the order in which the parts happen to be done.
\<close>

definition upload_all_parts ::
    "(int list \<Rightarrow> int list) \<Rightarrow> (int \<Rightarrow> ('s, uploaded_part) call) \<Rightarrow> int set \<Rightarrow> ('s, uploaded_part list) call" where
  "upload_all_parts order act pending s =
     (let ns = sorted_list_of_set pending
      in case run_each act (order ns) s of (rs, s') \<Rightarrow>
           (case find (\<lambda>n. case map_of rs n of Some (Inl e) \<Rightarrow> True | _ \<Rightarrow> False) ns of
              Some n \<Rightarrow> (Inl (projl (the (map_of rs n))), s')
            | None \<Rightarrow> (Inr (sort_key up_part_number (map (projr \<circ> snd) rs)), s')))"

section \<open>The parts make up the file\<close>

lemma part_body_slice:
  assumes "0 < ps" "1 \<le> n" "(n - 1) * ps \<le> int (length data)"
  shows "part_body data (int (length data)) ps n = take (nat ps) (drop (nat ((n - 1) * ps)) data)"
proof -
  let ?o = "(n - 1) * ps"
  have o: "0 \<le> ?o" using assms by simp
  show ?thesis
  proof (cases "ps \<le> int (length data) - ?o")
    case True
    then show ?thesis using assms by (simp add: part_body_def Let_def min_def)
  next
    case False
    then have "take (nat ps) (drop (nat ?o) data) = drop (nat ?o) data"
      using o by (intro take_all) (simp add: nat_diff_distrib' nat_le_eq_zle le_diff_conv2 nat_le_iff)
    moreover have "take (nat (int (length data) - ?o)) (drop (nat ?o) data) = drop (nat ?o) data"
      using o assms(3) by (intro take_all) (simp add: nat_diff_distrib')
    ultimately show ?thesis using False assms(3) by (simp add: part_body_def Let_def min_def)
  qed
qed

lemma slices_concat:
  assumes "0 < p"
  shows "concat (map (\<lambda>k. take p (drop (k * p) data)) [0..<n]) = take (n * p) data"
proof (induction n)
  case (Suc n)
  have "take (n * p) data @ take p (drop (n * p) data) = take (n * p + p) data" by (simp add: take_add)
  then show ?case using Suc by (simp add: add.commute)
qed simp

lemma parts_concat:
  assumes ps: "0 < ps" and N: "1 \<le> N" "(N - 1) * ps \<le> int (length data)" "int (length data) \<le> N * ps"
  shows "concat (map (part_body data (int (length data)) ps) [1..N]) = data"
proof -
  have parts: "part_body data (int (length data)) ps n = take (nat ps) (drop (nat (n - 1) * nat ps) data)"
    if "n \<in> {1..N}" for n
  proof -
    have "(n - 1) * ps \<le> (N - 1) * ps" using that ps by (simp add: mult_right_mono)
    then have "(n - 1) * ps \<le> int (length data)" using N(2) by simp
    moreover have "nat ((n - 1) * ps) = nat (n - 1) * nat ps" using that ps by (simp add: nat_mult_distrib)
    ultimately show ?thesis using part_body_slice[OF ps _, of n data] that by simp
  qed
  have range: "[1..N] = map (\<lambda>k. int k + 1) [0..<nat N]"
    by (rule nth_equalityI) (simp_all add: nth_upto)
  have "map (part_body data (int (length data)) ps) [1..N]
      = map (\<lambda>k. take (nat ps) (drop (k * nat ps) data)) [0..<nat N]"
    unfolding range map_map using parts by (intro map_cong) auto
  then have "concat (map (part_body data (int (length data)) ps) [1..N]) = take (nat N * nat ps) data"
    using slices_concat[of "nat ps" data "nat N"] ps by simp
  moreover have "length data \<le> nat N * nat ps"
  proof -
    have "nat (int (length data)) \<le> nat (N * ps)" using N(3) by (rule nat_mono)
    then show ?thesis using N(1) ps by (simp add: nat_mult_distrib)
  qed
  ultimately show ?thesis by simp
qed

lemma run_each_parts: "run_each act ns s = (rs, s') \<Longrightarrow> map fst rs = ns"
  by (induction ns arbitrary: s rs) (auto split: prod.splits)

lemma run_each_ran: "run_each act ns s = (rs, s') \<Longrightarrow> (n, r) \<in> set rs \<Longrightarrow> \<exists>t t'. act n t = (r, t')"
proof (induction ns arbitrary: s rs)
  case (Cons m ns)
  obtain q s1 qs where "act m s = (q, s1)" "run_each act ns s1 = (qs, s')" "rs = (m, q) # qs"
    using Cons.prems(1) by (auto split: prod.splits)
  then show ?case using Cons.IH Cons.prems(2) by auto
qed simp

text \<open>Without an error every pending part has been sent once, and each was taken.\<close>

lemma all_parts_fine:
  assumes "upload_all_parts order act pending s = (Inr ps, s')" "finite pending" "\<And>ns. mset (order ns) = mset ns"
  obtains rs where "run_each act (order (sorted_list_of_set pending)) s = (rs, s')"
    "\<And>n r. (n, r) \<in> set rs \<Longrightarrow> \<exists>p. r = Inr p" "set (order (sorted_list_of_set pending)) = pending"
    "ps = sort_key up_part_number (map (projr \<circ> snd) rs)"
proof -
  let ?ns = "sorted_list_of_set pending"
  obtain rs where rs: "run_each act (order ?ns) s = (rs, s')"
    and ok: "find (\<lambda>n. case map_of rs n of Some (Inl e) \<Rightarrow> True | _ \<Rightarrow> False) ?ns = None"
    and ps: "ps = sort_key up_part_number (map (projr \<circ> snd) rs)"
    using assms(1) by (auto simp: upload_all_parts_def Let_def split: prod.splits option.splits)
  have keys: "map fst rs = order ?ns" by (rule run_each_parts[OF rs])
  have dist: "distinct (order ?ns)" using assms(3)[of ?ns] by (metis distinct_sorted_list_of_set mset_eq_imp_distinct_iff)
  have pending: "set (order ?ns) = pending" using assms(3)[of ?ns] assms(2) by (metis set_mset_mset set_sorted_list_of_set)
  have "\<exists>p. r = Inr p" if "(n, r) \<in> set rs" for n r
  proof -
    have "map_of rs n = Some r" using that dist keys by simp
    moreover have "n \<in> set ?ns" using that pending keys assms(2) by (metis fst_conv image_eqI list.set_map set_sorted_list_of_set)
    ultimately show ?thesis using ok by (cases r) (auto simp: find_None_iff)
  qed
  then show thesis using that[OF rs _ pending ps] by blast
qed

text \<open>Every pending part is handed to the server once, and the result lists them in order.\<close>

lemma upload_all_parts_Inr:
  assumes run: "upload_all_parts order act pending s = (Inr ps, s')" and fin: "finite pending"
    and order: "\<And>ns. mset (order ns) = mset ns"
    and echo: "\<And>n s p t. act n s = (Inr p, t) \<Longrightarrow> up_part_number p = n"
  shows "map up_part_number ps = sorted_list_of_set pending"
proof -
  let ?ns = "sorted_list_of_set pending"
  obtain rs where rs: "run_each act (order ?ns) s = (rs, s')"
    and took: "\<And>n r. (n, r) \<in> set rs \<Longrightarrow> \<exists>p. r = Inr p"
    and ps: "ps = sort_key up_part_number (map (projr \<circ> snd) rs)"
    using all_parts_fine[OF run fin order] by metis
  have keys: "map fst rs = order ?ns" by (rule run_each_parts[OF rs])
  have res: "\<exists>p. r = Inr p \<and> up_part_number p = n" if "(n, r) \<in> set rs" for n r
    using took[OF that] run_each_ran[OF rs that] echo by blast
  have "map up_part_number (map (projr \<circ> snd) rs) = map fst rs"
    using res by (auto simp: comp_def intro!: map_cong) (metis prod.collapse sum.sel(2))
  moreover have "mset (map up_part_number ps) = mset (map up_part_number (map (projr \<circ> snd) rs))"
    unfolding ps mset_map by simp
  ultimately have nums: "mset (map up_part_number ps) = mset ?ns" using keys order by metis
  have "map up_part_number ps = sort ?ns"
    using nums ps by (intro properties_for_sort[symmetric]) auto
  then show ?thesis by (simp add: sorted_sort_id)
qed

end
