(* ===== verification/EndToEnd.thy ===== *)
theory EndToEnd
  imports LocalUploads SdkTransfer
begin

text \<open>
  The SDK against the service on the local backend: what a client uploads in parts is what a
  client downloads, in one stream or in parallel ranges. The HTTP layer between them is the
  answer of the download handler of \<open>src/app/api/v1/files.py\<close>.
\<close>

section \<open>Uploading a file in parts\<close>

text \<open>The parts of a file in some order, as the client puts them.\<close>

definition file_parts :: "bytes \<Rightarrow> int \<Rightarrow> int list \<Rightarrow> (int \<times> bytes) list" where
  "file_parts data part_size ns = map (\<lambda>n. (n, part_body data (int (length data)) part_size n)) ns"

lemma map_of_file_parts:
  "n \<in> set ns \<Longrightarrow> map_of (rev (file_parts data ps ns)) n = Some (part_body data (int (length data)) ps n)"
  by (simp add: file_parts_def rev_map map_of_map_restrict)

lemma part_count_bounds:
  assumes "count_parts (int n) ps = Inr N" "0 < ps" "int n < 2 ^ 53"
  shows "1 \<le> N \<and> (N - 1) * ps \<le> int n \<and> int n \<le> N * ps"
proof -
  let ?q = "(int n + ps - 1) div ps"
  have N: "N = max 1 ?q"
    using assms ceil_truediv_exact[of "int n" ps] by (simp add: count_parts_def)
  have "0 \<le> (int n + ps - 1) mod ps" using assms(2) by simp
  then have "?q * ps \<le> int n + ps - 1" using div_mult_mod_eq[of "int n + ps - 1" ps] by linarith
  then have low: "(?q - 1) * ps \<le> int n" by (simp add: left_diff_distrib)
  have "(int n + ps - 1) mod ps < ps" using assms(2) by simp
  then have high: "int n \<le> ?q * ps"
    using div_mult_mod_eq[of "int n + ps - 1" ps] by linarith
  show ?thesis
  proof (cases "?q \<le> 1")
    case True
    then have "?q * ps \<le> 1 * ps" using assms(2) by (intro mult_right_mono) simp_all
    then show ?thesis using N True high by simp
  qed (use N low high in simp)
qed

text \<open>The active file of the tenant, with its bytes on the local backend.\<close>

definition file_holds :: "local_adapter \<Rightarrow> identity \<Rightarrow> pystr \<Rightarrow> bytes \<Rightarrow> fs world \<Rightarrow> bool" where
  "file_holds A i file_id data w \<longleftrightarrow>
     (\<exists>f. get_file file_id (Some (tenant_id i)) (w_db w) = Some f \<and> fo_status f = FileActive
        \<and> fo_size_bytes f = int (length data) \<and> local_place A (fo_bucket f) (fo_object_key f)
        \<and> local_content A (w_store w) (fo_bucket f) (fo_object_key f) = Some data)"

lemma large_file_uploads:
  assumes st: "sv_storage sv = local_storage A" and ok: "adapter_ok A" "component x"
    and inv: "uploads_inv (w_db w)" "x \<notin> us_id ` set (uploads (w_db w))"
    and empty: "parts_dir_is A x Map.empty (w_store w)"
    and created: "create_session sv i rq x now w = (Inr u, w0)"
    and sz: "cr_total_size rq = int (length data)" "int (length data) < 2 ^ 53" "0 < us_part_size u"
    and place: "local_place A (us_bucket u) (us_object_key u)" and N: "us_total_parts u < 10 ^ 8"
    and put: "put_parts sv i x now (file_parts data (us_part_size u) ns) w0 = (Inr (), w1)"
    and fin: "complete sv i x fid now w1 = (Inr f, w2)" "fid \<notin> fo_id ` set (files (w_db w1))"
  shows "set ns = {1..us_total_parts u} \<and> file_holds A i fid data w2"
proof -
  let ?xs = "file_parts data (us_part_size u) ns"
  note here = uploaded_file_here[OF st ok inv empty created place N put fin]
  have ns: "set ns = {1..us_total_parts u}" using here by (simp add: file_parts_def image_image)
  obtain w' where built: "build_session sv i rq x now w = (Inr u, w')"
    using created by (auto simp: create_session_def effs)
  have tot: "us_total_size u = int (length data)" and "session_ok u"
    using build_session_Inr[OF built] sz(1) by simp_all
  then have "count_parts (int (length data)) (us_part_size u) = Inr (us_total_parts u)" by (simp add: session_ok_def)
  from part_count_bounds[OF this sz(3,2)] sz(3)
  have "concat (map (part_body data (int (length data)) (us_part_size u)) [1..us_total_parts u]) = data"
    by (intro parts_concat) simp_all
  moreover have "map (\<lambda>n. the (map_of (rev ?xs) n)) [1..us_total_parts u]
      = map (part_body data (int (length data)) (us_part_size u)) [1..us_total_parts u]"
    using map_of_file_parts[of _ ns data "us_part_size u"] ns by simp
  ultimately have "concat (map (\<lambda>n. the (map_of (rev ?xs) n)) [1..us_total_parts u]) = data" by (simp only:)
  then have "local_content A (w_store w2) (us_bucket u) (us_object_key u) = Some data"
    using here by (simp only: option.inject)
  then have "file_holds A i fid data w2"
    unfolding file_holds_def using here place tot by (intro exI[of _ f]) simp
  then show ?thesis using ns by blast
qed

section \<open>Downloading over HTTP\<close>

text \<open>
  The response of the download endpoint: an error as its status, the stream cut into chunks by
  the network.
\<close>

definition http_download ::
    "'s service \<Rightarrow> identity \<Rightarrow> pystr \<Rightarrow> (bytes \<Rightarrow> bytes list) \<Rightarrow> 's world \<Rightarrow> getter" where
  "http_download sv i file_id chop w header =
     Inr (case fst (download sv i file_id header w) of
        Inl e \<Rightarrow> \<lparr>rs_status = error_status e, rs_content_range = [], rs_chunks = [], rs_broken = False\<rparr>
      | Inr (f, stream, r) \<Rightarrow>
          (case response_head f r of (status, cr) \<Rightarrow>
             \<lparr>rs_status = status, rs_content_range = the_default [] cr,
              rs_chunks = (case os_chunks stream of Inl _ \<Rightarrow> [] | Inr b \<Rightarrow> chop b),
              rs_broken = (case os_chunks stream of Inl _ \<Rightarrow> True | Inr _ \<Rightarrow> False)\<rparr>))"

lemma stream_range:
  assumes holds: "file_holds A i file_id data w" and st: "sv_storage sv = local_storage A" and ok: "adapter_ok A"
    and r: "(if present header then parse_byte_range header (int (length data)) else Inr None) = Inr r"
  shows "\<exists>f stream. download sv i file_id header w = (Inr (f, stream, r), w) \<and> fo_size_bytes f = int (length data)
    \<and> os_chunks stream = Inr (read_slice (case r of None \<Rightarrow> 0 | Some b \<Rightarrow> nat (br_start b))
         (map_option range_length r) data)"
proof -
  obtain f where f: "get_file file_id (Some (tenant_id i)) (w_db w) = Some f" "fo_status f = FileActive"
    "fo_size_bytes f = int (length data)" and place: "local_place A (fo_bucket f) (fo_object_key f)"
    and content: "local_content A (w_store w) (fo_bucket f) (fo_object_key f) = Some data"
    using holds by (auto simp: file_holds_def)
  have here: "get_file_object i file_id w = (Inr f, w)"
    using f by (simp add: get_file_object_def require_def ret_def guard_def bnd_def seq_def get_db_def get_def)
  obtain y where y: "local_get_object A (fo_bucket f) (fo_object_key f)
      (case r of None \<Rightarrow> 0 | Some b \<Rightarrow> nat (br_start b)) (map_option range_length r) (w_store w) = (Inr y, w_store w)"
    "os_chunks y = Inr (read_slice (case r of None \<Rightarrow> 0 | Some b \<Rightarrow> nat (br_start b)) (map_option range_length r) data)"
    using local_get_content[OF ok place content] by blast
  moreover have "(if present header then parse_byte_range header (fo_size_bytes f) else Inr None) = Inr r"
    using r unfolding f(3) .
  ultimately have "download sv i file_id header w = (Inr (f, y, r), w)"
    using here by (simp split del: if_split add: download_def stream_file_def bnd_def lift_def on_store_def st local_storage_def ret_def)
  then show ?thesis using y(2) f(3) by blast
qed

lemma http_serves_ranges:
  assumes holds: "file_holds A i file_id data w" and st: "sv_storage sv = local_storage A" and ok: "adapter_ok A"
    and sz: "length data < 10 ^ max_str_digits" and chop: "\<And>b. concat (chop b) = b"
  shows "serves_ranges (http_download sv i file_id chop w) data"
  unfolding serves_ranges_def
proof (intro allI impI)
  fix a b assume ab: "a \<le> b" "b < length data"
  let ?r = "\<lparr>br_start = int a, br_end = int b\<rparr>"
  have r: "parse_byte_range (Some (range_header a b)) (int (length data)) = Inr (Some ?r)"
    using parse_range_header[of a b "length data"] ab sz by simp
  have there: "present (Some (range_header a b))" by (simp add: present_def range_header_def lit_def)
  obtain f stream where d: "download sv i file_id (Some (range_header a b)) w = (Inr (f, stream, Some ?r), w)"
    and f: "fo_size_bytes f = int (length data)" and chunks: "os_chunks stream = Inr (take (b - a + 1) (drop a data))"
    using stream_range[OF holds st ok, of "Some (range_header a b)" "Some ?r"] r there ab by (auto simp: read_slice_def range_length_def nat_diff_distrib' nat_add_distrib)
  show "\<exists>r. http_download sv i file_id chop w (Some (range_header a b)) = Inr r \<and> rs_status r = 206 \<and> \<not> rs_broken r
      \<and> content_range_total (rs_content_range r) = Inr (int (length data))
      \<and> concat (rs_chunks r) = take (b - a + 1) (drop a data)"
    using d f chunks chop total_after_slash_text[OF sz, of "int a" "int b"]
    by (simp add: http_download_def response_head_def the_default_def content_range_total_def content_range_text_def)
qed

lemma http_whole:
  assumes holds: "file_holds A i file_id data w" and st: "sv_storage sv = local_storage A" and ok: "adapter_ok A"
    and chop: "\<And>b. concat (chop b) = b"
  shows "stream_whole (http_download sv i file_id chop w) = (None, Some data)"
  using stream_range[OF holds st ok, of None None] chop
  by (auto simp: stream_whole_def http_download_def response_head_def stream_response_def present_def read_slice_def)

text \<open>The whole way: uploaded in parts in some order, then downloaded by the SDK.\<close>

lemma large_file_downloads:
  assumes st: "sv_storage sv = local_storage A" and ok: "adapter_ok A" "component x"
    and inv: "uploads_inv (w_db w)" "x \<notin> us_id ` set (uploads (w_db w))"
    and empty: "parts_dir_is A x Map.empty (w_store w)"
    and created: "create_session sv i rq x now w = (Inr u, w0)"
    and sz: "cr_total_size rq = int (length data)" "int (length data) < 2 ^ 53" "0 < us_part_size u"
    and place: "local_place A (us_bucket u) (us_object_key u)" and N: "us_total_parts u < 10 ^ 8"
    and put: "put_parts sv i x now (file_parts data (us_part_size u) ns) w0 = (Inr (), w1)"
    and fin: "complete sv i x fid now w1 = (Inr f, w2)" "fid \<notin> fo_id ` set (files (w_db w1))"
    and chop: "\<And>b. concat (chop b) = b" and order: "\<And>ws. mset (order ws) = mset ws"
    and some: "data \<noteq> [] \<or> concurrency \<le> 1"
  shows "set ns = {1..us_total_parts u}
    \<and> stream_to_disk order (http_download sv i fid chop w2) concurrency = (None, Some data)"
proof -
  from large_file_uploads[OF st ok inv empty created sz place N put fin]
  have ns: "set ns = {1..us_total_parts u}" and holds: "file_holds A i fid data w2" by simp_all
  have "length data < 10 ^ max_str_digits"
  proof -
    have "length data < 2 ^ 53" using sz(2) by simp
    also have "(2::nat) ^ 53 \<le> 10 ^ 53" by (intro power_mono) simp_all
    also have "(10::nat) ^ 53 \<le> 10 ^ max_str_digits" by (intro power_increasing) (simp_all add: max_str_digits_def)
    finally show ?thesis .
  qed
  from stream_parallel_data[OF http_serves_ranges[where chop = chop, OF holds st ok(1) this chop], of concurrency order]
    http_whole[where chop = chop, OF holds st ok(1) chop] some order
  show ?thesis using ns by (auto simp: stream_to_disk_def)
qed

text \<open>An empty file cannot be downloaded in parallel: the probe asks for its first byte.\<close>

lemma parallel_download_of_empty:
  assumes f: "get_file file_id (Some (tenant_id i)) (w_db w) = Some f" "fo_status f = FileActive"
    "fo_size_bytes f = 0"
  shows "stream_parallel order (http_download sv i file_id chop w) n = (Some client_error, None)"
proof -
  have here: "get_file_object i file_id w = (Inr f, w)"
    using f by (simp add: get_file_object_def require_def ret_def guard_def bnd_def seq_def get_db_def get_def)
  have "\<exists>e. parse_byte_range (Some (range_header 0 0)) 0 = Inl e"
    using parse_byte_range_bounds[of "range_header 0 0" 0] by (cases "parse_byte_range (Some (range_header 0 0)) 0") force+
  then have "parse_byte_range (Some (range_header 0 0)) 0 = Inl range_error"
    using parse_byte_range_error by blast
  moreover have "present (Some (range_header 0 0))" by (simp add: present_def range_header_def lit_def)
  ultimately have "fst (download sv i file_id (Some (range_header 0 0)) w) = Inl range_error"
    using here f(3) by (simp add: download_def stream_file_def bnd_def lift_def raise_def)
  then show ?thesis by (simp add: stream_parallel_def http_download_def range_error_def)
qed

end
