(* ===== verification/Maintenance.thy ===== *)
theory Maintenance
  imports LocalUploads FileLifecycles
begin

text \<open>
  What runs beside the requests: expiry of upload sessions and idempotency records and the
  removal of stale part directories (\<open>src/app/services/cleanup_service.py\<close>,
  \<open>src/app/core/idempotency.py\<close>, the loop of \<open>src/app/worker/cleanup.py\<close>), the
  comparison of database and storage (\<open>src/app/services/reconcile_service.py\<close>) and the
  delivery of webhooks (\<open>src/app/services/webhook_service.py\<close>).
\<close>

section \<open>Expiring upload sessions\<close>

text \<open>
  A selection without an order takes the rows in the order of the table. The two statements
  are definitions of their own, as other transactions may run between them.
\<close>

definition overdue :: "dt \<Rightarrow> upload_session \<Rightarrow> bool" where
  "overdue now u \<longleftrightarrow> us_status u \<in> {Initiated, Uploading} \<and> us_expires_at u \<le> now"

definition overdue_ids :: "dt \<Rightarrow> nat \<Rightarrow> db \<Rightarrow> pystr list" where
  "overdue_ids now batch_size d = map us_id (take batch_size (filter (overdue now) (uploads d)))"

definition expire_ids :: "pystr list \<Rightarrow> dt \<Rightarrow> db \<Rightarrow> db" where
  "expire_ids ids now d =
     d\<lparr>uploads := update_rows (\<lambda>u. us_id u \<in> set ids)
         (\<lambda>u. u\<lparr>us_status := Expired, us_updated_at := now\<rparr>) (uploads d)\<rparr>"

definition expire_upload_sessions :: "dt \<Rightarrow> nat \<Rightarrow> ('s, nat) act" where
  "expire_upload_sessions now batch_size =
     bnd (get_db (overdue_ids now batch_size)) (\<lambda>ids.
     if ids = [] then ret 0
     else seq (modify_db (expire_ids ids now))
         (seq (count (\<lambda>m. m\<lparr>m_expired := m_expired m + length ids,
                            m_active_sessions := m_active_sessions m - int (length ids)\<rparr>))
              (ret (length ids))))"

section \<open>Idempotency records\<close>

text \<open>
  The text that is digested: the operation, and after a NUL the payload as \<open>json.dumps\<close>
  writes it.
\<close>

definition request_text :: "'s service \<Rightarrow> pystr \<Rightarrow> jobject option \<Rightarrow> pystr" where
  "request_text sv operation payload =
     operation @ (case payload of None \<Rightarrow> [] | Some p \<Rightarrow> 0 # sv_dumps sv p)"

definition ir_slot :: "idempotency_record \<Rightarrow> pystr \<times> pystr \<times> pystr" where
  "ir_slot r = (ir_tenant_id r, ir_operation r, ir_key r)"

text \<open>\<open>scalar_one_or_none\<close> refuses several rows.\<close>

definition get_record :: "pystr \<Rightarrow> pystr \<Rightarrow> pystr \<Rightarrow> db \<Rightarrow> error + idempotency_record option" where
  "get_record tenant operation key d =
     (case filter (\<lambda>r. ir_slot r = (tenant, operation, key)) (idempotency d) of
        [] \<Rightarrow> Inr None
      | [r] \<Rightarrow> Inr (Some r)
      | _ \<Rightarrow> Inl (Crash MultipleResultsFound))"

text \<open>The unique constraint on tenant, operation and key refuses a second row.\<close>

definition store_record :: "idempotency_record \<Rightarrow> db \<Rightarrow> error + db" where
  "store_record r d =
     (if ir_slot r \<in> ir_slot ` set (idempotency d) then Inl (Crash IntegrityError)
      else Inr (d\<lparr>idempotency := idempotency d @ [r]\<rparr>))"

definition expire_records :: "dt \<Rightarrow> ('s, nat) act" where
  "expire_records now =
     bnd (get_db (\<lambda>d. length (filter (\<lambda>r. ir_expires_at r \<le> now) (idempotency d)))) (\<lambda>n.
     seq (modify_db (\<lambda>d. d\<lparr>idempotency := filter (\<lambda>r. \<not> ir_expires_at r \<le> now) (idempotency d)\<rparr>))
         (ret n))"

section \<open>One round of the cleanup loop\<close>

text \<open>Whatever goes wrong in a round is logged, and the loop goes on; \<open>None\<close> is a failed round.\<close>

definition cleanup_round :: "dt \<Rightarrow> nat \<Rightarrow> ('s, (nat \<times> nat) option) act" where
  "cleanup_round now batch_size =
     catch (transaction
        (bnd (expire_upload_sessions now batch_size) (\<lambda>expired.
         bnd (expire_records now) (\<lambda>idem. ret (Some (expired, idem))))))
       (\<lambda>_. ret None)"

section \<open>Stale part directories\<close>

text \<open>\<open>mtime\<close> is the time a directory was changed last.\<close>

definition cleanup_local_multipart_dirs ::
    "(path \<Rightarrow> bool) \<Rightarrow> (path \<Rightarrow> dt) \<Rightarrow> dt \<Rightarrow> path \<Rightarrow> fs \<Rightarrow> nat \<times> fs" where
  "cleanup_local_multipart_dirs bad mtime cutoff root t =
     (if \<not> path_exists root t then (0, t)
      else foldl (\<lambda>(cleaned, t) name.
             let child = root @ [name]
             in if is_dir child t \<and> mtime child < cutoff then (cleaned + 1, snd (rmtree bad child t))
                else (cleaned, t))
           (0, t) (children root t))"

section \<open>Reconciling\<close>

record reconcile_report =
  rr_session_id :: pystr
  rr_db_parts :: "int list"
  rr_storage_parts :: "int list"
  rr_missing_in_db :: "int list"
  rr_missing_in_storage :: "int list"
  rr_consistent :: bool

definition reconcile_upload ::
    "'s storage_adapter \<Rightarrow> pystr \<Rightarrow> pystr option \<Rightarrow> ('s, reconcile_report) act" where
  "reconcile_upload st upload_id tenant =
     bnd (get_db (get_upload upload_id tenant)) (\<lambda>u.
     bnd (require (Crash ValueError) u) (\<lambda>u.
     bnd (get_db (\<lambda>d. map pa_part_number (committed_parts (us_id u) d))) (\<lambda>db_numbers.
     bnd (if present (us_storage_upload_id u) \<and> cap_list_parts (st_capabilities st)
          then bnd (on_store (st_list_parts st (us_bucket u) (us_object_key u)
                                (the_default [] (us_storage_upload_id u))))
                 (\<lambda>stored. ret (map up_part_number stored))
          else ret []) (\<lambda>storage_numbers.
     let db_set = set db_numbers; storage_set = set storage_numbers
     in ret \<lparr>rr_session_id = us_id u, rr_db_parts = db_numbers,
             rr_storage_parts = sorted_list_of_set storage_set,
             rr_missing_in_db = sorted_list_of_set (storage_set - db_set),
             rr_missing_in_storage = sorted_list_of_set (db_set - storage_set),
             rr_consistent = (db_set = storage_set)\<rparr>))))"

section \<open>Delivering webhooks\<close>

definition message_due :: "dt \<Rightarrow> outbox_message \<Rightarrow> bool" where
  "message_due now m \<longleftrightarrow> wm_status m = WebhookPending \<and> wm_next_attempt_at m \<le> now"

definition due_messages :: "dt \<Rightarrow> nat \<Rightarrow> db \<Rightarrow> outbox_message list" where
  "due_messages now batch_size d =
     take batch_size (sort_key wm_created_at (filter (message_due now) (outbox d)))"

text \<open>
  One message. \<open>post\<close> is the status the endpoint answers with, \<open>None\<close> an exception
  of the HTTP client. The pause before the next attempt is \<open>min(2 ** attempts, 3600)\<close>
  seconds.
\<close>

definition attempt_delivery ::
    "(outbox_message \<Rightarrow> int option) \<Rightarrow> nat \<Rightarrow> dt \<Rightarrow> outbox_message \<Rightarrow> error + outbox_message" where
  "attempt_delivery post max_attempts now m =
     (let m = m\<lparr>wm_attempts := wm_attempts m + 1\<rparr>
      in if (case post m of None \<Rightarrow> False | Some status \<Rightarrow> status < 300)
         then Inr (m\<lparr>wm_status := WebhookDelivered\<rparr>)
         else if max_attempts \<le> wm_attempts m then Inr (m\<lparr>wm_status := WebhookFailed\<rparr>)
         else (case add_seconds now (min (2 ^ wm_attempts m) 3600) of
                 None \<Rightarrow> Inl (Crash OverflowError)
               | Some t \<Rightarrow> Inr (m\<lparr>wm_next_attempt_at := t\<rparr>)))"

fun deliver_messages ::
    "(outbox_message \<Rightarrow> int option) \<Rightarrow> nat \<Rightarrow> dt \<Rightarrow> outbox_message list \<Rightarrow> ('s, nat) act" where
  "deliver_messages post max_attempts now [] = ret 0"
| "deliver_messages post max_attempts now (m # ms) =
     bnd (lift (attempt_delivery post max_attempts now m)) (\<lambda>r.
     seq (modify_db (\<lambda>d. d\<lparr>outbox := update_rows (\<lambda>x. wm_id x = wm_id m) (\<lambda>_. r) (outbox d)\<rparr>))
    (bnd (deliver_messages post max_attempts now ms) (\<lambda>n.
       ret (if wm_status r = WebhookDelivered then n + 1 else n))))"

definition deliver_due ::
    "(outbox_message \<Rightarrow> int option) \<Rightarrow> pystr option \<Rightarrow> nat \<Rightarrow> nat \<Rightarrow> dt \<Rightarrow> ('s, nat) act" where
  "deliver_due post webhook_url batch_size max_attempts now =
     (if \<not> present webhook_url then ret 0
      else bnd (get_db (due_messages now batch_size)) (deliver_messages post max_attempts now))"


section \<open>What expiry does\<close>

text \<open>
  A round expires as many overdue sessions as fit the batch, and leaves everything else as it
  was.
\<close>

lemma overdue_ids_length: "length (overdue_ids now b d) = min b (length (filter (overdue now) (uploads d)))"
  by (simp add: overdue_ids_def)

lemma overdue_ids_overdue:
  assumes "uploads_inv d" "u \<in> set (uploads d)" "us_id u \<in> set (overdue_ids now b d)"
  shows "overdue now u"
proof -
  obtain v where v: "v \<in> set (filter (overdue now) (uploads d))" "us_id v = us_id u"
    using assms(3) by (force simp: overdue_ids_def dest: in_set_takeD)
  then have "v = u" using session_unique[OF assms(1), of v u] assms(2) by simp
  then show ?thesis using v by simp
qed

lemma expire_upload_sessions_eval:
  "expire_upload_sessions now b w =
     (Inr (length (overdue_ids now b (w_db w))), snd (expire_upload_sessions now b w))"
  "w_db (snd (expire_upload_sessions now b w)) = expire_ids (overdue_ids now b (w_db w)) now (w_db w)"
  by (auto simp: expire_upload_sessions_def ret_def expire_ids_def update_rows_def)

lemma expire_ids_row:
  "uploads (expire_ids ids now d) =
     map (\<lambda>u. if us_id u \<in> set ids then u\<lparr>us_status := Expired, us_updated_at := now\<rparr> else u) (uploads d)"
  by (simp add: expire_ids_def update_rows_def)

lemma expire_ids_inv:
  assumes "uploads_inv d"
  shows "uploads_inv (expire_ids ids now d)"
proof -
  have "\<exists>v\<in>set (uploads (expire_ids ids now d)). part_fits p v" if "p \<in> set (parts d)" for p
  proof -
    obtain u where "u \<in> set (uploads d)" "part_fits p u" using assms \<open>p \<in> set (parts d)\<close> by (auto simp: uploads_inv_def)
    then show ?thesis
      by (intro bexI[of _ "if us_id u \<in> set ids then u\<lparr>us_status := Expired, us_updated_at := now\<rparr> else u"])
        (auto simp: expire_ids_row part_fits_def)
  qed
  then show ?thesis
    using assms
    by (auto simp: uploads_inv_def expire_ids_def map_key_update set_update_rows session_ok_def)
qed

section \<open>What a stored idempotency record does\<close>

lemma get_stored_record:
  assumes "store_record r d = Inr d'"
  shows "get_record (ir_tenant_id r) (ir_operation r) (ir_key r) d' = Inr (Some r)"
proof -
  have "filter (\<lambda>q. ir_slot q = ir_slot r) (idempotency d) = []"
    using assms by (auto simp: store_record_def filter_empty_conv image_iff split: if_splits)
  then show ?thesis
    using assms by (auto simp: store_record_def get_record_def ir_slot_def split: if_splits)
qed

section \<open>Reconciling a session on disk\<close>

lemma reconcile_on_disk:
  assumes at: "session_on_disk A i x b k N S m w" and ok: "adapter_ok A" "component x"
  shows "\<exists>r. reconcile_upload (local_storage A) x (Some (tenant_id i)) w = (Inr r, w)
    \<and> rr_consistent r \<and> rr_missing_in_db r = [] \<and> rr_missing_in_storage r = []"
proof -
  obtain u where u: "get_upload x (Some (tenant_id i)) (w_db w) = Some u" "us_storage_upload_id u = Some x"
    using at by (auto simp: session_on_disk_def)
  have x: "us_id u = x" using get_upload_SomeD[OF u(1)] by simp
  have "parts_dir_is A x m (w_store w)" using at by (simp add: session_on_disk_def)
  from local_list_parts_dir[OF this ok] obtain ps where
    ps: "local_list_parts A (us_bucket u) (us_object_key u) x (w_store w) = (Inr ps, w_store w)"
      "up_part_number ` set ps = dom m" by blast
  have "pa_part_number ` set (committed_parts x (w_db w)) = dom m" using at by (simp add: session_on_disk_def)
  then show ?thesis
    using u x ps ok(2)
    by (simp add: reconcile_upload_def bnd_def require_def ret_def get_db_def get_def on_store_def
        local_storage_def local_capabilities_def present_def component_def the_default_def Let_def)
qed

section \<open>Attempts to deliver\<close>

text \<open>
  The messages of the outbox, with at most \<open>k\<close> attempts each: a pending message has some
  left, a failed one has used them up.
\<close>

definition message_ok :: "nat \<Rightarrow> outbox_message \<Rightarrow> bool" where
  "message_ok k m \<longleftrightarrow>
     wm_attempts m \<le> k \<and> (wm_status m = WebhookPending \<longrightarrow> wm_attempts m < k)
     \<and> (wm_status m = WebhookFailed \<longrightarrow> wm_attempts m = k)"

definition outbox_inv :: "nat \<Rightarrow> db \<Rightarrow> bool" where
  "outbox_inv k d \<longleftrightarrow>
     map wm_id (outbox d) = [0..<length (outbox d)] \<and> (\<forall>m\<in>set (outbox d). message_ok k m)"

lemma attempt_delivery_Inr:
  assumes "attempt_delivery post k now m = Inr r" "wm_status m = WebhookPending" "wm_attempts m < k"
  shows "wm_id r = wm_id m \<and> wm_attempts r = wm_attempts m + 1 \<and> message_ok k r
    \<and> (wm_status r = WebhookPending \<longrightarrow>
        now \<le> wm_next_attempt_at r \<and> wm_next_attempt_at r \<le> now + 3600 * 1000000)"
  using assms(1,2,3)
  by (auto simp: attempt_delivery_def message_ok_def Let_def min_def add_seconds_def split: if_splits option.splits)

lemma deliver_messages_Inr:
  assumes "deliver_messages post k now ms w = (Inr n, w')"
    and "distinct (map wm_id (outbox (w_db w)))" "distinct (map wm_id ms)" "set ms \<subseteq> set (outbox (w_db w))"
    and "\<forall>m\<in>set ms. wm_status m = WebhookPending \<and> wm_attempts m < k"
  shows "outbox (w_db w') = map (\<lambda>x. if wm_id x \<in> wm_id ` set ms then projr (attempt_delivery post k now x) else x)
      (outbox (w_db w))
    \<and> (\<forall>m\<in>set ms. \<exists>r. attempt_delivery post k now m = Inr r)"
  using assms
proof (induction ms arbitrary: w n)
  case Nil
  then show ?case by (simp add: ret_def)
next
  case (Cons m ms)
  let ?o = "outbox (w_db w)"
  obtain r n' where r: "attempt_delivery post k now m = Inr r"
    and rest: "deliver_messages post k now ms
      (w\<lparr>w_db := (w_db w)\<lparr>outbox := update_rows (\<lambda>x. wm_id x = wm_id m) (\<lambda>_. r) ?o\<rparr>\<rparr>) = (Inr n', w')"
    using Cons.prems(1) by (auto simp: effs)
  have id: "wm_id r = wm_id m" using attempt_delivery_Inr[OF r] Cons.prems(5) by simp
  let ?o1 = "update_rows (\<lambda>x. wm_id x = wm_id m) (\<lambda>_. r) ?o"
  have m: "m \<in> set ?o" "wm_id m \<notin> wm_id ` set ms" using Cons.prems(3,4) by auto
  have same: "x = m" if "x \<in> set ?o" "wm_id x = wm_id m" for x
    using Cons.prems(2) m(1) that by (auto simp: distinct_map inj_on_def)
  have keys: "map wm_id ?o1 = map wm_id ?o" by (simp add: update_rows_def id)
  have "set ms \<subseteq> set ?o1" using Cons.prems(4) m(2) by (auto simp: set_update_rows intro!: rev_image_eqI)
  with Cons.IH[OF rest] Cons.prems(2,3,5) keys
  have ih: "outbox (w_db w') = map (\<lambda>x. if wm_id x \<in> wm_id ` set ms then projr (attempt_delivery post k now x) else x) ?o1"
    "\<forall>m\<in>set ms. \<exists>r. attempt_delivery post k now m = Inr r" by auto
  have "outbox (w_db w') = map (\<lambda>x. if wm_id x \<in> wm_id ` set (m # ms) then projr (attempt_delivery post k now x) else x) ?o"
    unfolding ih(1) update_rows_def map_map
  proof (rule map_cong[OF refl])
    fix x assume "x \<in> set ?o"
    then show "((\<lambda>x. if wm_id x \<in> wm_id ` set ms then projr (attempt_delivery post k now x) else x) \<circ>
        (\<lambda>x. if wm_id x = wm_id m then r else x)) x
      = (if wm_id x \<in> wm_id ` set (m # ms) then projr (attempt_delivery post k now x) else x)"
      using same[of x] r m(2) id by auto
  qed
  then show ?case using ih(2) r by simp
qed

lemma due_messages_in:
  "m \<in> set (due_messages now b d) \<Longrightarrow> m \<in> set (outbox d) \<and> message_due now m"
  by (auto simp: due_messages_def dest: in_set_takeD)

lemma distinct_due_messages:
  assumes "distinct (map wm_id (outbox d))"
  shows "distinct (map wm_id (due_messages now b d))"
proof -
  have "distinct (map wm_id (filter (message_due now) (outbox d)))" using assms by (rule distinct_map_filter)
  then have "distinct (map wm_id (sort_key wm_created_at (filter (message_due now) (outbox d))))"
    by (simp add: distinct_map)
  then show ?thesis unfolding due_messages_def by (metis distinct_take take_map)
qed

text \<open>One delivery run, over the whole outbox.\<close>

lemma deliver_due_Inr:
  assumes inv: "outbox_inv k (w_db w)" and run: "deliver_due post url b k now w = (Inr n, w')"
    and url: "present url"
  shows "outbox (w_db w') = map (\<lambda>x. if x \<in> set (due_messages now b (w_db w))
        then projr (attempt_delivery post k now x) else x) (outbox (w_db w))
    \<and> (\<forall>m\<in>set (due_messages now b (w_db w)). \<exists>r. attempt_delivery post k now m = Inr r)"
proof -
  let ?ms = "due_messages now b (w_db w)" and ?o = "outbox (w_db w)"
  have ids: "distinct (map wm_id ?o)" using inv by (simp add: outbox_inv_def)
  have due: "\<forall>m\<in>set ?ms. wm_status m = WebhookPending \<and> wm_attempts m < k"
    using inv by (auto simp: outbox_inv_def message_ok_def message_due_def dest!: due_messages_in)
  have "deliver_messages post k now ?ms w = (Inr n, w')"
    using run url by (simp add: deliver_due_def)
  from deliver_messages_Inr[OF this ids distinct_due_messages[OF ids] _ due]
  have out: "outbox (w_db w') = map (\<lambda>x. if wm_id x \<in> wm_id ` set ?ms
        then projr (attempt_delivery post k now x) else x) ?o"
    and all: "\<forall>m\<in>set ?ms. \<exists>r. attempt_delivery post k now m = Inr r"
    using due_messages_in by blast+
  have "wm_id x \<in> wm_id ` set ?ms \<longleftrightarrow> x \<in> set ?ms" if "x \<in> set ?o" for x
  proof
    assume "wm_id x \<in> wm_id ` set ?ms"
    then obtain y where y: "y \<in> set ?ms" "wm_id x = wm_id y" by blast
    have "x = y" using ids that y(2) due_messages_in[OF y(1)] by (metis distinct_map inj_onD)
    then show "x \<in> set ?ms" using y(1) by simp
  qed simp
  then have "map (\<lambda>x. if wm_id x \<in> wm_id ` set ?ms then projr (attempt_delivery post k now x) else x) ?o
      = map (\<lambda>x. if x \<in> set ?ms then projr (attempt_delivery post k now x) else x) ?o"
    by (intro map_cong) simp_all
  then show ?thesis using trans[OF out] all by blast
qed

lemma deliver_due_inv:
  assumes inv: "outbox_inv k (w_db w)" and run: "deliver_due post url b k now w = (Inr n, w')"
  shows "outbox_inv k (w_db w')"
proof (cases "present url")
  case False
  then show ?thesis using inv run by (simp add: deliver_due_def ret_def)
next
  case True
  note out = deliver_due_Inr[OF inv run True]
  have ok: "wm_id (projr (attempt_delivery post k now x)) = wm_id x \<and> message_ok k (projr (attempt_delivery post k now x))"
    if x: "x \<in> set (due_messages now b (w_db w))" for x
  proof -
    obtain r where r: "attempt_delivery post k now x = Inr r" using out x by blast
    have "wm_status x = WebhookPending" "wm_attempts x < k"
      using due_messages_in[OF x] inv by (auto simp: outbox_inv_def message_ok_def message_due_def)
    from attempt_delivery_Inr[OF r this] r show ?thesis by simp
  qed
  have ids: "map wm_id (outbox (w_db w')) = map wm_id (outbox (w_db w))" using out ok by simp
  have "\<forall>m\<in>set (outbox (w_db w')). message_ok k m" using inv out ok by (auto simp: outbox_inv_def)
  then show ?thesis
    using inv ids map_eq_imp_length_eq[OF ids] unfolding outbox_inv_def by metis
qed

lemma enqueue_inv:
  assumes "outbox_inv k (w_db w)" "0 < k" "enqueue t e p now w = (Inr (), w')"
  shows "outbox_inv k (w_db w')"
  using assms by (auto simp: outbox_inv_def enqueue_def modify_db_Inr message_ok_def)


section \<open>Every message is settled in the end\<close>

text \<open>Runs at the times \<open>ts\<close>.\<close>

fun deliver_rounds ::
    "(outbox_message \<Rightarrow> int option) \<Rightarrow> pystr option \<Rightarrow> nat \<Rightarrow> nat \<Rightarrow> dt list \<Rightarrow> ('s, unit) act" where
  "deliver_rounds post url b k [] = ret ()"
| "deliver_rounds post url b k (t # ts) =
     bnd (deliver_due post url b k t) (\<lambda>_. deliver_rounds post url b k ts)"

text \<open>An hour lies between two runs, and the calendar does not end.\<close>

abbreviation hour :: int where
  "hour \<equiv> 3600 * 1000000"

definition hourly :: "dt list \<Rightarrow> bool" where
  "hourly ts \<longleftrightarrow> successively (\<lambda>s t. s + hour \<le> t) ts \<and> (\<forall>t\<in>set ts. 0 \<le> t \<and> t + hour \<le> max_dt)"

lemma attempt_delivery_returns:
  assumes "0 \<le> now" "now + hour \<le> max_dt"
  shows "\<exists>r. attempt_delivery post k now m = Inr r"
proof -
  have "0 \<le> min (2 ^ (wm_attempts m + 1)) (3600 :: int)" "min (2 ^ (wm_attempts m + 1)) (3600 :: int) \<le> 3600"
    by simp_all
  then show ?thesis
    using assms by (auto simp: attempt_delivery_def add_seconds_def Let_def split: option.splits)
qed

lemma deliver_messages_returns:
  assumes "0 \<le> now" "now + hour \<le> max_dt"
  shows "\<exists>n w'. deliver_messages post k now ms w = (Inr n, w')"
proof (induction ms arbitrary: w)
  case (Cons m ms)
  obtain r where r: "attempt_delivery post k now m = Inr r" using attempt_delivery_returns[OF assms] by blast
  from Cons[of "w\<lparr>w_db := (w_db w)\<lparr>outbox := update_rows (\<lambda>x. wm_id x = wm_id m) (\<lambda>_. r) (outbox (w_db w))\<rparr>\<rparr>"]
  obtain n w' where "deliver_messages post k now ms
      (w\<lparr>w_db := (w_db w)\<lparr>outbox := update_rows (\<lambda>x. wm_id x = wm_id m) (\<lambda>_. r) (outbox (w_db w))\<rparr>\<rparr>) = (Inr n, w')"
    by blast
  then show ?case using r by (auto simp: effs)
qed (simp add: ret_def)

text \<open>What is known of the pending messages before the run at \<open>t\<close>, after \<open>j\<close> runs.\<close>

definition pending_by :: "nat \<Rightarrow> dt \<Rightarrow> db \<Rightarrow> bool" where
  "pending_by j t d \<longleftrightarrow>
     (\<forall>m\<in>set (outbox d). wm_status m = WebhookPending \<longrightarrow> j \<le> wm_attempts m \<and> wm_next_attempt_at m \<le> t)"

lemma deliver_due_step:
  assumes inv: "outbox_inv k (w_db w)" and url: "present url" and room: "length (outbox (w_db w)) \<le> b"
    and t: "0 \<le> t" "t + hour \<le> max_dt" and pend: "pending_by j t (w_db w)"
  shows "\<exists>n w'. deliver_due post url b k t w = (Inr n, w') \<and> outbox_inv k (w_db w')
    \<and> length (outbox (w_db w')) = length (outbox (w_db w)) \<and> pending_by (j + 1) (t + hour) (w_db w')"
proof -
  obtain n w' where run: "deliver_due post url b k t w = (Inr n, w')"
    using deliver_messages_returns[OF t, of post k "due_messages t b (w_db w)" w] url
    by (auto simp: deliver_due_def)
  note out = deliver_due_Inr[OF inv run url]
  have all: "x \<in> set (due_messages t b (w_db w))" if "x \<in> set (outbox (w_db w))" "wm_status x = WebhookPending" for x
  proof -
    have "length (filter (message_due t) (outbox (w_db w))) \<le> b"
      using room length_filter_le[of "message_due t" "outbox (w_db w)"] by linarith
    then show ?thesis using that pend by (auto simp: due_messages_def message_due_def pending_by_def)
  qed
  have "j + 1 \<le> wm_attempts y \<and> wm_next_attempt_at y \<le> t + hour"
    if y: "y \<in> set (outbox (w_db w'))" "wm_status y = WebhookPending" for y
  proof -
    obtain x where x: "x \<in> set (outbox (w_db w))" and
      yx: "y = (if x \<in> set (due_messages t b (w_db w)) then projr (attempt_delivery post k t x) else x)"
      using out y(1) by auto
    show ?thesis
    proof (cases "x \<in> set (due_messages t b (w_db w))")
      case True
      then obtain r where r: "attempt_delivery post k t x = Inr r" using out by blast
      have st: "wm_status x = WebhookPending" "wm_attempts x < k"
        using due_messages_in[OF True] inv by (auto simp: outbox_inv_def message_ok_def message_due_def)
      from attempt_delivery_Inr[OF r this] show ?thesis
        using yx True r y(2) pend x st(1) by (auto simp: pending_by_def)
    next
      case False
      then show ?thesis using all[OF x] yx y(2) by simp
    qed
  qed
  then show ?thesis
    using run deliver_due_inv[OF inv run] out by (auto simp: pending_by_def)
qed

lemma deliver_rounds_settle:
  assumes "outbox_inv k (w_db w)" and url: "present url" and "length (outbox (w_db w)) \<le> b"
    and "hourly ts" "ts \<noteq> [] \<longrightarrow> pending_by j (hd ts) (w_db w)" "k \<le> j + length ts" "0 < k"
    and "ts = [] \<longrightarrow> pending_by j t0 (w_db w)"
  shows "\<exists>w'. deliver_rounds post url b k ts w = (Inr (), w')
    \<and> (\<forall>m\<in>set (outbox (w_db w')). wm_status m \<noteq> WebhookPending)"
  using assms(1,3-8)
proof (induction ts arbitrary: w j t0)
  case Nil
  then show ?case by (fastforce simp: ret_def pending_by_def outbox_inv_def message_ok_def)
next
  case (Cons t ts)
  have t: "0 \<le> t" "t + hour \<le> max_dt" and pend: "pending_by j t (w_db w)"
    using Cons.prems(3,4) by (auto simp: hourly_def)
  from deliver_due_step[OF Cons.prems(1) url Cons.prems(2) t pend, of post]
  obtain n w1 where w1: "deliver_due post url b k t w = (Inr n, w1)" "outbox_inv k (w_db w1)"
    "length (outbox (w_db w1)) = length (outbox (w_db w))" "pending_by (j + 1) (t + hour) (w_db w1)"
    by blast
  have "hourly ts" using Cons.prems(3) by (auto simp: hourly_def successively_Cons)
  moreover have "ts \<noteq> [] \<longrightarrow> pending_by (j + 1) (hd ts) (w_db w1)"
    using Cons.prems(3) w1(4) by (cases ts) (fastforce simp: hourly_def pending_by_def)+
  moreover have "length (outbox (w_db w1)) \<le> b" "k \<le> j + 1 + length ts" using w1(3) Cons.prems(2,5) by simp_all
  ultimately obtain w' where "deliver_rounds post url b k ts w1 = (Inr (), w')"
    "\<forall>m\<in>set (outbox (w_db w')). wm_status m \<noteq> WebhookPending"
    using Cons.IH[OF w1(2), of "j + 1" "t + hour"] w1(4) Cons.prems(6) by blast
  then show ?case using w1(1) by (auto simp: bnd_def)
qed

end
