(* ===== verification/Auth.thy ===== *)
theory Auth
  imports Service
begin

text \<open>
  API keys: \<open>src/app/core/auth.py\<close>, and the identity of a request as
  \<open>get_identity\<close> of \<open>src/app/api/dependencies.py\<close> and \<open>client_config\<close> of
  \<open>src/app/api/v1/client_config.py\<close> find it. The table of keys is a map; keys that are
  no texts are left out, as only texts are looked up.
\<close>

section \<open>Loading the keys\<close>

text \<open>\<open>scope.partition("/")\<close>; a missing principal is \<open>default\<close>.\<close>

definition identity_of_scope :: "pystr \<Rightarrow> identity" where
  "identity_of_scope scope =
     (let principal = tl (dropWhile (\<lambda>c. c \<noteq> slash) scope)
      in \<lparr>tenant_id = takeWhile (\<lambda>c. c \<noteq> slash) scope,
          principal_id = (if principal = [] then lit ''default'' else principal)\<rparr>)"

text \<open>\<open>for key in keys\<close>; a list or an object cannot be a key of a dictionary.\<close>

fun add_keys :: "identity \<Rightarrow> json list \<Rightarrow> (pystr \<rightharpoonup> identity) \<Rightarrow> error + (pystr \<rightharpoonup> identity)" where
  "add_keys i [] table = Inr table"
| "add_keys i (JStr k # ks) table = add_keys i ks (table(k \<mapsto> i))"
| "add_keys i (JList _ # ks) table = Inl (Crash TypeError)"
| "add_keys i (JObj _ # ks) table = Inl (Crash TypeError)"
| "add_keys i (_ # ks) table = add_keys i ks table"

text \<open>What \<open>keys\<close> iterates over: one text is one key, an object yields its keys.\<close>

definition scope_keys :: "json \<Rightarrow> error + json list" where
  "scope_keys v =
     (case v of
        JStr s \<Rightarrow> Inr [JStr s]
      | JList xs \<Rightarrow> Inr xs
      | JObj d \<Rightarrow> Inr (map (JStr \<circ> fst) d)
      | _ \<Rightarrow> Inl (Crash TypeError))"

fun load_scopes :: "jobject \<Rightarrow> (pystr \<rightharpoonup> identity) \<Rightarrow> error + (pystr \<rightharpoonup> identity)" where
  "load_scopes [] table = Inr table"
| "load_scopes ((scope, v) # rest) table =
     rbind (scope_keys v) (\<lambda>ks.
     rbind (add_keys (identity_of_scope scope) ks table) (load_scopes rest))"

definition default_identity :: identity where
  "default_identity = \<lparr>tenant_id = lit ''default'', principal_id = lit ''default''\<rparr>"

text \<open>\<open>_load\<close>; \<open>loads\<close> is \<open>json.loads\<close>.\<close>

definition load_keys :: "(pystr \<Rightarrow> json option) \<Rightarrow> pystr \<Rightarrow> error + (pystr \<rightharpoonup> identity)" where
  "load_keys loads raw =
     (case loads raw of
        None \<Rightarrow> Inl (Crash ValueError)
      | Some (JObj d) \<Rightarrow> load_scopes d Map.empty
      | Some (JList ks) \<Rightarrow> add_keys default_identity ks Map.empty
      | Some _ \<Rightarrow> Inr Map.empty)"

text \<open>The constructor; \<open>raw\<close> is the environment variable.\<close>

definition build_authenticator ::
    "(pystr \<Rightarrow> json option) \<Rightarrow> pystr option \<Rightarrow> error + (pystr \<rightharpoonup> identity)" where
  "build_authenticator loads raw =
     (if present raw then load_keys loads (the_default [] raw) else Inr Map.empty)"

section \<open>Authenticating\<close>

definition authenticate :: "(pystr \<rightharpoonup> identity) \<Rightarrow> pystr option \<Rightarrow> error + identity" where
  "authenticate table api_key =
     (if \<not> present api_key then Inl AuthenticationError
      else (case table (the_default [] api_key) of
              None \<Rightarrow> Inl AuthenticationError
            | Some i \<Rightarrow> Inr i))"

text \<open>\<open>header\<close> is the value of the header the settings name.\<close>

definition get_identity ::
    "settings \<Rightarrow> (pystr \<rightharpoonup> identity) \<Rightarrow> pystr option \<Rightarrow> pystr option \<Rightarrow> error + identity" where
  "get_identity c table x_api_key header =
     (if cf_auth_none c
      then Inr \<lparr>tenant_id = lit ''default'', principal_id = lit ''anonymous''\<rparr>
      else authenticate table (if present x_api_key then x_api_key else header))"

text \<open>The client configuration is public: an unknown key reads as the default tenant.\<close>

definition config_tenant :: "settings \<Rightarrow> (pystr \<rightharpoonup> identity) \<Rightarrow> pystr option \<Rightarrow> pystr" where
  "config_tenant c table x_api_key =
     (if cf_auth_none c \<or> \<not> present x_api_key then lit ''default''
      else case authenticate table x_api_key of Inl _ \<Rightarrow> lit ''default'' | Inr i \<Rightarrow> tenant_id i)"

section \<open>Which key opens which tenant\<close>

lemma add_keys_Inr:
  "add_keys i ks table = Inr t \<Longrightarrow> t k = (if JStr k \<in> set ks then Some i else table k)"
  by (induction i ks table rule: add_keys.induct) auto

text \<open>The keys a scope lists.\<close>

definition lists_key :: "pystr \<Rightarrow> pystr \<times> json \<Rightarrow> bool" where
  "lists_key k sv = (case scope_keys (snd sv) of Inl _ \<Rightarrow> False | Inr ks \<Rightarrow> JStr k \<in> set ks)"

lemma load_scopes_Inr:
  assumes "load_scopes d table = Inr t"
  shows "t k = (case find (lists_key k) (rev d) of
      None \<Rightarrow> table k | Some (scope, v) \<Rightarrow> Some (identity_of_scope scope))"
  using assms
proof (induction d arbitrary: table)
  case (Cons e d)
  obtain scope v where e: "e = (scope, v)" by fastforce
  obtain ks t1 where ks: "scope_keys v = Inr ks" "add_keys (identity_of_scope scope) ks table = Inr t1"
    and rest: "load_scopes d t1 = Inr t"
    using Cons.prems e by (auto simp: rbind_Inr_iff)
  have "t1 k = (if lists_key k e then Some (identity_of_scope scope) else table k)"
    using add_keys_Inr[OF ks(2)] ks(1) e by (simp add: lists_key_def)
  then show ?case using Cons.IH[OF rest] e by (auto simp: find_snoc split: option.splits)
qed simp

text \<open>
  A key is accepted exactly when a scope lists it, and then opens the last such scope; nobody
  is let in without a key.
\<close>

lemma authenticate_scope:
  assumes "loads raw = Some (JObj d)" "load_keys loads raw = Inr table"
  shows "authenticate table (Some k) = Inr i \<longleftrightarrow>
    k \<noteq> [] \<and> (\<exists>scope v. find (lists_key k) (rev d) = Some (scope, v) \<and> i = identity_of_scope scope)"
  using load_scopes_Inr[of d Map.empty table k] assms
  by (auto simp: load_keys_def authenticate_def present_def the_default_def split: option.splits)

lemma authenticate_needs_key: "authenticate table None = Inl AuthenticationError"
  "authenticate table (Some []) = Inl AuthenticationError"
  by (simp_all add: authenticate_def present_def)

end
