(* ===== verification/S3Storage.thy ===== *)
theory S3Storage
  imports Storage Ranges
begin

text \<open>
  The S3 adapter of \<open>src/app/storage/s3.py\<close>. The two boto3 clients are a record of calls
  on a store of any type; what Amazon documents of them is the predicate \<open>s3_documented\<close>.
  Under it the adapter honours the contract \<open>object_storage\<close> the services rely on.
\<close>

section \<open>The calls of boto3\<close>

text \<open>\<open>ClientError\<close> carries the code of its response.\<close>

datatype boto_error = ClientError pystr | BotoCoreError | BotoOSError

record get_response =
  gr_content_range :: "pystr option"
  gr_content_length :: "int option"
  gr_content_type :: "pystr option"
  gr_etag :: "pystr option"
  gr_body :: "error + bytes"

record part_row =
  pr_number :: int
  pr_etag :: "pystr option"
  pr_size :: "int option"

record parts_page =
  pg_parts :: "part_row list"
  pg_truncated :: bool
  pg_next_marker :: "int option"

datatype presigned_call =
  PresignedPut "pystr option"
| PresignedGet
| PresignedPart pystr int

record 's boto =
  bt_put_object :: "pystr \<Rightarrow> pystr \<Rightarrow> bytes \<Rightarrow> pystr \<Rightarrow> ('s, boto_error, pystr option) eff"
  bt_get_object :: "pystr \<Rightarrow> pystr \<Rightarrow> pystr option \<Rightarrow> ('s, boto_error, get_response) eff"
  bt_delete_object :: "pystr \<Rightarrow> pystr \<Rightarrow> ('s, boto_error, unit) eff"
  bt_head_object :: "pystr \<Rightarrow> pystr \<Rightarrow> ('s, boto_error, unit) eff"
  bt_create_bucket :: "pystr \<Rightarrow> ('s, boto_error, unit) eff"
  bt_head_bucket :: "pystr \<Rightarrow> ('s, boto_error, unit) eff"
  bt_delete_bucket :: "pystr \<Rightarrow> ('s, boto_error, unit) eff"
  bt_create_multipart_upload :: "pystr \<Rightarrow> pystr \<Rightarrow> pystr \<Rightarrow> ('s, boto_error, pystr) eff"
  bt_upload_part :: "pystr \<Rightarrow> pystr \<Rightarrow> pystr \<Rightarrow> int \<Rightarrow> bytes \<Rightarrow> ('s, boto_error, pystr option) eff"
  bt_list_parts :: "pystr \<Rightarrow> pystr \<Rightarrow> pystr \<Rightarrow> int \<Rightarrow> ('s, boto_error, parts_page) eff"
  bt_complete_multipart_upload ::
    "pystr \<Rightarrow> pystr \<Rightarrow> pystr \<Rightarrow> (int \<times> pystr) list \<Rightarrow> ('s, boto_error, pystr option) eff"
  bt_abort_multipart_upload :: "pystr \<Rightarrow> pystr \<Rightarrow> pystr \<Rightarrow> ('s, boto_error, unit) eff"
  bt_generate_presigned_url :: "presigned_call \<Rightarrow> pystr \<Rightarrow> pystr \<Rightarrow> int \<Rightarrow> ('s, boto_error, pystr) eff"

section \<open>Errors and tags\<close>

definition etag_of :: "pystr option \<Rightarrow> pystr option" where
  "etag_of tag = (if \<not> present tag then None else map_option (strip_by (\<lambda>c. c = 34)) tag)"

definition s3_error :: "boto_error \<Rightarrow> error" where
  "s3_error e =
     (case e of
        ClientError c \<Rightarrow>
          (if c \<in> {lit ''NoSuchKey'', lit ''404''} then ApiErr ''FILE_NOT_FOUND'' 404
           else if c = lit ''NoSuchUpload'' then ApiErr ''UPLOAD_NOT_FOUND'' 404
           else StorageUnavailableError)
      | _ \<Rightarrow> StorageUnavailableError)"

text \<open>
  \<open>except (BotoCoreError, ClientError) as exc: self._raise(exc)\<close>: an error of the
  operating system passes through.
\<close>

definition uncaught :: "boto_error \<Rightarrow> error" where
  "uncaught e = (if e = BotoOSError then Crash OSError else s3_error e)"

definition with_errors :: "(boto_error \<Rightarrow> error) \<Rightarrow> ('s, boto_error, 'a) eff \<Rightarrow> ('s, error, 'a) eff" where
  "with_errors f m = (\<lambda>s. case m s of (Inl e, s') \<Rightarrow> (Inl (f e), s') | (Inr a, s') \<Rightarrow> (Inr a, s'))"

abbreviation s3_call :: "('s, boto_error, 'a) eff \<Rightarrow> ('s, error, 'a) eff" where
  "s3_call \<equiv> with_errors uncaught"

text \<open>A call whose codes \<open>cs\<close> mean that something is not there.\<close>

definition s3_probe :: "pystr list \<Rightarrow> ('s, boto_error, unit) eff \<Rightarrow> ('s, error, bool) eff" where
  "s3_probe cs m =
     (\<lambda>s. case m s of
        (Inr _, s') \<Rightarrow> (Inr True, s')
      | (Inl (ClientError c), s') \<Rightarrow>
          (if c \<in> set cs then Inr False else Inl (s3_error (ClientError c)), s')
      | (Inl e, s') \<Rightarrow> (Inl (uncaught e), s'))"

section \<open>Buckets\<close>

definition s3_create_bucket :: "'s boto \<Rightarrow> pystr \<Rightarrow> ('s, error, unit) eff" where
  "s3_create_bucket B bucket =
     with_errors (\<lambda>e. if e \<in> {ClientError (lit ''BucketAlreadyExists''), ClientError (lit ''BucketAlreadyOwnedByYou'')}
                      then ApiErr ''BUCKET_ALREADY_EXISTS'' 409 else uncaught e)
       (bt_create_bucket B bucket)"

definition s3_bucket_exists :: "'s boto \<Rightarrow> pystr \<Rightarrow> ('s, error, bool) eff" where
  "s3_bucket_exists B bucket =
     s3_probe [lit ''404'', lit ''NotFound'', lit ''NoSuchBucket''] (bt_head_bucket B bucket)"

definition s3_delete_bucket :: "'s boto \<Rightarrow> pystr \<Rightarrow> ('s, error, unit) eff" where
  "s3_delete_bucket B bucket =
     (\<lambda>s. case bt_delete_bucket B bucket s of
        (Inr _, s') \<Rightarrow> (Inr (), s')
      | (Inl e, s') \<Rightarrow>
          (if e = ClientError (lit ''BucketNotEmpty'') then Inl (ApiErr ''BUCKET_NOT_EMPTY'' 409)
           else if e \<in> {ClientError (lit ''404''), ClientError (lit ''NotFound''), ClientError (lit ''NoSuchBucket'')}
           then Inr () else Inl (uncaught e), s'))"

section \<open>Objects\<close>

text \<open>The digest is taken before, and compared after the object has been stored.\<close>

definition s3_put_object ::
    "'s boto \<Rightarrow> (bytes \<Rightarrow> pystr) \<Rightarrow> pystr \<Rightarrow> pystr \<Rightarrow> bytes \<Rightarrow> pystr option \<Rightarrow> int option \<Rightarrow> pystr option
     \<Rightarrow> ('s, error, stored_object) eff" where
  "s3_put_object B sha256 bucket object_key data content_type size_bytes checksum_sha256 =
     bnd (with_errors s3_error (bt_put_object B bucket object_key data
            (if present content_type then the content_type else lit ''application/octet-stream''))) (\<lambda>tag.
     seq (guard (case checksum_sha256 of None \<Rightarrow> True | Some c \<Rightarrow> c = sha256 data) ChecksumMismatchError)
         (ret \<lparr>so_bucket = bucket, so_object_key = object_key, so_size_bytes = the_default 0 size_bytes,
               so_etag = etag_of tag, so_content_type = content_type\<rparr>))"

definition s3_range :: "nat \<Rightarrow> int option \<Rightarrow> pystr option" where
  "s3_range offset len =
     (if offset \<noteq> 0 \<or> len \<noteq> None
      then Some (lit ''bytes='' @ py_str_int (int offset) @ lit ''-''
                 @ (case len of None \<Rightarrow> [] | Some l \<Rightarrow> py_str_int (int offset + l - 1)))
      else None)"

definition response_size :: "get_response \<Rightarrow> error + int" where
  "response_size r =
     (if present (gr_content_range r)
      then map_sum Crash id (total_after_slash (the (gr_content_range r)))
      else Inr (the_default 0 (gr_content_length r)))"

definition s3_get_object ::
    "'s boto \<Rightarrow> pystr \<Rightarrow> pystr \<Rightarrow> nat \<Rightarrow> int option \<Rightarrow> ('s, error, object_stream) eff" where
  "s3_get_object B bucket object_key offset len =
     bnd (s3_call (bt_get_object B bucket object_key (s3_range offset len))) (\<lambda>r.
     bnd (lift (response_size r)) (\<lambda>n.
       ret \<lparr>os_size_bytes = n, os_content_type = gr_content_type r, os_etag = etag_of (gr_etag r),
            os_chunks = gr_body r\<rparr>))"

definition s3_object_exists :: "'s boto \<Rightarrow> pystr \<Rightarrow> pystr \<Rightarrow> ('s, error, bool) eff" where
  "s3_object_exists B bucket object_key =
     s3_probe [lit ''404'', lit ''NoSuchKey'', lit ''NotFound''] (bt_head_object B bucket object_key)"

section \<open>Multipart uploads\<close>

definition s3_upload_part ::
    "'s boto \<Rightarrow> pystr \<Rightarrow> pystr \<Rightarrow> pystr \<Rightarrow> int \<Rightarrow> bytes \<Rightarrow> int \<Rightarrow> pystr option
     \<Rightarrow> ('s, error, uploaded_part) eff" where
  "s3_upload_part B bucket object_key upload_id part_number data size_bytes checksum_sha256 =
     bnd (s3_call (bt_upload_part B bucket object_key upload_id part_number data)) (\<lambda>tag.
       ret \<lparr>up_part_number = part_number, up_etag = the_default [] (etag_of tag),
            up_size_bytes = size_bytes, up_checksum_sha256 = checksum_sha256\<rparr>)"

definition listed_part :: "part_row \<Rightarrow> uploaded_part" where
  "listed_part r =
     \<lparr>up_part_number = pr_number r, up_etag = the_default [] (etag_of (pr_etag r)),
      up_size_bytes = the_default 0 (pr_size r), up_checksum_sha256 = None\<rparr>"

text \<open>
  \<open>while True\<close>: a service that announces pages for ever is never done, so a loop that
  does not return is \<open>None\<close>.
\<close>

partial_function (option) s3_list_from ::
    "'s boto \<Rightarrow> pystr \<Rightarrow> pystr \<Rightarrow> pystr \<Rightarrow> int \<Rightarrow> uploaded_part list \<Rightarrow> 's
     \<Rightarrow> ((error + uploaded_part list) \<times> 's) option" where
  "s3_list_from B bucket object_key upload_id marker found s =
     (case s3_call (bt_list_parts B bucket object_key upload_id marker) s of
        (Inl e, s') \<Rightarrow> Some (Inl e, s')
      | (Inr page, s') \<Rightarrow>
          (if pg_truncated page
           then s3_list_from B bucket object_key upload_id (the_default marker (pg_next_marker page))
                  (found @ map listed_part (pg_parts page)) s'
           else Some (Inr (found @ map listed_part (pg_parts page)), s')))"

text \<open>For a loop that does not return, the action has to give some answer; see \<open>s3_list_parts_all\<close>.\<close>

definition s3_list_parts :: "'s boto \<Rightarrow> pystr \<Rightarrow> pystr \<Rightarrow> pystr \<Rightarrow> ('s, error, uploaded_part list) eff" where
  "s3_list_parts B bucket object_key upload_id s =
     (case s3_list_from B bucket object_key upload_id 0 [] s of
        None \<Rightarrow> (Inl (Crash TimeoutError), s) | Some r \<Rightarrow> r)"

definition part_payload :: "uploaded_part list \<Rightarrow> (int \<times> pystr) list" where
  "part_payload ps = map (\<lambda>p. (up_part_number p, 34 # up_etag p @ [34])) (sorted_parts ps)"

definition s3_complete_multipart_upload ::
    "'s boto \<Rightarrow> pystr \<Rightarrow> pystr \<Rightarrow> pystr \<Rightarrow> uploaded_part list \<Rightarrow> ('s, error, stored_object) eff" where
  "s3_complete_multipart_upload B bucket object_key upload_id ps =
     bnd (s3_call (bt_complete_multipart_upload B bucket object_key upload_id (part_payload ps))) (\<lambda>tag.
       ret \<lparr>so_bucket = bucket, so_object_key = object_key, so_size_bytes = 0,
            so_etag = etag_of tag, so_content_type = None\<rparr>)"

section \<open>The adapter\<close>

definition s3_capabilities :: storage_capabilities where
  "s3_capabilities =
     \<lparr>cap_multipart = True, cap_presigned_put = True, cap_presigned_get = True,
      cap_presigned_upload_part = True, cap_list_parts = True, cap_server_side_checksum = False,
      cap_archive = False, cap_transition = False, cap_restore = False\<rparr>"

text \<open>
  \<open>B\<close> is the client for the internal, \<open>P\<close> the one for the public endpoint. The
  metadata of a multipart upload is left out: nothing reads it.
\<close>

definition s3_storage :: "'s boto \<Rightarrow> 's boto \<Rightarrow> (bytes \<Rightarrow> pystr) \<Rightarrow> 's storage_adapter" where
  "s3_storage B P sha256 =
     \<lparr>st_capabilities = s3_capabilities,
      st_backend_name = lit ''s3'',
      st_is_local = False,
      st_create_bucket = s3_create_bucket B,
      st_bucket_exists = s3_bucket_exists B,
      st_delete_bucket = s3_delete_bucket B,
      st_put_object = s3_put_object B sha256,
      st_get_object = s3_get_object B,
      st_delete_object = (\<lambda>b k. s3_call (bt_delete_object B b k)),
      st_object_exists = s3_object_exists B,
      st_initiate_multipart_upload = (\<lambda>b k ct. s3_call (bt_create_multipart_upload B b k
        (if present ct then the ct else lit ''application/octet-stream''))),
      st_upload_part = s3_upload_part B,
      st_list_parts = s3_list_parts B,
      st_complete_multipart_upload = s3_complete_multipart_upload B,
      st_abort_multipart_upload = (\<lambda>b k u. s3_call (bt_abort_multipart_upload B b k u)),
      st_create_presigned_put_url =
        (\<lambda>b k secs. s3_call (bt_generate_presigned_url P (PresignedPut None) b k secs)),
      st_create_presigned_get_url =
        (\<lambda>b k secs. s3_call (bt_generate_presigned_url P PresignedGet b k secs)),
      st_create_presigned_upload_part_url =
        (\<lambda>b k u n secs. s3_call (bt_generate_presigned_url P (PresignedPart u n) b k secs))\<rparr>"

section \<open>What the service documents\<close>

text \<open>
  \<open>content\<close> is what a bucket holds under a key, \<open>staged\<close> the parts of an upload.
  A range inside the object is answered with its bytes and the size of the whole; an object has at most 5 TiB.
\<close>

definition s3_writes :: "'s boto \<Rightarrow> ('s \<Rightarrow> pystr \<Rightarrow> pystr \<Rightarrow> bytes option) \<Rightarrow> bool" where
  "s3_writes B content \<longleftrightarrow>
     (\<forall>s b k data ct s' e. bt_put_object B b k data ct s = (Inr e, s') \<longrightarrow> content s' b k = Some data)
   \<and> (\<forall>s b k data ct s' r b' k'. bt_put_object B b k data ct s = (r, s') \<longrightarrow> (b', k') \<noteq> (b, k) \<longrightarrow>
        content s' b' k' = content s b' k')
   \<and> (\<forall>s b k s'. bt_delete_object B b k s = (Inr (), s') \<longrightarrow> content s' b k = None)
   \<and> (\<forall>s b k s' r b' k'. bt_delete_object B b k s = (r, s') \<longrightarrow> (b', k') \<noteq> (b, k) \<longrightarrow>
        content s' b' k' = content s b' k')"

definition s3_reads :: "'s boto \<Rightarrow> ('s \<Rightarrow> pystr \<Rightarrow> pystr \<Rightarrow> bytes option) \<Rightarrow> bool" where
  "s3_reads B content \<longleftrightarrow>
     (\<forall>s b k data. content s b k = Some data \<longrightarrow>
        length data \<le> 5 * 2 ^ 40
        \<and> bt_head_object B b k s = (Inr (), s)
        \<and> (\<exists>r. bt_get_object B b k None s = (Inr r, s) \<and> gr_body r = Inr data
             \<and> gr_content_range r = None \<and> gr_content_length r = Some (int (length data)))
        \<and> (\<forall>a < length data.
             \<exists>r. bt_get_object B b k (Some (lit ''bytes='' @ nat_digits a @ lit ''-'')) s = (Inr r, s)
               \<and> gr_body r = Inr (drop a data)
               \<and> gr_content_range r = Some (content_range_text (int a) (int (length data) - 1) (int (length data))))
        \<and> (\<forall>a z. a \<le> z \<longrightarrow> z < length data \<longrightarrow>
             (\<exists>r. bt_get_object B b k (Some (lit ''bytes='' @ nat_digits a @ lit ''-'' @ nat_digits z)) s = (Inr r, s)
               \<and> gr_body r = Inr (take (z - a + 1) (drop a data))
               \<and> gr_content_range r = Some (content_range_text (int a) (int z) (int (length data))))))"

definition s3_uploads ::
    "'s boto \<Rightarrow> ('s \<Rightarrow> pystr \<Rightarrow> pystr \<Rightarrow> bytes option) \<Rightarrow> ('s \<Rightarrow> pystr \<Rightarrow> int \<Rightarrow> bytes option) \<Rightarrow> bool" where
  "s3_uploads B content staged \<longleftrightarrow>
     (\<forall>s b k u n data s' e. bt_upload_part B b k u n data s = (Inr e, s') \<longrightarrow> staged s' u n = Some data)
   \<and> (\<forall>s b k u n data s' r. bt_upload_part B b k u n data s = (r, s') \<longrightarrow>
        (\<forall>b' k'. content s' b' k' = content s b' k')
        \<and> (\<forall>u' n'. (u', n') \<noteq> (u, n) \<longrightarrow> staged s' u' n' = staged s u' n'))
   \<and> (\<forall>s b k u ps s' e. bt_complete_multipart_upload B b k u ps s = (Inr e, s') \<longrightarrow>
        (\<exists>bs. map (\<lambda>p. staged s u (fst p)) ps = map Some bs \<and> content s' b k = Some (concat bs)))
   \<and> (\<forall>s b k u ps s' r. bt_complete_multipart_upload B b k u ps s = (r, s') \<longrightarrow>
        (\<forall>b' k'. (b', k') \<noteq> (b, k) \<longrightarrow> content s' b' k' = content s b' k')
        \<and> (\<forall>u' n'. u' \<noteq> u \<longrightarrow> staged s' u' n' = staged s u' n'))
   \<and> (\<forall>s b k u s' r. bt_abort_multipart_upload B b k u s = (r, s') \<longrightarrow>
        (\<forall>b' k'. content s' b' k' = content s b' k')
        \<and> (\<forall>u' n'. u' \<noteq> u \<longrightarrow> staged s' u' n' = staged s u' n'))"

definition s3_documented ::
    "'s boto \<Rightarrow> ('s \<Rightarrow> pystr \<Rightarrow> pystr \<Rightarrow> bytes option) \<Rightarrow> ('s \<Rightarrow> pystr \<Rightarrow> int \<Rightarrow> bytes option) \<Rightarrow> bool" where
  "s3_documented B content staged \<longleftrightarrow> s3_writes B content \<and> s3_reads B content \<and> s3_uploads B content staged"

lemma s3_writesD:
  assumes "s3_documented B content staged"
  shows "bt_put_object B b k data ct s = (Inr e, s') \<Longrightarrow> content s' b k = Some data"
    and "bt_put_object B b k data ct s = (r, s') \<Longrightarrow> (b', k') \<noteq> (b, k) \<Longrightarrow> content s' b' k' = content s b' k'"
    and "bt_delete_object B b k s = (Inr (), s') \<Longrightarrow> content s' b k = None"
    and "bt_delete_object B b k s = (rd, s') \<Longrightarrow> (b', k') \<noteq> (b, k) \<Longrightarrow> content s' b' k' = content s b' k'"
proof -
qed (use assms[unfolded s3_documented_def s3_writes_def] in metis)+

lemma s3_readsD:
  assumes "s3_documented B content staged" "content s b k = Some data"
  shows "length data \<le> 5 * 2 ^ 40" and "bt_head_object B b k s = (Inr (), s)"
    and "\<exists>r. bt_get_object B b k None s = (Inr r, s) \<and> gr_body r = Inr data
      \<and> gr_content_range r = None \<and> gr_content_length r = Some (int (length data))"
    and "a < length data \<Longrightarrow>
      \<exists>r. bt_get_object B b k (Some (lit ''bytes='' @ nat_digits a @ lit ''-'')) s = (Inr r, s)
        \<and> gr_body r = Inr (drop a data)
        \<and> gr_content_range r = Some (content_range_text (int a) (int (length data) - 1) (int (length data)))"
    and "a \<le> z \<Longrightarrow> z < length data \<Longrightarrow>
      \<exists>r. bt_get_object B b k (Some (lit ''bytes='' @ nat_digits a @ lit ''-'' @ nat_digits z)) s = (Inr r, s)
        \<and> gr_body r = Inr (take (z - a + 1) (drop a data))
        \<and> gr_content_range r = Some (content_range_text (int a) (int z) (int (length data)))"
proof -
qed (use assms(1)[unfolded s3_documented_def s3_reads_def, THEN conjunct2, THEN conjunct1, rule_format, OF assms(2)]
      in blast)+

lemma s3_uploadsD:
  assumes "s3_documented B content staged"
  shows "bt_upload_part B b k u n data s = (Inr e, s') \<Longrightarrow> staged s' u n = Some data"
    and "bt_upload_part B b k u n data s = (rp, s') \<Longrightarrow> content s' b' k' = content s b' k'"
    and "bt_upload_part B b k u n data s = (rp, s') \<Longrightarrow> (u', n') \<noteq> (u, n) \<Longrightarrow> staged s' u' n' = staged s u' n'"
    and "bt_complete_multipart_upload B b k u ps s = (Inr e, s') \<Longrightarrow>
        \<exists>bs. map (\<lambda>p. staged s u (fst p)) ps = map Some bs \<and> content s' b k = Some (concat bs)"
    and "bt_complete_multipart_upload B b k u ps s = (rc, s') \<Longrightarrow> (b', k') \<noteq> (b, k) \<Longrightarrow>
        content s' b' k' = content s b' k'"
    and "bt_complete_multipart_upload B b k u ps s = (rc, s') \<Longrightarrow> u' \<noteq> u \<Longrightarrow> staged s' u' n' = staged s u' n'"
    and "bt_abort_multipart_upload B b k u s = (ra, s') \<Longrightarrow> content s' b' k' = content s b' k'"
    and "bt_abort_multipart_upload B b k u s = (ra, s') \<Longrightarrow> u' \<noteq> u \<Longrightarrow> staged s' u' n' = staged s u' n'"
proof -
qed (use assms[unfolded s3_documented_def s3_uploads_def] in metis)+

section \<open>The adapter honours the contract\<close>

lemma with_errors_Inr [simp]: "with_errors f m s = (Inr a, s') \<longleftrightarrow> m s = (Inr a, s')"
  by (auto simp: with_errors_def split: prod.splits sum.splits)

lemma with_errors_state: "with_errors f m s = (r, s') \<Longrightarrow> \<exists>q. m s = (q, s')"
  by (auto simp: with_errors_def split: prod.splits sum.splits)

text \<open>An action that first calls the service and then only computes leaves the state of the call.\<close>

lemma bnd_pure_state:
  assumes "bnd m f s = (r, s')" "\<And>a t. snd (f a t) = t"
  shows "\<exists>q. m s = (q, s')"
  using assms by (auto simp: bnd_def split: prod.splits sum.splits) (metis snd_conv)

lemma s3_put_state:
  assumes "s3_put_object B sha b k data ct n cs s = (r, s')"
  shows "\<exists>q ct'. bt_put_object B b k data ct' s = (q, s')"
proof -
  have "\<exists>q. with_errors s3_error (bt_put_object B b k data
      (if present ct then the ct else lit ''application/octet-stream'')) s = (q, s')"
    using assms unfolding s3_put_object_def
    by (rule bnd_pure_state) (simp add: ret_def raise_def)
  then show ?thesis using with_errors_state by meson
qed

lemma s3_part_state: "s3_upload_part B b k u n data sz cs s = (r, s') \<Longrightarrow> \<exists>q. bt_upload_part B b k u n data s = (q, s')"
  unfolding s3_upload_part_def by (drule bnd_pure_state) (auto simp: ret_def dest: with_errors_state)

lemma s3_complete_state:
  "s3_complete_multipart_upload B b k u ps s = (r, s') \<Longrightarrow>
   \<exists>q. bt_complete_multipart_upload B b k u (part_payload ps) s = (q, s')"
  unfolding s3_complete_multipart_upload_def by (drule bnd_pure_state) (auto simp: ret_def dest: with_errors_state)

lemma five_tebibytes: "n \<le> 5 * 2 ^ 40 \<Longrightarrow> n < (10 :: nat) ^ max_str_digits"
proof -
  assume "n \<le> 5 * 2 ^ 40"
  also have "(5::nat) * 2 ^ 40 < 10 ^ 41" by simp
  also have "(10::nat) ^ 41 \<le> 10 ^ max_str_digits" by (intro power_increasing) (simp_all add: max_str_digits_def)
  finally show ?thesis .
qed

lemma s3_get_content:
  assumes doc: "s3_documented B content staged" and data: "content s b k = Some data"
    and inside: "slice_inside off len (length data)"
  shows "\<exists>y. s3_get_object B b k off len s = (Inr y, s) \<and> os_chunks y = Inr (read_slice off len data)
    \<and> os_size_bytes y = int (length data)"
proof -
  have total: "total_after_slash (content_range_text x y (int (length data))) = Inr (int (length data))" for x y
    by (rule total_after_slash_text[OF five_tebibytes[OF s3_readsD(1)[OF doc data]]])
  have named: "present (Some (content_range_text x y n))" for x y n
    by (simp add: present_def content_range_text_def lit_def)
  have "\<exists>r. bt_get_object B b k (s3_range off len) s = (Inr r, s)
    \<and> gr_body r = Inr (read_slice off len data) \<and> response_size r = Inr (int (length data))"
  proof (cases "off = 0 \<and> len = None")
    case True
    with s3_readsD(3)[OF doc data] show ?thesis
      by (auto simp: s3_range_def read_slice_def response_size_def present_def the_default_def)
  next
    case False
    then have off: "off < length data" using inside by (auto simp: slice_inside_def)
    show ?thesis
    proof (cases len)
      case None
      then have range: "s3_range off len = Some (lit ''bytes='' @ nat_digits off @ lit ''-'')"
        using False by (simp add: s3_range_def py_str_int_def)
      from s3_readsD(4)[OF doc data off] obtain r where
        r: "bt_get_object B b k (s3_range off len) s = (Inr r, s)" "gr_body r = Inr (drop off data)"
          "gr_content_range r = Some (content_range_text (int off) (int (length data) - 1) (int (length data)))"
        unfolding range by blast
      have "response_size r = Inr (int (length data))"
        unfolding response_size_def r(3) option.sel total using named by simp
      then show ?thesis using r(1,2) None by (auto simp: read_slice_def)
    next
      case (Some l)
      then have l: "0 < l" "off + nat l \<le> length data" using inside False by (auto simp: slice_inside_def)
      let ?z = "off + nat l - 1"
      have last: "int off + l - 1 = int ?z" using l by simp
      have "py_str_int (int off + l - 1) = nat_digits ?z" unfolding last by (simp add: py_str_int_def)
      then have range: "s3_range off len = Some (lit ''bytes='' @ nat_digits off @ lit ''-'' @ nat_digits ?z)"
        using Some by (simp add: s3_range_def py_str_int_def)
      have "off \<le> ?z" "?z < length data" and len: "?z - off + 1 = nat l" using l by auto
      from s3_readsD(5)[OF doc data this(1,2)] obtain r where
        r: "bt_get_object B b k (s3_range off len) s = (Inr r, s)"
          "gr_body r = Inr (take (nat l) (drop off data))"
          "gr_content_range r = Some (content_range_text (int off) (int ?z) (int (length data)))"
        unfolding range len by blast
      have "response_size r = Inr (int (length data))"
        unfolding response_size_def r(3) option.sel total using named by simp
      then show ?thesis using r(1,2) Some by (auto simp: read_slice_def)
    qed
  qed
  then obtain r where "bt_get_object B b k (s3_range off len) s = (Inr r, s)"
    "gr_body r = Inr (read_slice off len data)" "response_size r = Inr (int (length data))" by blast
  then show ?thesis by (simp add: s3_get_object_def bnd_def with_errors_def lift_def ret_def)
qed

lemma s3_object_storage:
  assumes doc: "s3_documented B content staged"
  shows "object_storage (s3_storage B P sha) content staged (\<lambda>_ _. True) (\<lambda>_. True)"
proof (unfold_locales, goal_cases)
  case (1 b k data ct osz cs s x s')
  then show ?case using s3_writesD(1)[OF doc]
    by (auto simp: s3_storage_def s3_put_object_def seq_def bnd_Inr_iff guard_def ret_def raise_def split: if_splits)
next
  case (2 b k b' k' data ct osz cs s r s')
  then have "s3_put_object B sha b k data ct osz cs s = (r, s')" by (simp add: s3_storage_def)
  from s3_put_state[OF this] obtain q c where "bt_put_object B b k data c s = (q, s')" by blast
  from s3_writesD(2)[OF doc this 2(3)] show ?case .
next
  case (3 b k s data off len)
  then show ?case using s3_get_content[OF doc] by (simp add: s3_storage_def)
next
  case (4 b k s)
  then show ?case using s3_readsD(2)[OF doc]
    by (auto simp add: s3_storage_def s3_object_exists_def s3_probe_def)
next
  case (5 b k s s')
  then show ?case using s3_writesD(3)[OF doc] by (simp add: s3_storage_def)
next
  case (6 b k b' k' s rd s')
  then obtain q where "bt_delete_object B b k s = (q, s')" by (auto simp: s3_storage_def dest: with_errors_state)
  from s3_writesD(4)[OF doc this 6(3)] show ?case .
next
  case (7 b k u n data sz cs s p s')
  then show ?case using s3_uploadsD(1)[OF doc]
    by (auto simp: s3_storage_def s3_upload_part_def bnd_Inr_iff ret_def)
next
  case (8 b k u n data sz cs s rp s' b' k' u' n')
  then have "s3_upload_part B b k u n data sz cs s = (rp, s')" by (simp add: s3_storage_def)
  from s3_part_state[OF this] obtain q where "bt_upload_part B b k u n data s = (q, s')" by blast
  with s3_uploadsD(2,3)[OF doc this] show ?case by blast
next
  case (9 b k u ps s x s')
  then obtain e where "bt_complete_multipart_upload B b k u (part_payload ps) s = (Inr e, s')"
    by (auto simp: s3_storage_def s3_complete_multipart_upload_def bnd_Inr_iff ret_def)
  from s3_uploadsD(4)[OF doc this] show ?case by (simp add: part_payload_def comp_def)
next
  case (10 b k u ps s rc s' b' k' u' n')
  then have "s3_complete_multipart_upload B b k u ps s = (rc, s')" by (simp add: s3_storage_def)
  from s3_complete_state[OF this] obtain q where
    "bt_complete_multipart_upload B b k u (part_payload ps) s = (q, s')" by blast
  with s3_uploadsD(5,6)[OF doc this] show ?case by blast
next
  case (11 b k u s ra s' b' k' u' n')
  then obtain q where "bt_abort_multipart_upload B b k u s = (q, s')" by (auto simp: s3_storage_def dest: with_errors_state)
  with s3_uploadsD(7,8)[OF doc this] show ?case by blast
qed

section \<open>Listing the parts\<close>

text \<open>
  What the service documents of a listing: the parts after the marker in ascending order, and
  when it is cut short, at least one of them and the number of the last as the next marker.
\<close>

definition lists_parts :: "'s boto \<Rightarrow> pystr \<Rightarrow> pystr \<Rightarrow> pystr \<Rightarrow> int list \<Rightarrow> 's \<Rightarrow> bool" where
  "lists_parts B b k u ns s \<longleftrightarrow>
     (\<forall>marker. \<exists>page j. bt_list_parts B b k u marker s = (Inr page, s)
        \<and> map pr_number (pg_parts page) = take j (filter (\<lambda>n. marker < n) ns)
        \<and> (pg_truncated page \<longleftrightarrow> j < length (filter (\<lambda>n. marker < n) ns))
        \<and> (pg_truncated page \<longrightarrow> 0 < j \<and> pg_next_marker page = Some (last (map pr_number (pg_parts page)))))"

lemma filter_after_marker:
  fixes ns :: "int list"
  assumes "sorted_wrt (<) ns" "0 < j" "j < length (filter (\<lambda>n. m < n) ns)"
  shows "filter (\<lambda>n. last (take j (filter (\<lambda>n. m < n) ns)) < n) ns = drop j (filter (\<lambda>n. m < n) ns)"
proof -
  let ?L = "filter (\<lambda>n. m < n) ns"
  let ?x = "last (take j ?L)"
  have ne: "take j ?L \<noteq> []" using assms(2,3) by (metis length_greater_0_conv less_trans take_eq_Nil not_less_zero)
  then have x: "?x \<in> set (take j ?L)" by simp
  then have "?x \<in> set ?L" by (rule in_set_takeD)
  then have "m < ?x" by simp
  then have "filter (\<lambda>n. ?x < n) ns = filter (\<lambda>n. ?x < n) ?L" by (auto intro!: filter_cong)
  also have "\<dots> = filter (\<lambda>n. ?x < n) (take j ?L) @ filter (\<lambda>n. ?x < n) (drop j ?L)"
    by (metis append_take_drop_id filter_append)
  also have "filter (\<lambda>n. ?x < n) (take j ?L) = []"
  proof -
    have "sorted (take j ?L)" using assms(1) by (simp add: sorted_wrt_filter strict_sorted_iff sorted_wrt_take)
    then have "sorted (butlast (take j ?L) @ [?x])" using ne by simp
    then have "\<forall>a\<in>set (butlast (take j ?L) @ [?x]). a \<le> ?x" by (auto simp: sorted_append)
    then have "\<forall>a\<in>set (take j ?L). a \<le> ?x" using append_butlast_last_id[OF ne] by metis
    then show ?thesis by (auto simp: filter_empty_conv not_less)
  qed
  also have "filter (\<lambda>n. ?x < n) (drop j ?L) = drop j ?L"
  proof -
    have "sorted_wrt (<) (take j ?L @ drop j ?L)" using assms(1) by (simp only: append_take_drop_id sorted_wrt_filter)
    from iffD1[OF sorted_wrt_append this]
    have "\<forall>a\<in>set (take j ?L). \<forall>b\<in>set (drop j ?L). a < b" by (elim conjE)
    then show ?thesis unfolding filter_id_conv using x by (rule bspec)
  qed
  finally show ?thesis by simp
qed

lemma s3_list_from_all:
  assumes lists: "lists_parts B b k u ns s" and inc: "sorted_wrt (<) ns"
  shows "\<exists>ps. s3_list_from B b k u m found s = Some (Inr (found @ ps), s)
    \<and> map up_part_number ps = filter (\<lambda>n. m < n) ns"
proof (induction "length (filter (\<lambda>n. m < n) ns)" arbitrary: m found rule: less_induct)
  case less
  let ?L = "filter (\<lambda>n. m < n) ns"
  from lists obtain page j where page: "bt_list_parts B b k u m s = (Inr page, s)"
    and rows: "map pr_number (pg_parts page) = take j ?L"
    and more: "pg_truncated page \<longleftrightarrow> j < length ?L"
    and nxt: "pg_truncated page \<longrightarrow> 0 < j \<and> pg_next_marker page = Some (last (map pr_number (pg_parts page)))"
    unfolding lists_parts_def by blast
  have numbers: "map up_part_number (map listed_part (pg_parts page)) = take j ?L"
    using rows by (simp add: listed_part_def comp_def)
  show ?case
  proof (cases "pg_truncated page")
    case False
    then show ?thesis
      using page numbers more
      by (intro exI[of _ "map listed_part (pg_parts page)"])
        (subst s3_list_from.simps, simp add: with_errors_def)
  next
    case True
    then have j: "0 < j" "j < length ?L" and m: "pg_next_marker page = Some (last (take j ?L))"
      using more nxt rows by auto
    note after = filter_after_marker[OF inc j]
    then have "length (filter (\<lambda>n. last (take j ?L) < n) ns) < length ?L" using j by simp
    from less[OF this, of "found @ map listed_part (pg_parts page)"] obtain ps where
      ps: "s3_list_from B b k u (last (take j ?L)) (found @ map listed_part (pg_parts page)) s
          = Some (Inr ((found @ map listed_part (pg_parts page)) @ ps), s)"
        "map up_part_number ps = filter (\<lambda>n. last (take j ?L) < n) ns" by blast
    have "map up_part_number (map listed_part (pg_parts page) @ ps) = ?L"
      using numbers ps(2) after by (metis append_take_drop_id map_append)
    moreover have "s3_list_from B b k u m found s = Some (Inr (found @ map listed_part (pg_parts page) @ ps), s)"
      using page True m ps(1) by (subst s3_list_from.simps) (simp add: with_errors_def the_default_def)
    ultimately show ?thesis by blast
  qed
qed

lemma s3_list_parts_all:
  assumes "lists_parts B b k u ns s" "sorted_wrt (<) ns" "\<forall>n\<in>set ns. 0 < n"
  shows "\<exists>ps. s3_list_from B b k u 0 [] s = Some (Inr ps, s) \<and> s3_list_parts B b k u s = (Inr ps, s)
    \<and> map up_part_number ps = ns"
proof -
  have "filter (\<lambda>n. 0 < n) ns = ns" using assms(3) by (simp add: filter_id_conv)
  then obtain ps where "s3_list_from B b k u 0 [] s = Some (Inr ps, s)" "map up_part_number ps = ns"
    using s3_list_from_all[OF assms(1,2), of 0 "[]"] by auto
  then show ?thesis by (auto simp: s3_list_parts_def)
qed

end
