(* ===== verification/SdkExamples.thy ===== *)
theory SdkExamples
  imports Examples EndToEnd Maintenance Auth S3Storage
begin

text \<open>
  Concrete runs of the SDK, the maintenance jobs and the API keys, on the service of
  \<open>Examples\<close>: what the witnesses of their properties are about.
\<close>

section \<open>A file uploaded in parts\<close>

definition demo_bytes :: bytes where
  "demo_bytes = [1, 2, 3, 4, 5, 6, 7, 8, 9, 10]"

definition demo_created :: "(error + upload_session) \<times> fs world" where
  "demo_created = create_session demo_service demo_identity demo_request (lit ''u1'') 0 demo_world"

definition demo_put :: "(error + unit) \<times> fs world" where
  "demo_put = put_parts demo_service demo_identity (lit ''u1'') 0 (file_parts demo_bytes 4 [3, 1, 2]) (snd demo_created)"

definition demo_finished :: "(error + file_object) \<times> fs world" where
  "demo_finished = complete demo_service demo_identity (lit ''u1'') (lit ''f1'') 0 (snd demo_put)"

fun created_well :: "(error + upload_session) \<times> fs world \<Rightarrow> bool" where
  "created_well (Inl e, w) = False"
| "created_well (Inr u, w) =
     (us_part_size u = 4 \<and> us_total_parts u = 3
      \<and> local_place (default_adapter demo_sha256) (us_bucket u) (us_object_key u))"

definition demo_run_well :: bool where
  "demo_run_well \<longleftrightarrow>
     created_well demo_created \<and> \<not> isl (fst demo_put) \<and> \<not> isl (fst demo_finished)
     \<and> files (w_db (snd demo_put)) = []"

lemma demo_ran: "demo_run_well"
  by code_simp

lemma demo_run:
  obtains u f where "create_session demo_service demo_identity demo_request (lit ''u1'') 0 demo_world = (Inr u, snd demo_created)"
    "us_part_size u = 4" "us_total_parts u = 3"
    "local_place (default_adapter demo_sha256) (us_bucket u) (us_object_key u)"
    "put_parts demo_service demo_identity (lit ''u1'') 0 (file_parts demo_bytes 4 [3, 1, 2]) (snd demo_created)
      = (Inr (), snd demo_put)"
    "complete demo_service demo_identity (lit ''u1'') (lit ''f1'') 0 (snd demo_put) = (Inr f, snd demo_finished)"
    "files (w_db (snd demo_put)) = []"
proof -
  note ran = demo_ran[unfolded demo_run_well_def]
  obtain u where u: "demo_created = (Inr u, snd demo_created)"
    using ran by (metis created_well.elims(2) snd_conv)
  have "created_well (Inr u, snd demo_created)" using ran u by metis
  then have "us_part_size u = 4" "us_total_parts u = 3"
    "local_place (default_adapter demo_sha256) (us_bucket u) (us_object_key u)" by simp_all
  moreover obtain v where "demo_put = (Inr v, snd demo_put)" using ran outcome by metis
  moreover obtain f where "demo_finished = (Inr f, snd demo_finished)" using ran outcome by metis
  ultimately show ?thesis
    using that u ran unfolding demo_created_def[symmetric] demo_put_def[symmetric] demo_finished_def[symmetric]
    by (metis (full_types) old.unit.exhaust)
qed

lemma demo_adapter_ok: "adapter_ok (default_adapter demo_sha256)"
  by code_simp

lemma demo_no_parts: "parts_dir_is (default_adapter demo_sha256) (lit ''u1'') Map.empty (w_store demo_world)"
  by (simp add: parts_dir_is_def demo_world_def node_at_def)

section \<open>A call that fails at first\<close>

text \<open>The service answers 503 until the \<open>n\<close>-th call.\<close>

definition flaky :: "nat \<Rightarrow> (nat, nat) call" where
  "flaky n s =
     (if s < n then (Inl (SdkErr SdkStorageUnavailableError (Some 503)), Suc s) else (Inr s, Suc s))"

section \<open>Messages in the outbox\<close>

definition demo_message :: "nat \<Rightarrow> outbox_message" where
  "demo_message n =
     \<lparr>wm_id = n, wm_tenant_id = lit ''acme'', wm_event_type = lit ''file.completed'', wm_payload = [],
      wm_status = WebhookPending, wm_attempts = 0, wm_next_attempt_at = 0, wm_created_at = 0\<rparr>"

definition demo_outbox :: "fs world" where
  "demo_outbox = demo_world\<lparr>w_db := empty_db\<lparr>outbox := [demo_message 0, demo_message 1]\<rparr>\<rparr>"

section \<open>A store that behaves like S3\<close>

text \<open>Objects and staged parts in maps; the answers carry no tags.\<close>

record mem =
  mem_objects :: "pystr \<Rightarrow> pystr \<Rightarrow> bytes option"
  mem_parts :: "pystr \<Rightarrow> int \<Rightarrow> bytes option"

definition fits_s3 :: "bytes \<Rightarrow> bool" where
  "fits_s3 data \<longleftrightarrow> length data \<le> 5 * 2 ^ 40"

definition set_object :: "pystr \<Rightarrow> pystr \<Rightarrow> bytes option \<Rightarrow> mem \<Rightarrow> mem" where
  "set_object b k x s = s\<lparr>mem_objects := (mem_objects s)(b := (mem_objects s b)(k := x))\<rparr>"

definition mem_content :: "mem \<Rightarrow> pystr \<Rightarrow> pystr \<Rightarrow> bytes option" where
  "mem_content s b k = (case mem_objects s b k of None \<Rightarrow> None | Some x \<Rightarrow> if fits_s3 x then Some x else None)"

definition mem_ranges :: "bytes \<Rightarrow> pystr option \<Rightarrow> get_response" where
  "mem_ranges data header =
     (case parse_byte_range header (int (length data)) of
        Inr (Some r) \<Rightarrow>
          \<lparr>gr_content_range = Some (content_range_text (br_start r) (br_end r) (int (length data))),
           gr_content_length = Some (range_length r), gr_content_type = None, gr_etag = None,
           gr_body = Inr (read_slice (nat (br_start r)) (Some (range_length r)) data)\<rparr>
      | _ \<Rightarrow>
          \<lparr>gr_content_range = None, gr_content_length = Some (int (length data)), gr_content_type = None,
           gr_etag = None, gr_body = Inr data\<rparr>)"

definition memory_s3 :: "mem boto" where
  "memory_s3 =
     \<lparr>bt_put_object = (\<lambda>b k data ct s.
        if fits_s3 data then (Inr None, set_object b k (Some data) s) else (Inl (ClientError (lit ''EntityTooLarge'')), s)),
      bt_get_object = (\<lambda>b k header s.
        case mem_content s b k of
          None \<Rightarrow> (Inl (ClientError (lit ''NoSuchKey'')), s)
        | Some data \<Rightarrow> (Inr (mem_ranges data header), s)),
      bt_delete_object = (\<lambda>b k s. (Inr (), set_object b k None s)),
      bt_head_object = (\<lambda>b k s.
        (if mem_content s b k = None then Inl (ClientError (lit ''404'')) else Inr (), s)),
      bt_create_bucket = (\<lambda>b s. (Inr (), s)),
      bt_head_bucket = (\<lambda>b s. (Inr (), s)),
      bt_delete_bucket = (\<lambda>b s. (Inr (), s)),
      bt_create_multipart_upload = (\<lambda>b k ct s. (Inr k, s)),
      bt_upload_part = (\<lambda>b k u n data s.
        (Inr None, s\<lparr>mem_parts := (mem_parts s)(u := (mem_parts s u)(n := Some data))\<rparr>)),
      bt_list_parts = (\<lambda>b k u marker s.
        (Inr \<lparr>pg_parts = map (\<lambda>n. \<lparr>pr_number = n, pr_etag = None, pr_size = map_option (int \<circ> length) (mem_parts s u n)\<rparr>)
                (take 2 (filter (\<lambda>n. marker < n \<and> mem_parts s u n \<noteq> None) [1..8])),
              pg_truncated = 2 < length (filter (\<lambda>n. marker < n \<and> mem_parts s u n \<noteq> None) [1..8]),
              pg_next_marker = Some (last (take 2 (filter (\<lambda>n. marker < n \<and> mem_parts s u n \<noteq> None) [1..8])))\<rparr>, s)),
      bt_complete_multipart_upload = (\<lambda>b k u ps s.
        let found = map (\<lambda>p. mem_parts s u (fst p)) ps; data = concat (map the found)
        in if None \<in> set found then (Inl (ClientError (lit ''InvalidPart'')), s)
           else if \<not> fits_s3 data then (Inl (ClientError (lit ''EntityTooLarge'')), s)
           else (Inr None, set_object b k (Some data) s)),
      bt_abort_multipart_upload = (\<lambda>b k u s. (Inr (), s\<lparr>mem_parts := (mem_parts s)(u := Map.empty)\<rparr>)),
      bt_generate_presigned_url = (\<lambda>c b k secs s. (Inr (b @ slash # k), s))\<rparr>"

lemma mem_content_fits: "mem_content s b k = Some data \<Longrightarrow> length data \<le> 5 * 2 ^ 40"
  by (auto simp: mem_content_def fits_s3_def split: option.splits if_splits)

lemma mem_content_object:
  "mem_content (set_object b k x s) b' k' =
     (if (b', k') = (b, k) then (case x of Some d \<Rightarrow> if fits_s3 d then Some d else None | None \<Rightarrow> None)
      else mem_content s b' k')"
  by (auto simp: mem_content_def set_object_def split: option.splits)

lemma mem_parts_object [simp]: "mem_parts (set_object b k x s) = mem_parts s"
  by (simp add: set_object_def)

lemma mem_content_parts [simp]: "mem_content (s\<lparr>mem_parts := p\<rparr>) = mem_content s"
  by (simp add: mem_content_def fun_eq_iff)

lemma mem_ranges_closed:
  assumes "length data \<le> 5 * 2 ^ 40" "a \<le> z" "z < length data"
  shows "mem_ranges data (Some (lit ''bytes='' @ nat_digits a @ lit ''-'' @ nat_digits z)) =
    \<lparr>gr_content_range = Some (content_range_text (int a) (int z) (int (length data))),
     gr_content_length = Some (int z - int a + 1), gr_content_type = None, gr_etag = None,
     gr_body = Inr (take (z - a + 1) (drop a data))\<rparr>"
proof -
  have header: "lit ''bytes='' @ nat_digits a @ lit ''-'' @ nat_digits z = range_header a z"
    by (simp add: range_header_def lit_def)
  have "z < 10 ^ max_str_digits" using five_tebibytes[OF assms(1)] assms(3) by linarith
  then have "parse_byte_range (Some (range_header a z)) (int (length data)) = Inr (Some \<lparr>br_start = int a, br_end = int z\<rparr>)"
    using parse_range_header[of a z "length data"] assms(2,3) by (simp add: min_def)
  moreover have "nat (int z - int a + 1) = z - a + 1" using assms(2) by simp
  ultimately show ?thesis unfolding header by (simp add: mem_ranges_def range_length_def read_slice_def)
qed

lemma mem_ranges_open:
  assumes "length data \<le> 5 * 2 ^ 40" "a < length data"
  shows "mem_ranges data (Some (lit ''bytes='' @ nat_digits a @ lit ''-'')) =
    \<lparr>gr_content_range = Some (content_range_text (int a) (int (length data) - 1) (int (length data))),
     gr_content_length = Some (int (length data) - int a), gr_content_type = None, gr_etag = None,
     gr_body = Inr (drop a data)\<rparr>"
proof -
  have "a < 10 ^ max_str_digits" using five_tebibytes[OF assms(1)] assms(2) by linarith
  then have "parse_byte_range (Some (lit ''bytes='' @ nat_digits a @ lit ''-'')) (int (length data))
      = Inr (Some \<lparr>br_start = int a, br_end = int (length data) - 1\<rparr>)"
    using parse_open_header[of a "length data"] assms(2) by simp
  then show ?thesis using assms(2) by (simp add: mem_ranges_def range_length_def read_slice_def)
qed

lemma mem_ranges_whole: "gr_body (mem_ranges data None) = Inr data" "gr_content_range (mem_ranges data None) = None"
  "gr_content_length (mem_ranges data None) = Some (int (length data))"
  by (simp_all add: mem_ranges_def parse_byte_range_def)

lemma map_Some_the: "None \<notin> set xs \<Longrightarrow> xs = map Some (map the xs)"
  by (induction xs) auto

lemma memory_s3_documented: "s3_documented memory_s3 mem_content mem_parts"
proof -
  have "s3_writes memory_s3 mem_content"
    by (auto simp: s3_writes_def memory_s3_def mem_content_object split: if_splits)
  moreover have "s3_reads memory_s3 mem_content"
    by (auto simp: s3_reads_def memory_s3_def mem_ranges_whole mem_ranges_open mem_ranges_closed dest: mem_content_fits)
  moreover have "\<exists>bs. map (\<lambda>p. mem_parts s u (fst p)) ps = map Some bs \<and> mem_content s' b k = Some (concat bs)"
    if "bt_complete_multipart_upload memory_s3 b k u ps s = (Inr e, s')" for b k u ps s e s'
    using that
    by (intro exI[of _ "map the (map (\<lambda>p. mem_parts s u (fst p)) ps)"])
      (auto simp: memory_s3_def Let_def mem_content_object map_Some_the[symmetric] simp del: map_map split: if_splits)
  then have "s3_uploads memory_s3 mem_content mem_parts"
    unfolding s3_uploads_def
    by (auto simp: memory_s3_def Let_def mem_content_object split: if_splits)
  ultimately show ?thesis by (simp add: s3_documented_def)
qed

definition mem_start :: mem where
  "mem_start = \<lparr>mem_objects = \<lambda>_ _. None, mem_parts = \<lambda>_ _. None\<rparr>"

text \<open>Five parts, which \<open>memory_s3\<close> lists in pages of two.\<close>

definition mem_five :: mem where
  "mem_five = mem_start\<lparr>mem_parts := \<lambda>u n. if n \<in> {1, 2, 4, 5, 7} then Some [] else None\<rparr>"

lemma filter_marker: "filter (\<lambda>n. m < n \<and> P n) xs = filter (\<lambda>n. m < n) (filter P xs)"
  by (simp add: conj_commute)

lemma mem_five_lists: "lists_parts memory_s3 [1] [2] [3] [1, 2, 4, 5, 7] mem_five"
proof -
  have "filter (\<lambda>n. mem_parts mem_five [3] n \<noteq> None) [1..8] = [1, 2, 4, 5, 7]"
    by code_simp
  then have found: "filter (\<lambda>n. m < n \<and> mem_parts mem_five [3] n \<noteq> None) [1..8] = filter (\<lambda>n. m < n) [1, 2, 4, 5, 7]" for m
    by (simp only: filter_marker)
  show ?thesis
    unfolding lists_parts_def
  proof
    fix marker :: int
    define L where "L = filter (\<lambda>n. marker < n) [1, 2, 4, 5, 7]"
    note there = found[of marker, folded L_def]
    have "bt_list_parts memory_s3 [1] [2] [3] marker mem_five =
        (Inr \<lparr>pg_parts = map (\<lambda>n. \<lparr>pr_number = n, pr_etag = None,
                 pr_size = map_option (int \<circ> length) (mem_parts mem_five [3] n)\<rparr>) (take 2 L),
              pg_truncated = 2 < length L, pg_next_marker = Some (last (take 2 L))\<rparr>, mem_five)"
      unfolding memory_s3_def boto.simps there ..
    then show "\<exists>page j. bt_list_parts memory_s3 [1] [2] [3] marker mem_five = (Inr page, mem_five)
        \<and> map pr_number (pg_parts page) = take j (filter (\<lambda>n. marker < n) [1, 2, 4, 5, 7])
        \<and> (pg_truncated page \<longleftrightarrow> j < length (filter (\<lambda>n. marker < n) [1, 2, 4, 5, 7]))
        \<and> (pg_truncated page \<longrightarrow> 0 < j \<and> pg_next_marker page = Some (last (map pr_number (pg_parts page))))"
      unfolding L_def[symmetric] by (auto simp: comp_def intro!: exI[of _ 2])
  qed
qed

section \<open>A file without content\<close>

definition demo_empty_file :: "fs world" where
  "demo_empty_file = demo_world\<lparr>w_db := empty_db\<lparr>files := [demo_file\<lparr>fo_size_bytes := 0\<rparr>]\<rparr>\<rparr>"

lemma demo_empty_file_there:
  "get_file (lit ''f1'') (Some (tenant_id demo_identity)) (w_db demo_empty_file) = Some (demo_file\<lparr>fo_size_bytes := 0\<rparr>)
    \<and> fo_status demo_file = FileActive"
proof -
  note sees = demo_uploaded_sees[unfolded sees_session_def]
  have "us_status (demo_session demo_uploaded) \<noteq> Completed" using sees by simp
  from complete_first[OF demo_inv(1) _ this demo_complete] sees show ?thesis
    by (simp add: get_file_def demo_empty_file_def)
qed

section \<open>API keys\<close>

definition demo_keys :: jobject where
  "demo_keys = [(lit ''acme/ann'', JList [JStr (lit ''k0''), JStr (lit ''k1'')]), (lit ''umbra'', JStr (lit ''k1''))]"

end
