(* ===== verification/Api.thy ===== *)
theory Api
  imports UploadRequests FileLifecycles Buckets Auth
begin

text \<open>
  The endpoints of uploads, files and presigned URLs as HTTP sees them: JSON bodies in, JSON
  bodies and status codes out. \<open>serialize_session\<close> of
  \<open>src/app/services/upload_service.py\<close>, \<open>serialize_file\<close> of
  \<open>src/app/services/file_service.py\<close>, the handlers of
  \<open>src/app/api/v1/uploads.py\<close>, \<open>files.py\<close>, \<open>lifecycle.py\<close>, \<open>presign.py\<close> and
  \<open>client_config.py\<close>, and the exception handlers of \<open>src/app/core/errors.py\<close>.

  A body is read by its typed fields. A field of another type than the endpoint works with makes
  some later step fail; the model raises a \<open>TypeError\<close> at once. Ids are texts, so
  malformed ones are ids nobody has.
\<close>

section \<open>Rows as JSON\<close>

definition upload_mode_text :: "upload_mode \<Rightarrow> pystr" where
  "upload_mode_text m =
     (case m of ModeAutomatic \<Rightarrow> lit ''automatic'' | ModeProxy \<Rightarrow> lit ''proxy'' | ModePresigned \<Rightarrow> lit ''presigned'')"

definition upload_status_text :: "upload_status \<Rightarrow> pystr" where
  "upload_status_text s =
     (case s of
        Initiated \<Rightarrow> lit ''initiated'' | Uploading \<Rightarrow> lit ''uploading'' | Completing \<Rightarrow> lit ''completing''
      | Completed \<Rightarrow> lit ''completed'' | Aborting \<Rightarrow> lit ''aborting'' | Aborted \<Rightarrow> lit ''aborted''
      | Expired \<Rightarrow> lit ''expired'')"

definition lifecycle_status_text :: "lifecycle_status \<Rightarrow> pystr" where
  "lifecycle_status_text s =
     (case s of
        LcActive \<Rightarrow> lit ''active'' | LcExpiring \<Rightarrow> lit ''expiring'' | LcExpired \<Rightarrow> lit ''expired''
      | LcDeleting \<Rightarrow> lit ''deleting'' | LcDeleted \<Rightarrow> lit ''deleted'' | LcArchiving \<Rightarrow> lit ''archiving''
      | LcArchived \<Rightarrow> lit ''archived'' | LcRestoring \<Rightarrow> lit ''restoring'')"

definition part_status_text :: "part_status \<Rightarrow> pystr" where
  "part_status_text s =
     (case s of
        PartPending \<Rightarrow> lit ''pending'' | PartUploaded \<Rightarrow> lit ''uploaded''
      | PartCommitted \<Rightarrow> lit ''committed'' | PartFailed \<Rightarrow> lit ''failed'')"

definition backend_text :: "storage_backend \<Rightarrow> pystr" where
  "backend_text b = (case b of BackendLocal \<Rightarrow> lit ''local'' | BackendS3 \<Rightarrow> lit ''s3'')"

definition jopt :: "('a \<Rightarrow> json) \<Rightarrow> 'a option \<Rightarrow> json" where
  "jopt f x = (case x of None \<Rightarrow> JNull | Some a \<Rightarrow> f a)"

text \<open>The dictionary \<open>compute_effective_lifecycle\<close> builds.\<close>

definition effective_json :: "'s service \<Rightarrow> effective \<Rightarrow> json" where
  "effective_json sv e =
     JObj ([(lit ''mode'', JStr (ef_mode e)), (lit ''action'', JStr (ef_action e))]
       @ (case ef_ttl_seconds e of None \<Rightarrow> [] | Some n \<Rightarrow> [(lit ''ttl_seconds'', JInt n)])
       @ (case ef_expires_at e of None \<Rightarrow> [] | Some t \<Rightarrow> [(lit ''expires_at'', JStr (sv_isoformat sv t))]))"

definition serialize_session :: "'s service \<Rightarrow> upload_session \<Rightarrow> jobject" where
  "serialize_session sv u =
     [(lit ''id'', JStr (us_id u)),
      (lit ''bucket'', JStr (us_bucket u)),
      (lit ''object_key'', JStr (us_object_key u)),
      (lit ''original_filename'', JStr (us_original_filename u)),
      (lit ''content_type'', jopt JStr (us_content_type u)),
      (lit ''total_size'', JInt (us_total_size u)),
      (lit ''part_size'', JInt (us_part_size u)),
      (lit ''total_parts'', JInt (us_total_parts u)),
      (lit ''upload_mode'', JStr (upload_mode_text (us_upload_mode u))),
      (lit ''backend'', JStr (backend_text (us_backend u))),
      (lit ''storage_upload_id'', jopt JStr (us_storage_upload_id u)),
      (lit ''file_fingerprint'', jopt JStr (us_file_fingerprint u)),
      (lit ''expected_sha256'', jopt JStr (us_expected_sha256 u)),
      (lit ''status'', JStr (upload_status_text (us_status u))),
      (lit ''requested_lifecycle'', jopt JObj (us_requested_lifecycle u)),
      (lit ''effective_lifecycle'', jopt (effective_json sv) (us_effective_lifecycle u)),
      (lit ''completed_file_id'', jopt JStr (us_completed_file_id u)),
      (lit ''expires_at'', JStr (sv_isoformat sv (us_expires_at u))),
      (lit ''created_at'', JStr (sv_isoformat sv (us_created_at u)))]"

text \<open>Nothing ever sets \<open>retention_until\<close>.\<close>

definition serialize_file :: "'s service \<Rightarrow> file_object \<Rightarrow> jobject" where
  "serialize_file sv f =
     [(lit ''id'', JStr (fo_id f)),
      (lit ''bucket'', JStr (fo_bucket f)),
      (lit ''object_key'', JStr (fo_object_key f)),
      (lit ''original_filename'', JStr (fo_original_filename f)),
      (lit ''content_type'', jopt JStr (fo_content_type f)),
      (lit ''size_bytes'', JInt (fo_size_bytes f)),
      (lit ''etag'', jopt JStr (fo_etag f)),
      (lit ''checksum_algorithm'', jopt JStr (fo_checksum_algorithm f)),
      (lit ''checksum_value'', jopt JStr (fo_checksum_value f)),
      (lit ''file_fingerprint'', jopt JStr (fo_file_fingerprint f)),
      (lit ''upload_id'', jopt JStr (fo_upload_id f)),
      (lit ''status'', JStr (status_text (fo_status f))),
      (lit ''lifecycle_mode'', JStr (fo_lifecycle_mode f)),
      (lit ''lifecycle_action'', JStr (fo_lifecycle_action f)),
      (lit ''lifecycle_status'', JStr (lifecycle_status_text (fo_lifecycle_status f))),
      (lit ''expires_at'', jopt (JStr \<circ> sv_isoformat sv) (fo_expires_at f)),
      (lit ''legal_hold'', JBool (fo_legal_hold f)),
      (lit ''retention_until'', JNull),
      (lit ''completed_at'', JStr (sv_isoformat sv (fo_completed_at f))),
      (lit ''created_at'', JStr (sv_isoformat sv (fo_created_at f)))]"

definition serialize_upload_result :: "'s service \<Rightarrow> file_object \<Rightarrow> ('s, jobject) act" where
  "serialize_upload_result sv f =
     bnd (upload_result_url sv f) (\<lambda>r.
       ret (serialize_file sv f
            @ [(lit ''download_url'', jopt (JStr \<circ> fst) r), (lit ''expires_in'', jopt (JInt \<circ> snd) r)]))"

section \<open>Bodies\<close>

text \<open>\<open>body[key]\<close>\<close>

definition required :: "string \<Rightarrow> jobject \<Rightarrow> error + json" where
  "required k d = (case map_of d (lit k) of None \<Rightarrow> Inl (Crash KeyError) | Some v \<Rightarrow> Inr v)"

definition text_of :: "json \<Rightarrow> error + pystr" where
  "text_of v = (case v of JStr s \<Rightarrow> Inr s | _ \<Rightarrow> Inl (Crash TypeError))"

definition optional :: "(json \<Rightarrow> error + 'a) \<Rightarrow> json \<Rightarrow> error + 'a option" where
  "optional f v = (if v = JNull then Inr None else rbind (f v) (\<lambda>x. Inr (Some x)))"

definition int_value :: "json \<Rightarrow> error + int" where
  "int_value v = (case v of JInt n \<Rightarrow> Inr n | _ \<Rightarrow> Inl (Crash TypeError))"

definition object_of :: "json \<Rightarrow> error + jobject" where
  "object_of v = (case v of JObj d \<Rightarrow> Inr d | _ \<Rightarrow> Inl (Crash TypeError))"

text \<open>\<open>int(v)\<close>\<close>

definition py_int_of :: "json \<Rightarrow> error + int" where
  "py_int_of v =
     (case v of
        JStr s \<Rightarrow> (case py_int s of None \<Rightarrow> Inl (Crash ValueError) | Some n \<Rightarrow> Inr n)
      | _ \<Rightarrow> (case json_number v of None \<Rightarrow> Inl (Crash TypeError) | Some x \<Rightarrow> Inr (number_int x)))"

definition text_or_empty :: "json \<Rightarrow> error + pystr" where
  "text_or_empty v = (if truthy v then text_of v else Inr [])"

text \<open>A list of results, read in order.\<close>

fun all_right :: "(error + 'a) list \<Rightarrow> error + 'a list" where
  "all_right [] = Inr []"
| "all_right (r # rs) = rbind r (\<lambda>x. rbind (all_right rs) (\<lambda>xs. Inr (x # xs)))"

definition create_request_of :: "jobject \<Rightarrow> error + create_request" where
  "create_request_of body =
     rbind (text_or_empty (jget ''bucket'' body)) (\<lambda>bucket.
     rbind (rbind (required ''object_key'' body) text_of) (\<lambda>object_key.
     rbind (text_of (jget_default ''original_filename'' (JStr []) body)) (\<lambda>original_filename.
     rbind (optional text_of (jget ''content_type'' body)) (\<lambda>content_type.
     rbind (py_int_of (jget_default ''total_size'' (JInt 0) body)) (\<lambda>total_size.
     rbind (optional int_value (jget ''part_size'' body)) (\<lambda>part_size.
     rbind (text_or_empty (jget ''upload_mode'' body)) (\<lambda>upload_mode.
     rbind (optional text_of (jget ''file_fingerprint'' body)) (\<lambda>file_fingerprint.
     rbind (optional text_of (jget ''expected_sha256'' body)) (\<lambda>expected_sha256.
     rbind (optional object_of (jget ''lifecycle'' body)) (\<lambda>lifecycle.
       Inr \<lparr>cr_bucket = bucket, cr_object_key = object_key, cr_original_filename = original_filename,
            cr_content_type = content_type, cr_total_size = total_size, cr_part_size = part_size,
            cr_upload_mode = upload_mode, cr_file_fingerprint = file_fingerprint,
            cr_expected_sha256 = expected_sha256, cr_lifecycle = lifecycle\<rparr>))))))))))"

section \<open>The endpoints of uploads\<close>

definition post_uploads :: "'s service \<Rightarrow> identity \<Rightarrow> jobject \<Rightarrow> pystr \<Rightarrow> dt \<Rightarrow> ('s, json) act" where
  "post_uploads sv i body new_id now =
     bnd (lift (create_request_of body)) (\<lambda>rq.
     bnd (create_upload_handler sv i rq new_id now) (\<lambda>u. ret (JObj (serialize_session sv u))))"

definition post_uploads_resume :: "'s service \<Rightarrow> identity \<Rightarrow> jobject \<Rightarrow> dt \<Rightarrow> ('s, json) act" where
  "post_uploads_resume sv i body now =
     bnd (lift (rbind (required ''upload_id'' body) text_of)) (\<lambda>upload_id.
     bnd (resume_handler sv i upload_id now) (\<lambda>(u, missing).
       ret (JObj [(lit ''session'', JObj (serialize_session sv u)),
                  (lit ''missing_parts'', JList (map JInt missing))])))"

definition get_uploads :: "'s service \<Rightarrow> identity \<Rightarrow> pystr \<Rightarrow> ('s, json) act" where
  "get_uploads sv i upload_id = bnd (get_session i upload_id) (\<lambda>u. ret (JObj (serialize_session sv u)))"

definition part_json :: "upload_part \<Rightarrow> json" where
  "part_json p =
     JObj [(lit ''part_number'', JInt (pa_part_number p)),
           (lit ''offset_bytes'', JInt (pa_offset_bytes p)),
           (lit ''size_bytes'', JInt (pa_size_bytes p)),
           (lit ''etag'', jopt JStr (pa_etag p)),
           (lit ''checksum_sha256'', jopt JStr (pa_checksum_sha256 p)),
           (lit ''status'', JStr (part_status_text (pa_status p)))]"

definition get_uploads_parts :: "identity \<Rightarrow> pystr \<Rightarrow> ('s, json) act" where
  "get_uploads_parts i upload_id =
     bnd (list_committed_parts i upload_id) (\<lambda>ps. ret (JObj [(lit ''parts'', JList (map part_json ps))]))"

definition post_parts_presign :: "'s service \<Rightarrow> identity \<Rightarrow> pystr \<Rightarrow> jobject \<Rightarrow> ('s, json) act" where
  "post_parts_presign sv i upload_id body =
     bnd (lift (if truthy (jget ''part_numbers'' body)
                then (case jget ''part_numbers'' body of
                        JList vs \<Rightarrow> all_right (map int_value vs)
                      | _ \<Rightarrow> Inl (Crash TypeError))
                else Inr [])) (\<lambda>ns.
     bnd (lift (optional int_value (jget ''expires_seconds'' body))) (\<lambda>expires.
     bnd (presign_parts sv i upload_id ns expires) (\<lambda>urls.
       ret (JObj [(lit ''urls'', JObj (map (\<lambda>(n, url). (py_str_int n, JStr url)) urls)),
                  (lit ''expires_seconds'', jopt JInt expires)]))))"

definition put_uploads_part ::
    "'s service \<Rightarrow> identity \<Rightarrow> pystr \<Rightarrow> int \<Rightarrow> bytes \<Rightarrow> pystr option \<Rightarrow> dt \<Rightarrow> ('s, json) act" where
  "put_uploads_part sv i upload_id n body header now =
     bnd (proxy_upload_part_handler sv i upload_id n body header now) (\<lambda>p.
       ret (JObj [(lit ''part_number'', JInt (pa_part_number p)),
                  (lit ''size_bytes'', JInt (pa_size_bytes p)),
                  (lit ''etag'', jopt JStr (pa_etag p)),
                  (lit ''checksum_sha256'', jopt JStr (pa_checksum_sha256 p)),
                  (lit ''status'', JStr (part_status_text (pa_status p)))]))"

text \<open>\<open>str(body["etag"])\<close> of a value that is no text is not modelled.\<close>

definition post_parts_commit :: "'s service \<Rightarrow> identity \<Rightarrow> pystr \<Rightarrow> jobject \<Rightarrow> dt \<Rightarrow> ('s, json) act" where
  "post_parts_commit sv i upload_id body now =
     bnd (lift (rbind (required ''part_number'' body) py_int_of)) (\<lambda>n.
     bnd (lift (rbind (required ''etag'' body) text_of)) (\<lambda>etag.
     bnd (lift (py_int_of (jget_default ''size_bytes'' (JInt 0) body))) (\<lambda>sz.
     bnd (lift (optional text_of (jget ''checksum_sha256'' body))) (\<lambda>cs.
     bnd (commit_part_handler sv i upload_id n etag sz cs now) (\<lambda>_.
       ret (JObj [(lit ''status'', JStr (lit ''committed'')), (lit ''part_number'', jget ''part_number'' body)]))))))"

definition post_uploads_refresh :: "'s service \<Rightarrow> identity \<Rightarrow> pystr \<Rightarrow> dt \<Rightarrow> ('s, json) act" where
  "post_uploads_refresh sv i upload_id now =
     bnd (refresh_handler sv i upload_id now) (\<lambda>u. ret (JObj (serialize_session sv u)))"

definition post_uploads_complete :: "'s service \<Rightarrow> identity \<Rightarrow> pystr \<Rightarrow> pystr \<Rightarrow> dt \<Rightarrow> ('s, json) act" where
  "post_uploads_complete sv i upload_id file_id now =
     bnd (complete_handler sv i upload_id file_id now) (\<lambda>f.
     bnd (serialize_upload_result sv f) (\<lambda>d. ret (JObj d)))"

definition post_uploads_abort :: "'s service \<Rightarrow> identity \<Rightarrow> pystr \<Rightarrow> dt \<Rightarrow> ('s, json) act" where
  "post_uploads_abort sv i upload_id now =
     bnd (abort_handler sv i upload_id now) (\<lambda>u. ret (JObj (serialize_session sv u)))"

section \<open>The endpoints of files\<close>

text \<open>
  \<open>GET /files\<close>. FastAPI has checked the query: a limit from 1 to 200, a known sort field
  and order. Without a status, the active files are listed.
\<close>

definition get_files ::
    "'s service \<Rightarrow> identity \<Rightarrow> list_query \<Rightarrow> nat \<Rightarrow> nat \<Rightarrow> ('s, json) act" where
  "get_files sv i q limit offset =
     bnd (get_db (list_files sv (tenant_id i)
            (q\<lparr>lq_status := Some (case lq_status q of None \<Rightarrow> FileActive | Some s \<Rightarrow> s)\<rparr>) limit offset))
       (\<lambda>(items, found).
       ret (JObj [(lit ''items'', JList (map (JObj \<circ> serialize_file sv) items)),
                  (lit ''total'', JInt (int found)), (lit ''limit'', JInt (int limit)),
                  (lit ''offset'', JInt (int offset))]))"

text \<open>
  The form of \<open>POST /files/upload\<close>: the texts of its fields, the name and content type of
  the file part, and its bytes.
\<close>

record upload_form =
  uf_bucket :: pystr
  uf_object_key :: "pystr option"
  uf_original_filename :: "pystr option"
  uf_content_type :: "pystr option"
  uf_checksum_sha256 :: "pystr option"
  uf_file_fingerprint :: "pystr option"
  uf_lifecycle :: "pystr option"
  uf_metadata :: "pystr option"
  uf_filename :: "pystr option"
  uf_file_type :: "pystr option"

text \<open>\<open>a or b\<close> of optional texts.\<close>

definition or_else :: "pystr option \<Rightarrow> pystr option \<Rightarrow> pystr option" where
  "or_else a b = (if present a then a else b)"

text \<open>\<open>json.loads(text) if text else None\<close>; anything but an object counts as none given.\<close>

definition loaded_object :: "'s service \<Rightarrow> pystr option \<Rightarrow> error + jobject option" where
  "loaded_object sv s =
     (if \<not> present s then Inr None
      else case sv_loads sv (the_default [] s) of
             None \<Rightarrow> Inl (Crash ValueError)
           | Some (JObj d) \<Rightarrow> Inr (Some d)
           | Some _ \<Rightarrow> Inr None)"

definition post_files_upload ::
    "'s service \<Rightarrow> identity \<Rightarrow> upload_form \<Rightarrow> bytes \<Rightarrow> pystr \<Rightarrow> dt \<Rightarrow> ('s, json) act" where
  "post_files_upload sv i form data file_id now =
     bnd (lift (loaded_object sv (uf_lifecycle form))) (\<lambda>lifecycle_data.
     bnd (lift (loaded_object sv (uf_metadata form))) (\<lambda>metadata_data.
     let resolved_key = the_default [] (or_else (uf_object_key form)
           (or_else (uf_filename form) (Some (lit ''upload.bin''))))
     in bnd (transaction (proxy_upload sv i
           \<lparr>fr_bucket = uf_bucket form, fr_object_key = resolved_key,
            fr_original_filename = the_default [] (or_else (uf_original_filename form)
              (or_else (uf_filename form) (Some resolved_key))),
            fr_content_type = or_else (uf_content_type form) (uf_file_type form),
            fr_size_bytes = int (length data), fr_checksum_sha256 = uf_checksum_sha256 form,
            fr_file_fingerprint = uf_file_fingerprint form, fr_lifecycle = lifecycle_data,
            fr_metadata = Some (the_default [] metadata_data)\<rparr> data file_id now)) (\<lambda>f.
        bnd (serialize_upload_result sv f) (\<lambda>d. ret (JObj d)))))"

definition post_permanent_link :: "'s service \<Rightarrow> identity \<Rightarrow> pystr \<Rightarrow> pystr \<Rightarrow> ('s, json) act" where
  "post_permanent_link sv i file_id base_url =
     bnd (create_permanent_link sv i file_id base_url) (\<lambda>url.
       ret (JObj [(lit ''url'', JStr url), (lit ''permanent'', JBool True)]))"

definition get_files_id :: "'s service \<Rightarrow> identity \<Rightarrow> pystr \<Rightarrow> ('s, json) act" where
  "get_files_id sv i file_id = bnd (get_file_object i file_id) (\<lambda>f. ret (JObj (serialize_file sv f)))"

definition post_presign_download :: "'s service \<Rightarrow> identity \<Rightarrow> pystr \<Rightarrow> jobject option \<Rightarrow> ('s, json) act" where
  "post_presign_download sv i file_id body =
     bnd (lift (optional int_value (jget ''expires_seconds'' (the_default [] body)))) (\<lambda>expires.
     bnd (presign_download sv i file_id expires) (\<lambda>url. ret (JObj [(lit ''url'', JStr url)])))"

definition delete_files_id :: "'s service \<Rightarrow> identity \<Rightarrow> pystr \<Rightarrow> dt \<Rightarrow> ('s, json) act" where
  "delete_files_id sv i file_id now =
     bnd (delete_file_handler sv i file_id now) (\<lambda>_.
       ret (JObj [(lit ''status'', JStr (lit ''deleted'')), (lit ''id'', JStr file_id)]))"

section \<open>The endpoints of presigned URLs\<close>

definition post_presign_put :: "'s service \<Rightarrow> identity \<Rightarrow> jobject \<Rightarrow> ('s, json) act" where
  "post_presign_put sv i body =
     bnd (lift (rbind (required ''bucket'' body) text_of)) (\<lambda>bucket.
     bnd (lift (rbind (required ''object_key'' body) text_of)) (\<lambda>object_key.
     bnd (lift (optional int_value (jget ''expires_seconds'' body))) (\<lambda>expires.
     bnd (presign_put sv i bucket object_key expires) (\<lambda>url.
       ret (JObj [(lit ''url'', JStr url), (lit ''method'', JStr (lit ''PUT''))])))))"

text \<open>The identity is not looked at: the object of any tenant can be read.\<close>

definition post_presign_get :: "'s service \<Rightarrow> identity \<Rightarrow> jobject \<Rightarrow> ('s, json) act" where
  "post_presign_get sv i body =
     bnd (lift (rbind (required ''bucket'' body) text_of)) (\<lambda>bucket.
     seq (guard (bucket \<in> set (sc_allowed_buckets (cf_storage (sv_settings sv)))) (ApiErr ''INVALID_BUCKET'' 422))
    (bnd (lift (rbind (required ''object_key'' body) text_of)) (\<lambda>raw_key.
     bnd (lift (normalize_relative_path (sv_nfc sv) 64 1024 raw_key)) (\<lambda>object_key.
     bnd (lift (optional int_value (jget ''expires_seconds'' body))) (\<lambda>expires.
     bnd (on_store (st_create_presigned_get_url (sv_storage sv) bucket object_key
            (presign_expiry (sv_settings sv) expires))) (\<lambda>url.
       ret (JObj [(lit ''url'', JStr url), (lit ''method'', JStr (lit ''GET''))])))))))"

section \<open>The endpoints of lifecycles\<close>

definition lifecycle_json :: "'s service \<Rightarrow> lifecycle_view \<Rightarrow> json" where
  "lifecycle_json sv v =
     JObj [(lit ''mode'', JStr (lv_mode v)), (lit ''action'', JStr (lv_action v)),
           (lit ''ttl_seconds'', jopt JInt (lv_ttl_seconds v)),
           (lit ''expires_at'', jopt (JStr \<circ> sv_isoformat sv) (lv_expires_at v)),
           (lit ''status'', JStr (lifecycle_status_text (lv_status v)))]"

definition get_files_lifecycle :: "'s service \<Rightarrow> identity \<Rightarrow> pystr \<Rightarrow> ('s, json) act" where
  "get_files_lifecycle sv i file_id = bnd (get_lifecycle i file_id) (\<lambda>v. ret (lifecycle_json sv v))"

definition patch_files_lifecycle ::
    "'s service \<Rightarrow> identity \<Rightarrow> pystr \<Rightarrow> jobject \<Rightarrow> dt \<Rightarrow> ('s, json) act" where
  "patch_files_lifecycle sv i file_id body now =
     bnd (transaction (update_file_lifecycle sv i file_id body now)) (\<lambda>v. ret (lifecycle_json sv v))"

definition post_lifecycle_extend ::
    "'s service \<Rightarrow> identity \<Rightarrow> pystr \<Rightarrow> jobject \<Rightarrow> dt \<Rightarrow> ('s, json) act" where
  "post_lifecycle_extend sv i file_id body now =
     bnd (lift (py_int_of (jget_default ''extend_seconds'' (JInt 0) body))) (\<lambda>n.
     bnd (transaction (FileLifecycles.extend sv i file_id n now)) (\<lambda>v. ret (lifecycle_json sv v)))"

definition post_make_permanent :: "'s service \<Rightarrow> identity \<Rightarrow> pystr \<Rightarrow> ('s, json) act" where
  "post_make_permanent sv i file_id =
     bnd (transaction (make_permanent sv i file_id)) (\<lambda>v. ret (lifecycle_json sv v))"

definition legal_hold_endpoint :: "identity \<Rightarrow> pystr \<Rightarrow> bool \<Rightarrow> ('s, json) act" where
  "legal_hold_endpoint i file_id hold =
     bnd (transaction (set_legal_hold i file_id hold)) (\<lambda>(h, id).
       ret (JObj [(lit ''legal_hold'', JBool h), (lit ''file_id'', JStr id)]))"

section \<open>The client configuration\<close>

text \<open>
  The sections \<open>service\<close> and \<open>directory_upload\<close> show settings the model does not
  have; they are arguments.
\<close>

definition get_client_config ::
    "'s service \<Rightarrow> pystr \<Rightarrow> jobject \<Rightarrow> jobject \<Rightarrow> ('s, json) act" where
  "get_client_config sv tenant service_section directory_section =
     (let c = sv_settings sv; mp = uc_multipart (cf_uploads c);
          rules = lf_policy (cf_lifecycle c); caps = st_capabilities (sv_storage sv);
          texts = (\<lambda>xs. JList (map JStr xs))
      in bnd (get_db (\<lambda>d.
           JObj [(lit ''service'', JObj service_section),
             (lit ''uploads'', JObj
               [(lit ''maximum_file_size_bytes'', JInt (get_max_file_size c d)),
                (lit ''default_mode'', JStr (get_default_mode c d)),
                (lit ''direct_upload_threshold_bytes'', JInt (get_direct_threshold c d)),
                (lit ''multipart'', JObj
                  [(lit ''enabled'', JBool (mp_enabled mp)),
                   (lit ''default_part_size_bytes'', JInt (get_default_part_size c d)),
                   (lit ''minimum_part_size_bytes'', JInt (mp_minimum_part_size_bytes mp)),
                   (lit ''maximum_part_size_bytes'', JInt (mp_maximum_part_size_bytes mp)),
                   (lit ''maximum_parts'', JInt (mp_maximum_parts mp)),
                   (lit ''maximum_presign_batch_size'', JInt (int (mp_maximum_presign_batch_size mp)))]),
                (lit ''session'', JObj
                  [(lit ''expires_after_seconds'', JInt (get_session_expiry c d)),
                   (lit ''refresh_enabled'', JBool (se_refresh_enabled (uc_session (cf_uploads c))))]),
                (lit ''allowed_buckets'', texts (list_buckets_for_tenant sv tenant d)),
                (lit ''managed_buckets'', texts (list_managed_buckets_for_tenant tenant d)),
                (lit ''default_bucket'', JStr (get_default_bucket c d))]),
             (lit ''presign'', JObj
               [(lit ''default_expires_seconds'', JInt (get_presign_default_seconds c d)),
                (lit ''maximum_expires_seconds'', JInt (ps_maximum_expires_seconds (cf_presign c)))]),
             (lit ''storage'', JObj
               [(lit ''backend'', JStr (st_backend_name (sv_storage sv))),
                (lit ''capabilities'', JObj
                  [(lit ''multipart'', JBool (cap_multipart caps)),
                   (lit ''presigned_put'', JBool (cap_presigned_put caps)),
                   (lit ''presigned_get'', JBool (cap_presigned_get caps)),
                   (lit ''presigned_upload_part'', JBool (cap_presigned_upload_part caps)),
                   (lit ''list_parts'', JBool (cap_list_parts caps))])]),
             (lit ''lifecycle'', JObj
               [(lit ''enabled'', JBool (lf_enabled (cf_lifecycle c))),
                (lit ''allowed_modes'', texts (lr_allowed_modes rules)),
                (lit ''allowed_actions'', texts (lr_allowed_actions rules)),
                (lit ''permanent_allowed'', JBool (lr_permanent_allowed rules)),
                (lit ''minimum_ttl_seconds'', JInt (lr_minimum_ttl_seconds rules)),
                (lit ''maximum_ttl_seconds'', JInt (lr_maximum_ttl_seconds rules)),
                (lit ''default_policy'', JObj (get_lifecycle_default (sv_loads sv) c d))]),
             (lit ''directory_upload'', JObj directory_section)])) ret)"

section \<open>Answers\<close>

text \<open>
  The status and the JSON of a response, \<open>None\<close> for a body that is no JSON. An
  \<open>ApiError\<close> is answered by its handler, any other exception by the plain text of the
  server.
\<close>

record http_reply =
  hr_status :: int
  hr_json :: "json option"

definition error_reply :: "error \<Rightarrow> http_reply" where
  "error_reply e =
     (if is_api_error e then \<lparr>hr_status = error_status e, hr_json = Some (JObj (error_payload e None))\<rparr>
      else \<lparr>hr_status = 500, hr_json = None\<rparr>)"

definition respond :: "('s, json) act \<Rightarrow> 's world \<Rightarrow> http_reply \<times> 's world" where
  "respond m w =
     (case m w of
        (Inr j, w') \<Rightarrow> (\<lparr>hr_status = 200, hr_json = Some j\<rparr>, w')
      | (Inl e, w') \<Rightarrow> (error_reply e, w'))"

end
