(* ===== verification/SdkClient.thy ===== *)
theory SdkClient
  imports SdkTransfer Api
begin

text \<open>
  The client of the SDK, \<open>src/sdk/pyuploadx/client.py\<close>, with its data classes of
  \<open>models.py\<close>, the stored states of \<open>state.py\<close> and the fingerprint of
  \<open>fingerprint.py\<close>. The HTTP client is a parameter: it takes a request and answers, or
  raises. JSON travels as JSON values. The progress callbacks are left out.
\<close>

section \<open>Requests and answers\<close>

text \<open>
  A body: none, JSON, raw bytes with the \<open>X-Part-SHA256\<close> header, or a form of text fields
  with one file (name, bytes, content type).
\<close>

datatype request_body =
    NoBody
  | JsonBody json
  | RawBody bytes pystr
  | FormBody "(pystr \<times> pystr) list" pystr bytes pystr

record http_request =
  rq_method :: string
  rq_path :: pystr
  rq_query :: "(pystr \<times> pystr) list"
  rq_body :: request_body

text \<open>
  What the client is given: the HTTP client, \<open>time.sleep\<close>, SHA-256 as hexadecimal digits,
  \<open>json.dumps\<close>, NFC, and the order in which the threads come to the parts.
\<close>

record 'w sdk =
  sk_send :: "http_request \<Rightarrow> ('w, http_reply) call"
  sk_pause :: "nat \<Rightarrow> 'w \<Rightarrow> 'w"
  sk_sha256 :: "bytes \<Rightarrow> pystr"
  sk_dumps :: "json \<Rightarrow> pystr"
  sk_nfc :: "pystr \<Rightarrow> pystr"
  sk_order :: "int list \<Rightarrow> int list"

text \<open>
  The client's state: the world its requests go to, the stored states of unfinished uploads by
  their id, and the threshold read from the server, if it was.
\<close>

record 'w client =
  cl_net :: 'w
  cl_states :: "pystr \<rightharpoonup> jobject"
  cl_threshold :: "json option"

definition on_net :: "('w, 'a) call \<Rightarrow> ('w client, 'a) call" where
  "on_net m c = (case m (cl_net c) of (r, n) \<Rightarrow> (r, c\<lparr>cl_net := n\<rparr>))"

definition net_pause :: "'w sdk \<Rightarrow> nat \<Rightarrow> 'w client \<Rightarrow> 'w client" where
  "net_pause k n c = c\<lparr>cl_net := sk_pause k n (cl_net c)\<rparr>"

text \<open>\<open>response.json()\<close>\<close>

definition reply_json :: "http_reply \<Rightarrow> sdk_error + json" where
  "reply_json r = (case hr_json r of None \<Rightarrow> Inl (SdkCrash ValueError) | Some j \<Rightarrow> Inr j)"

text \<open>\<open>payload.get(key, default)\<close> of a payload that has to be an object.\<close>

definition payload_get :: "string \<Rightarrow> json \<Rightarrow> json \<Rightarrow> sdk_error + json" where
  "payload_get k d j = (case j of JObj e \<Rightarrow> Inr (jget_default k d e) | _ \<Rightarrow> Inl (SdkCrash AttributeError))"

text \<open>\<open>ERROR_MAP.get(code, UploadClientError)\<close>; a list or an object cannot be looked up.\<close>

definition error_class :: "json \<Rightarrow> sdk_error + sdk_class" where
  "error_class code =
     (case code of
        JList _ \<Rightarrow> Inl (SdkCrash TypeError)
      | JObj _ \<Rightarrow> Inl (SdkCrash TypeError)
      | _ \<Rightarrow> Inr (case find (\<lambda>e. JStr (lit (fst e)) = code) sdk_error_map of
                     None \<Rightarrow> SdkUploadClientError | Some e \<Rightarrow> snd e))"

definition raise_for_status :: "http_reply \<Rightarrow> sdk_error + unit" where
  "raise_for_status r =
     (if hr_status r < 400 then Inr ()
      else rbind (reply_json r) (\<lambda>payload.
           rbind (payload_get ''error'' (JObj []) payload) (\<lambda>error.
           rbind (payload_get ''code'' (JStr []) error) (\<lambda>code.
           rbind (error_class code) (\<lambda>c. Inl (SdkErr c (Some (hr_status r))))))))"

text \<open>\<open>_request\<close>: the listed statuses are raised inside the retry loop.\<close>

definition guarded :: "'w sdk \<Rightarrow> http_request \<Rightarrow> ('w client, http_reply) call" where
  "guarded k rq =
     bnd (on_net (sk_send k rq)) (\<lambda>r.
       if hr_status r \<in> {408, 429, 500, 502, 503, 504}
       then raise (SdkErr SdkServerError (Some (hr_status r))) else ret r)"

definition request :: "'w sdk \<Rightarrow> http_request \<Rightarrow> ('w client, http_reply) call" where
  "request k rq = retry_default (net_pause k) (guarded k rq)"

text \<open>\<open>response = self._request(...); self._raise_for_status(response)\<close>, with its JSON.\<close>

definition json_request :: "'w sdk \<Rightarrow> http_request \<Rightarrow> ('w client, json) call" where
  "json_request k rq =
     bnd (request k rq) (\<lambda>r. bnd (lift (raise_for_status r)) (\<lambda>_. lift (reply_json r)))"

definition plain_request :: "string \<Rightarrow> pystr \<Rightarrow> http_request" where
  "plain_request m p = \<lparr>rq_method = m, rq_path = p, rq_query = [], rq_body = NoBody\<rparr>"

definition body_request :: "string \<Rightarrow> pystr \<Rightarrow> json \<Rightarrow> http_request" where
  "body_request m p j = \<lparr>rq_method = m, rq_path = p, rq_query = [], rq_body = JsonBody j\<rparr>"

section \<open>Data classes\<close>

text \<open>The data classes take what the payload holds, whatever its type.\<close>

record file_info =
  fi_id :: json
  fi_bucket :: json
  fi_object_key :: json
  fi_original_filename :: json
  fi_size_bytes :: json
  fi_content_type :: json
  fi_etag :: json
  fi_checksum_value :: json
  fi_status :: json
  fi_lifecycle_mode :: json
  fi_expires_at :: json
  fi_legal_hold :: json
  fi_completed_at :: json
  fi_download_url :: json
  fi_expires_in :: json

record upload_session_info =
  si_id :: json
  si_bucket :: json
  si_object_key :: json
  si_original_filename :: json
  si_total_size :: json
  si_part_size :: json
  si_total_parts :: json
  si_upload_mode :: json
  si_backend :: json
  si_storage_upload_id :: json
  si_file_fingerprint :: json
  si_expected_sha256 :: json
  si_status :: json
  si_effective_lifecycle :: json
  si_completed_file_id :: json
  si_expires_at :: json

record directory_job_info =
  ji_id :: json
  ji_root_directory_name :: json
  ji_bucket :: json
  ji_destination_prefix :: json
  ji_status :: json
  ji_conflict_policy :: json
  ji_total_entries :: json
  ji_total_files :: json
  ji_total_directories :: json
  ji_total_bytes :: json
  ji_uploaded_files :: json
  ji_uploaded_bytes :: json
  ji_failed_files :: json
  ji_skipped_files :: json
  ji_manifest_hash :: json
  ji_effective_lifecycle :: json

text \<open>\<open>data[key]\<close>\<close>

definition field :: "string \<Rightarrow> json \<Rightarrow> sdk_error + json" where
  "field k j =
     (case j of
        JObj d \<Rightarrow> (case map_of d (lit k) of None \<Rightarrow> Inl (SdkCrash KeyError) | Some v \<Rightarrow> Inr v)
      | _ \<Rightarrow> Inl (SdkCrash TypeError))"

text \<open>The other fields are read once \<open>data\<close> is known to be an object.\<close>

definition file_info_of :: "json \<Rightarrow> sdk_error + file_info" where
  "file_info_of j =
     rbind (field ''id'' j) (\<lambda>i.
     rbind (field ''bucket'' j) (\<lambda>b.
     rbind (field ''object_key'' j) (\<lambda>key.
     let d = (case j of JObj d \<Rightarrow> d | _ \<Rightarrow> [])
     in Inr \<lparr>fi_id = i, fi_bucket = b, fi_object_key = key,
             fi_original_filename = jget_default ''original_filename'' (JStr []) d,
             fi_size_bytes = jget_default ''size_bytes'' (JInt 0) d,
             fi_content_type = jget ''content_type'' d, fi_etag = jget ''etag'' d,
             fi_checksum_value = jget ''checksum_value'' d,
             fi_status = jget_default ''status'' (JStr (lit ''active'')) d,
             fi_lifecycle_mode = jget ''lifecycle_mode'' d, fi_expires_at = jget ''expires_at'' d,
             fi_legal_hold = jget_default ''legal_hold'' (JBool False) d,
             fi_completed_at = jget ''completed_at'' d, fi_download_url = jget ''download_url'' d,
             fi_expires_in = jget ''expires_in'' d\<rparr>)))"

definition session_info_of :: "json \<Rightarrow> sdk_error + upload_session_info" where
  "session_info_of j =
     rbind (field ''id'' j) (\<lambda>i.
     rbind (field ''bucket'' j) (\<lambda>b.
     rbind (field ''object_key'' j) (\<lambda>key.
     let d = (case j of JObj d \<Rightarrow> d | _ \<Rightarrow> [])
     in Inr \<lparr>si_id = i, si_bucket = b, si_object_key = key,
             si_original_filename = jget_default ''original_filename'' (JStr []) d,
             si_total_size = jget_default ''total_size'' (JInt 0) d,
             si_part_size = jget_default ''part_size'' (JInt 0) d,
             si_total_parts = jget_default ''total_parts'' (JInt 0) d,
             si_upload_mode = jget_default ''upload_mode'' (JStr (lit ''automatic'')) d,
             si_backend = jget_default ''backend'' (JStr (lit ''local'')) d,
             si_storage_upload_id = jget ''storage_upload_id'' d,
             si_file_fingerprint = jget ''file_fingerprint'' d,
             si_expected_sha256 = jget ''expected_sha256'' d,
             si_status = jget_default ''status'' (JStr (lit ''initiated'')) d,
             si_effective_lifecycle = jget ''effective_lifecycle'' d,
             si_completed_file_id = jget ''completed_file_id'' d,
             si_expires_at = jget ''expires_at'' d\<rparr>)))"

definition job_info_of :: "json \<Rightarrow> sdk_error + directory_job_info" where
  "job_info_of j =
     rbind (field ''id'' j) (\<lambda>i.
     let d = (case j of JObj d \<Rightarrow> d | _ \<Rightarrow> [])
     in Inr \<lparr>ji_id = i, ji_root_directory_name = jget_default ''root_directory_name'' (JStr []) d,
             ji_bucket = jget_default ''bucket'' (JStr []) d,
             ji_destination_prefix = jget_default ''destination_prefix'' (JStr []) d,
             ji_status = jget_default ''status'' (JStr []) d,
             ji_conflict_policy = jget_default ''conflict_policy'' (JStr (lit ''reject'')) d,
             ji_total_entries = jget_default ''total_entries'' (JInt 0) d,
             ji_total_files = jget_default ''total_files'' (JInt 0) d,
             ji_total_directories = jget_default ''total_directories'' (JInt 0) d,
             ji_total_bytes = jget_default ''total_bytes'' (JInt 0) d,
             ji_uploaded_files = jget_default ''uploaded_files'' (JInt 0) d,
             ji_uploaded_bytes = jget_default ''uploaded_bytes'' (JInt 0) d,
             ji_failed_files = jget_default ''failed_files'' (JInt 0) d,
             ji_skipped_files = jget_default ''skipped_files'' (JInt 0) d,
             ji_manifest_hash = jget ''manifest_hash'' d,
             ji_effective_lifecycle = jget ''effective_lifecycle'' d\<rparr>)"

section \<open>Local files\<close>

text \<open>A file on the client's machine: its name, its bytes and its time of modification.\<close>

record local_file =
  lf_name :: pystr
  lf_data :: bytes
  lf_mtime_ns :: int

definition ascii_bytes :: "pystr \<Rightarrow> bytes" where
  "ascii_bytes s = map of_nat s"

text \<open>
  \<open>fast_fingerprint\<close> with its default sample size: the size and the time as text, the
  head, and for a large file a piece from the middle and the tail.
\<close>

definition fast_fingerprint :: "(bytes \<Rightarrow> pystr) \<Rightarrow> local_file \<Rightarrow> pystr" where
  "fast_fingerprint sha256 f =
     (let sample_size = 65536; data = lf_data f; sz = length data;
          start = ascii_bytes (py_str_int (int sz) @ lit '':'' @ py_str_int (lf_mtime_ns f));
          head = ascii_bytes (lit ''h'') @ take (min sample_size sz) data;
          mid = ascii_bytes (lit ''m'') @ take sample_size (drop (sz div 2) data);
          tail = ascii_bytes (lit ''t'') @ drop (sz - sample_size) data
      in lit ''fp:'' @ take 40 (sha256
           (start @ (if sz = 0 then [] else head @ (if 3 * sample_size < sz then mid @ tail else [])))))"

definition sha256_of_file :: "(bytes \<Rightarrow> pystr) \<Rightarrow> local_file \<Rightarrow> pystr" where
  "sha256_of_file sha256 f = sha256 (lf_data f)"

section \<open>Stored upload states\<close>

record file_upload_state =
  st_upload_id :: pystr
  st_file_path :: pystr
  st_bucket :: pystr
  st_object_key :: pystr
  st_total_size :: int
  st_part_size :: int
  st_total_parts :: int
  st_fingerprint :: pystr
  st_completed_parts :: "int set"
  st_status :: pystr

definition state_to_dict :: "file_upload_state \<Rightarrow> jobject" where
  "state_to_dict s =
     [(lit ''upload_id'', JStr (st_upload_id s)), (lit ''file_path'', JStr (st_file_path s)),
      (lit ''bucket'', JStr (st_bucket s)), (lit ''object_key'', JStr (st_object_key s)),
      (lit ''total_size'', JInt (st_total_size s)), (lit ''part_size'', JInt (st_part_size s)),
      (lit ''total_parts'', JInt (st_total_parts s)), (lit ''fingerprint'', JStr (st_fingerprint s)),
      (lit ''completed_parts'', JList (map JInt (sorted_list_of_set (st_completed_parts s)))),
      (lit ''status'', JStr (st_status s))]"

definition sdk_text :: "json \<Rightarrow> sdk_error + pystr" where
  "sdk_text v = (case v of JStr s \<Rightarrow> Inr s | _ \<Rightarrow> Inl (SdkCrash TypeError))"

definition sdk_int :: "json \<Rightarrow> sdk_error + int" where
  "sdk_int v = (case v of JInt n \<Rightarrow> Inr n | _ \<Rightarrow> Inl (SdkCrash TypeError))"

fun sdk_ints :: "json list \<Rightarrow> sdk_error + int list" where
  "sdk_ints [] = Inr []"
| "sdk_ints (v # vs) = rbind (sdk_int v) (\<lambda>n. rbind (sdk_ints vs) (\<lambda>ns. Inr (n # ns)))"

text \<open>\<open>set(payload.get(key, []))\<close>, of a list of integers.\<close>

definition int_set :: "json \<Rightarrow> sdk_error + int set" where
  "int_set v =
     (case v of JList vs \<Rightarrow> rbind (sdk_ints vs) (\<lambda>ns. Inr (set ns)) | _ \<Rightarrow> Inl (SdkCrash TypeError))"

text \<open>
  \<open>cls(**data)\<close>: every field without a default has to be there, and no other key. The
  types are those \<open>save\<close> wrote; others are a \<open>TypeError\<close>.
\<close>

definition state_keys :: "pystr list" where
  "state_keys =
     [lit ''upload_id'', lit ''file_path'', lit ''bucket'', lit ''object_key'', lit ''total_size'',
      lit ''part_size'', lit ''total_parts'', lit ''fingerprint'', lit ''completed_parts'', lit ''status'']"

definition state_of_dict :: "jobject \<Rightarrow> sdk_error + file_upload_state" where
  "state_of_dict d =
     (if \<exists>e\<in>set d. fst e \<notin> set state_keys then Inl (SdkCrash TypeError)
      else
        rbind (int_set (jget_default ''completed_parts'' (JList []) d)) (\<lambda>done_parts.
        rbind (sdk_text (jget ''upload_id'' d)) (\<lambda>upload_id.
        rbind (sdk_text (jget ''file_path'' d)) (\<lambda>file_path.
        rbind (sdk_text (jget ''bucket'' d)) (\<lambda>bucket.
        rbind (sdk_text (jget ''object_key'' d)) (\<lambda>object_key.
        rbind (sdk_int (jget ''total_size'' d)) (\<lambda>total_size.
        rbind (sdk_int (jget ''part_size'' d)) (\<lambda>part_size.
        rbind (sdk_int (jget ''total_parts'' d)) (\<lambda>total_parts.
        rbind (sdk_text (jget ''fingerprint'' d)) (\<lambda>fingerprint.
        rbind (sdk_text (jget_default ''status'' (JStr (lit ''initiated'')) d)) (\<lambda>status.
          Inr \<lparr>st_upload_id = upload_id, st_file_path = file_path, st_bucket = bucket,
               st_object_key = object_key, st_total_size = total_size, st_part_size = part_size,
               st_total_parts = total_parts, st_fingerprint = fingerprint,
               st_completed_parts = done_parts, st_status = status\<rparr>)))))))))))"

text \<open>
  The store keeps one JSON file per upload id. None of the fields that must not be stored is a
  field of the state.
\<close>

definition forbidden_state_fields :: "pystr list" where
  "forbidden_state_fields =
     [lit ''api_key'', lit ''bearer_token'', lit ''access_key'', lit ''secret_key'', lit ''presigned_url'']"

definition state_save :: "file_upload_state \<Rightarrow> ('w client, unit) call" where
  "state_save s =
     modify (\<lambda>c. c\<lparr>cl_states := (cl_states c)(st_upload_id s \<mapsto>
       filter (\<lambda>e. fst e \<notin> set forbidden_state_fields) (state_to_dict s))\<rparr>)"

definition state_load :: "pystr \<Rightarrow> ('w client, file_upload_state option) call" where
  "state_load upload_id =
     bnd (get (\<lambda>c. cl_states c upload_id)) (\<lambda>d.
       case d of None \<Rightarrow> ret None | Some d \<Rightarrow> bnd (lift (state_of_dict d)) (\<lambda>s. ret (Some s)))"

definition state_delete :: "pystr \<Rightarrow> ('w client, unit) call" where
  "state_delete upload_id = modify (\<lambda>c. c\<lparr>cl_states := (cl_states c)(upload_id := None)\<rparr>)"

section \<open>Uploading\<close>

definition resolve_object_key ::
    "(pystr \<Rightarrow> pystr) \<Rightarrow> pystr option \<Rightarrow> pystr option \<Rightarrow> pystr \<Rightarrow> sdk_error + pystr" where
  "resolve_object_key nfc object_key directory filename =
     (if present object_key then Inr (the_default [] object_key)
      else if present directory
      then rbind (sdk_normalize_relative_path nfc 64 1024 (the_default [] directory))
             (\<lambda>d. Inr (d @ slash # filename))
      else Inr filename)"

text \<open>A lifecycle is an object with \<open>to_dict\<close>, as the builders make it, or a dictionary.\<close>

datatype lifecycle_arg = LifecycleObject jobject | LifecycleDict jobject

definition to_dict :: "lifecycle_arg \<Rightarrow> sdk_error + jobject" where
  "to_dict l = (case l of LifecycleObject d \<Rightarrow> Inr d | LifecycleDict d \<Rightarrow> Inl (SdkCrash AttributeError))"

definition lifecycle_payload :: "lifecycle_arg option \<Rightarrow> sdk_error + jobject option" where
  "lifecycle_payload l =
     (case l of None \<Rightarrow> Inr None | Some a \<Rightarrow> rbind (to_dict a) (\<lambda>d. Inr (Some d)))"

record upload_args =
  ua_bucket :: pystr
  ua_object_key :: "pystr option"
  ua_directory :: "pystr option"
  ua_lifecycle :: "lifecycle_arg option"
  ua_metadata :: "jobject option"
  ua_part_size :: int
  ua_resume :: bool

definition upload_fields :: "'w sdk \<Rightarrow> local_file \<Rightarrow> pystr \<Rightarrow> upload_args \<Rightarrow> (pystr \<times> pystr) list" where
  "upload_fields k f key a =
     [(lit ''bucket'', ua_bucket a), (lit ''object_key'', key),
      (lit ''file_fingerprint'', fast_fingerprint (sk_sha256 k) f)]
     @ (case ua_lifecycle a of
          None \<Rightarrow> []
        | Some (LifecycleObject d) \<Rightarrow> [(lit ''lifecycle'', sk_dumps k (JObj d))]
        | Some (LifecycleDict d) \<Rightarrow> [(lit ''lifecycle'', sk_dumps k (JObj d))])
     @ (case ua_metadata a of
          None \<Rightarrow> []
        | Some d \<Rightarrow> if d = [] then [] else [(lit ''metadata'', sk_dumps k (JObj d))])"

text \<open>
  \<open>None\<close> is a path that is no file. The request is sent by the HTTP client directly, so
  the retry loop sees what it raises and no status.
\<close>

definition client_upload_file ::
    "'w sdk \<Rightarrow> local_file option \<Rightarrow> upload_args \<Rightarrow> ('w client, file_info) call" where
  "client_upload_file k file a =
     (case file of
        None \<Rightarrow> raise client_error
      | Some f \<Rightarrow>
          bnd (lift (resolve_object_key (sk_nfc k) (ua_object_key a) (ua_directory a) (lf_name f))) (\<lambda>key.
          bnd (retry_default (net_pause k) (on_net (sk_send k
                 \<lparr>rq_method = ''POST'', rq_path = lit ''/v1/files/upload'', rq_query = [],
                  rq_body = FormBody (upload_fields k f key a) (lf_name f) (lf_data f)
                    (lit ''application/octet-stream'')\<rparr>))) (\<lambda>r.
          bnd (lift (raise_for_status r)) (\<lambda>_.
            lift (rbind (reply_json r) file_info_of)))))"

definition create_upload_body :: "pystr \<Rightarrow> pystr \<Rightarrow> int \<Rightarrow> int \<Rightarrow> pystr option \<Rightarrow> pystr option \<Rightarrow> jobject option \<Rightarrow> jobject" where
  "create_upload_body bucket object_key total_size part_size file_fingerprint expected_sha256 lifecycle =
     [(lit ''bucket'', JStr bucket), (lit ''object_key'', JStr object_key),
      (lit ''total_size'', JInt total_size), (lit ''part_size'', JInt part_size),
      (lit ''upload_mode'', JStr (lit ''automatic''))]
     @ (if present file_fingerprint
        then [(lit ''file_fingerprint'', JStr (the_default [] file_fingerprint))] else [])
     @ (if present expected_sha256
        then [(lit ''expected_sha256'', JStr (the_default [] expected_sha256))] else [])
     @ (case lifecycle of
          None \<Rightarrow> [] | Some d \<Rightarrow> if d = [] then [] else [(lit ''lifecycle'', JObj d)])"

definition client_create_upload ::
    "'w sdk \<Rightarrow> pystr \<Rightarrow> pystr \<Rightarrow> int \<Rightarrow> int \<Rightarrow> pystr option \<Rightarrow> pystr option \<Rightarrow> jobject option
     \<Rightarrow> ('w client, upload_session_info) call" where
  "client_create_upload k bucket object_key total_size part_size file_fingerprint expected_sha256 lifecycle =
     bnd (json_request k (body_request ''POST'' (lit ''/v1/uploads'')
            (JObj (create_upload_body bucket object_key total_size part_size file_fingerprint
               expected_sha256 lifecycle)))) (\<lambda>j. lift (session_info_of j))"

text \<open>
  The answer to the \<open>PUT\<close> of a part, read as JSON before its status is looked at. A
  field of another type than the service sends is a \<open>TypeError\<close> here.
\<close>

definition part_reply :: "http_reply \<Rightarrow> sdk_error + int \<times> uploaded_part option" where
  "part_reply r =
     rbind (reply_json r) (\<lambda>j.
       if 400 \<le> hr_status r
       then rbind (payload_get ''error'' (JObj []) j) (\<lambda>error.
            rbind (payload_get ''message'' JNull error) (\<lambda>_. Inr (hr_status r, None)))
       else rbind (rbind (field ''part_number'' j) sdk_int) (\<lambda>n.
            rbind (rbind (field ''etag'' j) sdk_text) (\<lambda>etag.
            rbind (rbind (field ''size_bytes'' j) sdk_int) (\<lambda>sz.
            rbind (case payload_get ''checksum_sha256'' JNull j of
                     Inl e \<Rightarrow> Inl e
                   | Inr v \<Rightarrow> if v = JNull then Inr None else map_sum id Some (sdk_text v)) (\<lambda>cs.
              Inr (hr_status r, Some \<lparr>up_part_number = n, up_etag = etag, up_size_bytes = sz,
                                      up_checksum_sha256 = cs\<rparr>))))))"

definition put_part ::
    "'w sdk \<Rightarrow> pystr \<Rightarrow> int \<Rightarrow> bytes \<Rightarrow> pystr \<Rightarrow> ('w client, int \<times> uploaded_part option) call" where
  "put_part k upload_id n body checksum =
     bnd (request k \<lparr>rq_method = ''PUT'',
            rq_path = lit ''/v1/uploads/'' @ upload_id @ lit ''/parts/'' @ py_str_int n,
            rq_query = [], rq_body = RawBody body checksum\<rparr>) (\<lambda>r. lift (part_reply r))"

text \<open>
  The parts to send: what the server says is missing, when a state with this fingerprint was
  stored, or all. The status of the answer is not looked at.
\<close>

definition parts_missing ::
    "'w sdk \<Rightarrow> pystr \<Rightarrow> bool \<Rightarrow> pystr \<Rightarrow> file_upload_state option \<Rightarrow> int \<Rightarrow> ('w client, int set) call" where
  "parts_missing k upload_id wanted fingerprint local_state total_parts =
     (let known = (case local_state of None \<Rightarrow> False | Some s \<Rightarrow> st_fingerprint s = fingerprint)
      in if wanted \<and> known
         then bnd (request k (plain_request ''POST'' (lit ''/v1/uploads/'' @ upload_id @ lit ''/resume'')))
                (\<lambda>r. lift (rbind (reply_json r) (\<lambda>j.
                     rbind (payload_get ''missing_parts'' (JList []) j) int_set)))
         else ret {1..total_parts})"

text \<open>
  The part of \<open>upload_large_file\<close> that follows on a created session: the missing parts are
  put, the session is completed and its stored state is deleted.
\<close>

definition send_parts ::
    "'w sdk \<Rightarrow> local_file \<Rightarrow> upload_args \<Rightarrow> upload_session_info \<Rightarrow> ('w client, file_info) call" where
  "send_parts k f a session =
     (let fingerprint = fast_fingerprint (sk_sha256 k) f
      in bnd (lift (sdk_text (si_id session))) (\<lambda>upload_id.
         bnd (state_load upload_id) (\<lambda>local_state.
         bnd (lift (sdk_int (si_total_parts session))) (\<lambda>total_parts.
         bnd (parts_missing k upload_id (ua_resume a) fingerprint local_state total_parts) (\<lambda>missing.
         bnd (lift (sdk_int (si_part_size session))) (\<lambda>part_size.
         bnd (lift (sdk_int (si_total_size session))) (\<lambda>total_size.
         bnd (upload_all_parts (sk_order k)
                (upload_one_part (net_pause k) (put_part k upload_id) (sk_sha256 k) (lf_data f)
                   total_size part_size) missing) (\<lambda>_.
         bnd (retry_default (net_pause k) (request k (plain_request ''POST''
                (lit ''/v1/uploads/'' @ upload_id @ lit ''/complete'')))) (\<lambda>r.
         bnd (lift (raise_for_status r)) (\<lambda>_.
         bnd (lift (rbind (reply_json r) file_info_of)) (\<lambda>info.
         seq (state_delete upload_id) (ret info))))))))))))"

definition client_upload_large_file ::
    "'w sdk \<Rightarrow> local_file option \<Rightarrow> upload_args \<Rightarrow> ('w client, file_info) call" where
  "client_upload_large_file k file a =
     (case file of
        None \<Rightarrow> raise client_error
      | Some f \<Rightarrow>
          bnd (lift (resolve_object_key (sk_nfc k) (ua_object_key a) (ua_directory a) (lf_name f))) (\<lambda>key.
          bnd (lift (lifecycle_payload (ua_lifecycle a))) (\<lambda>lifecycle.
          bnd (client_create_upload k (ua_bucket a) key (int (length (lf_data f))) (ua_part_size a)
                 (Some (fast_fingerprint (sk_sha256 k) f)) None lifecycle) (\<lambda>session.
          if si_upload_mode session = JStr (lit ''proxy'')
          then client_upload_file k (Some f) (a\<lparr>ua_metadata := None\<rparr>)
          else send_parts k f a session))))"

section \<open>Choosing the way to upload\<close>

text \<open>
  \<open>_resolve_threshold\<close>: the server's threshold, asked for once; the client's own one when
  the server cannot be asked or has none.
\<close>

definition resolve_threshold :: "'w sdk \<Rightarrow> int \<Rightarrow> ('w client, json) call" where
  "resolve_threshold k large_file_threshold =
     bnd (get cl_threshold) (\<lambda>known.
       case known of
         Some v \<Rightarrow> ret v
       | None \<Rightarrow>
           bnd (catch
                 (bnd (json_request k (plain_request ''GET'' (lit ''/v1/client-config''))) (\<lambda>j.
                  bnd (lift (payload_get ''uploads'' (JObj []) j)) (\<lambda>u.
                  bnd (lift (payload_get ''direct_upload_threshold_bytes'' JNull u)) (\<lambda>v.
                    ret (py_or v (JInt large_file_threshold))))))
                 (\<lambda>e. case e of SdkErr c s \<Rightarrow> ret (JInt large_file_threshold) | _ \<Rightarrow> raise e)) (\<lambda>v.
           seq (modify (\<lambda>c. c\<lparr>cl_threshold := Some v\<rparr>)) (ret v)))"

text \<open>\<open>size > threshold\<close>, the threshold being whatever the server sent.\<close>

definition exceeds :: "int \<Rightarrow> json \<Rightarrow> sdk_error + bool" where
  "exceeds n v =
     (case json_number v of None \<Rightarrow> Inl (SdkCrash TypeError) | Some (x, e) \<Rightarrow> Inr (x < n * 2 ^ e))"

text \<open>\<open>Client.upload\<close> of a path that is a file.\<close>

definition client_upload_path ::
    "'w sdk \<Rightarrow> int \<Rightarrow> local_file \<Rightarrow> upload_args \<Rightarrow> ('w client, file_info) call" where
  "client_upload_path k large_file_threshold f a =
     bnd (resolve_threshold k large_file_threshold) (\<lambda>v.
     bnd (lift (exceeds (int (length (lf_data f))) v)) (\<lambda>large.
       if large then client_upload_large_file k (Some f) a else client_upload_file k (Some f) a))"

section \<open>The other calls\<close>

definition file_path_of :: "pystr \<Rightarrow> pystr" where
  "file_path_of file_id = lit ''/v1/files/'' @ file_id"

definition client_delete :: "'w sdk \<Rightarrow> pystr \<Rightarrow> ('w client, unit) call" where
  "client_delete k file_id =
     bnd (request k (plain_request ''DELETE'' (file_path_of file_id))) (\<lambda>r. lift (raise_for_status r))"

definition client_get_file :: "'w sdk \<Rightarrow> pystr \<Rightarrow> ('w client, file_info) call" where
  "client_get_file k file_id =
     bnd (json_request k (plain_request ''GET'' (file_path_of file_id))) (\<lambda>j. lift (file_info_of j))"

text \<open>A parameter is sent when it is given and not empty.\<close>

definition given :: "string \<Rightarrow> pystr option \<Rightarrow> (pystr \<times> pystr) list" where
  "given name v = (if present v then [(lit name, the_default [] v)] else [])"

definition client_list_files ::
    "'w sdk \<Rightarrow> pystr option \<Rightarrow> pystr option \<Rightarrow> pystr option \<Rightarrow> int \<Rightarrow> int \<Rightarrow> pystr \<Rightarrow> pystr option
     \<Rightarrow> ('w client, json) call" where
  "client_list_files k bucket start status limit offset sort_by sort_order =
     json_request k \<lparr>rq_method = ''GET'', rq_path = lit ''/v1/files'',
       rq_query = [(lit ''limit'', py_str_int limit), (lit ''offset'', py_str_int offset),
                   (lit ''sort_by'', sort_by)]
         @ given ''sort_order'' sort_order @ given ''bucket'' bucket @ given ''prefix'' start
         @ given ''status'' status,
       rq_body = NoBody\<rparr>"

definition client_get_upload :: "'w sdk \<Rightarrow> pystr \<Rightarrow> ('w client, upload_session_info) call" where
  "client_get_upload k upload_id =
     bnd (json_request k (plain_request ''GET'' (lit ''/v1/uploads/'' @ upload_id)))
       (\<lambda>j. lift (session_info_of j))"

definition client_get_directory_job :: "'w sdk \<Rightarrow> pystr \<Rightarrow> ('w client, directory_job_info) call" where
  "client_get_directory_job k job_id =
     bnd (json_request k (plain_request ''GET'' (lit ''/v1/directory-uploads/'' @ job_id)))
       (\<lambda>j. lift (job_info_of j))"

text \<open>A refusal with status 501 means that the backend has no presigned downloads.\<close>

definition client_get_download_url :: "'w sdk \<Rightarrow> pystr \<Rightarrow> int option \<Rightarrow> ('w client, json) call" where
  "client_get_download_url k file_id expires_seconds =
     catch
       (bnd (json_request k (body_request ''POST'' (file_path_of file_id @ lit ''/presign-download'')
               (JObj (case expires_seconds of
                        None \<Rightarrow> [] | Some n \<Rightarrow> [(lit ''expires_seconds'', JInt n)]))))
          (\<lambda>j. lift (payload_get ''url'' JNull j)))
       (\<lambda>e. case e of
              SdkErr c status \<Rightarrow> if status = Some 501 then ret JNull else raise e
            | _ \<Rightarrow> raise e)"

definition client_get_lifecycle :: "'w sdk \<Rightarrow> pystr \<Rightarrow> ('w client, json) call" where
  "client_get_lifecycle k file_id =
     json_request k (plain_request ''GET'' (file_path_of file_id @ lit ''/lifecycle''))"

definition client_update_lifecycle :: "'w sdk \<Rightarrow> pystr \<Rightarrow> jobject \<Rightarrow> ('w client, json) call" where
  "client_update_lifecycle k file_id lifecycle =
     json_request k (body_request ''PATCH'' (file_path_of file_id @ lit ''/lifecycle'') (JObj lifecycle))"

definition client_extend_lifecycle :: "'w sdk \<Rightarrow> pystr \<Rightarrow> int \<Rightarrow> ('w client, json) call" where
  "client_extend_lifecycle k file_id extend_seconds =
     json_request k (body_request ''POST'' (file_path_of file_id @ lit ''/lifecycle/extend'')
       (JObj [(lit ''extend_seconds'', JInt extend_seconds)]))"

definition client_set_legal_hold :: "'w sdk \<Rightarrow> pystr \<Rightarrow> bool \<Rightarrow> ('w client, json) call" where
  "client_set_legal_hold k file_id hold =
     json_request k (plain_request (if hold then ''POST'' else ''DELETE'')
       (file_path_of file_id @ lit ''/legal-hold''))"

text \<open>
  \<open>download\<close>: from a URL, in parallel, or in one stream. In the last case a refusal is
  read as JSON before the body has been read, which httpx answers with a \<open>RuntimeError\<close>.
\<close>

definition client_download ::
    "((nat \<times> bytes) list \<Rightarrow> (nat \<times> bytes) list) \<Rightarrow> getter option \<Rightarrow> getter \<Rightarrow> nat \<Rightarrow> download_result" where
  "client_download order url proxy concurrency =
     (case url of
        Some from_url \<Rightarrow> stream_to_disk order from_url concurrency
      | None \<Rightarrow>
          if 1 < concurrency then stream_parallel order proxy concurrency
          else (case proxy None of
                  Inl e \<Rightarrow> (Some e, None)
                | Inr r \<Rightarrow> if 400 \<le> rs_status r then (Some (SdkCrash RuntimeError), None)
                           else stream_response r))"

section \<open>Errors and states across the border\<close>

text \<open>
  An \<open>ApiError\<close> of the service is the exception its code is mapped to, with its status,
  whichever endpoint it comes from.
\<close>

lemma error_class_code: "error_class (JStr (lit code)) = Inr (the_default SdkUploadClientError (map_of sdk_error_map code))"
proof -
  have "find (\<lambda>e. JStr (lit (fst e)) = JStr (lit code)) xs = map_option (Pair code) (map_of xs code)"
    for xs :: "(string \<times> sdk_class) list"
    by (induction xs) auto
  then show ?thesis by (simp add: error_class_def the_default_def split: option.split)
qed

lemma raise_for_error:
  assumes "is_api_error e" "400 \<le> error_status e"
  shows "raise_for_status (error_reply e)
    = Inl (SdkErr (the_default SdkUploadClientError (map_of sdk_error_map (error_code e))) (Some (error_status e)))"
  using assms error_class_code[of "error_code e"]
  by (simp add: raise_for_status_def error_reply_def reply_json_def error_payload_def payload_get_def jget_default_def)

text \<open>What the service serializes, the data classes read back.\<close>

lemma session_info_of_serialized:
  "\<exists>s. session_info_of (JObj (serialize_session sv u)) = Inr s
     \<and> si_id s = JStr (us_id u) \<and> si_upload_mode s = JStr (upload_mode_text (us_upload_mode u))
     \<and> si_total_size s = JInt (us_total_size u) \<and> si_part_size s = JInt (us_part_size u)
     \<and> si_total_parts s = JInt (us_total_parts u)"
  by (simp add: session_info_of_def serialize_session_def field_def jget_default_def Let_def)

lemma file_info_of_serialized:
  "\<exists>i. file_info_of (JObj (serialize_file sv f @ extra)) = Inr i \<and> fi_id i = JStr (fo_id f)
     \<and> fi_bucket i = JStr (fo_bucket f) \<and> fi_object_key i = JStr (fo_object_key f)
     \<and> fi_size_bytes i = JInt (fo_size_bytes f)"
  by (simp add: file_info_of_def serialize_file_def field_def jget_default_def Let_def)

text \<open>A saved state is loaded again as it was.\<close>

lemma sdk_ints_map: "sdk_ints (map JInt ns) = Inr ns"
  by (induction ns) (simp_all add: sdk_int_def)

lemma state_dict_roundtrip:
  assumes "finite (st_completed_parts s)"
  shows "state_of_dict (state_to_dict s) = Inr s"
  using assms
  by (simp add: state_of_dict_def state_to_dict_def state_keys_def int_set_def sdk_ints_map sdk_text_def
      sdk_int_def jget_def jget_default_def)

lemma state_save_load:
  assumes "finite (st_completed_parts s)"
  shows "state_load (st_upload_id s) (snd (state_save s c)) = (Inr (Some s), snd (state_save s c))"
proof -
  have "filter (\<lambda>e. fst e \<notin> set forbidden_state_fields) (state_to_dict s) = state_to_dict s"
    by (simp add: state_to_dict_def forbidden_state_fields_def)
  then show ?thesis
    using state_dict_roundtrip[OF assms]
    by (simp add: state_load_def state_save_def modify_def get_def bnd_def lift_def ret_def)
qed

end
