(* ===== verification/DirectoryApi.thy ===== *)
theory DirectoryApi
  imports Api DirectoryRequests
begin

text \<open>
  The endpoints of \<open>src/app/api/v1/directory_uploads.py\<close> as HTTP sees them:
  \<open>serialize_job\<close> and \<open>serialize_entry\<close> of
  \<open>src/app/services/directory_upload_service.py\<close>, the bodies, and the NDJSON manifest of
  \<open>src/app/directory_upload/manifest.py\<close>. The conventions are those of \<open>Api\<close>.
\<close>

section \<open>Rows as JSON\<close>

definition job_status_text :: "job_status \<Rightarrow> pystr" where
  "job_status_text s =
     (case s of
        JobCreated \<Rightarrow> lit ''created'' | JobManifestUploading \<Rightarrow> lit ''manifest_uploading''
      | JobReady \<Rightarrow> lit ''ready'' | JobUploading \<Rightarrow> lit ''uploading'' | JobPaused \<Rightarrow> lit ''paused''
      | JobFinalizing \<Rightarrow> lit ''finalizing'' | JobCompleted \<Rightarrow> lit ''completed''
      | JobCompletedWithErrors \<Rightarrow> lit ''completed_with_errors''
      | JobCancelling \<Rightarrow> lit ''cancelling'' | JobCancelled \<Rightarrow> lit ''cancelled'')"

definition entry_type_text :: "entry_type \<Rightarrow> pystr" where
  "entry_type_text t = (case t of EntryFile \<Rightarrow> lit ''file'' | EntryDirectory \<Rightarrow> lit ''directory'')"

definition entry_status_text :: "entry_status \<Rightarrow> pystr" where
  "entry_status_text s =
     (case s of
        EntryPending \<Rightarrow> lit ''pending'' | EntryUploading \<Rightarrow> lit ''uploading''
      | EntryUploaded \<Rightarrow> lit ''uploaded'' | EntrySkipped \<Rightarrow> lit ''skipped'' | EntryFailed \<Rightarrow> lit ''failed'')"

text \<open>Nothing ever sets \<open>uploaded_bytes\<close> or \<open>completed_at\<close>.\<close>

definition serialize_job :: "'s service \<Rightarrow> directory_job \<Rightarrow> jobject" where
  "serialize_job sv j =
     [(lit ''id'', JStr (dj_id j)),
      (lit ''root_directory_name'', JStr (dj_root_directory_name j)),
      (lit ''bucket'', JStr (dj_bucket j)),
      (lit ''destination_prefix'', JStr (dj_destination_prefix j)),
      (lit ''status'', JStr (job_status_text (dj_status j))),
      (lit ''conflict_policy'', JStr (dj_conflict_policy j)),
      (lit ''total_entries'', JInt (dj_total_entries j)),
      (lit ''total_files'', JInt (dj_total_files j)),
      (lit ''total_directories'', JInt (dj_total_directories j)),
      (lit ''total_bytes'', JInt (dj_total_bytes j)),
      (lit ''uploaded_files'', JInt (dj_uploaded_files j)),
      (lit ''uploaded_bytes'', JInt 0),
      (lit ''failed_files'', JInt (dj_failed_files j)),
      (lit ''skipped_files'', JInt (dj_skipped_files j)),
      (lit ''manifest_hash'', jopt JStr (dj_manifest_hash j)),
      (lit ''requested_lifecycle'', jopt JObj (dj_requested_lifecycle j)),
      (lit ''effective_lifecycle'', jopt (effective_json sv) (dj_effective_lifecycle j)),
      (lit ''expires_at'', JStr (sv_isoformat sv (dj_expires_at j))),
      (lit ''completed_at'', JNull),
      (lit ''created_at'', JStr (sv_isoformat sv (dj_created_at j)))]"

text \<open>Nothing ever sets the \<open>upload_id\<close> of an entry.\<close>

definition serialize_entry :: "directory_entry \<Rightarrow> jobject" where
  "serialize_entry e =
     [(lit ''id'', JStr (de_id e)),
      (lit ''entry_type'', JStr (entry_type_text (de_entry_type e))),
      (lit ''relative_path'', JStr (de_relative_path e)),
      (lit ''normalized_path'', JStr (de_normalized_path e)),
      (lit ''object_key'', JStr (de_object_key e)),
      (lit ''size_bytes'', JInt (de_size_bytes e)),
      (lit ''last_modified_ns'', jopt JInt (de_last_modified_ns e)),
      (lit ''content_type'', jopt JStr (de_content_type e)),
      (lit ''fingerprint'', jopt JStr (de_fingerprint e)),
      (lit ''full_sha256'', jopt JStr (de_full_sha256 e)),
      (lit ''upload_id'', JNull),
      (lit ''file_id'', jopt JStr (de_file_id e)),
      (lit ''status'', JStr (entry_status_text (de_status e))),
      (lit ''error_code'', jopt JStr (de_error_code e)),
      (lit ''error_message'', jopt JStr (de_error_message e))]"

section \<open>The manifest as lines of JSON\<close>

text \<open>\<open>str.splitlines\<close>: every line boundary Python knows, \<open>CR LF\<close> being one.\<close>

definition line_end :: "nat \<Rightarrow> bool" where
  "line_end c \<longleftrightarrow> c \<in> {10, 11, 12, 13, 28, 29, 30, 133, 8232, 8233}"

fun splitlines_from :: "pystr \<Rightarrow> pystr \<Rightarrow> pystr list" where
  "splitlines_from line [] = (if line = [] then [] else [rev line])"
| "splitlines_from line (c # s) =
     (if line_end c
      then (case s of
              d # s' \<Rightarrow> if c = 13 \<and> d = 10 then rev line # splitlines_from [] s'
                       else rev line # splitlines_from [] s
            | [] \<Rightarrow> [rev line])
      else splitlines_from (c # line) s)"

definition splitlines :: "pystr \<Rightarrow> pystr list" where
  "splitlines s = splitlines_from [] s"

text \<open>What \<open>serialize_manifest_ndjson\<close> writes of an entry, as an object and as a line.\<close>

definition ndjson_object :: "directory_entry \<Rightarrow> jobject" where
  "ndjson_object e =
     [(lit ''entry_type'', JStr (entry_type_text (de_entry_type e))),
      (lit ''relative_path'', JStr (de_relative_path e)),
      (lit ''size_bytes'', JInt (de_size_bytes e))]
     @ (case de_fingerprint e of None \<Rightarrow> [] | Some f \<Rightarrow> [(lit ''fingerprint'', JStr f)])
     @ (case de_last_modified_ns e of None \<Rightarrow> [] | Some n \<Rightarrow> [(lit ''last_modified_ns'', JInt n)])"

definition ndjson_key :: "string \<Rightarrow> pystr" where
  "ndjson_key k = [34] @ lit k @ [34] @ lit '': ''"

definition ndjson_line :: "directory_entry \<Rightarrow> pystr" where
  "ndjson_line e =
     lit ''{'' @ ndjson_key ''entry_type'' @ json_string (entry_type_text (de_entry_type e))
     @ lit '', '' @ ndjson_key ''relative_path'' @ json_string (de_relative_path e)
     @ lit '', '' @ ndjson_key ''size_bytes'' @ py_str_int (de_size_bytes e)
     @ (case de_fingerprint e of
          None \<Rightarrow> [] | Some f \<Rightarrow> lit '', '' @ ndjson_key ''fingerprint'' @ json_string f)
     @ (case de_last_modified_ns e of
          None \<Rightarrow> [] | Some n \<Rightarrow> lit '', '' @ ndjson_key ''last_modified_ns'' @ py_str_int n)
     @ lit ''}''"

definition serialize_manifest_ndjson :: "directory_entry list \<Rightarrow> pystr" where
  "serialize_manifest_ndjson es =
     join_with 10 (map ndjson_line es) @ (if es = [] then [] else [10])"

definition parse_manifest_ndjson :: "'s service \<Rightarrow> pystr \<Rightarrow> error + json list" where
  "parse_manifest_ndjson sv payload =
     all_right (map (\<lambda>line. case sv_loads sv line of None \<Rightarrow> Inl (Crash ValueError) | Some j \<Rightarrow> Inr j)
       (filter (\<lambda>line. line \<noteq> []) (map strip (splitlines payload))))"

section \<open>Bodies\<close>

definition job_request_of :: "jobject \<Rightarrow> error + job_request" where
  "job_request_of body =
     rbind (text_of (jget_default ''root_directory_name'' (JStr []) body)) (\<lambda>root.
     rbind (text_or_empty (jget ''bucket'' body)) (\<lambda>bucket.
     rbind (text_of (jget_default ''destination_prefix'' (JStr []) body)) (\<lambda>destination_prefix.
     rbind (text_of (jget_default ''conflict_policy'' (JStr (lit ''reject'')) body)) (\<lambda>policy.
     rbind (text_of (jget_default ''source'' (JStr (lit ''sdk'')) body)) (\<lambda>source.
     rbind (optional object_of (jget ''lifecycle'' body)) (\<lambda>lifecycle.
       Inr \<lparr>jr_root_directory_name = root, jr_bucket = bucket, jr_destination_prefix = destination_prefix,
            jr_conflict_policy = policy, jr_source = source, jr_lifecycle = lifecycle\<rparr>))))))"

definition raw_entry_of :: "json \<Rightarrow> error + raw_entry" where
  "raw_entry_of v =
     (case v of
        JObj d \<Rightarrow>
          rbind (text_of (jget_default ''entry_type'' (JStr (lit ''file'')) d)) (\<lambda>kind.
          rbind (text_of (jget_default ''relative_path'' (JStr []) d)) (\<lambda>path.
          rbind (py_int_of (jget_default ''size_bytes'' (JInt 0) d)) (\<lambda>sz.
          rbind (optional int_value (jget ''last_modified_ns'' d)) (\<lambda>mtime.
          rbind (optional text_of (jget ''content_type'' d)) (\<lambda>ctype.
          rbind (optional text_of (jget ''fingerprint'' d)) (\<lambda>fingerprint.
          rbind (optional text_of (jget ''full_sha256'' d)) (\<lambda>sha256.
          rbind (optional object_of (jget ''lifecycle'' d)) (\<lambda>lifecycle.
            Inr \<lparr>re_entry_type = kind, re_relative_path = path, re_size_bytes = sz,
                 re_last_modified_ns = mtime, re_content_type = ctype, re_fingerprint = fingerprint,
                 re_full_sha256 = sha256, re_lifecycle = lifecycle\<rparr>))))))))
      | _ \<Rightarrow> Inl (Crash AttributeError))"

text \<open>The rows that are created get their ids from \<open>ids\<close>.\<close>

definition raw_entries_of :: "(nat \<Rightarrow> pystr) \<Rightarrow> json list \<Rightarrow> error + (raw_entry \<times> pystr) list" where
  "raw_entries_of ids vs =
     rbind (all_right (map raw_entry_of vs)) (\<lambda>raws. Inr (zip raws (map ids [0..<length raws])))"

section \<open>The endpoints\<close>

definition post_directory_uploads ::
    "'s service \<Rightarrow> identity \<Rightarrow> jobject \<Rightarrow> pystr \<Rightarrow> dt \<Rightarrow> ('s, json) act" where
  "post_directory_uploads sv i body new_id now =
     bnd (lift (job_request_of body)) (\<lambda>rq.
     bnd (create_directory_upload_handler sv i rq new_id now) (\<lambda>j. ret (JObj (serialize_job sv j))))"

definition post_directory_entries ::
    "'s service \<Rightarrow> identity \<Rightarrow> pystr \<Rightarrow> jobject \<Rightarrow> (nat \<Rightarrow> pystr) \<Rightarrow> dt \<Rightarrow> ('s, json) act" where
  "post_directory_entries sv i job_id body ids now =
     bnd (lift (if truthy (jget ''entries'' body)
                then (case jget ''entries'' body of
                        JList vs \<Rightarrow> raw_entries_of ids vs | _ \<Rightarrow> Inl (Crash TypeError))
                else Inr [])) (\<lambda>raws.
     bnd (transaction (add_entries sv i job_id raws now)) (\<lambda>n.
       ret (JObj [(lit ''added'', JInt (int n))])))"

text \<open>The body is decoded as UTF-8 before.\<close>

definition post_entries_stream ::
    "'s service \<Rightarrow> identity \<Rightarrow> pystr \<Rightarrow> pystr \<Rightarrow> (nat \<Rightarrow> pystr) \<Rightarrow> dt \<Rightarrow> ('s, json) act" where
  "post_entries_stream sv i job_id payload ids now =
     bnd (lift (rbind (parse_manifest_ndjson sv payload) (raw_entries_of ids))) (\<lambda>raws.
     bnd (transaction (add_entries sv i job_id raws now)) (\<lambda>n.
       ret (JObj [(lit ''added'', JInt (int n))])))"

definition post_manifest_complete ::
    "'s service \<Rightarrow> identity \<Rightarrow> pystr \<Rightarrow> jobject \<Rightarrow> dt \<Rightarrow> ('s, json) act" where
  "post_manifest_complete sv i job_id body now =
     bnd (lift (optional text_of (jget ''manifest_hash'' body))) (\<lambda>expected_hash.
     bnd (lift (optional object_of (jget ''counts'' body))) (\<lambda>counts.
     bnd (transaction (complete_manifest sv i job_id expected_hash counts now)) (\<lambda>j.
       ret (JObj (serialize_job sv j)))))"

definition get_directory_uploads :: "'s service \<Rightarrow> identity \<Rightarrow> pystr \<Rightarrow> ('s, json) act" where
  "get_directory_uploads sv i job_id = bnd (find_job i job_id) (\<lambda>j. ret (JObj (serialize_job sv j)))"

definition get_directory_entries ::
    "'s service \<Rightarrow> identity \<Rightarrow> pystr \<Rightarrow> pystr option \<Rightarrow> int \<Rightarrow> ('s, json) act" where
  "get_directory_entries sv i job_id cursor limit =
     bnd (list_entries sv i job_id cursor limit) (\<lambda>(rows, next).
       ret (JObj [(lit ''entries'', JList (map (JObj \<circ> serialize_entry) rows)),
                  (lit ''next_cursor'', jopt JStr next)]))"

definition get_directory_manifest :: "'s service \<Rightarrow> identity \<Rightarrow> pystr \<Rightarrow> ('s, json) act" where
  "get_directory_manifest sv i job_id =
     bnd (get_manifest_rows sv i job_id) (\<lambda>rows.
       ret (JObj [(lit ''content_type'', JStr (lit ''application/x-ndjson'')),
                  (lit ''manifest'', JStr (serialize_manifest_ndjson rows))]))"

definition post_entries_initiate ::
    "identity \<Rightarrow> pystr \<Rightarrow> jobject \<Rightarrow> dt \<Rightarrow> ('s, json) act" where
  "post_entries_initiate i job_id body now =
     bnd (lift (rbind (required ''entry_id'' body) text_of)) (\<lambda>entry_id.
     bnd (transaction (initiate_entry i job_id entry_id now)) (\<lambda>e. ret (JObj (serialize_entry e))))"

definition post_entries_result :: "identity \<Rightarrow> pystr \<Rightarrow> jobject \<Rightarrow> ('s, json) act" where
  "post_entries_result i job_id body =
     bnd (lift (rbind (required ''entry_id'' body) text_of)) (\<lambda>entry_id.
     bnd (lift (text_of (jget_default ''status'' (JStr (lit ''uploaded'')) body))) (\<lambda>status.
     bnd (lift (optional text_of (jget ''file_id'' body))) (\<lambda>file_id.
     bnd (lift (optional text_of (jget ''error_code'' body))) (\<lambda>err_code.
     bnd (lift (optional text_of (jget ''error_message'' body))) (\<lambda>err_message.
     bnd (mark_entry_result_handler i job_id entry_id status file_id err_code err_message) (\<lambda>e.
       ret (JObj (serialize_entry e))))))))"

text \<open>\<open>retry\<close>, \<open>complete\<close> and \<open>cancel\<close> answer with the job.\<close>

definition answer_job :: "'s service \<Rightarrow> ('s, directory_job) act \<Rightarrow> ('s, json) act" where
  "answer_job sv m = bnd (transaction m) (\<lambda>j. ret (JObj (serialize_job sv j)))"

definition post_job_retry :: "'s service \<Rightarrow> identity \<Rightarrow> pystr \<Rightarrow> dt \<Rightarrow> ('s, json) act" where
  "post_job_retry sv i job_id now = answer_job sv (retry i job_id now)"

definition post_job_complete :: "'s service \<Rightarrow> identity \<Rightarrow> pystr \<Rightarrow> dt \<Rightarrow> ('s, json) act" where
  "post_job_complete sv i job_id now = answer_job sv (complete_job i job_id now)"

definition post_job_cancel :: "'s service \<Rightarrow> identity \<Rightarrow> pystr \<Rightarrow> dt \<Rightarrow> ('s, json) act" where
  "post_job_cancel sv i job_id now = answer_job sv (cancel_job i job_id now)"

definition patch_directory_lifecycle ::
    "'s service \<Rightarrow> identity \<Rightarrow> pystr \<Rightarrow> jobject \<Rightarrow> dt \<Rightarrow> ('s, json) act" where
  "patch_directory_lifecycle sv i job_id body now = answer_job sv (patch_job_lifecycle sv i job_id body now)"

end
