(* ===== verification/Deployment.thy ===== *)
theory Deployment
  imports SdkClient DirectoryApi EndToEnd
begin

text \<open>
  The SDK against the service: the routers of \<open>src/app/api/v1/\<close> as they are put together in
  \<open>src/app/main.py\<close>, and a client whose requests they answer. Each request is served at
  once, with an id and an instant of its own; the client's waits are counted. Routed are the
  endpoints of uploads, files, directory uploads, lifecycles, presigned URLs and the client
  configuration that answer in JSON; the downloads stream and are \<open>http_download\<close>.
\<close>

section \<open>Routing\<close>

text \<open>
  What a deployment is given: the service, the identity of the caller, the id and the instant
  of each request by its number, and what the client configuration shows of further settings.
\<close>

record 's deployment =
  dp_service :: "'s service"
  dp_identity :: identity
  dp_ids :: "nat \<Rightarrow> pystr"
  dp_clock :: "nat \<Rightarrow> dt"
  dp_base_url :: pystr
  dp_service_section :: jobject
  dp_directory_section :: jobject

text \<open>A request is run by its endpoint or refused by the framework.\<close>

datatype 's routed = Run "('s, json) act" | Refuse int

definition with_json :: "request_body \<Rightarrow> (jobject \<Rightarrow> ('s, json) act) \<Rightarrow> 's routed" where
  "with_json b f = (case b of JsonBody (JObj d) \<Rightarrow> Run (f d) | _ \<Rightarrow> Refuse 422)"

definition route_uploads :: "'s deployment \<Rightarrow> nat \<Rightarrow> http_request \<Rightarrow> pystr list \<Rightarrow> 's routed" where
  "route_uploads dp k rq rest =
     (let sv = dp_service dp; i = dp_identity dp; x = dp_ids dp k; now = dp_clock dp k;
          m = rq_method rq; b = rq_body rq
      in case rest of
           [] \<Rightarrow> if m = ''POST'' then with_json b (\<lambda>d. post_uploads sv i d x now) else Refuse 405
         | [u] \<Rightarrow>
             if m = ''POST'' \<and> u = lit ''resume'' then with_json b (\<lambda>d. post_uploads_resume sv i d now)
             else if m = ''GET'' then Run (get_uploads sv i u) else Refuse 405
         | [u, a] \<Rightarrow>
             if a = lit ''parts'' then if m = ''GET'' then Run (get_uploads_parts i u) else Refuse 405
             else if a = lit ''refresh''
             then if m = ''POST'' then Run (post_uploads_refresh sv i u now) else Refuse 405
             else if a = lit ''complete''
             then if m = ''POST'' then Run (post_uploads_complete sv i u x now) else Refuse 405
             else if a = lit ''abort''
             then if m = ''POST'' then Run (post_uploads_abort sv i u now) else Refuse 405
             else Refuse 404
         | [u, a, n] \<Rightarrow>
             if a \<noteq> lit ''parts'' then Refuse 404
             else if m = ''POST'' \<and> n = lit ''presign'' then with_json b (post_parts_presign sv i u)
             else if m = ''POST'' \<and> n = lit ''commit''
             then with_json b (\<lambda>d. post_parts_commit sv i u d now)
             else if m = ''PUT''
             then (case py_int n of
                     None \<Rightarrow> Refuse 422
                   | Some n \<Rightarrow>
                       (case b of
                          RawBody data cs \<Rightarrow> Run (put_uploads_part sv i u n data (Some cs) now)
                        | _ \<Rightarrow> Run (put_uploads_part sv i u n [] None now)))
             else Refuse 405
         | _ \<Rightarrow> Refuse 404)"

text \<open>The form of an upload; a bucket is required.\<close>

definition form_of :: "(pystr \<times> pystr) list \<Rightarrow> pystr \<Rightarrow> pystr \<Rightarrow> upload_form option" where
  "form_of texts filename ctype =
     (let f = (\<lambda>k. map_of texts (lit k))
      in case f ''bucket'' of
           None \<Rightarrow> None
         | Some bucket \<Rightarrow>
             Some \<lparr>uf_bucket = bucket, uf_object_key = f ''object_key'',
                   uf_original_filename = f ''original_filename'', uf_content_type = f ''content_type'',
                   uf_checksum_sha256 = f ''checksum_sha256'', uf_file_fingerprint = f ''file_fingerprint'',
                   uf_lifecycle = f ''lifecycle'', uf_metadata = f ''metadata'',
                   uf_filename = Some filename, uf_file_type = Some ctype\<rparr>)"

text \<open>The query of \<open>GET /files\<close>; \<open>None\<close> when a parameter is not valid.\<close>

definition query_int :: "(pystr \<times> pystr) list \<Rightarrow> string \<Rightarrow> int \<Rightarrow> int option" where
  "query_int q k d = (case map_of q (lit k) of None \<Rightarrow> Some d | Some s \<Rightarrow> py_int s)"

definition file_query :: "(pystr \<times> pystr) list \<Rightarrow> (list_query \<times> nat \<times> nat) option" where
  "file_query q =
     (let sort_by = the_default (lit ''name'') (map_of q (lit ''sort_by''));
          order = map_of q (lit ''sort_order''); st = map_of q (lit ''status'');
          statuses = map_of (map (\<lambda>s. (status_text s, s))
            [FileActive, FileDeleted])
      in case (query_int q ''limit'' 50, query_int q ''offset'' 0) of
           (Some limit, Some offset) \<Rightarrow>
             if 1 \<le> limit \<and> limit \<le> 200 \<and> 0 \<le> offset
                \<and> sort_by \<in> set (map lit [''name'', ''object_key'', ''bucket'', ''size_bytes'', ''content_type'',
                                           ''status'', ''expires_at'', ''created_at''])
                \<and> order \<in> {None, Some (lit ''asc''), Some (lit ''desc'')}
                \<and> (st = None \<or> statuses (the_default [] st) \<noteq> None)
             then Some (\<lparr>lq_bucket = map_of q (lit ''bucket''), lq_prefix = map_of q (lit ''prefix''),
                         lq_status = Option.bind st statuses, lq_order_by = sort_by, lq_order = order\<rparr>,
                        nat limit, nat offset)
             else None
         | _ \<Rightarrow> None)"

definition route_files :: "'s deployment \<Rightarrow> nat \<Rightarrow> http_request \<Rightarrow> pystr list \<Rightarrow> 's routed" where
  "route_files dp k rq rest =
     (let sv = dp_service dp; i = dp_identity dp; x = dp_ids dp k; now = dp_clock dp k;
          m = rq_method rq; b = rq_body rq
      in case rest of
           [] \<Rightarrow>
             if m \<noteq> ''GET'' then Refuse 405
             else (case file_query (rq_query rq) of
                     None \<Rightarrow> Refuse 422
                   | Some (q, limit, offset) \<Rightarrow> Run (get_files sv i q limit offset))
         | [f] \<Rightarrow>
             if m = ''POST'' \<and> f = lit ''upload''
             then (case b of
                     FormBody texts name data ctype \<Rightarrow>
                       (case form_of texts name ctype of
                          None \<Rightarrow> Refuse 422
                        | Some form \<Rightarrow> Run (post_files_upload sv i form data x now))
                   | _ \<Rightarrow> Refuse 422)
             else if m = ''GET'' then Run (get_files_id sv i f)
             else if m = ''DELETE'' then Run (delete_files_id sv i f now)
             else Refuse 405
         | [f, a] \<Rightarrow>
             if a = lit ''permanent-link''
             then if m = ''POST'' then Run (post_permanent_link sv i f (dp_base_url dp)) else Refuse 405
             else if a = lit ''presign-download''
             then if m = ''POST''
                  then (case b of
                          NoBody \<Rightarrow> Run (post_presign_download sv i f None)
                        | JsonBody (JObj d) \<Rightarrow> Run (post_presign_download sv i f (Some d))
                        | JsonBody JNull \<Rightarrow> Run (post_presign_download sv i f None)
                        | _ \<Rightarrow> Refuse 422)
                  else Refuse 405
             else if a = lit ''lifecycle''
             then if m = ''GET'' then Run (get_files_lifecycle sv i f)
                  else if m = ''PATCH'' then with_json b (\<lambda>d. patch_files_lifecycle sv i f d now)
                  else Refuse 405
             else if a = lit ''legal-hold''
             then if m = ''POST'' then Run (legal_hold_endpoint i f True)
                  else if m = ''DELETE'' then Run (legal_hold_endpoint i f False)
                  else Refuse 405
             else Refuse 404
         | [f, a, c] \<Rightarrow>
             if a \<noteq> lit ''lifecycle'' then Refuse 404
             else if c = lit ''extend''
             then if m = ''POST'' then with_json b (\<lambda>d. post_lifecycle_extend sv i f d now) else Refuse 405
             else if c = lit ''make-permanent''
             then if m = ''POST'' then Run (post_make_permanent sv i f) else Refuse 405
             else Refuse 404
         | _ \<Rightarrow> Refuse 404)"

definition route_presign :: "'s deployment \<Rightarrow> http_request \<Rightarrow> pystr list \<Rightarrow> 's routed" where
  "route_presign dp rq rest =
     (let sv = dp_service dp; i = dp_identity dp
      in if rest = [lit ''put''] \<or> rest = [lit ''get'']
         then if rq_method rq \<noteq> ''POST'' then Refuse 405
              else with_json (rq_body rq)
                     (if rest = [lit ''put''] then post_presign_put sv i else post_presign_get sv i)
         else Refuse 404)"

text \<open>The ids of the entries a request adds.\<close>

definition entry_ids :: "'s deployment \<Rightarrow> nat \<Rightarrow> nat \<Rightarrow> pystr" where
  "entry_ids dp k n = dp_ids dp k @ lit ''-'' @ py_str_int (int n)"

text \<open>\<open>entries/stream\<close>, whose raw body no call of the SDK sends, is not routed.\<close>

definition route_directories :: "'s deployment \<Rightarrow> nat \<Rightarrow> http_request \<Rightarrow> pystr list \<Rightarrow> 's routed" where
  "route_directories dp k rq rest =
     (let sv = dp_service dp; i = dp_identity dp; now = dp_clock dp k; ids = entry_ids dp k;
          m = rq_method rq; b = rq_body rq
      in case rest of
           [] \<Rightarrow>
             if m = ''POST'' then with_json b (\<lambda>d. post_directory_uploads sv i d (dp_ids dp k) now) else Refuse 405
         | [j] \<Rightarrow> if m = ''GET'' then Run (get_directory_uploads sv i j) else Refuse 405
         | [j, a] \<Rightarrow>
             if a = lit ''entries''
             then if m = ''POST'' then with_json b (\<lambda>d. post_directory_entries sv i j d ids now)
                  else if m = ''GET''
                  then (case query_int (rq_query rq) ''limit'' 100 of
                          None \<Rightarrow> Refuse 422
                        | Some limit \<Rightarrow>
                            if 1 \<le> limit \<and> limit \<le> 1000
                            then Run (get_directory_entries sv i j (map_of (rq_query rq) (lit ''cursor'')) limit)
                            else Refuse 422)
                  else Refuse 405
             else if a = lit ''manifest''
             then if m = ''GET'' then Run (get_directory_manifest sv i j) else Refuse 405
             else if a = lit ''retry''
             then if m = ''POST'' then Run (post_job_retry sv i j now) else Refuse 405
             else if a = lit ''complete''
             then if m = ''POST'' then Run (post_job_complete sv i j now) else Refuse 405
             else if a = lit ''cancel''
             then if m = ''POST'' then Run (post_job_cancel sv i j now) else Refuse 405
             else if a = lit ''lifecycle''
             then if m = ''PATCH'' then with_json b (\<lambda>d. patch_directory_lifecycle sv i j d now) else Refuse 405
             else Refuse 404
         | [j, a, c] \<Rightarrow>
             if m \<noteq> ''POST'' then Refuse 405
             else if a = lit ''entries'' \<and> c = lit ''initiate''
             then with_json b (\<lambda>d. post_entries_initiate i j d now)
             else if a = lit ''entries'' \<and> c = lit ''result'' then with_json b (post_entries_result i j)
             else if a = lit ''manifest'' \<and> c = lit ''complete''
             then with_json b (\<lambda>d. post_manifest_complete sv i j d now)
             else Refuse 404
         | _ \<Rightarrow> Refuse 404)"

definition route :: "'s deployment \<Rightarrow> nat \<Rightarrow> http_request \<Rightarrow> 's routed" where
  "route dp k rq =
     (case split_on slash (rq_path rq) of
        root # v1 # area # rest \<Rightarrow>
          if root \<noteq> [] \<or> v1 \<noteq> lit ''v1'' then Refuse 404
          else if area = lit ''uploads'' then route_uploads dp k rq rest
          else if area = lit ''files'' then route_files dp k rq rest
          else if area = lit ''directory-uploads'' then route_directories dp k rq rest
          else if area = lit ''presign'' then route_presign dp rq rest
          else if area = lit ''client-config'' \<and> rest = []
          then if rq_method rq = ''GET''
               then Run (get_client_config (dp_service dp) (tenant_id (dp_identity dp))
                           (dp_service_section dp) (dp_directory_section dp))
               else Refuse 405
          else Refuse 404
      | _ \<Rightarrow> Refuse 404)"

section \<open>A client connected to the service\<close>

text \<open>The world of the service, the number of the next request, and how often the client has waited.\<close>

record 's link =
  lk_world :: "'s world"
  lk_requests :: nat
  lk_waits :: nat

definition serve_http :: "'s deployment \<Rightarrow> http_request \<Rightarrow> ('s link, http_reply) call" where
  "serve_http dp rq l =
     (case route dp (lk_requests l) rq of
        Refuse status \<Rightarrow>
          (Inr \<lparr>hr_status = status, hr_json = Some (JObj [(lit ''detail'', JNull)])\<rparr>,
           l\<lparr>lk_requests := lk_requests l + 1\<rparr>)
      | Run m \<Rightarrow>
          (case respond m (lk_world l) of
             (r, w) \<Rightarrow> (Inr r, l\<lparr>lk_world := w, lk_requests := lk_requests l + 1\<rparr>)))"

definition wait_on :: "nat \<Rightarrow> 's link \<Rightarrow> 's link" where
  "wait_on n l = l\<lparr>lk_waits := lk_waits l + 1\<rparr>"

text \<open>The SDK whose HTTP client reaches the deployment.\<close>

definition connected :: "'s deployment \<Rightarrow> 's link sdk \<Rightarrow> bool" where
  "connected dp k \<longleftrightarrow> sk_send k = serve_http dp \<and> sk_pause k = wait_on"

section \<open>Paths\<close>

lemma split_uploads:
  assumes "slash \<notin> set x"
  shows "split_on slash (lit ''/v1/uploads'') = [[], lit ''v1'', lit ''uploads'']"
    "split_on slash (lit ''/v1/uploads/'' @ x @ lit ''/complete'') = [[], lit ''v1'', lit ''uploads'', x, lit ''complete'']"
    "slash \<notin> set n \<Longrightarrow> split_on slash (lit ''/v1/uploads/'' @ x @ lit ''/parts/'' @ n)
       = [[], lit ''v1'', lit ''uploads'', x, lit ''parts'', n]"
    "split_on slash (lit ''/v1/files/upload'') = [[], lit ''v1'', lit ''files'', lit ''upload'']"
    "split_on slash (lit ''/v1/client-config'') = [[], lit ''v1'', lit ''client-config'']"
  using assms split_on_append[of slash x] split_on_no_sep[of slash n] by (simp_all add: lit_def)

end
