(* ===== verification/ClientUploads.thy ===== *)
theory ClientUploads
  imports Deployment
begin

text \<open>
  What an upload of the SDK leaves behind on a service with local storage. The runs looked at
  are those in which the client never waits, so every request is answered at once; they are
  followed request by request, through the router and the endpoints down to the part files.
\<close>

section \<open>Runs without waiting\<close>

definition waits :: "'s link client \<Rightarrow> nat" where
  "waits c = lk_waits (cl_net c)"

text \<open>A call that never takes a wait back.\<close>

definition onward :: "('s link client, 'a) call \<Rightarrow> bool" where
  "onward m \<longleftrightarrow> (\<forall>n. keeps (\<lambda>c. n \<le> waits c) m)"

text \<open>It returns \<open>a\<close> without having waited.\<close>

definition calm :: "('s link client, 'a) call \<Rightarrow> 's link client \<Rightarrow> 'a \<Rightarrow> 's link client \<Rightarrow> bool" where
  "calm m c a c' \<longleftrightarrow> m c = (Inr a, c') \<and> waits c' \<le> waits c"

named_theorems onward

lemma onward_basic [onward]: "onward (ret a)" "onward (raise e)" "onward (lift r)" "onward (get f)"
  by (simp_all add: onward_def)

lemma onward_bnd [onward]: "onward m \<Longrightarrow> (\<And>a. onward (f a)) \<Longrightarrow> onward (bnd m f)"
  by (simp add: onward_def keeps_bnd)

lemma onward_seq [onward]: "onward m \<Longrightarrow> onward n \<Longrightarrow> onward (seq m n)"
  by (simp add: onward_def keeps_seq)

lemma onward_if [onward]: "onward m \<Longrightarrow> onward n \<Longrightarrow> onward (if b then m else n)"
  by simp

lemma onward_option [onward]: "onward m \<Longrightarrow> (\<And>a. onward (f a)) \<Longrightarrow> onward (case x of None \<Rightarrow> m | Some a \<Rightarrow> f a)"
  by (cases x) simp_all

lemma onward_prod [onward]: "(\<And>a b. onward (f a b)) \<Longrightarrow> onward (case x of (a, b) \<Rightarrow> f a b)"
  by (cases x) simp

lemma onward_catch: "onward m \<Longrightarrow> (\<And>e. onward (h e)) \<Longrightarrow> onward (catch m h)"
  by (simp add: onward_def keeps_catch)

lemma onwardD: "onward m \<Longrightarrow> m c = (r, c') \<Longrightarrow> waits c \<le> waits c'"
  by (auto simp: onward_def dest: keepsD[where P = "\<lambda>c'. waits c \<le> waits c'"])

lemma onwardI: "(\<And>c r c'. m c = (r, c') \<Longrightarrow> waits c \<le> waits c') \<Longrightarrow> onward m"
  unfolding onward_def keeps_def by (metis order_trans prod.collapse)

lemma calm_bnd:
  assumes "calm (bnd m f) c b c'" "onward m" "\<And>a. onward (f a)"
  obtains a c1 where "calm m c a c1" "calm (f a) c1 b c'"
proof -
  obtain a c1 where run: "m c = (Inr a, c1)" "f a c1 = (Inr b, c')" and low: "waits c' \<le> waits c"
    using assms(1) by (auto simp: calm_def bnd_Inr_iff)
  have "waits c \<le> waits c1" "waits c1 \<le> waits c'"
    using onwardD[OF assms(2) run(1)] onwardD[OF assms(3) run(2)] by simp_all
  then show thesis using that run low by (simp add: calm_def)
qed

lemma calm_lift [simp]: "calm (lift r) c a c' \<longleftrightarrow> r = Inr a \<and> c' = c"
  by (auto simp: calm_def lift_def)

lemma calm_ret [simp]: "calm (ret x) c a c' \<longleftrightarrow> a = x \<and> c' = c"
  by (auto simp: calm_def ret_def)

lemma calm_raise [simp]: "\<not> calm (raise e) c a c'"
  by (simp add: calm_def raise_def)

lemma retry_waits:
  assumes "onward fn" "\<And>n c. waits (pause n c) = waits c + 1"
    and "retry_from fn pause statuses m k c = (r, c')"
  shows "waits c \<le> waits c' \<and> (waits c' \<le> waits c \<longrightarrow> fn c = (r, c'))"
  using assms(1,2) assms(3)
proof (induction fn pause statuses m k c arbitrary: r c' rule: retry_from.induct)
  case (1 fn pause statuses m k c)
  obtain q t where q: "fn c = (q, t)" by fastforce
  have up: "waits c \<le> waits t" by (rule onwardD[OF "1.prems"(1) q])
  show ?case
  proof (cases "\<exists>e. q = Inl e \<and> goes_on statuses e \<and> \<not> m - 1 \<le> int k")
    case True
    then obtain e where e: "q = Inl e" "\<not> (\<not> goes_on statuses e \<or> m - 1 \<le> int k)" by blast
    have "retry_from fn pause statuses m (k + 1) (pause (k + 1) t) = (r, c')"
      using "1.prems"(3) q e by (subst (asm) retry_from.simps) simp
    from "1.IH"[OF q[symmetric] e "1.prems"(1,2) this] show ?thesis
      using "1.prems"(2) up by simp
  next
    case False
    then have "(r, c') = (q, t)"
      using "1.prems"(3) q by (subst (asm) retry_from.simps) (auto split: sum.splits)
    then show ?thesis using q up by simp
  qed
qed

lemma onward_retry: "onward fn \<Longrightarrow> connected dp k \<Longrightarrow> onward (retry_default (net_pause k) fn)"
  by (rule onwardI)
    (auto simp: retry_default_def sdk_retry_def connected_def net_pause_def wait_on_def waits_def
      dest!: retry_waits[rotated 2])

lemma calm_retry:
  assumes "calm (retry_default (net_pause k) fn) c a c'" "onward fn" "connected dp k"
  shows "calm fn c a c'"
proof -
  have "waits (net_pause k n c) = waits c + 1" for n c
    using assms(3) by (simp add: connected_def net_pause_def wait_on_def waits_def)
  from retry_waits[OF assms(2) this] assms(1) show ?thesis
    by (auto simp: calm_def retry_default_def sdk_retry_def)
qed

section \<open>One request\<close>

lemma serve_waits: "serve_http dp rq l = (r, l') \<Longrightarrow> lk_waits l' = lk_waits l"
  by (auto simp: serve_http_def split: routed.splits prod.splits)

lemma serve_answers: "\<exists>r l'. serve_http dp rq l = (Inr r, l') \<and> lk_requests l' = lk_requests l + 1"
  by (auto simp: serve_http_def split: routed.splits prod.splits)

lemma onward_send: "connected dp k \<Longrightarrow> onward (on_net (sk_send k rq))"
  by (rule onwardI) (auto simp: on_net_def connected_def waits_def dest: serve_waits split: prod.splits)

lemma onward_guarded: "connected dp k \<Longrightarrow> onward (guarded k rq)"
  unfolding guarded_def by (intro onward onward_send)

lemma onward_request: "connected dp k \<Longrightarrow> onward (request k rq)"
  unfolding request_def by (intro onward_retry onward_guarded)

lemma calm_send:
  assumes "calm (on_net (sk_send k rq)) c r c'" "connected dp k"
  shows "serve_http dp rq (cl_net c) = (Inr r, cl_net c') \<and> c' = c\<lparr>cl_net := cl_net c'\<rparr>"
  using assms by (auto simp: calm_def on_net_def connected_def split: prod.splits)

lemma calm_request:
  assumes "calm (request k rq) c r c'" "connected dp k"
  shows "serve_http dp rq (cl_net c) = (Inr r, cl_net c') \<and> c' = c\<lparr>cl_net := cl_net c'\<rparr>"
proof -
  have g: "calm (guarded k rq) c r c'"
    by (rule calm_retry[OF assms(1)[unfolded request_def] onward_guarded assms(2)]) (rule assms(2))
  show ?thesis
  proof (rule calm_bnd[OF g[unfolded guarded_def] onward_send[OF assms(2)]])
    fix r1 c1
    assume "calm (on_net (sk_send k rq)) c r1 c1"
      "calm (if hr_status r1 \<in> {408, 429, 500, 502, 503, 504}
             then raise (SdkErr SdkServerError (Some (hr_status r1))) else ret r1) c1 r c'"
    then show ?thesis using calm_send[OF _ assms(2)] by (auto split: if_splits)
  qed (intro onward)
qed

text \<open>An answer that has a field other than \<open>error\<close> and \<open>detail\<close> comes from an endpoint.\<close>

lemma serve_run:
  assumes "serve_http dp rq l = (Inr r, l')" "route dp (lk_requests l) rq = Run m"
    and "reply_json r = Inr j" "field f j = Inr v" "f \<noteq> ''error''"
  shows "m (lk_world l) = (Inr j, lk_world l') \<and> lk_requests l' = lk_requests l + 1"
proof -
  obtain res w where run: "m (lk_world l) = (res, w)" by fastforce
  show ?thesis
  proof (cases res)
    case (Inl e)
    then have "r = error_reply e" using assms(1,2) run by (simp add: serve_http_def respond_def)
    then have "j = JObj (error_payload e None)"
      using assms(3) by (auto simp: error_reply_def reply_json_def split: if_splits)
    then show ?thesis using assms(4,5) by (simp add: error_payload_def field_def)
  next
    case (Inr a)
    then show ?thesis using assms run by (auto simp: serve_http_def respond_def reply_json_def)
  qed
qed

lemma onward_json: "connected dp k \<Longrightarrow> onward (json_request k rq)"
  unfolding json_request_def by (intro onward onward_request)

lemma calm_json:
  assumes "calm (json_request k rq) c j c'" "connected dp k"
  obtains r where "serve_http dp rq (cl_net c) = (Inr r, cl_net c')" "c' = c\<lparr>cl_net := cl_net c'\<rparr>"
    "reply_json r = Inr j"
proof (rule calm_bnd[OF assms(1)[unfolded json_request_def] onward_request[OF assms(2)]])
  fix r c1
  assume r: "calm (request k rq) c r c1"
    and rest: "calm (bnd (lift (raise_for_status r)) (\<lambda>_. lift (reply_json r))) c1 j c'"
  have "c1 = c'" "reply_json r = Inr j" using rest by (auto simp: calm_def effs)
  then show thesis using calm_request[OF r assms(2)] that by simp
qed (intro onward)

section \<open>Creating a session\<close>

lemma create_request_of_body:
  assumes "bucket \<noteq> []" "create_request_of (create_upload_body bucket key sz ps fp sha lc) = Inr rq"
  shows "cr_bucket rq = bucket \<and> cr_object_key rq = key \<and> cr_total_size rq = sz \<and> cr_part_size rq = Some ps"
  using assms
  by (cases lc)
    (auto simp: create_request_of_def create_upload_body_def rbind_Inr_iff required_def text_or_empty_def
      text_of_def optional_def int_value_def py_int_of_def object_of_def jget_def jget_default_def truthy_def
      json_number_def split: if_splits)

lemma create_session_sizes:
  assumes "create_session sv i rq x now w = (Inr u, w')" "cr_part_size rq = Some ps"
  shows "us_part_size u = ps \<and> us_total_size u = cr_total_size rq \<and> us_bucket u = cr_bucket rq \<and> us_id u = x
    \<and> us_total_parts u \<le> mp_maximum_parts (uc_multipart (cf_uploads (sv_settings sv)))
    \<and> count_parts (us_total_size u) ps = Inr (us_total_parts u)
    \<and> validate_object_key sv (cr_object_key rq) = Inr (us_object_key u)
    \<and> files (w_db w') = files (w_db w)"
proof -
  obtain w1 where b: "build_session sv i rq x now w = (Inr u, w1)" and w': "files (w_db w') = files (w_db w1)"
    using assms(1) by (auto simp: create_session_def effs)
  from b obtain key n m w2 where plan: "plan_upload sv i rq w = (Inr (key, us_part_size u, n, m), w2)"
    and u: "us_total_parts u = n"
    by (auto simp: build_session_def Let_def effs)
  have "us_part_size u = ps" using plan assms(2) by (auto simp: plan_upload_def Let_def effs)
  then show ?thesis
    using build_session_Inr[OF b] plan_upload_Inr[OF plan] u w' by simp
qed

lemma client_creates:
  assumes run: "calm (client_create_upload k bucket key sz ps (Some fp) None lc) c session c'"
    and conn: "connected dp k" and b: "bucket \<noteq> []"
  obtains rq u where "create_session (dp_service dp) (dp_identity dp) rq (dp_ids dp (lk_requests (cl_net c)))
      (dp_clock dp (lk_requests (cl_net c))) (lk_world (cl_net c)) = (Inr u, lk_world (cl_net c'))"
    "cr_bucket rq = bucket" "cr_object_key rq = key" "cr_total_size rq = sz" "cr_part_size rq = Some ps"
    "c' = c\<lparr>cl_net := cl_net c'\<rparr>" "lk_requests (cl_net c') = lk_requests (cl_net c) + 1"
    "si_id session = JStr (us_id u)" "si_upload_mode session = JStr (upload_mode_text (us_upload_mode u))"
    "si_total_size session = JInt (us_total_size u)" "si_part_size session = JInt (us_part_size u)"
    "si_total_parts session = JInt (us_total_parts u)"
proof (rule calm_bnd[OF run[unfolded client_create_upload_def] onward_json[OF conn]])
  let ?d = "create_upload_body bucket key sz ps (Some fp) None lc" and ?n = "lk_requests (cl_net c)"
  let ?rq = "body_request ''POST'' (lit ''/v1/uploads'') (JObj ?d)"
  fix j c1
  assume req: "calm (json_request k ?rq) c j c1" and info: "calm (lift (session_info_of j)) c1 session c'"
  have c1: "c1 = c'" and info: "session_info_of j = Inr session" using info by simp_all
  obtain r where r: "serve_http dp ?rq (cl_net c) = (Inr r, cl_net c1)" "c1 = c\<lparr>cl_net := cl_net c1\<rparr>" "reply_json r = Inr j"
    by (rule calm_json[OF req conn])
  have "route dp ?n ?rq = Run (post_uploads (dp_service dp) (dp_identity dp) ?d (dp_ids dp ?n) (dp_clock dp ?n))"
    using split_uploads(1)[of "[]"]
    by (simp add: route_def body_request_def route_uploads_def Let_def with_json_def)
  moreover obtain v where "field ''id'' j = Inr v"
    using info by (auto simp: session_info_of_def rbind_Inr_iff)
  ultimately have ran: "post_uploads (dp_service dp) (dp_identity dp) ?d (dp_ids dp ?n) (dp_clock dp ?n)
      (lk_world (cl_net c)) = (Inr j, lk_world (cl_net c'))" "lk_requests (cl_net c') = ?n + 1"
    using serve_run[OF r(1) _ r(3), of _ "''id''"] c1 by simp_all
  obtain rq u where rq: "create_request_of ?d = Inr rq" and j: "j = JObj (serialize_session (dp_service dp) u)"
    and made: "create_upload_handler (dp_service dp) (dp_identity dp) rq (dp_ids dp ?n) (dp_clock dp ?n)
      (lk_world (cl_net c)) = (Inr u, lk_world (cl_net c'))"
    using ran(1) by (auto simp: post_uploads_def effs)
  note fields = create_request_of_body[OF b rq]
  obtain s where "session_info_of j = Inr s" "si_id s = JStr (us_id u)"
    "si_upload_mode s = JStr (upload_mode_text (us_upload_mode u))"
    "si_total_size s = JInt (us_total_size u)" "si_part_size s = JInt (us_part_size u)"
    "si_total_parts s = JInt (us_total_parts u)"
    using session_info_of_serialized[of "dp_service dp" u] unfolding j by blast
  then show thesis
    using that[of "rq\<lparr>cr_bucket := if cr_bucket rq = [] then _ else cr_bucket rq,
             cr_upload_mode := if cr_upload_mode rq = [] then lit ''automatic'' else cr_upload_mode rq\<rparr>" u]
      made fields r(2) ran(2) info b c1
    by (simp add: create_upload_handler_def transaction_Inr)
qed (intro onward)

section \<open>Putting the parts\<close>

lemma py_int_str:
  assumes "1 \<le> n" "n < 10 ^ 8"
  shows "py_int (py_str_int n) = Some n" "slash \<notin> set (py_str_int n)"
proof -
  have "nat n < 10 ^ 8" using assms by simp
  also have "(10::nat) ^ 8 \<le> 10 ^ max_str_digits" by (intro power_increasing) (simp_all add: max_str_digits_def)
  finally show "py_int (py_str_int n) = Some n"
    using py_int_nat_digits[of "nat n"] assms by (simp add: py_str_int_def)
  show "slash \<notin> set (py_str_int n)"
    using nat_digits_ascii[of slash "nat n"] assms by (auto simp: py_str_int_def)
qed

lemma onward_put: "connected dp k \<Longrightarrow> onward (put_part k x n body cs)"
  unfolding put_part_def by (intro onward onward_request)

lemma onward_one_part:
  "connected dp k \<Longrightarrow> onward (upload_one_part (net_pause k) (put_part k x) sha data whole ps n)"
  unfolding upload_one_part_def Let_def by (intro onward onward_retry onward_put)

text \<open>A part that was taken has been stored by the service.\<close>

lemma client_puts:
  assumes run: "calm (upload_one_part (net_pause k) (put_part k x) sha data whole ps n) c p c'"
    and conn: "connected dp k" and n: "1 \<le> n" "n < 10 ^ 8" and x: "slash \<notin> set x"
  obtains q cs where "proxy_upload_part (dp_service dp) (dp_identity dp) x n (part_body data whole ps n)
      (int (length (part_body data whole ps n))) cs (dp_clock dp (lk_requests (cl_net c))) (lk_world (cl_net c))
        = (Inr q, lk_world (cl_net c'))"
    "c' = c\<lparr>cl_net := cl_net c'\<rparr>" "lk_requests (cl_net c') = lk_requests (cl_net c) + 1"
proof -
  let ?body = "part_body data whole ps n" and ?k = "lk_requests (cl_net c)"
  let ?rq = "\<lparr>rq_method = ''PUT'', rq_path = lit ''/v1/uploads/'' @ x @ lit ''/parts/'' @ py_str_int n,
      rq_query = [], rq_body = RawBody ?body (sha ?body)\<rparr>"
  obtain sp where "calm (retry_default (net_pause k) (put_part k x n ?body (sha ?body))) c sp c'"
    and ok: "\<not> 400 \<le> fst sp" "snd sp \<noteq> None"
  proof (rule calm_bnd[OF run[unfolded upload_one_part_def Let_def] onward_retry[OF onward_put[OF conn] conn]])
    fix sp c1
    assume "calm (retry_default (net_pause k) (put_part k x n ?body (sha ?body))) c sp c1"
      "calm (case sp of (status, part) \<Rightarrow> if 400 \<le> status then raise (SdkErr SdkMultipartError None)
         else case part of None \<Rightarrow> raise (SdkCrash KeyError) | Some p \<Rightarrow> ret p) c1 p c'"
    then show thesis using that by (cases sp) (auto split: if_splits option.splits)
  qed (intro onward)
  then have put: "calm (put_part k x n ?body (sha ?body)) c sp c'"
    using calm_retry[OF _ onward_put[OF conn] conn] by blast
  obtain r where r: "calm (request k ?rq) c r c'" and reply: "part_reply r = Inr sp"
    by (rule calm_bnd[OF put[unfolded put_part_def] onward_request[OF conn]]) (auto intro: onward)
  note served = calm_request[OF r conn]
  from reply ok obtain j v where j: "reply_json r = Inr j" "field ''part_number'' j = Inr v"
    by (auto simp: part_reply_def rbind_Inr_iff split: if_splits)
  have "route dp ?k ?rq = Run (put_uploads_part (dp_service dp) (dp_identity dp) x n ?body (Some (sha ?body)) (dp_clock dp ?k))"
    using split_uploads(3)[OF x py_int_str(2)[OF n]] py_int_str(1)[OF n]
    by (simp add: route_def route_uploads_def Let_def)
  from serve_run[OF _ this j(1,2)] served
  have ran: "put_uploads_part (dp_service dp) (dp_identity dp) x n ?body (Some (sha ?body)) (dp_clock dp ?k)
      (lk_world (cl_net c)) = (Inr j, lk_world (cl_net c'))" "lk_requests (cl_net c') = ?k + 1"
    by simp_all
  then show thesis
    using that served by (auto simp: put_uploads_part_def proxy_upload_part_handler_def effs transaction_Inr)
qed

lemma run_each_waits:
  assumes "\<And>n. onward (act n)"
  shows "run_each act ns c = (rs, c') \<Longrightarrow> waits c \<le> waits c'"
proof (induction ns arbitrary: c rs)
  case (Cons n ns)
  obtain r c1 rs1 where "act n c = (r, c1)" "run_each act ns c1 = (rs1, c')"
    using Cons.prems by (auto split: prod.splits)
  then show ?case using Cons.IH onwardD[OF assms] order_trans by blast
qed simp

text \<open>What stays while parts are put: the client but for the network, and the files.\<close>

definition aside_from_parts :: "'s link client \<Rightarrow> 's link client \<Rightarrow> bool" where
  "aside_from_parts c c' \<longleftrightarrow>
     c' = c\<lparr>cl_net := cl_net c'\<rparr> \<and> lk_requests (cl_net c) \<le> lk_requests (cl_net c')
     \<and> files (w_db (lk_world (cl_net c'))) = files (w_db (lk_world (cl_net c)))"

lemma aside_trans: "aside_from_parts c d \<Longrightarrow> aside_from_parts d e \<Longrightarrow> aside_from_parts c e"
  unfolding aside_from_parts_def by (auto intro: order_trans) (metis client.select_convs(2,3) client.surjective client.update_convs(1))

lemma proxy_upload_part_files:
  "proxy_upload_part sv i x n data sz cs now w = (Inr p, w') \<Longrightarrow> files (w_db w') = files (w_db w)"
  by (drule proxy_upload_part_Inr)
    (auto simp: touch_activity_def update_status_def update_upload_def upsert_part_def
      upsert_part_postgresql_def upsert_part_generic_def split: option.splits)

lemma parts_put:
  assumes conn: "connected dp k" and st: "sv_storage (dp_service dp) = local_storage A"
    and ok: "adapter_ok A" "component x" and N: "N < 10 ^ 8"
    and run: "run_each (upload_one_part (net_pause k) (put_part k x) sha data whole ps) ns c = (rs, c')"
    and fine: "\<forall>e\<in>set rs. \<exists>p. snd e = Inr p" and calm: "waits c' \<le> waits c" and ns: "set ns \<subseteq> {1..N}"
    and at: "session_on_disk A (dp_identity dp) x b key N S m (lk_world (cl_net c))"
  shows "session_on_disk A (dp_identity dp) x b key N S
      (override_on m (\<lambda>n. Some (part_body data whole ps n)) (set ns)) (lk_world (cl_net c'))
    \<and> aside_from_parts c c'"
  using run fine calm ns at
proof (induction ns arbitrary: c rs m)
  case Nil
  then show ?case by (simp add: aside_from_parts_def)
next
  case (Cons n ns)
  let ?act = "upload_one_part (net_pause k) (put_part k x) sha data whole ps"
  obtain r c1 rs1 where one: "?act n c = (r, c1)" and rest: "run_each ?act ns c1 = (rs1, c')"
    and rs: "rs = (n, r) # rs1"
    using Cons.prems(1) by (auto split: prod.splits)
  obtain p where p: "r = Inr p" using Cons.prems(2) rs by auto
  have "waits c \<le> waits c1" "waits c1 \<le> waits c'"
    using onwardD[OF onward_one_part[OF conn] one] run_each_waits[OF onward_one_part[OF conn] rest] by simp_all
  then have low: "waits c1 \<le> waits c" "waits c' \<le> waits c1" using Cons.prems(3) by simp_all
  have n: "1 \<le> n" "n < 10 ^ 8" using Cons.prems(4) N by auto
  have "calm (?act n) c p c1" using one p low by (simp add: calm_def)
  from client_puts[OF this conn n] ok(2) obtain q cs where
    put: "proxy_upload_part (dp_service dp) (dp_identity dp) x n (part_body data whole ps n)
      (int (length (part_body data whole ps n))) cs (dp_clock dp (lk_requests (cl_net c))) (lk_world (cl_net c))
        = (Inr q, lk_world (cl_net c1))"
    and c1: "c1 = c\<lparr>cl_net := cl_net c1\<rparr>" "lk_requests (cl_net c1) = lk_requests (cl_net c) + 1"
    unfolding component_def by blast
  have one_more: "session_on_disk A (dp_identity dp) x b key N S (m(n \<mapsto> part_body data whole ps n)) (lk_world (cl_net c1))"
    using session_on_disk_put[OF Cons.prems(5) N st ok put] by blast
  have "\<forall>e\<in>set rs1. \<exists>p. snd e = Inr p" "set ns \<subseteq> {1..N}" using Cons.prems(2,4) rs by simp_all
  note Cons.IH[OF rest this(1) low(2) this(2) one_more]
  moreover have "override_on (m(n \<mapsto> part_body data whole ps n)) (\<lambda>n. Some (part_body data whole ps n)) (set ns)
      = override_on m (\<lambda>n. Some (part_body data whole ps n)) (set (n # ns))"
    by (auto simp: override_on_def)
  moreover have "aside_from_parts c c1"
    using c1 proxy_upload_part_files[OF put] by (simp add: aside_from_parts_def)
  ultimately show ?case using aside_trans by metis
qed

section \<open>Completing\<close>

lemma serialize_result_local:
  assumes "serialize_upload_result sv f w = (Inr d, w')" "sv_storage sv = local_storage A"
  obtains extra where "w' = w" "d = serialize_file sv f @ extra"
  using assms
  by (auto simp: serialize_upload_result_def upload_result_url_def local_storage_def local_capabilities_def effs)

lemma client_completes:
  assumes run: "calm (retry_default (net_pause k) (request k (plain_request ''POST''
      (lit ''/v1/uploads/'' @ x @ lit ''/complete'')))) c r c'"
    and conn: "connected dp k" and x: "slash \<notin> set x" and st: "sv_storage (dp_service dp) = local_storage A"
    and info: "rbind (reply_json r) file_info_of = Inr info"
  obtains f where "complete (dp_service dp) (dp_identity dp) x (dp_ids dp (lk_requests (cl_net c)))
      (dp_clock dp (lk_requests (cl_net c))) (lk_world (cl_net c)) = (Inr f, lk_world (cl_net c'))"
    "c' = c\<lparr>cl_net := cl_net c'\<rparr>" "fi_id info = JStr (fo_id f)"
proof -
  let ?k = "lk_requests (cl_net c)"
  let ?rq = "plain_request ''POST'' (lit ''/v1/uploads/'' @ x @ lit ''/complete'')"
  have served: "serve_http dp ?rq (cl_net c) = (Inr r, cl_net c')" "c' = c\<lparr>cl_net := cl_net c'\<rparr>"
    using calm_request[OF calm_retry[OF run onward_request[OF conn] conn] conn] by blast+
  obtain j v where j: "reply_json r = Inr j" "file_info_of j = Inr info" "field ''id'' j = Inr v"
    using info by (auto simp: rbind_Inr_iff file_info_of_def)
  have "route dp ?k ?rq = Run (post_uploads_complete (dp_service dp) (dp_identity dp) x (dp_ids dp ?k) (dp_clock dp ?k))"
    using split_uploads(2)[OF x] by (simp add: route_def plain_request_def route_uploads_def Let_def)
  from serve_run[OF served(1) this j(1,3)]
  have "post_uploads_complete (dp_service dp) (dp_identity dp) x (dp_ids dp ?k) (dp_clock dp ?k) (lk_world (cl_net c))
      = (Inr j, lk_world (cl_net c'))" by simp
  then obtain f d w where f: "complete (dp_service dp) (dp_identity dp) x (dp_ids dp ?k) (dp_clock dp ?k)
      (lk_world (cl_net c)) = (Inr f, w)"
    and d: "serialize_upload_result (dp_service dp) f w = (Inr d, lk_world (cl_net c'))" "j = JObj d"
    by (auto simp: post_uploads_complete_def complete_handler_def effs transaction_Inr)
  obtain extra where "lk_world (cl_net c') = w" "d = serialize_file (dp_service dp) f @ extra"
    by (rule serialize_result_local[OF d(1) st])
  then show thesis
    using that f served(2) j(2) d(2) file_info_of_serialized[of "dp_service dp" f extra] by auto
qed

section \<open>A large file\<close>

text \<open>What a deployment with local storage has to be for the uploads to come.\<close>

definition ready :: "local_adapter \<Rightarrow> fs deployment \<Rightarrow> fs link \<Rightarrow> bool" where
  "ready A dp l \<longleftrightarrow>
     adapter_ok A \<and> uploads_inv (w_db (lk_world l))
     \<and> mp_maximum_parts (uc_multipart (cf_uploads (sv_settings (dp_service dp)))) < 10 ^ 8
     \<and> (\<forall>n\<ge>lk_requests l. component (dp_ids dp n)
          \<and> dp_ids dp n \<notin> us_id ` set (uploads (w_db (lk_world l)))
          \<and> dp_ids dp n \<notin> fo_id ` set (files (w_db (lk_world l)))
          \<and> parts_dir_is A (dp_ids dp n) Map.empty (w_store (lk_world l)))"

text \<open>The places the uploads of a file may lead to are ones the local backend covers.\<close>

definition places_ok :: "local_adapter \<Rightarrow> fs deployment \<Rightarrow> fs link sdk \<Rightarrow> local_file \<Rightarrow> upload_args \<Rightarrow> bool" where
  "places_ok A dp k f a \<longleftrightarrow>
     lf_name f \<noteq> [] \<and> ua_bucket a \<noteq> []
     \<and> (\<forall>raw key. resolve_object_key (sk_nfc k) (ua_object_key a) (ua_directory a) (lf_name f) = Inr raw \<longrightarrow>
          normalize_relative_path (sv_nfc (dp_service dp)) 64 1024 raw = Inr key \<longrightarrow>
          local_place A (ua_bucket a) key)"

lemma resolved_key_there:
  "resolve_object_key nfc object_key directory filename = Inr raw \<Longrightarrow> filename \<noteq> [] \<Longrightarrow> raw \<noteq> []"
  by (auto simp: resolve_object_key_def rbind_Inr_iff present_def the_default_def split: if_splits option.splits)

section \<open>A small file\<close>

lemma local_put_size:
  assumes "local_put_object A b k data ct (Some n) cs s = (Inr x, s')"
  shows "so_size_bytes x = n"
  using assms by (auto simp: local_put_object_def Let_def effs)

lemma proxy_upload_holds:
  assumes run: "proxy_upload sv i rq data fid now w = (Inr f, w')"
    and st: "sv_storage sv = local_storage A" "adapter_ok A"
    and place: "\<And>key. normalize_relative_path (sv_nfc sv) 64 1024 (fr_object_key rq) = Inr key
      \<Longrightarrow> local_place A (fr_bucket rq) key"
    and sz: "fr_size_bytes rq = int (length data)" and fresh: "fid \<notin> fo_id ` set (files (w_db w))"
  shows "fo_id f = fid \<and> file_holds A i fid data w'"
proof -
  obtain key e w0 w1 stored w2 w3 where key: "normalize_relative_path (sv_nfc sv) 64 1024 (fr_object_key rq) = Inr key"
    and checked: "check_conflict sv (fr_bucket rq) key w = (Inr (), w0)"
      "effective_for sv (fr_lifecycle rq) (Some now) now w0 = (Inr e, w1)"
    and put: "on_store (st_put_object (sv_storage sv) (fr_bucket rq) key data (fr_content_type rq)
        (Some (fr_size_bytes rq)) (fr_checksum_sha256 rq)) w1 = (Inr stored, w2)"
    and f: "f = uploaded_file sv i rq key e stored fid now"
    and ins: "try_db (insert_file f) w2 = (Inr (), w')"
    using run
    by (auto simp: proxy_upload_def bnd_Inr_iff seq_def lift_def guard_def ret_def raise_def get_db_Inr
        validate_bucket_def Let_def split: if_splits)
  have w1: "w_db w1 = w_db w"
    using keepsD[OF keeps_check_conflict[of "\<lambda>d. d = w_db w"] _ checked(1)]
      keepsD[OF keeps_effective_for[of "\<lambda>d. d = w_db w"] _ checked(2)] by simp
  obtain s where put: "local_put_object A (fr_bucket rq) key data (fr_content_type rq) (Some (fr_size_bytes rq))
        (fr_checksum_sha256 rq) (w_store w1) = (Inr stored, s)" and w2: "w2 = w1\<lparr>w_store := s\<rparr>"
    using put by (auto simp: on_store_Inr st(1) local_storage_def)
  have ins: "insert_file f (w_db w1) = Inr (w_db w')" and s: "w_store w' = s"
    using ins w2 by (auto simp: try_db_Inr)
  note row = insert_file_Inr[OF ins]
  have fields: "fo_id f = fid" "fo_tenant_id f = tenant_id i" "fo_bucket f = fr_bucket rq" "fo_object_key f = key"
    "fo_status f = FileActive" "fo_size_bytes f = int (length data)"
    using local_put_size[OF put] sz by (simp_all add: f uploaded_file_def Let_def)
  have "find (\<lambda>f. fo_id f = fid \<and> fo_tenant_id f = tenant_id i) (files (w_db w)) = None"
    using fresh by (auto simp: find_None_iff)
  then have "get_file fid (Some (tenant_id i)) (w_db w') = Some f"
    using row w1 fields by (simp add: get_file_def find_snoc)
  moreover have "local_content A (w_store w') (fr_bucket rq) key = Some data"
    using local_put_content[OF st(2) place[OF key] put] s by simp
  ultimately show ?thesis using fields place[OF key] by (auto simp: file_holds_def)
qed

lemma small_upload_holds:
  assumes run: "calm (client_upload_file k (Some f) a) c info c'"
    and conn: "connected dp k" and st: "sv_storage (dp_service dp) = local_storage A"
    and ok: "adapter_ok A" and place: "places_ok A dp k f a"
    and fresh: "dp_ids dp (lk_requests (cl_net c)) \<notin> fo_id ` set (files (w_db (lk_world (cl_net c))))"
  shows "\<exists>fid. fi_id info = JStr fid \<and> file_holds A (dp_identity dp) fid (lf_data f) (lk_world (cl_net c'))"
proof -
  let ?k = "lk_requests (cl_net c)" and ?fid = "dp_ids dp (lk_requests (cl_net c))"
  obtain key where key: "resolve_object_key (sk_nfc k) (ua_object_key a) (ua_directory a) (lf_name f) = Inr key"
    using run by (auto simp: client_upload_file_def calm_def effs)
  define rq where "rq = \<lparr>rq_method = ''POST'', rq_path = lit ''/v1/files/upload'', rq_query = [],
    rq_body = FormBody (upload_fields k f key a) (lf_name f) (lf_data f) (lit ''application/octet-stream'')\<rparr>"
  have "calm (bnd (retry_default (net_pause k) (on_net (sk_send k rq))) (\<lambda>r.
      bnd (lift (raise_for_status r)) (\<lambda>_. lift (rbind (reply_json r) file_info_of)))) c info c'"
    using run by (auto simp: client_upload_file_def calm_def key rq_def bnd_def lift_def)
  then obtain r where r: "calm (retry_default (net_pause k) (on_net (sk_send k rq))) c r c'"
    and info: "rbind (reply_json r) file_info_of = Inr info"
  proof (rule calm_bnd[OF _ onward_retry[OF onward_send[OF conn] conn]])
    fix r c1
    assume "calm (retry_default (net_pause k) (on_net (sk_send k rq))) c r c1"
      "calm (bnd (lift (raise_for_status r)) (\<lambda>_. lift (rbind (reply_json r) file_info_of))) c1 info c'"
    then show thesis using that by (auto simp: calm_def effs)
  qed (intro onward)
  note served = calm_send[OF calm_retry[OF r onward_send[OF conn] conn] conn]
  obtain j v where j: "reply_json r = Inr j" "file_info_of j = Inr info" "field ''id'' j = Inr v"
    using info by (auto simp: rbind_Inr_iff file_info_of_def)
  obtain form where form: "form_of (upload_fields k f key a) (lf_name f) (lit ''application/octet-stream'') = Some form"
    and fields: "uf_bucket form = ua_bucket a" "uf_object_key form = Some key"
    by (auto simp: form_of_def upload_fields_def Let_def)
  have "route dp ?k rq = Run (post_files_upload (dp_service dp) (dp_identity dp) form (lf_data f) ?fid (dp_clock dp ?k))"
    using split_uploads(4)[of "[]"] form by (simp add: route_def rq_def route_files_def Let_def)
  from serve_run[OF conjunct1[OF served] this j(1,3)]
  have ran: "post_files_upload (dp_service dp) (dp_identity dp) form (lf_data f) ?fid (dp_clock dp ?k) (lk_world (cl_net c))
      = (Inr j, lk_world (cl_net c'))" by simp
  have resolved: "the_default [] (or_else (uf_object_key form) z) = key" for z
    using resolved_key_there[OF key] place fields
    by (auto simp: or_else_def present_def the_default_def places_ok_def)
  obtain fr fo d w where up: "proxy_upload (dp_service dp) (dp_identity dp) fr (lf_data f) ?fid (dp_clock dp ?k)
        (lk_world (cl_net c)) = (Inr fo, w)"
    and fr: "fr_bucket fr = ua_bucket a" "fr_object_key fr = key" "fr_size_bytes fr = int (length (lf_data f))"
    and d: "serialize_upload_result (dp_service dp) fo w = (Inr d, lk_world (cl_net c'))" "j = JObj d"
    using ran fields(1) resolved by (auto simp: post_files_upload_def Let_def effs transaction_Inr)
  have "fo_id fo = ?fid \<and> file_holds A (dp_identity dp) ?fid (lf_data f) w"
  proof (rule proxy_upload_holds[OF up st ok _ fr(3) fresh])
    show "local_place A (fr_bucket fr) key'" if "normalize_relative_path (sv_nfc (dp_service dp)) 64 1024 (fr_object_key fr) = Inr key'" for key'
      using place key that fr by (auto simp: places_ok_def)
  qed
  moreover obtain extra where "lk_world (cl_net c') = w" "d = serialize_file (dp_service dp) fo @ extra"
    by (rule serialize_result_local[OF d(1) st])
  ultimately show ?thesis
    using j(2) d(2) file_info_of_serialized[of "dp_service dp" fo extra] by auto
qed

section \<open>A large file\<close>

lemma ready_after:
  assumes "ready A dp l" "create_session (dp_service dp) (dp_identity dp) rq (dp_ids dp (lk_requests l)) now
      (lk_world l) = (Inr u, lk_world l')"
    and "sv_storage (dp_service dp) = local_storage A"
  shows "session_on_disk A (dp_identity dp) (dp_ids dp (lk_requests l)) (us_bucket u) (us_object_key u)
    (us_total_parts u) (us_total_size u) Map.empty (lk_world l')"
  using create_session_on_disk[OF _ _ _ assms(3,2)] assms(1) by (auto simp: ready_def)

lemma onward_upload_file: "connected dp k \<Longrightarrow> onward (client_upload_file k file a)"
  unfolding client_upload_file_def by (intro onward onward_retry onward_send)

lemma onward_parts:
  assumes "connected dp k"
  shows "onward (upload_all_parts order (upload_one_part (net_pause k) (put_part k x) sha data whole ps) pending)"
  by (rule onwardI)
    (auto simp: upload_all_parts_def Let_def split: prod.splits option.splits
      dest: run_each_waits[OF onward_one_part[OF assms]])

lemma onward_client_create: "connected dp k \<Longrightarrow> onward (client_create_upload k b key sz ps fp sha lc)"
  unfolding client_create_upload_def by (intro onward onward_json)

lemma onward_missing: "connected dp k \<Longrightarrow> onward (parts_missing k x wanted fp s n)"
  unfolding parts_missing_def Let_def by (intro onward onward_request)

lemma onward_state: "onward (state_load x)" "onward (state_delete x)"
  unfolding state_load_def state_delete_def
  by (intro onward) (rule onwardI, auto simp: modify_def waits_def)

lemma onward_send_parts: "connected dp k \<Longrightarrow> onward (send_parts k f a session)"
  unfolding send_parts_def Let_def
  by (intro onward onward_state onward_missing onward_parts onward_retry onward_request)

lemma calm_seq:
  assumes "calm (seq m n) c b c'" "onward m" "onward n"
  obtains a c1 where "calm m c a c1" "calm n c1 b c'"
  using calm_bnd[OF assms(1)[unfolded seq_def] assms(2)] assms(3) by metis

text \<open>A run of \<open>send_parts\<close> in its pieces.\<close>

lemma send_parts_calm:
  assumes run: "calm (send_parts k f a session) c info c'" and conn: "connected dp k"
    and none: "cl_states c = Map.empty"
    and session: "si_id session = JStr x" "si_total_parts session = JInt N" "si_part_size session = JInt ps"
      "si_total_size session = JInt whole"
  obtains c1 qs r c2 where
    "calm (upload_all_parts (sk_order k) (upload_one_part (net_pause k) (put_part k x) (sk_sha256 k)
        (lf_data f) whole ps) {1..N}) c qs c1"
    "calm (retry_default (net_pause k) (request k (plain_request ''POST''
        (lit ''/v1/uploads/'' @ x @ lit ''/complete'')))) c1 r c2"
    "rbind (reply_json r) file_info_of = Inr info" "cl_net c' = cl_net c2"
proof -
  have loaded: "state_load x c = (Inr None, c)"
    using none by (simp add: state_load_def bnd_def get_def ret_def)
  let ?act = "upload_one_part (net_pause k) (put_part k x) (sk_sha256 k) (lf_data f) whole ps"
  let ?done = "\<lambda>r. bnd (lift (raise_for_status r)) (\<lambda>_. bnd (lift (rbind (reply_json r) file_info_of)) (\<lambda>info.
      seq (state_delete x) (ret info)))"
  let ?fin = "retry_default (net_pause k) (request k (plain_request ''POST'' (lit ''/v1/uploads/'' @ x @ lit ''/complete'')))"
  have on_done: "onward (?done r)" for r by (intro onward onward_state)
  have on_fin: "onward ?fin" by (rule onward_retry[OF onward_request[OF conn] conn])
  have all: "calm (bnd (upload_all_parts (sk_order k) ?act {1..N}) (\<lambda>_. bnd ?fin ?done)) c info c'"
    using run loaded session
    by (simp add: send_parts_def calm_def bnd_def lift_def sdk_text_def sdk_int_def parts_missing_def ret_def)
  show thesis
  proof (rule calm_bnd[OF all onward_parts[OF conn]])
    fix qs c1
    assume parts: "calm (upload_all_parts (sk_order k) ?act {1..N}) c qs c1" and rest: "calm (bnd ?fin ?done) c1 info c'"
    show thesis
    proof (rule calm_bnd[OF rest on_fin on_done])
      fix r c2
      assume fin: "calm ?fin c1 r c2" and d: "calm (?done r) c2 info c'"
      have "rbind (reply_json r) file_info_of = Inr info" "cl_net c' = cl_net c2"
        using d by (auto simp: calm_def effs state_delete_def)
      then show thesis using that parts fin by blast
    qed
  qed (intro onward on_fin on_done)
qed

lemma send_parts_hold:
  assumes run: "calm (send_parts k f a session) c info c'" and conn: "connected dp k"
    and st: "sv_storage (dp_service dp) = local_storage A" and ok: "adapter_ok A" "component x"
    and none: "cl_states c = Map.empty"
    and session: "si_id session = JStr x" "si_total_parts session = JInt N" "si_part_size session = JInt ps"
      "si_total_size session = JInt (int (length (lf_data f)))"
    and at: "session_on_disk A (dp_identity dp) x b key N (int (length (lf_data f))) Map.empty (lk_world (cl_net c))"
    and N: "N < 10 ^ 8" and place: "local_place A b key" and order: "\<And>ns. mset (sk_order k ns) = mset ns"
    and count: "count_parts (int (length (lf_data f))) ps = Inr N" "0 < ps" "int (length (lf_data f)) < 2 ^ 53"
    and fresh: "\<And>n. lk_requests (cl_net c) \<le> n \<Longrightarrow> dp_ids dp n \<notin> fo_id ` set (files (w_db (lk_world (cl_net c))))"
  shows "\<exists>fid. fi_id info = JStr fid \<and> file_holds A (dp_identity dp) fid (lf_data f) (lk_world (cl_net c'))"
proof (rule send_parts_calm[OF run conn none session])
  let ?data = "lf_data f"
  let ?act = "upload_one_part (net_pause k) (put_part k x) (sk_sha256 k) ?data (int (length ?data)) ps"
  let ?m = "override_on Map.empty (\<lambda>n. Some (part_body ?data (int (length ?data)) ps n)) {1..N}"
  have x: "slash \<notin> set x" using ok(2) by (simp add: component_def)
  fix c1 qs r c2
  assume parts: "calm (upload_all_parts (sk_order k) ?act {1..N}) c qs c1"
    and fin: "calm (retry_default (net_pause k) (request k (plain_request ''POST''
        (lit ''/v1/uploads/'' @ x @ lit ''/complete'')))) c1 r c2"
    and info: "rbind (reply_json r) file_info_of = Inr info" and c': "cl_net c' = cl_net c2"
  have all: "upload_all_parts (sk_order k) ?act {1..N} c = (Inr qs, c1)" "waits c1 \<le> waits c"
    using parts by (simp_all add: calm_def)
  obtain rs where rs: "run_each ?act (sk_order k (sorted_list_of_set {1..N})) c = (rs, c1)"
    and took: "\<And>n r. (n, r) \<in> set rs \<Longrightarrow> \<exists>p. r = Inr p"
    and ns: "set (sk_order k (sorted_list_of_set {1..N})) = {1..N}"
    using all_parts_fine[OF all(1) _ order] by (metis finite_atLeastAtMost_int)
  have "\<forall>e\<in>set rs. \<exists>p. snd e = Inr p" using took by auto
  from parts_put[OF conn st ok N rs this all(2) _ at] ns
  have disk: "session_on_disk A (dp_identity dp) x b key N (int (length ?data)) ?m (lk_world (cl_net c1))"
    and aside: "aside_from_parts c c1" by simp_all
  obtain g where g: "complete (dp_service dp) (dp_identity dp) x (dp_ids dp (lk_requests (cl_net c1)))
      (dp_clock dp (lk_requests (cl_net c1))) (lk_world (cl_net c1)) = (Inr g, lk_world (cl_net c2))"
    and id: "fi_id info = JStr (fo_id g)"
    by (rule client_completes[OF fin conn x st info])
  have "dp_ids dp (lk_requests (cl_net c1)) \<notin> fo_id ` set (files (w_db (lk_world (cl_net c1))))"
    using fresh aside by (simp add: aside_from_parts_def)
  note left_behind = completed_on_disk[OF disk place st ok g this]
  have "1 \<le> N" "(N - 1) * ps \<le> int (length ?data)" "int (length ?data) \<le> N * ps"
    using part_count_bounds[OF count(1,2,3)] by simp_all
  from parts_concat[OF count(2) this]
  have "concat (map (part_body ?data (int (length ?data)) ps) [1..N]) = ?data" .
  moreover have "map (\<lambda>n. the (?m n)) [1..N] = map (part_body ?data (int (length ?data)) ps) [1..N]"
    by (rule map_cong) (simp_all add: override_on_def)
  ultimately have "concat (map (\<lambda>n. the (?m n)) [1..N]) = ?data" by (simp only:)
  then show ?thesis using left_behind id place unfolding c' file_holds_def by auto
qed

lemma large_upload_holds:
  assumes run: "calm (client_upload_large_file k (Some f) a) c info c'" and conn: "connected dp k"
    and st: "sv_storage (dp_service dp) = local_storage A" and rd: "ready A dp (cl_net c)"
    and place: "places_ok A dp k f a" and none: "cl_states c = Map.empty"
    and sizes: "int (length (lf_data f)) < 2 ^ 53" "0 < ua_part_size a"
    and order: "\<And>ns. mset (sk_order k ns) = mset ns"
  shows "\<exists>fid. fi_id info = JStr fid \<and> file_holds A (dp_identity dp) fid (lf_data f) (lk_world (cl_net c'))"
proof -
  let ?create = "\<lambda>key lc. client_create_upload k (ua_bucket a) key (int (length (lf_data f))) (ua_part_size a)
      (Some (fast_fingerprint (sk_sha256 k) f)) None lc"
  let ?rest = "\<lambda>session. if si_upload_mode session = JStr (lit ''proxy'')
      then client_upload_file k (Some f) (a\<lparr>ua_metadata := None\<rparr>) else send_parts k f a session"
  obtain key lc where key: "resolve_object_key (sk_nfc k) (ua_object_key a) (ua_directory a) (lf_name f) = Inr key"
    and all: "calm (bnd (?create key lc) ?rest) c info c'"
    using run by (auto simp: client_upload_large_file_def calm_def bnd_Inr_iff lift_def)
  have on: "onward (?rest session)" for session
    by (intro onward onward_upload_file[OF conn] onward_send_parts[OF conn])
  show ?thesis
  proof (rule calm_bnd[OF all onward_client_create[OF conn] on])
    fix session c1
    assume create: "calm (?create key lc) c session c1" and rest: "calm (?rest session) c1 info c'"
    have b: "ua_bucket a \<noteq> []" using place by (simp add: places_ok_def)
    obtain rq u where made: "create_session (dp_service dp) (dp_identity dp) rq (dp_ids dp (lk_requests (cl_net c)))
        (dp_clock dp (lk_requests (cl_net c))) (lk_world (cl_net c)) = (Inr u, lk_world (cl_net c1))"
      and rq: "cr_bucket rq = ua_bucket a" "cr_object_key rq = key" "cr_total_size rq = int (length (lf_data f))"
        "cr_part_size rq = Some (ua_part_size a)"
      and c1: "c1 = c\<lparr>cl_net := cl_net c1\<rparr>" "lk_requests (cl_net c1) = lk_requests (cl_net c) + 1"
      and session: "si_id session = JStr (us_id u)" "si_total_size session = JInt (us_total_size u)"
        "si_part_size session = JInt (us_part_size u)" "si_total_parts session = JInt (us_total_parts u)"
      by (rule client_creates[OF create conn b])
    note u = create_session_sizes[OF made rq(4)]
    have fresh: "dp_ids dp n \<notin> fo_id ` set (files (w_db (lk_world (cl_net c1))))" if "lk_requests (cl_net c1) \<le> n" for n
      using rd u c1(2) that by (auto simp: ready_def)
    show ?thesis
    proof (cases "si_upload_mode session = JStr (lit ''proxy'')")
      case True
      have "places_ok A dp k f (a\<lparr>ua_metadata := None\<rparr>)" using place by (simp add: places_ok_def)
      from small_upload_holds[OF _ conn st _ this fresh] rest True rd show ?thesis by (simp add: ready_def)
    next
      case False
      have x: "us_id u = dp_ids dp (lk_requests (cl_net c))" using u by simp
      have disk: "session_on_disk A (dp_identity dp) (us_id u) (us_bucket u) (us_object_key u)
          (us_total_parts u) (int (length (lf_data f))) Map.empty (lk_world (cl_net c1))"
        using ready_after[OF rd made st] u rq(3) x by simp
      have N: "us_total_parts u < 10 ^ 8" "component (us_id u)" "adapter_ok A"
        using rd u x by (auto simp: ready_def)
      have place': "local_place A (us_bucket u) (us_object_key u)"
        using place key u rq by (auto simp: places_ok_def validate_object_key_def)
      have none1: "cl_states c1 = Map.empty"
        using c1(1) none by (metis client.select_convs(2) client.surjective client.update_convs(1))
      have sent: "calm (send_parts k f a session) c1 info c'" using rest False by simp
      have whole: "si_total_size session = JInt (int (length (lf_data f)))"
        "count_parts (int (length (lf_data f))) (us_part_size u) = Inr (us_total_parts u)" "0 < us_part_size u"
        using session u rq sizes(2) by auto
      show ?thesis
        by (rule send_parts_hold[OF sent conn st N(3,2) none1 session(1,4,3) whole(1) disk N(1) place' order
              whole(2,3) sizes(1) fresh])
    qed
  qed
qed

section \<open>Any file\<close>

lemma keeps_retry:
  assumes "keeps P fn" "\<And>n s. P s \<Longrightarrow> P (pause n s)"
  shows "keeps P (retry_default pause fn)"
proof -
  have "P s \<Longrightarrow> P (snd (retry_from fn pause statuses m k s))" for statuses m k s
    using assms
  proof (induction fn pause statuses m k s rule: retry_from.induct)
    case (1 fn pause statuses m k s)
    obtain q t where q: "fn s = (q, t)" by fastforce
    have "P t" using keepsD[OF "1.prems"(2,1) q] .
    then show ?case
      using "1.IH"[OF q[symmetric]] "1.prems"(2,3) q
      by (subst retry_from.simps) (auto split: sum.split)
  qed
  then show ?thesis by (intro keepsI) (simp add: retry_default_def sdk_retry_def)
qed

lemma onward_error [onward]:
  "(\<And>c s. onward (f c s)) \<Longrightarrow> (\<And>x. onward (g x)) \<Longrightarrow> onward (case e of SdkErr c s \<Rightarrow> f c s | SdkCrash x \<Rightarrow> g x)"
  by (cases e) simp_all

lemma onward_threshold [onward]: "onward (modify (\<lambda>c. c\<lparr>cl_threshold := v\<rparr>))"
  by (rule onwardI) (auto simp: modify_def waits_def)

lemma threshold_aside:
  assumes "connected dp k"
  shows "keeps (\<lambda>c. lk_world (cl_net c) = w \<and> n \<le> lk_requests (cl_net c) \<and> cl_states c = S) (resolve_threshold k t)"
    and "onward (resolve_threshold k t)"
proof -
  let ?P = "\<lambda>c. lk_world (cl_net c) = w \<and> n \<le> lk_requests (cl_net c) \<and> cl_states c = S"
  let ?rq = "plain_request ''GET'' (lit ''/v1/client-config'')"
  have "route dp m ?rq = Run (get_client_config (dp_service dp) (tenant_id (dp_identity dp))
      (dp_service_section dp) (dp_directory_section dp))" for m
    using split_uploads(5)[of "[]"] by (simp add: route_def plain_request_def)
  then have "keeps ?P (on_net (sk_send k ?rq))"
    using assms
    by (intro keepsI)
      (auto simp: on_net_def connected_def serve_http_def respond_def get_client_config_def Let_def ret_def)
  then have "keeps ?P (guarded k ?rq)" unfolding guarded_def by (intro keeps)
  then have "keeps ?P (request k ?rq)"
    unfolding request_def by (rule keeps_retry) (use assms in \<open>simp add: net_pause_def connected_def wait_on_def\<close>)
  then have json: "keeps ?P (json_request k ?rq)" unfolding json_request_def by (intro keeps)
  have caught: "keeps ?P (case e of SdkErr cl s \<Rightarrow> ret (JInt t) | _ \<Rightarrow> raise e)" for e
    by (cases e) simp_all
  show "keeps ?P (resolve_threshold k t)"
    unfolding resolve_threshold_def by (intro keeps json caught keeps_modify) simp_all
  show "onward (resolve_threshold k t)"
    unfolding resolve_threshold_def by (intro onward onward_catch onward_json[OF assms])
qed

lemma client_upload_holds:
  assumes run: "calm (client_upload_path k t f a) c info c'" and conn: "connected dp k"
    and st: "sv_storage (dp_service dp) = local_storage A" and rd: "ready A dp (cl_net c)"
    and place: "places_ok A dp k f a" and none: "cl_states c = Map.empty"
    and sizes: "int (length (lf_data f)) < 2 ^ 53" "0 < ua_part_size a"
    and order: "\<And>ns. mset (sk_order k ns) = mset ns"
  shows "\<exists>fid. fi_id info = JStr fid \<and> file_holds A (dp_identity dp) fid (lf_data f) (lk_world (cl_net c'))"
proof -
  let ?go = "\<lambda>large. if large then client_upload_large_file k (Some f) a else client_upload_file k (Some f) a"
  have large: "onward (client_upload_large_file k (Some f) a)"
    unfolding client_upload_large_file_def option.case
    by (intro onward onward_client_create[OF conn] onward_upload_file[OF conn] onward_send_parts[OF conn])
  have on: "onward (?go b)" for b by (intro onward large onward_upload_file[OF conn])
  show ?thesis
  proof (rule calm_bnd[OF run[unfolded client_upload_path_def] threshold_aside(2)[OF conn]])
    fix v c1
    assume v: "calm (resolve_threshold k t) c v c1"
      and rest: "calm (bnd (lift (exceeds (int (length (lf_data f))) v)) ?go) c1 info c'"
    have same: "lk_world (cl_net c1) = lk_world (cl_net c)" "lk_requests (cl_net c) \<le> lk_requests (cl_net c1)"
      "cl_states c1 = Map.empty"
    proof -
      have "resolve_threshold k t c = (Inr v, c1)" using v by (simp add: calm_def)
      from keepsD[OF threshold_aside(1)[OF conn, of "lk_world (cl_net c)" "lk_requests (cl_net c)" Map.empty] _ this]
      show "lk_world (cl_net c1) = lk_world (cl_net c)" "lk_requests (cl_net c) \<le> lk_requests (cl_net c1)"
        "cl_states c1 = Map.empty"
        using none by simp_all
    qed
    have rd1: "ready A dp (cl_net c1)" using rd same by (auto simp: ready_def)
    obtain large where go: "calm (?go large) c1 info c'"
      using rest by (auto simp: calm_def bnd_Inr_iff lift_def)
    show ?thesis
    proof (cases large)
      case True
      then show ?thesis
        using large_upload_holds[OF _ conn st rd1 place same(3) sizes order] go by simp
    next
      case False
      then show ?thesis
        using small_upload_holds[OF _ conn st _ place] go rd1 by (auto simp: ready_def)
    qed
  qed (intro onward on)
qed

section \<open>And back\<close>

lemma client_downloads:
  assumes holds: "file_holds A i fid data w" and st: "sv_storage sv = local_storage A" and ok: "adapter_ok A"
    and sz: "length data < 10 ^ max_str_digits" and chop: "\<And>b. concat (chop b) = b"
    and order: "\<And>ws. mset (order ws) = mset ws" and some: "data \<noteq> [] \<or> concurrency \<le> 1"
  shows "client_download order None (http_download sv i fid chop w) concurrency = (None, Some data)"
proof (cases "1 < concurrency")
  case True
  then show ?thesis
    using stream_parallel_data[OF http_serves_ranges[where chop = chop, OF holds st ok sz chop], of concurrency order]
      some order by (simp add: client_download_def)
next
  case False
  then show ?thesis
    using http_whole[where chop = chop, OF holds st ok chop]
    by (auto simp: client_download_def stream_whole_def split: sum.splits if_splits)
qed

text \<open>A file that was uploaded is downloaded again.\<close>

lemma uploaded_comes_back:
  assumes "calm (client_upload_path k t f a) c info c'" "connected dp k"
    and st: "sv_storage (dp_service dp) = local_storage A" and rd: "ready A dp (cl_net c)"
    and "places_ok A dp k f a" "cl_states c = Map.empty"
    and sz: "int (length (lf_data f)) < 2 ^ 53" and "0 < ua_part_size a"
    and "\<And>ns. mset (sk_order k ns) = mset ns"
    and chop: "\<And>b. concat (chop b) = b" and order: "\<And>ws. mset (order ws) = mset ws"
    and some: "lf_data f \<noteq> [] \<or> concurrency \<le> 1"
  shows "\<exists>fid. fi_id info = JStr fid
    \<and> client_download order None (http_download (dp_service dp) (dp_identity dp) fid chop (lk_world (cl_net c')))
        concurrency = (None, Some (lf_data f))"
proof -
  obtain fid where fid: "fi_id info = JStr fid"
    and holds: "file_holds A (dp_identity dp) fid (lf_data f) (lk_world (cl_net c'))"
    using client_upload_holds[OF assms(1-9)] by blast
  have "length (lf_data f) < 2 ^ 53" using sz by simp
  also have "(2::nat) ^ 53 \<le> 10 ^ 53" by (intro power_mono) simp_all
  also have "(10::nat) ^ 53 \<le> 10 ^ max_str_digits" by (intro power_increasing) (simp_all add: max_str_digits_def)
  finally have small: "length (lf_data f) < 10 ^ max_str_digits" .
  have "adapter_ok A" using rd by (simp add: ready_def)
  from client_downloads[OF holds st this small chop order some] fid show ?thesis by blast
qed

section \<open>Errors\<close>

lemma retry_returns: "fn c = (Inr r, c') \<Longrightarrow> retry_default pause fn c = (Inr r, c')"
  unfolding retry_default_def sdk_retry_def by (subst retry_from.simps) simp

text \<open>
  An endpoint's error reaches the caller of the SDK as the class of its code, with its status,
  after one request, unless the status is one that is retried.
\<close>

lemma endpoint_error_mapped:
  assumes conn: "connected dp k" and run: "route dp (lk_requests (cl_net c)) rq = Run m"
    and fails: "m (lk_world (cl_net c)) = (Inl e, w')"
    and e: "is_api_error e" "400 \<le> error_status e" "error_status e \<notin> {408, 429, 500, 502, 503, 504}"
  shows "json_request k rq c =
    (Inl (SdkErr (the_default SdkUploadClientError (map_of sdk_error_map (error_code e))) (Some (error_status e))),
     c\<lparr>cl_net := (cl_net c)\<lparr>lk_world := w', lk_requests := lk_requests (cl_net c) + 1\<rparr>\<rparr>)"
proof -
  let ?c = "c\<lparr>cl_net := (cl_net c)\<lparr>lk_world := w', lk_requests := lk_requests (cl_net c) + 1\<rparr>\<rparr>"
  have "on_net (sk_send k rq) c = (Inr (error_reply e), ?c)"
    using conn run fails by (simp add: on_net_def connected_def serve_http_def respond_def)
  moreover have "hr_status (error_reply e) = error_status e" using e(1) by (simp add: error_reply_def)
  ultimately have "guarded k rq c = (Inr (error_reply e), ?c)"
    using e(3) by (simp add: guarded_def bnd_def ret_def)
  then have "request k rq c = (Inr (error_reply e), ?c)" unfolding request_def by (rule retry_returns)
  then show ?thesis using raise_for_error[OF e(1,2)] by (simp add: json_request_def bnd_def lift_def)
qed

end
