(* ===== verification/ClientExamples.thy ===== *)
theory ClientExamples
  imports SdkExamples ClientUploads
begin

text \<open>
  A client of the SDK connected to the service of \<open>Examples\<close>, and a file it uploads. It
  has read the service's threshold of 100 bytes already, so the file of ten goes in one request.
\<close>

definition demo_deployment :: "fs deployment" where
  "demo_deployment =
     \<lparr>dp_service = demo_service,
      dp_identity = demo_identity, dp_ids = (\<lambda>n. lit ''id-'' @ py_str_int (int n)),
      dp_clock = (\<lambda>_. 0), dp_base_url = [], dp_service_section = [], dp_directory_section = []\<rparr>"

definition demo_sdk :: "fs link sdk" where
  "demo_sdk =
     \<lparr>sk_send = serve_http demo_deployment, sk_pause = wait_on, sk_sha256 = demo_sha256,
      sk_dumps = (\<lambda>_. []), sk_nfc = (\<lambda>s. s), sk_order = rev\<rparr>"

definition demo_client :: "fs link client" where
  "demo_client =
     \<lparr>cl_net = \<lparr>lk_world = demo_world, lk_requests = 0, lk_waits = 0\<rparr>, cl_states = Map.empty,
      cl_threshold = Some (JInt 100)\<rparr>"

definition demo_local_file :: local_file where
  "demo_local_file = \<lparr>lf_name = lit ''a.txt'', lf_data = demo_bytes, lf_mtime_ns = 7\<rparr>"

definition demo_args :: upload_args where
  "demo_args =
     \<lparr>ua_bucket = lit ''app-default'', ua_object_key = None, ua_directory = Some (lit ''docs''),
      ua_lifecycle = None, ua_metadata = None, ua_part_size = 4, ua_resume = True\<rparr>"

definition demo_sent :: "(sdk_error + file_info) \<times> fs link client" where
  "demo_sent = client_upload_path demo_sdk 3 demo_local_file demo_args demo_client"

lemma demo_sent_well:
  "\<not> isl (fst demo_sent) \<and> lk_waits (cl_net (snd demo_sent)) = lk_waits (cl_net demo_client)
   \<and> lk_requests (cl_net (snd demo_sent)) = 1"
  by code_simp

lemma demo_connected: "connected demo_deployment demo_sdk"
  by (simp add: connected_def demo_sdk_def)

lemma demo_ready: "ready (default_adapter demo_sha256) demo_deployment (cl_net demo_client)"
proof -
  have "component (dp_ids demo_deployment n)" for n
    using nat_digits_ascii[of _ n] by (fastforce simp: component_def demo_deployment_def py_str_int_def lit_def)
  moreover have "uploads (w_db demo_world) = []" "files (w_db demo_world) = []" "uploads_inv (w_db demo_world)"
    using uploads_inv_empty by (simp_all add: demo_world_def empty_db_def)
  moreover have "parts_dir_is (default_adapter demo_sha256) x Map.empty (w_store demo_world)" for x
    by (simp add: parts_dir_is_def demo_world_def node_at_def)
  moreover have "mp_maximum_parts (uc_multipart (cf_uploads (sv_settings (dp_service demo_deployment)))) < 10 ^ 8"
    by code_simp
  ultimately show ?thesis using demo_adapter_ok by (simp add: ready_def demo_client_def)
qed

lemma demo_places: "places_ok (default_adapter demo_sha256) demo_deployment demo_sdk demo_local_file demo_args"
proof -
  have "resolve_object_key (sk_nfc demo_sdk) (ua_object_key demo_args) (ua_directory demo_args) (lf_name demo_local_file)
      = Inr (lit ''docs/a.txt'')"
    "normalize_relative_path (sv_nfc (dp_service demo_deployment)) 64 1024 (lit ''docs/a.txt'') = Inr (lit ''docs/a.txt'')"
    "local_place (default_adapter demo_sha256) (ua_bucket demo_args) (lit ''docs/a.txt'')"
    "lf_name demo_local_file \<noteq> [] \<and> ua_bucket demo_args \<noteq> []"
    by code_simp+
  then show ?thesis by (simp add: places_ok_def)
qed

lemma demo_sent_small: "demo_sent = client_upload_file demo_sdk (Some demo_local_file) demo_args demo_client"
proof -
  have "resolve_threshold demo_sdk 3 demo_client = (Inr (JInt 100), demo_client)"
    by (simp add: resolve_threshold_def demo_client_def bnd_def get_def ret_def)
  moreover have "exceeds (int (length (lf_data demo_local_file))) (JInt 100) = Inr False"
    by (simp add: exceeds_def json_number_def demo_local_file_def demo_bytes_def)
  ultimately show ?thesis by (simp add: demo_sent_def client_upload_path_def bnd_def lift_def)
qed

end
