(* ===== verification/SdkDirectory.thy ===== *)
theory SdkDirectory
  imports SdkClient DirectoryApi
begin

text \<open>
  Uploading a directory with the SDK: the ignore rules of \<open>src/sdk/pyuploadx/ignore.py\<close>, the
  walk of \<open>directory.py\<close>, the manifest hash of \<open>manifest.py\<close>, the local record of
  \<open>directory_state.py\<close> and \<open>upload_directory\<close> of \<open>client.py\<close>.
\<close>

section \<open>Patterns\<close>

text \<open>
  \<open>fnmatch\<close> on a case-sensitive system: \<open>*\<close> is any run of characters, slashes
  included, \<open>?\<close> any character, and brackets hold characters and ranges, negated by a
  leading \<open>!\<close>.
\<close>

datatype glob = AnyRun | AnyOne | OneOf bool "(nat \<times> nat) list" | Exactly nat

text \<open>What is between the brackets; \<open>a-b\<close> is a range, possibly an empty one.\<close>

fun class_items :: "pystr \<Rightarrow> (nat \<times> nat) list" where
  "class_items [] = []"
| "class_items (a # r) =
     (case r of
        m # b # r' \<Rightarrow> if m = 45 then (a, b) # class_items r' else (a, a) # class_items r
      | _ \<Rightarrow> (a, a) # class_items r)"

text \<open>The text up to the closing bracket, which cannot be the first character, and what follows.\<close>

definition class_text :: "pystr \<Rightarrow> (pystr \<times> pystr) option" where
  "class_text p =
     (let n = (if take 1 p = lit ''!'' then 1 else 0);
          n = (if take 1 (drop n p) = lit '']'' then n + 1 else n);
          rest = dropWhile (\<lambda>c. c \<noteq> 93) (drop n p)
      in if rest = [] then None else Some (take (length p - length rest) p, tl rest))"

lemma class_text_shorter:
  assumes "class_text p = Some (t, r)"
  shows "length r < length p"
proof -
  obtain n where r: "dropWhile (\<lambda>c. c \<noteq> 93) (drop n p) \<noteq> []" "r = tl (dropWhile (\<lambda>c. c \<noteq> 93) (drop n p))"
    using assms unfolding class_text_def Let_def by (metis option.distinct(1) option.inject prod.inject)
  then have "length r < length (dropWhile (\<lambda>c. c \<noteq> 93) (drop n p))" by simp
  also have "\<dots> \<le> length (drop n p)" by (rule length_dropWhile_le)
  finally show ?thesis by simp
qed

function parse_glob :: "pystr \<Rightarrow> glob list" where
  "parse_glob [] = []"
| "parse_glob (c # p) =
     (if c = 42 then AnyRun # parse_glob p
      else if c = 63 then AnyOne # parse_glob p
      else if c = 91
      then (case class_text p of
              None \<Rightarrow> Exactly 91 # parse_glob p
            | Some (t, r) \<Rightarrow>
                (if take 1 t = lit ''!'' then OneOf False (class_items (tl t))
                 else OneOf True (class_items t)) # parse_glob r)
      else Exactly c # parse_glob p)"
  by pat_completeness auto
termination
  by (relation "measure length") (auto intro: less_SucI dest: class_text_shorter)

fun glob_match :: "glob list \<Rightarrow> pystr \<Rightarrow> bool" where
  "glob_match [] s \<longleftrightarrow> s = []"
| "glob_match (AnyRun # g) [] \<longleftrightarrow> glob_match g []"
| "glob_match (AnyRun # g) (c # s) \<longleftrightarrow> glob_match g (c # s) \<or> glob_match (AnyRun # g) s"
| "glob_match (AnyOne # g) s \<longleftrightarrow> s \<noteq> [] \<and> glob_match g (tl s)"
| "glob_match (OneOf b items # g) s \<longleftrightarrow>
     s \<noteq> [] \<and> ((\<exists>(lo, hi)\<in>set items. lo \<le> hd s \<and> hd s \<le> hi) \<longleftrightarrow> b) \<and> glob_match g (tl s)"
| "glob_match (Exactly c # g) s \<longleftrightarrow> s \<noteq> [] \<and> hd s = c \<and> glob_match g (tl s)"

definition fnmatch :: "pystr \<Rightarrow> pystr \<Rightarrow> bool" where
  "fnmatch name pat = glob_match (parse_glob pat) name"

section \<open>Ignore rules\<close>

definition rstrip_slashes :: "pystr \<Rightarrow> pystr" where
  "rstrip_slashes s = rev (dropWhile (\<lambda>c. c = slash) (rev s))"

text \<open>Both branches of \<open>_match\<close> do the same.\<close>

definition pattern_match :: "pystr \<Rightarrow> pystr \<Rightarrow> bool" where
  "pattern_match pattern relative_path =
     (let p = rstrip_slashes pattern; p = (if starts_with p [slash] then tl p else p)
      in fnmatch relative_path p \<or> fnmatch relative_path (lit ''**/'' @ p))"

record ignore_rules =
  ir_excludes :: "pystr list"
  ir_includes :: "pystr list"
  ir_file_name :: pystr

definition is_ignored :: "ignore_rules \<Rightarrow> pystr \<Rightarrow> bool" where
  "is_ignored rules path =
     (if \<exists>p\<in>set (ir_includes rules). pattern_match p path then False
      else \<exists>p\<in>set (ir_excludes rules). pattern_match p path)"

text \<open>\<open>None\<close> is a directory without an ignore file; the text is decoded already.\<close>

definition load_ignore_file :: "pystr option \<Rightarrow> ignore_rules \<Rightarrow> ignore_rules" where
  "load_ignore_file text_of_file rules =
     (case text_of_file of
        None \<Rightarrow> rules
      | Some s \<Rightarrow>
          rules\<lparr>ir_excludes := ir_excludes rules
            @ filter (\<lambda>l. l \<noteq> [] \<and> \<not> starts_with l (lit ''#'')) (map strip (splitlines s))\<rparr>)"

definition default_ignore_rules :: ignore_rules where
  "default_ignore_rules =
     \<lparr>ir_excludes = [lit ''.git/**'', lit ''**/.DS_Store'', lit ''**/__pycache__/**'', lit ''**/*.tmp''],
      ir_includes = [], ir_file_name = lit ''.uploadignore''\<rparr>"

section \<open>Walking a directory\<close>

text \<open>
  A directory of the client as a tree; anything that is no file, directory or symbolic link is
  \<open>Special\<close>. A link says whether its target is inside the root, and holds what it leads
  to, \<open>None\<close> when it leads nowhere; links back to a directory above are left out.
\<close>

datatype tree =
    FileNode bytes int
  | DirNode "(pystr \<times> tree) list"
  | LinkNode bool "tree option"
  | Special

text \<open>\<open>sorted(current.iterdir())\<close>, at every level.\<close>

fun sort_tree :: "tree \<Rightarrow> tree" where
  "sort_tree (DirNode cs) = DirNode (sort_key fst (map (map_prod id sort_tree) cs))"
| "sort_tree (LinkNode inside dest) = LinkNode inside (map_option sort_tree dest)"
| "sort_tree t = t"

record walk_options =
  wo_rules :: ignore_rules
  wo_recursive :: bool
  wo_symlink_policy :: pystr
  wo_nfc :: "pystr \<Rightarrow> pystr"

text \<open>The files and the directories found, with their normalized paths.\<close>

type_synonym found = "(pystr \<times> local_file) list \<times> pystr list"

definition child_path :: "pystr \<Rightarrow> pystr \<Rightarrow> pystr" where
  "child_path relative name = (if relative = [] then name else relative @ slash # name)"

text \<open>
  \<open>None\<close> for a child that is passed over before its kind is looked at: its path cannot
  be normalized, it is the ignore file, or it is ignored.
\<close>

definition kept_path :: "walk_options \<Rightarrow> pystr \<Rightarrow> pystr \<Rightarrow> sdk_error + pystr option" where
  "kept_path opts relative name =
     (case sdk_normalize_relative_path (wo_nfc opts) 64 1024 (child_path relative name) of
        Inl (SdkErr _ _) \<Rightarrow> Inr None
      | Inl e \<Rightarrow> Inl e
      | Inr path \<Rightarrow>
          Inr (if name = ir_file_name (wo_rules opts) \<or> is_ignored (wo_rules opts) path then None
               else Some path))"

text \<open>What the symlink policy says of a link: passed over, refused, or followed.\<close>

definition follow_link :: "walk_options \<Rightarrow> bool \<Rightarrow> sdk_error + bool" where
  "follow_link opts inside =
     (if wo_symlink_policy opts = lit ''ignore'' then Inr False
      else if wo_symlink_policy opts = lit ''error'' then Inl (SdkErr SdkDirectoryUploadError None)
      else if \<not> inside \<and> ir_includes (wo_rules opts) = [] then Inl (SdkErr SdkDirectoryUploadError None)
      else Inr True)"

text \<open>The call of \<open>walk\<close> on one child with a kept path, and on the children of a directory.\<close>

function (sequential) walk_node ::
    "walk_options \<Rightarrow> pystr \<Rightarrow> pystr \<Rightarrow> tree \<Rightarrow> sdk_error + found"
  and walk_children :: "walk_options \<Rightarrow> pystr \<Rightarrow> (pystr \<times> tree) list \<Rightarrow> sdk_error + found" where
  "walk_node opts path name (FileNode data mtime) =
     Inr ([(path, \<lparr>lf_name = name, lf_data = data, lf_mtime_ns = mtime\<rparr>)], [])"
| "walk_node opts path name (DirNode cs) =
     (if wo_recursive opts
      then rbind (walk_children opts path cs) (\<lambda>(fs, ds). Inr (fs, path # ds))
      else Inr ([], [path]))"
| "walk_node opts path name (LinkNode inside dest) =
     rbind (follow_link opts inside) (\<lambda>go.
       case dest of
         Some t \<Rightarrow> if go then walk_node opts path name t else Inr ([], [])
       | None \<Rightarrow> Inr ([], []))"
| "walk_node opts path name Special = Inr ([], [])"
| "walk_children opts relative [] = Inr ([], [])"
| "walk_children opts relative ((name, t) # cs) =
     rbind (kept_path opts relative name) (\<lambda>kept.
       case kept of
         None \<Rightarrow> walk_children opts relative cs
       | Some path \<Rightarrow>
           rbind (walk_node opts path name t) (\<lambda>(fs, ds).
           rbind (walk_children opts relative cs) (\<lambda>(fs', ds').
             Inr (fs @ fs', ds @ ds'))))"
  by pat_completeness auto
termination
  by (relation "measure (\<lambda>x. case x of
        Inl (_, _, _, t) \<Rightarrow> 2 * size t
      | Inr (_, _, cs) \<Rightarrow> 2 * size_list (size_prod (\<lambda>_. 0) size) cs + 1)") auto

record local_directory =
  ld_name :: pystr
  ld_entries :: "(pystr \<times> tree) list"
  ld_ignore_file :: "pystr option"

definition walk_rules :: "pystr list \<Rightarrow> pystr list \<Rightarrow> pystr option \<Rightarrow> ignore_rules" where
  "walk_rules includes excludes ignore_file =
     (let r = default_ignore_rules;
          r = (if includes = [] then r else r\<lparr>ir_includes := includes\<rparr>);
          r = r\<lparr>ir_excludes := ir_excludes r @ excludes\<rparr>
      in load_ignore_file ignore_file r)"

definition sorted_entries :: "(pystr \<times> tree) list \<Rightarrow> (pystr \<times> tree) list" where
  "sorted_entries cs = (case sort_tree (DirNode cs) of DirNode ds \<Rightarrow> ds | _ \<Rightarrow> [])"

definition walk_directory ::
    "(pystr \<Rightarrow> pystr) \<Rightarrow> local_directory \<Rightarrow> bool \<Rightarrow> pystr list \<Rightarrow> pystr list \<Rightarrow> pystr \<Rightarrow> sdk_error + found" where
  "walk_directory nfc d recursive includes excludes symlink_policy =
     walk_children
       \<lparr>wo_rules = walk_rules includes excludes (ld_ignore_file d), wo_recursive = recursive,
        wo_symlink_policy = symlink_policy, wo_nfc = nfc\<rparr> [] (sorted_entries (ld_entries d))"

text \<open>The entries as the dictionaries that are sent.\<close>

definition file_entry_json :: "(bytes \<Rightarrow> pystr) \<Rightarrow> pystr \<times> local_file \<Rightarrow> json" where
  "file_entry_json sha256 e =
     (case e of (path, f) \<Rightarrow>
        JObj [(lit ''entry_type'', JStr (lit ''file'')), (lit ''relative_path'', JStr path),
              (lit ''size_bytes'', JInt (int (length (lf_data f)))),
              (lit ''last_modified_ns'', JInt (lf_mtime_ns f)),
              (lit ''fingerprint'', JStr (fast_fingerprint sha256 f)),
              (lit ''content_type'', JStr (lit ''application/octet-stream''))])"

definition directory_entry_json :: "pystr \<Rightarrow> json" where
  "directory_entry_json path =
     JObj [(lit ''entry_type'', JStr (lit ''directory'')), (lit ''relative_path'', JStr path),
           (lit ''size_bytes'', JInt 0)]"

text \<open>\<open>manifest_hash_from_entries\<close>, whose lines are those of the service.\<close>

definition sdk_manifest_entry :: "(bytes \<Rightarrow> pystr) \<Rightarrow> pystr \<times> local_file \<Rightarrow> manifest_entry" where
  "sdk_manifest_entry sha256 e =
     (case e of (path, f) \<Rightarrow>
        \<lparr>me_relative_path = path, me_size_bytes = int (length (lf_data f)),
         me_fingerprint = Some (fast_fingerprint sha256 f)\<rparr>)"

definition sdk_manifest_hash :: "(bytes \<Rightarrow> pystr) \<Rightarrow> (pystr \<times> local_file) list \<Rightarrow> sdk_error + pystr" where
  "sdk_manifest_hash sha256 fs =
     (case utf8_encode (manifest_text (map (sdk_manifest_entry sha256) fs)) of
        Inl _ \<Rightarrow> Inl (SdkCrash UnicodeEncodeError)
      | Inr b \<Rightarrow> Inr (sha256 b))"

section \<open>The local record of a directory upload\<close>

record state_row =
  sr_relative_path :: pystr
  sr_entry_type :: pystr
  sr_size_bytes :: int
  sr_status :: pystr
  sr_upload_id :: "pystr option"
  sr_file_id :: "json option"

definition upsert_entry :: "pystr \<Rightarrow> pystr \<Rightarrow> int \<Rightarrow> pystr \<Rightarrow> state_row list \<Rightarrow> state_row list" where
  "upsert_entry path kind sz status rows =
     (if path \<in> sr_relative_path ` set rows
      then update_rows (\<lambda>r. sr_relative_path r = path)
             (\<lambda>r. r\<lparr>sr_entry_type := kind, sr_size_bytes := sz, sr_status := status\<rparr>) rows
      else rows @ [\<lparr>sr_relative_path = path, sr_entry_type = kind, sr_size_bytes = sz, sr_status = status,
                     sr_upload_id = None, sr_file_id = None\<rparr>])"

definition mark_uploaded :: "pystr \<Rightarrow> pystr \<Rightarrow> json \<Rightarrow> state_row list \<Rightarrow> state_row list" where
  "mark_uploaded path upload_id file_id rows =
     update_rows (\<lambda>r. sr_relative_path r = path)
       (\<lambda>r. r\<lparr>sr_status := lit ''uploaded'', sr_upload_id := Some upload_id, sr_file_id := Some file_id\<rparr>) rows"

definition pending_paths :: "state_row list \<Rightarrow> pystr list" where
  "pending_paths rows =
     sort (map sr_relative_path (filter (\<lambda>r. sr_status r \<noteq> lit ''uploaded'') rows))"

section \<open>Uploading a directory\<close>

text \<open>The client with the local records, one for each directory job.\<close>

record 'w desk =
  dk_client :: "'w client"
  dk_tables :: "pystr \<Rightarrow> state_row list"

definition on_client :: "('w client, 'a) call \<Rightarrow> ('w desk, 'a) call" where
  "on_client m d = (case m (dk_client d) of (r, c) \<Rightarrow> (r, d\<lparr>dk_client := c\<rparr>))"

definition on_table :: "pystr \<Rightarrow> (state_row list \<Rightarrow> state_row list) \<Rightarrow> ('w desk, unit) call" where
  "on_table job_id f = modify (\<lambda>d. d\<lparr>dk_tables := (dk_tables d)(job_id := f (dk_tables d job_id))\<rparr>)"

definition job_path :: "pystr \<Rightarrow> string \<Rightarrow> pystr" where
  "job_path job_id rest = lit ''/v1/directory-uploads/'' @ job_id @ lit rest"

text \<open>The entries in batches of 500.\<close>

fun batches :: "nat \<Rightarrow> json list \<Rightarrow> json list list" where
  "batches n [] = []"
| "batches n (x # xs) = (x # take (n - 1) xs) # batches n (drop (n - 1) xs)"

fun each_call :: "('a \<Rightarrow> ('s, unit) call) \<Rightarrow> 'a list \<Rightarrow> ('s, unit) call" where
  "each_call f [] = ret ()"
| "each_call f (x # xs) = seq (f x) (each_call f xs)"

text \<open>The first half: the job is created, its entries are registered, and it is set uploading.\<close>

definition start_job ::
    "'w sdk \<Rightarrow> local_directory \<Rightarrow> pystr \<Rightarrow> pystr \<Rightarrow> pystr \<Rightarrow> jobject option \<Rightarrow> found \<Rightarrow> ('w desk, pystr) call" where
  "start_job k dir bucket destination_prefix conflict_policy lifecycle found =
     (case found of (fs, ds) \<Rightarrow>
       bnd (on_client (json_request k (body_request ''POST'' (lit ''/v1/directory-uploads'')
              (JObj [(lit ''root_directory_name'', JStr (ld_name dir)), (lit ''bucket'', JStr bucket),
                     (lit ''destination_prefix'', JStr destination_prefix),
                     (lit ''conflict_policy'', JStr conflict_policy), (lit ''source'', JStr (lit ''sdk'')),
                     (lit ''lifecycle'', jopt JObj lifecycle)])))) (\<lambda>j.
       bnd (lift (rbind (job_info_of j) (sdk_text \<circ> ji_id))) (\<lambda>job_id.
       let entries = map directory_entry_json ds @ map (file_entry_json (sk_sha256 k)) fs
       in seq (each_call (\<lambda>batch. bnd (on_client (request k (body_request ''POST'' (job_path job_id ''/entries'')
                 (JObj [(lit ''entries'', JList batch)])))) (\<lambda>r. lift (raise_for_status r))) (batches 500 entries))
         (seq (each_call (\<lambda>p. on_table job_id (upsert_entry p (lit ''directory'') 0 (lit ''pending''))) ds)
         (seq (each_call (\<lambda>(p, f). on_table job_id
                 (upsert_entry p (lit ''file'') (int (length (lf_data f))) (lit ''pending''))) fs)
         (bnd (lift (sdk_manifest_hash (sk_sha256 k) fs)) (\<lambda>manifest_hash.
          bnd (on_client (json_request k (body_request ''POST'' (job_path job_id ''/manifest/complete'')
                 (JObj [(lit ''manifest_hash'', JStr manifest_hash),
                        (lit ''counts'', JObj [(lit ''files'', JInt (int (length fs))),
                                               (lit ''directories'', JInt (int (length ds)))])])))) (\<lambda>j.
          bnd (lift (job_info_of j)) (\<lambda>_.
          bnd (on_client (request k (plain_request ''POST'' (job_path job_id ''/retry'')))) (\<lambda>r.
          seq (lift (raise_for_status r)) (ret job_id)))))))))))"

text \<open>
  The loop that reads the ids of the entries, page by page. A loop that does not return is
  \<open>None\<close>.
\<close>

definition row_id :: "json \<Rightarrow> sdk_error + pystr \<times> json" where
  "row_id row =
     rbind (rbind (field ''relative_path'' row) sdk_text) (\<lambda>path.
     rbind (field ''id'' row) (\<lambda>i. Inr (path, i)))"

fun row_ids :: "json list \<Rightarrow> sdk_error + (pystr \<times> json) list" where
  "row_ids [] = Inr []"
| "row_ids (row # rows) = rbind (row_id row) (\<lambda>x. rbind (row_ids rows) (\<lambda>xs. Inr (x # xs)))"

text \<open>One page: the ids and the next cursor, which ends the loop when it is empty.\<close>

definition entries_page ::
    "'w sdk \<Rightarrow> pystr \<Rightarrow> pystr \<Rightarrow> ('w desk, (pystr \<times> json) list \<times> pystr) call" where
  "entries_page k job_id cursor =
     bnd (on_client (json_request k
            \<lparr>rq_method = ''GET'', rq_path = job_path job_id ''/entries'',
             rq_query = (lit ''limit'', lit ''1000'') # (if cursor = [] then [] else [(lit ''cursor'', cursor)]),
             rq_body = NoBody\<rparr>)) (\<lambda>j.
     bnd (lift (payload_get ''entries'' (JList []) j)) (\<lambda>rows.
     bnd (lift (case rows of JList rs \<Rightarrow> row_ids rs | _ \<Rightarrow> Inl (SdkCrash TypeError))) (\<lambda>ids.
     bnd (lift (payload_get ''next_cursor'' JNull j)) (\<lambda>next.
     bnd (lift (if truthy next then sdk_text next else Inr [])) (\<lambda>next. ret (ids, next))))))"

partial_function (option) entry_ids_from ::
    "'w sdk \<Rightarrow> pystr \<Rightarrow> pystr \<Rightarrow> (pystr \<times> json) list \<Rightarrow> 'w desk
     \<Rightarrow> ((sdk_error + (pystr \<times> json) list) \<times> 'w desk) option" where
  "entry_ids_from k job_id cursor ids d =
     (case entries_page k job_id cursor d of
        (Inl e, d') \<Rightarrow> Some (Inl e, d')
      | (Inr (page, next), d') \<Rightarrow>
          (if next = [] then Some (Inr (ids @ page), d') else entry_ids_from k job_id next (ids @ page) d'))"

text \<open>The file a path below the directory leads to, links followed.\<close>

fun file_at :: "pystr \<Rightarrow> tree \<Rightarrow> pystr list \<Rightarrow> local_file option" where
  "file_at name (LinkNode inside (Some t)) ps = file_at name t ps"
| "file_at name (FileNode data mtime) [] = Some \<lparr>lf_name = name, lf_data = data, lf_mtime_ns = mtime\<rparr>"
| "file_at name (DirNode cs) (p # ps) =
     (case find (\<lambda>c. fst c = p) cs of None \<Rightarrow> None | Some c \<Rightarrow> file_at p (snd c) ps)"
| "file_at name t ps = None"

definition report_result :: "'w sdk \<Rightarrow> pystr \<Rightarrow> jobject \<Rightarrow> ('w desk, unit) call" where
  "report_result k job_id body =
     bnd (on_client (request k (body_request ''POST'' (job_path job_id ''/entries/result'') (JObj body))))
       (\<lambda>_. ret ())"

text \<open>
  One file: uploaded on its own, noted and reported. Any error of the SDK on the way is reported
  as a failure of the entry.
\<close>

definition upload_entry ::
    "'w sdk \<Rightarrow> local_directory \<Rightarrow> pystr \<Rightarrow> pystr \<Rightarrow> lifecycle_arg option \<Rightarrow> pystr \<Rightarrow> (pystr \<times> json) list \<Rightarrow> pystr
     \<Rightarrow> ('w desk, unit) call" where
  "upload_entry k dir bucket destination_prefix lifecycle job_id ids path =
     (let entry_id = the_default (JStr []) (map_of (rev ids) path)
      in catch
        (bnd (on_client (client_upload_file k (file_at (ld_name dir) (DirNode (ld_entries dir)) (split_on slash path))
                \<lparr>ua_bucket = bucket,
                 ua_object_key = Some (strip_by (\<lambda>c. c = slash) (destination_prefix @ slash # path)),
                 ua_directory = None, ua_lifecycle = lifecycle, ua_metadata = None, ua_part_size = 0,
                 ua_resume = False\<rparr>)) (\<lambda>info.
         seq (on_table job_id (mark_uploaded path [] (fi_id info)))
             (report_result k job_id [(lit ''entry_id'', entry_id), (lit ''status'', JStr (lit ''uploaded'')),
                (lit ''file_id'', fi_id info)])))
        (\<lambda>e. case e of
               SdkErr c s \<Rightarrow>
                 report_result k job_id [(lit ''entry_id'', entry_id), (lit ''status'', JStr (lit ''failed'')),
                   (lit ''error_code'', JStr (lit ''UPLOAD_FAILED'')),
                   (lit ''error_message'', JStr (lit ''entry upload failed''))]
             | SdkCrash x \<Rightarrow> raise e))"

record directory_args =
  da_bucket :: pystr
  da_destination_prefix :: pystr
  da_recursive :: bool
  da_include :: "pystr list"
  da_exclude :: "pystr list"
  da_symlink_policy :: pystr
  da_conflict_policy :: pystr
  da_lifecycle :: "lifecycle_arg option"

definition upload_entries ::
    "'w sdk \<Rightarrow> local_directory \<Rightarrow> directory_args \<Rightarrow> pystr \<Rightarrow> (pystr \<times> json) list \<Rightarrow> (pystr \<times> local_file) list
     \<Rightarrow> ('w desk, directory_job_info) call" where
  "upload_entries k dir a job_id ids fs =
     seq (each_call (\<lambda>(path, f). upload_entry k dir (da_bucket a) (da_destination_prefix a) (da_lifecycle a)
            job_id ids path) fs)
         (bnd (on_client (json_request k (plain_request ''POST'' (job_path job_id ''/complete''))))
            (\<lambda>j. lift (job_info_of j)))"

definition upload_directory ::
    "'w sdk \<Rightarrow> local_directory option \<Rightarrow> directory_args \<Rightarrow> 'w desk
     \<Rightarrow> ((sdk_error + directory_job_info) \<times> 'w desk) option" where
  "upload_directory k dir a d =
     (case dir of
        None \<Rightarrow> Some (Inl client_error, d)
      | Some dir \<Rightarrow>
          (case rbind (walk_directory (sk_nfc k) dir (da_recursive a) (da_include a) (da_exclude a)
                         (da_symlink_policy a)) (\<lambda>found.
                rbind (lifecycle_payload (da_lifecycle a)) (\<lambda>lc. Inr (found, lc))) of
             Inl e \<Rightarrow> Some (Inl e, d)
           | Inr (found, lc) \<Rightarrow>
               (case start_job k dir (da_bucket a) (da_destination_prefix a) (da_conflict_policy a) lc found d of
                  (Inl e, d1) \<Rightarrow> Some (Inl e, d1)
                | (Inr job_id, d1) \<Rightarrow>
                    (case entry_ids_from k job_id [] [] d1 of
                       None \<Rightarrow> None
                     | Some (Inl e, d2) \<Rightarrow> Some (Inl e, d2)
                     | Some (Inr ids, d2) \<Rightarrow> Some (upload_entries k dir a job_id ids (fst found) d2)))))"

section \<open>Any path\<close>

text \<open>What a path on the client's machine is.\<close>

datatype local_source = Nowhere | AFile local_file | ADirectory local_directory

text \<open>
  \<open>Client.upload\<close>: a directory with \<open>upload_directory\<close>, a file by its size.
\<close>

definition client_upload ::
    "'w sdk \<Rightarrow> int \<Rightarrow> local_source \<Rightarrow> upload_args \<Rightarrow> directory_args \<Rightarrow> 'w desk
     \<Rightarrow> ((sdk_error + file_info + directory_job_info) \<times> 'w desk) option" where
  "client_upload k large_file_threshold source a da d =
     (case source of
        Nowhere \<Rightarrow> Some (Inl client_error, d)
      | ADirectory dir \<Rightarrow>
          (case upload_directory k (Some dir)
                  (da\<lparr>da_bucket := ua_bucket a, da_recursive := True, da_lifecycle := ua_lifecycle a\<rparr>) d of
             None \<Rightarrow> None
           | Some (r, d') \<Rightarrow> Some (map_sum id Inr r, d'))
      | AFile f \<Rightarrow>
          (case on_client (client_upload_path k large_file_threshold f a) d of
             (r, d') \<Rightarrow> Some (map_sum id Inl r, d')))"

section \<open>The name behind a URL\<close>

text \<open>The search for \<open>/v1/files/([0-9a-fA-F-]{36})/(?:download|download-link)\<close>.\<close>

definition id_char :: "nat \<Rightarrow> bool" where
  "id_char c \<longleftrightarrow> 48 \<le> c \<and> c \<le> 57 \<or> 97 \<le> c \<and> c \<le> 102 \<or> 65 \<le> c \<and> c \<le> 70 \<or> c = 45"

fun link_file_id :: "pystr \<Rightarrow> pystr option" where
  "link_file_id [] = None"
| "link_file_id (c # s) =
     (let i = take 36 (drop 10 (c # s))
      in if starts_with (c # s) (lit ''/v1/files/'') \<and> length i = 36 \<and> list_all id_char i
            \<and> starts_with (drop 46 (c # s)) (lit ''/download'')
         then Some i else link_file_id s)"

text \<open>\<open>Path(path).name\<close>\<close>

definition path_name :: "pystr \<Rightarrow> pystr" where
  "path_name path =
     (let parts = filter (\<lambda>p. p \<noteq> [] \<and> p \<noteq> dot_segment) (split_on slash path)
      in if parts = [] then [] else last parts)"

text \<open>The argument is the path of the URL, percent signs decoded.\<close>

definition filename_from_url :: "'w sdk \<Rightarrow> pystr \<Rightarrow> ('w client, json option) call" where
  "filename_from_url k path =
     (if path \<noteq> [] \<and> last path = slash then ret None
      else case link_file_id path of
             Some i \<Rightarrow>
               bnd (client_get_file k i) (\<lambda>info.
                 if truthy (fi_original_filename info) then ret (Some (fi_original_filename info))
                 else bnd (lift (sdk_text (fi_object_key info))) (\<lambda>key. ret (Some (JStr (path_name key)))))
           | None \<Rightarrow> ret (if path_name path = [] then None else Some (JStr (path_name path))))"

end
