(* ===== verification/WalkFacts.thy ===== *)
theory WalkFacts
  imports SdkDirectory "HOL-Library.Sublist"
begin

text \<open>
  What the walk of \<open>SdkDirectory\<close> finds: the paths it reports lead back to the files they
  stand for, no path is reported twice, and nothing that should be found is missed.
\<close>

section \<open>Plain names\<close>

text \<open>
  A name the SDK leaves as it is: no dot segment, no separator, no backslash, and in NFC. A tree
  is plain when all its names are, and no two entries of a directory share one.
\<close>

definition plain_name :: "(pystr \<Rightarrow> pystr) \<Rightarrow> pystr \<Rightarrow> bool" where
  "plain_name nfc n \<longleftrightarrow>
     n \<noteq> [] \<and> n \<noteq> dot_segment \<and> n \<noteq> dotdot_segment \<and> slash \<notin> set n \<and> 92 \<notin> set n \<and> nfc n = n"

fun plain_tree :: "(pystr \<Rightarrow> pystr) \<Rightarrow> tree \<Rightarrow> bool" where
  "plain_tree nfc (DirNode cs) \<longleftrightarrow>
     distinct (map fst cs) \<and> (\<forall>c\<in>set cs. plain_name nfc (fst c) \<and> plain_tree nfc (snd c))"
| "plain_tree nfc (LinkNode inside (Some t)) \<longleftrightarrow> plain_tree nfc t"
| "plain_tree nfc t \<longleftrightarrow> True"

lemma plain_slash: "list_all (plain_name nfc) ps \<Longrightarrow> p \<in> set ps \<Longrightarrow> slash \<notin> set p"
  by (auto simp: list_all_iff plain_name_def)

lemma split_plain: "list_all (plain_name nfc) ps \<Longrightarrow> ps \<noteq> [] \<Longrightarrow> split_on slash (join_with slash ps) = ps"
  by (rule split_join) (auto dest: plain_slash)

lemma join_plain_Nil: "list_all (plain_name nfc) ps \<Longrightarrow> join_with slash ps = [] \<longleftrightarrow> ps = []"
  by (rule join_with_eq_Nil) (auto simp: list_all_iff plain_name_def)

lemma sdk_parts_plain: "list_all (plain_name nfc) ps \<Longrightarrow> sdk_path_parts ps = Inr ps"
  by (induction ps) (simp_all add: plain_name_def)

text \<open>A path of plain names is normalized to itself, or refused.\<close>

lemma sdk_normalize_plain:
  assumes "nfc_laws nfc" "list_all (plain_name nfc) ps" "ps \<noteq> []"
    and "sdk_normalize_relative_path nfc d b (join_with slash ps) = Inr q"
  shows "q = join_with slash ps"
proof -
  have "c \<noteq> 92" if "c \<in> set (join_with slash ps)" for c
    using that set_join_with[of slash ps] assms(2) by (auto simp: list_all_iff plain_name_def)
  then have "to_posix (join_with slash ps) = join_with slash ps" by (auto simp: to_posix_def map_idI)
  moreover have "nfc (join_with slash ps) = join_with slash ps"
    using assms(2) by (simp add: nfc_join[OF assms(1)] map_idI list_all_iff plain_name_def)
  ultimately show ?thesis
    using assms(4) split_plain[OF assms(2,3)] sdk_parts_plain[OF assms(2)]
    by (simp add: sdk_normalize_relative_path_def Let_def split: if_splits option.splits)
qed

lemma child_path_join:
  assumes "list_all (plain_name nfc) rs"
  shows "child_path (join_with slash rs) n = join_with slash (rs @ [n])"
proof -
  have "rs \<noteq> [] \<Longrightarrow> join_with slash rs @ slash # n = join_with slash (rs @ [n])"
    by (induction rs rule: join_with.induct) simp_all
  then show ?thesis using join_plain_Nil[OF assms] by (auto simp: child_path_def)
qed

text \<open>The walk does not pass over the entry at the path \<open>ps\<close>.\<close>

definition kept :: "walk_options \<Rightarrow> pystr list \<Rightarrow> bool" where
  "kept opts ps \<longleftrightarrow>
     kept_path opts (join_with slash (butlast ps)) (last ps) = Inr (Some (join_with slash ps))"

lemma kept_path_plain:
  assumes "nfc_laws (wo_nfc opts)" "list_all (plain_name (wo_nfc opts)) (rs @ [n])"
    and "kept_path opts (join_with slash rs) n = Inr (Some path)"
  shows "path = join_with slash (rs @ [n]) \<and> kept opts (rs @ [n])"
proof -
  have "list_all (plain_name (wo_nfc opts)) rs" using assms(2) by simp
  note child = child_path_join[OF this]
  have "sdk_normalize_relative_path (wo_nfc opts) 64 1024 (join_with slash (rs @ [n])) = Inr path"
    using assms(3) by (auto simp: kept_path_def child split: sum.splits sdk_error.splits if_splits)
  from sdk_normalize_plain[OF assms(1,2) _ this] show ?thesis using assms(3) by (simp add: kept_def)
qed

lemma kept_not_ignored: "kept opts ps \<Longrightarrow> \<not> is_ignored (wo_rules opts) (join_with slash ps)"
  by (auto simp: kept_def kept_path_def split: sum.splits sdk_error.splits if_splits)

section \<open>Looking a file up\<close>

lemma find_map_of: "find (\<lambda>c. fst c = p) cs = map_option (Pair p) (map_of cs p)"
  by (induction cs) auto

lemma file_at_DirNode:
  "file_at name (DirNode cs) (p # ps) = (case map_of cs p of None \<Rightarrow> None | Some t \<Rightarrow> file_at p t ps)"
  by (simp add: find_map_of split: option.split)

lemma map_of_same_set:
  assumes "distinct (map fst xs)" "distinct (map fst ys)" "set xs = set ys"
  shows "map_of xs = map_of ys"
proof
  fix k
  have "map_of xs k = Some v \<longleftrightarrow> map_of ys k = Some v" for v using assms by (simp add: map_of_eq_Some_iff)
  then show "map_of xs k = map_of ys k" by (metis not_Some_eq)
qed

definition sorted_children :: "(pystr \<times> tree) list \<Rightarrow> (pystr \<times> tree) list" where
  "sorted_children cs = sort_key fst (map (map_prod id sort_tree) cs)"

lemma sort_tree_dir: "sort_tree (DirNode cs) = DirNode (sorted_children cs)"
  by (simp add: sorted_children_def)

lemma sorted_children_names: "distinct (map fst (sorted_children cs)) = distinct (map fst cs)"
proof -
  have "mset (map fst (sorted_children cs)) = mset (map fst cs)"
    by (simp add: sorted_children_def image_mset.compositionality comp_def)
  then show ?thesis by (rule mset_eq_imp_distinct_iff)
qed

lemma map_of_sorted_children:
  assumes "distinct (map fst cs)"
  shows "map_of (sorted_children cs) p = map_option sort_tree (map_of cs p)"
proof -
  have "map fst (map (map_prod id sort_tree) cs) = map fst cs" by simp
  then have "map_of (sorted_children cs) = map_of (map (map_prod id sort_tree) cs)"
    using assms sorted_children_names[of cs]
    by (intro map_of_same_set) (simp_all only: sorted_children_def set_sort)
  moreover have "map_of (map (map_prod id sort_tree) cs) p = map_option sort_tree (map_of cs p)"
    by (induction cs) auto
  ultimately show ?thesis by simp
qed

lemma plain_sort_tree: "plain_tree nfc t \<Longrightarrow> plain_tree nfc (sort_tree t)"
proof (induction t rule: sort_tree.induct)
  case (1 cs)
  then show ?case
    using sorted_children_names[of cs] by (auto simp: sort_tree_dir) (auto simp: sorted_children_def)
next
  case (2 inside dest)
  then show ?case by (cases dest) simp_all
qed simp_all

lemma file_at_sort_tree:
  "plain_tree nfc t \<Longrightarrow> file_at name (sort_tree t) ps = file_at name t ps"
proof (induction name t ps rule: file_at.induct)
  case (3 name cs p ps)
  show ?case
  proof (cases "map_of cs p")
    case (Some t)
    then have "find (\<lambda>c. fst c = p) cs = Some (p, t)" "(p, t) \<in> set cs" by (simp_all add: find_map_of map_of_SomeD)
    then have "file_at p (sort_tree t) ps = file_at p t ps" using 3 by fastforce
    then show ?thesis
      using Some 3 unfolding sort_tree_dir file_at_DirNode by (simp add: map_of_sorted_children)
  qed (use 3 in \<open>simp add: sort_tree_dir file_at_DirNode map_of_sorted_children del: file_at.simps sort_tree.simps\<close>)
qed simp_all

section \<open>What the walk finds\<close>

text \<open>The file \<open>f\<close> below the entry \<open>t\<close> at \<open>rs\<close>, every entry on the way being kept.\<close>

definition reaches :: "walk_options \<Rightarrow> pystr list \<Rightarrow> pystr \<Rightarrow> tree \<Rightarrow> pystr \<Rightarrow> local_file \<Rightarrow> bool" where
  "reaches opts rs name t p f \<longleftrightarrow>
     (\<exists>ps. p = join_with slash (rs @ ps) \<and> list_all (plain_name (wo_nfc opts)) ps
         \<and> file_at name t ps = Some f \<and> (\<forall>k<length ps. kept opts (rs @ take (Suc k) ps)))"

lemma file_at_FileNode: "file_at name (FileNode data mtime) ps = Some f \<longleftrightarrow>
    ps = [] \<and> f = \<lparr>lf_name = name, lf_data = data, lf_mtime_ns = mtime\<rparr>"
  by (cases ps) auto

lemma reaches_leaf:
  "reaches opts rs name (FileNode data mtime) p f \<longleftrightarrow>
     p = join_with slash rs \<and> f = \<lparr>lf_name = name, lf_data = data, lf_mtime_ns = mtime\<rparr>"
  "\<not> reaches opts rs name Special p f"
  "\<not> reaches opts rs name (LinkNode inside None) p f"
  "reaches opts rs name (LinkNode inside (Some t)) p f \<longleftrightarrow> reaches opts rs name t p f"
  by (auto simp: reaches_def file_at_FileNode)

lemma reaches_dir:
  assumes "plain_tree (wo_nfc opts) (DirNode cs)"
  shows "reaches opts rs name (DirNode cs) p f \<longleftrightarrow>
    (\<exists>(n, t)\<in>set cs. kept opts (rs @ [n]) \<and> reaches opts (rs @ [n]) n t p f)"
proof
  assume "reaches opts rs name (DirNode cs) p f"
  then obtain ps where ps: "p = join_with slash (rs @ ps)" "list_all (plain_name (wo_nfc opts)) ps"
    "file_at name (DirNode cs) ps = Some f" "\<And>k. k < length ps \<Longrightarrow> kept opts (rs @ take (Suc k) ps)"
    by (auto simp: reaches_def)
  obtain n qs where n: "ps = n # qs" using ps(3) by (cases ps) auto
  obtain t where t: "(n, t) \<in> set cs" "file_at n t qs = Some f"
    using ps(3) unfolding n file_at_DirNode by (auto split: option.splits dest: map_of_SomeD)
  moreover have "kept opts (rs @ [n])" using ps(4)[of 0] n by simp
  moreover have "reaches opts (rs @ [n]) n t p f"
    unfolding reaches_def using ps(1,2) n t(2) ps(4)[of "Suc _"] by (intro exI[of _ qs]) auto
  ultimately show "\<exists>(n, t)\<in>set cs. kept opts (rs @ [n]) \<and> reaches opts (rs @ [n]) n t p f" by blast
next
  assume "\<exists>(n, t)\<in>set cs. kept opts (rs @ [n]) \<and> reaches opts (rs @ [n]) n t p f"
  then obtain n t ps where n: "(n, t) \<in> set cs" "kept opts (rs @ [n])"
    and ps: "p = join_with slash ((rs @ [n]) @ ps)" "list_all (plain_name (wo_nfc opts)) ps"
      "file_at n t ps = Some f" "\<And>k. k < length ps \<Longrightarrow> kept opts ((rs @ [n]) @ take (Suc k) ps)"
    by (auto simp: reaches_def)
  have "kept opts (rs @ take (Suc k) (n # ps))" if "k < length (n # ps)" for k
    using n(2) ps(4)[of "k - 1"] that by (cases k) simp_all
  moreover have "map_of cs n = Some t" using n(1) assms by (simp add: map_of_eq_Some_iff)
  ultimately show "reaches opts rs name (DirNode cs) p f"
    unfolding reaches_def using n(1) ps(1-3) assms
    by (intro exI[of _ "n # ps"]) (auto simp: file_at_DirNode simp del: file_at.simps)
qed

lemma walk_Cons:
  assumes run: "walk_children opts (join_with slash rs) ((n, t) # cs) = Inr (fs, ds)"
    and "nfc_laws (wo_nfc opts)" "list_all (plain_name (wo_nfc opts)) (rs @ [n])"
  obtains (skip) "walk_children opts (join_with slash rs) cs = Inr (fs, ds)" "\<not> kept opts (rs @ [n])"
  | (keep) fs1 ds1 fs2 ds2 where "kept opts (rs @ [n])" "walk_node opts (join_with slash (rs @ [n])) n t = Inr (fs1, ds1)"
      "walk_children opts (join_with slash rs) cs = Inr (fs2, ds2)" "fs = fs1 @ fs2" "ds = ds1 @ ds2"
proof -
  from run obtain k where k: "kept_path opts (join_with slash rs) n = Inr k" by (auto simp: rbind_Inr_iff)
  show thesis
  proof (cases k)
    case None
    then show ?thesis using skip run k by (simp add: kept_def)
  next
    case (Some path)
    then show ?thesis
      using kept_path_plain[OF assms(2,3)] k run keep by (auto simp: rbind_Inr_iff split: prod.splits)
  qed
qed

lemma walk_link:
  assumes "walk_node opts path name (LinkNode inside dest) = Inr (fs, ds)"
  obtains "fs = []" "ds = []" "dest = None \<or> follow_link opts inside = Inr False"
  | t where "dest = Some t" "walk_node opts path name t = Inr (fs, ds)"
  using assms by (fastforce simp: rbind_Inr_iff split: if_splits option.splits)

lemma walk_dir:
  assumes "walk_node opts path name (DirNode cs) = Inr (fs, ds)"
  obtains "\<not> wo_recursive opts" "fs = []" "ds = [path]"
  | ds' where "wo_recursive opts" "walk_children opts path cs = Inr (fs, ds')" "ds = path # ds'"
  using assms by (auto simp: rbind_Inr_iff split: if_splits)

lemma walk_sound:
  "walk_node opts path name t = Inr (fs, ds) \<Longrightarrow> path = join_with slash rs \<Longrightarrow> nfc_laws (wo_nfc opts) \<Longrightarrow>
     list_all (plain_name (wo_nfc opts)) rs \<Longrightarrow> plain_tree (wo_nfc opts) t \<Longrightarrow>
     (p, f) \<in> set fs \<Longrightarrow> reaches opts rs name t p f"
  "walk_children opts relative cs = Inr (fs, ds) \<Longrightarrow> relative = join_with slash rs \<Longrightarrow> nfc_laws (wo_nfc opts) \<Longrightarrow>
     list_all (plain_name (wo_nfc opts)) rs \<Longrightarrow> plain_tree (wo_nfc opts) (DirNode cs) \<Longrightarrow>
     (p, f) \<in> set fs \<Longrightarrow> \<exists>(n, t)\<in>set cs. kept opts (rs @ [n]) \<and> reaches opts (rs @ [n]) n t p f"
proof (induction opts path name t and opts relative cs arbitrary: rs fs ds and rs fs ds
    rule: walk_node_walk_children.induct)
  case (2 opts path name cs)
  from "2.prems"(1) show ?case
    by (rule walk_dir) (use 2 in \<open>simp_all add: reaches_dir del: plain_tree.simps\<close>)
next
  case (3 opts path name inside dest)
  from "3.prems"(1) show ?case by (rule walk_link) (use 3 in \<open>auto simp: reaches_leaf\<close>)
next
  case (6 opts relative name t cs)
  have plain: "list_all (plain_name (wo_nfc opts)) (rs @ [name])" "plain_tree (wo_nfc opts) t"
    "plain_tree (wo_nfc opts) (DirNode cs)"
    using "6.prems" by auto
  from "6.prems"(1)[unfolded "6.prems"(2)] "6.prems"(3) plain(1) show ?case
  proof (cases rule: walk_Cons)
    case skip
    then show ?thesis using "6.IH"(1)[OF _ "6.prems"(2-4) plain(3) "6.prems"(6)] "6.prems"(2) by auto
  next
    case (keep fs1 ds1 fs2 ds2)
    then show ?thesis
      using "6.IH"(1)[OF _ "6.prems"(2-4) plain(3), of fs2 ds2] "6.IH"(2)[OF keep(2) refl "6.prems"(3) plain(1,2)]
        "6.prems"(2,6) by auto
  qed
qed (auto simp: reaches_leaf)

lemma walk_complete:
  "walk_node opts path name t = Inr (fs, ds) \<Longrightarrow> path = join_with slash rs \<Longrightarrow> nfc_laws (wo_nfc opts) \<Longrightarrow>
     list_all (plain_name (wo_nfc opts)) rs \<Longrightarrow> plain_tree (wo_nfc opts) t \<Longrightarrow>
     wo_recursive opts \<Longrightarrow> wo_symlink_policy opts \<noteq> lit ''ignore'' \<Longrightarrow>
     reaches opts rs name t p f \<Longrightarrow> (p, f) \<in> set fs"
  "walk_children opts relative cs = Inr (fs, ds) \<Longrightarrow> relative = join_with slash rs \<Longrightarrow> nfc_laws (wo_nfc opts) \<Longrightarrow>
     list_all (plain_name (wo_nfc opts)) rs \<Longrightarrow> plain_tree (wo_nfc opts) (DirNode cs) \<Longrightarrow>
     wo_recursive opts \<Longrightarrow> wo_symlink_policy opts \<noteq> lit ''ignore'' \<Longrightarrow>
     \<exists>(n, t)\<in>set cs. kept opts (rs @ [n]) \<and> reaches opts (rs @ [n]) n t p f \<Longrightarrow> (p, f) \<in> set fs"
proof (induction opts path name t and opts relative cs arbitrary: rs fs ds and rs fs ds
    rule: walk_node_walk_children.induct)
  case (2 opts path name cs)
  from "2.prems"(1) show ?case
    by (rule walk_dir) (use 2 in \<open>simp_all add: reaches_dir del: plain_tree.simps\<close>)
next
  case (3 opts path name inside dest)
  have go: "follow_link opts inside \<noteq> Inr False" using "3.prems"(7) by (simp add: follow_link_def)
  from "3.prems"(1) show ?case by (rule walk_link) (use 3 go in \<open>auto simp: reaches_leaf\<close>)
next
  case (6 opts relative name t cs)
  have plain: "list_all (plain_name (wo_nfc opts)) (rs @ [name])" "plain_tree (wo_nfc opts) t"
    "plain_tree (wo_nfc opts) (DirNode cs)"
    using "6.prems" by auto
  from "6.prems"(1)[unfolded "6.prems"(2)] "6.prems"(3) plain(1) show ?case
  proof (cases rule: walk_Cons)
    case skip
    then show ?thesis using "6.IH"(1)[OF _ "6.prems"(2-4) plain(3) "6.prems"(6,7)] "6.prems"(2,8) by auto
  next
    case (keep fs1 ds1 fs2 ds2)
    then show ?thesis
      using "6.IH"(1)[OF _ "6.prems"(2-4) plain(3) "6.prems"(6,7), of fs2 ds2]
        "6.IH"(2)[OF keep(2) refl "6.prems"(3) plain(1,2) "6.prems"(6,7)] "6.prems"(2,8) by auto
  qed
qed (auto simp: reaches_leaf)

text \<open>Paths below different entries are different, so no path is reported twice.\<close>

lemma walk_apart:
  "walk_node opts path name t = Inr (fs, ds) \<Longrightarrow> path = join_with slash rs \<Longrightarrow> nfc_laws (wo_nfc opts) \<Longrightarrow>
     list_all (plain_name (wo_nfc opts)) rs \<Longrightarrow> rs \<noteq> [] \<Longrightarrow> plain_tree (wo_nfc opts) t \<Longrightarrow>
     distinct (map fst fs @ ds) \<and> (\<forall>p\<in>set (map fst fs @ ds). prefix rs (split_on slash p))"
  "walk_children opts relative cs = Inr (fs, ds) \<Longrightarrow> relative = join_with slash rs \<Longrightarrow> nfc_laws (wo_nfc opts) \<Longrightarrow>
     list_all (plain_name (wo_nfc opts)) rs \<Longrightarrow> plain_tree (wo_nfc opts) (DirNode cs) \<Longrightarrow>
     distinct (map fst fs @ ds)
     \<and> (\<forall>p\<in>set (map fst fs @ ds). \<exists>n\<in>set (map fst cs). prefix (rs @ [n]) (split_on slash p))"
proof (induction opts path name t and opts relative cs arbitrary: rs fs ds and rs fs ds
    rule: walk_node_walk_children.induct)
  case (1 opts path name data mtime)
  then show ?case by (auto simp: split_plain)
next
  case (2 opts path name cs)
  from "2.prems"(1) show ?case
  proof (rule walk_dir)
    fix ds'
    assume rec: "wo_recursive opts" "walk_children opts path cs = Inr (fs, ds')" "ds = path # ds'"
    note below = "2.IH"[OF rec(1,2) "2.prems"(2,3,4,6)]
    have "\<not> prefix (rs @ [n]) (split_on slash path)" for n
      using "2.prems"(2,4,5) by (auto simp: split_plain prefix_def)
    then have "path \<notin> set (map fst fs @ ds')" using below by blast
    moreover have "\<forall>p\<in>set (map fst fs @ ds'). prefix rs (split_on slash p)"
      using below by (meson append_prefixD)
    ultimately show ?thesis using below rec(3) "2.prems"(2,4,5) by (auto simp: split_plain)
  qed (use "2.prems" in \<open>simp_all add: split_plain\<close>)
next
  case (3 opts path name inside dest)
  from "3.prems"(1) show ?case by (rule walk_link) (use 3 in auto)
next
  case (6 opts relative name t cs)
  have plain: "list_all (plain_name (wo_nfc opts)) (rs @ [name])" "plain_tree (wo_nfc opts) t"
    "plain_tree (wo_nfc opts) (DirNode cs)" "name \<notin> set (map fst cs)"
    using "6.prems" by (auto simp: image_iff)
  from "6.prems"(1)[unfolded "6.prems"(2)] "6.prems"(3) plain(1) show ?case
  proof (cases rule: walk_Cons)
    case skip
    then show ?thesis using "6.IH"(1)[OF _ "6.prems"(2-4) plain(3)] "6.prems"(2) by fastforce
  next
    case (keep fs1 ds1 fs2 ds2)
    have a: "distinct (map fst fs1 @ ds1)" "\<forall>p\<in>set (map fst fs1 @ ds1). prefix (rs @ [name]) (split_on slash p)"
      using "6.IH"(2)[OF keep(2) refl "6.prems"(3) plain(1) _ plain(2)] by simp_all
    have b: "distinct (map fst fs2 @ ds2)"
      "\<forall>p\<in>set (map fst fs2 @ ds2). \<exists>n\<in>set (map fst cs). prefix (rs @ [n]) (split_on slash p)"
      using "6.IH"(1)[OF _ "6.prems"(2-4) plain(3)] keep(3) "6.prems"(2) by simp_all
    have "\<not> (prefix (rs @ [name]) p \<and> prefix (rs @ [n]) p)" if "n \<in> set (map fst cs)" for n p
      using that plain(4) by (auto simp: prefix_def)
    then have "set (map fst fs1 @ ds1) \<inter> set (map fst fs2 @ ds2) = {}" using a(2) b(2) by blast
    then show ?thesis using a b keep(4,5) by (auto simp: disjoint_iff)
  qed
qed simp_all

text \<open>The whole walk.\<close>

definition options_for ::
    "(pystr \<Rightarrow> pystr) \<Rightarrow> local_directory \<Rightarrow> bool \<Rightarrow> pystr list \<Rightarrow> pystr list \<Rightarrow> pystr \<Rightarrow> walk_options" where
  "options_for nfc d recursive includes excludes policy =
     \<lparr>wo_rules = walk_rules includes excludes (ld_ignore_file d), wo_recursive = recursive,
      wo_symlink_policy = policy, wo_nfc = nfc\<rparr>"

lemma walk_directory_found:
  assumes laws: "nfc_laws nfc" and plain: "plain_tree nfc (DirNode (ld_entries d))"
    and run: "walk_directory nfc d recursive includes excludes policy = Inr (fs, ds)"
  defines "opts \<equiv> options_for nfc d recursive includes excludes policy"
  shows "distinct (map fst fs @ ds)"
    and "(p, f) \<in> set fs \<Longrightarrow> reaches opts [] (ld_name d) (DirNode (ld_entries d)) p f"
    and "recursive \<Longrightarrow> policy \<noteq> lit ''ignore'' \<Longrightarrow>
      reaches opts [] (ld_name d) (DirNode (ld_entries d)) p f \<Longrightarrow> (p, f) \<in> set fs"
proof -
  let ?cs = "sorted_children (ld_entries d)"
  have opts: "wo_nfc opts = nfc" "wo_recursive opts = recursive" "wo_symlink_policy opts = policy"
    by (simp_all add: opts_def options_for_def)
  have sorted: "sorted_entries (ld_entries d) = ?cs" by (simp add: sorted_entries_def sort_tree_dir del: sort_tree.simps)
  have walk: "walk_children opts (join_with slash []) ?cs = Inr (fs, ds)"
    using run by (simp add: walk_directory_def opts_def options_for_def sorted)
  have tree: "plain_tree (wo_nfc opts) (DirNode ?cs)"
    using plain_sort_tree[OF plain] unfolding sort_tree_dir opts .
  have same: "reaches opts [] (ld_name d) (DirNode ?cs) p f \<longleftrightarrow>
      reaches opts [] (ld_name d) (DirNode (ld_entries d)) p f"
    using file_at_sort_tree[OF plain] unfolding sort_tree_dir reaches_def by simp
  have laws': "nfc_laws (wo_nfc opts)" "list_all (plain_name (wo_nfc opts)) []" using laws opts by simp_all
  show "distinct (map fst fs @ ds)" using walk_apart(2)[OF walk refl laws' tree] by blast
  show "reaches opts [] (ld_name d) (DirNode (ld_entries d)) p f" if "(p, f) \<in> set fs"
    using walk_sound(2)[OF walk refl laws' tree that] same reaches_dir[OF tree, of "[]"] by simp
  show "(p, f) \<in> set fs" if "recursive" "policy \<noteq> lit ''ignore''"
    "reaches opts [] (ld_name d) (DirNode (ld_entries d)) p f"
    using walk_complete(2)[OF walk refl laws' tree] that opts same reaches_dir[OF tree, of "[]"] by simp
qed

lemma reaches_reads_back:
  assumes "reaches opts [] name (DirNode cs) p f"
  shows "file_at name (DirNode cs) (split_on slash p) = Some f \<and> \<not> is_ignored (wo_rules opts) p"
proof -
  obtain ps where ps: "p = join_with slash ps" "list_all (plain_name (wo_nfc opts)) ps"
    "file_at name (DirNode cs) ps = Some f" "\<And>k. k < length ps \<Longrightarrow> kept opts (take (Suc k) ps)"
    using assms by (auto simp: reaches_def)
  then have "ps \<noteq> []" by (cases ps) auto
  then have "kept opts ps" using ps(4)[of "length ps - 1"] by (cases ps) simp_all
  then show ?thesis using ps split_plain[OF ps(2) \<open>ps \<noteq> []\<close>] kept_not_ignored by metis
qed

end
