(* ===== verification/SdkManifest.thy ===== *)
theory SdkManifest
  imports WalkFacts
begin

text \<open>
  The SDK and the service on the manifest of a directory: the entries the SDK sends are stored
  under the paths it sent, so the hash and the counts with which it completes the manifest are
  those the service computes. Also, that the service reads its own NDJSON manifest back.
\<close>

section \<open>Paths\<close>

lemma sdk_path_parts_Inr:
  "sdk_path_parts segs = Inr ps \<Longrightarrow> ps = filter (\<lambda>s. s \<noteq> [] \<and> s \<noteq> dot_segment) segs"
  by (induction segs arbitrary: ps) (auto simp: rbind_Inr_iff split: if_splits)

text \<open>A path the SDK has normalized is left as it is by the service, if it is accepted.\<close>

lemma server_keeps_path:
  assumes laws: "nfc_laws nfc" and sdk: "sdk_normalize_relative_path nfc d b raw = Inr p"
    and server: "normalize_relative_path nfc d' b' p = Inr q"
  shows "q = p"
proof -
  obtain parts where parts: "sdk_path_parts (split_on slash (nfc (to_posix raw))) = Inr parts"
    "p = join_with slash parts" "p \<noteq> []"
    using sdk by (auto simp: sdk_normalize_relative_path_def rbind_Inr_iff Let_def split: if_splits option.splits)
  note own = sdk_path_parts_Inr[OF parts(1)]
  have sub: "set parts \<subseteq> set (split_on slash (nfc (to_posix raw)))" using own by auto
  have "nfc s = s" if "s \<in> set parts" for s
    using that sub laws by (auto simp: nfc_split[OF laws] nfc_laws_def)
  then have nfc: "nfc p = p" using parts(2) by (simp add: nfc_join[OF laws] map_idI)
  have "92 \<notin> set (to_posix raw)" by (auto simp: to_posix_def)
  then have "92 \<notin> set (nfc (to_posix raw))" using laws by (auto simp: nfc_laws_def)
  moreover have "c = slash \<or> c \<in> set (nfc (to_posix raw))" if c: "c \<in> set p" for c
  proof -
    have "c = slash \<or> (\<exists>q\<in>set parts. c \<in> set q)" using c set_join_with[of slash parts] parts(2) by blast
    then show ?thesis using sub split_on_part_subset[of _ slash "nfc (to_posix raw)"] by blast
  qed
  ultimately have "c \<noteq> 92" if "c \<in> set p" for c using that by fastforce
  then have posix: "to_posix p = p" by (auto simp: to_posix_def map_idI)
  have "split_on slash p = parts"
    unfolding parts(2) by (rule split_join) (use parts(2,3) sub split_on_no_sep_part in \<open>auto\<close>)
  then obtain ps where "path_parts parts = Inr ps" "q = join_with slash ps"
    using normalize_Inr[OF server] nfc posix by metis
  moreover have "filter (\<lambda>s. s \<noteq> [] \<and> s \<noteq> dot_segment) parts = parts" unfolding own by simp
  ultimately show ?thesis using path_parts_Inr parts(2) by metis
qed

lemma walk_normalized:
  "walk_node opts path name t = Inr (fs, ds) \<Longrightarrow> sdk_normalize_relative_path (wo_nfc opts) 64 1024 raw = Inr path \<Longrightarrow>
     p \<in> set (map fst fs @ ds) \<Longrightarrow> \<exists>raw. sdk_normalize_relative_path (wo_nfc opts) 64 1024 raw = Inr p"
  "walk_children opts relative cs = Inr (fs, ds) \<Longrightarrow>
     p \<in> set (map fst fs @ ds) \<Longrightarrow> \<exists>raw. sdk_normalize_relative_path (wo_nfc opts) 64 1024 raw = Inr p"
proof (induction opts path name t and opts relative cs arbitrary: raw fs ds and fs ds
    rule: walk_node_walk_children.induct)
  case (2 opts path name cs)
  from "2.prems"(1) show ?case by (rule walk_dir) (use 2 in auto)
next
  case (3 opts path name inside dest)
  from "3.prems"(1) show ?case by (rule walk_link) (use 3 in auto)
next
  case (6 opts relative name t cs)
  obtain kept where kept: "kept_path opts relative name = Inr kept"
    using "6.prems"(1) by (auto simp: rbind_Inr_iff)
  show ?case
  proof (cases kept)
    case None
    then show ?thesis using "6.IH"(1) "6.prems" kept by simp
  next
    case (Some path)
    then have "sdk_normalize_relative_path (wo_nfc opts) 64 1024 (child_path relative name) = Inr path"
      using kept by (auto simp: kept_path_def split: sum.splits sdk_error.splits if_splits)
    note norm = this
    obtain fs1 ds1 fs2 ds2 where w: "walk_node opts path name t = Inr (fs1, ds1)"
      "walk_children opts relative cs = Inr (fs2, ds2)" "fs = fs1 @ fs2" "ds = ds1 @ ds2"
      using "6.prems"(1) kept Some by (auto simp: rbind_Inr_iff)
    then have "p \<in> set (map fst fs1 @ ds1) \<or> p \<in> set (map fst fs2 @ ds2)" using "6.prems"(2) by auto
    then show ?thesis using "6.IH"(1)[OF w(2)] "6.IH"(2)[OF w(1) norm] by blast
  qed
qed auto

section \<open>The entries that are sent\<close>

definition file_raw :: "(bytes \<Rightarrow> pystr) \<Rightarrow> pystr \<times> local_file \<Rightarrow> raw_entry" where
  "file_raw sha256 e =
     (case e of (path, f) \<Rightarrow>
        \<lparr>re_entry_type = lit ''file'', re_relative_path = path, re_size_bytes = int (length (lf_data f)),
         re_last_modified_ns = Some (lf_mtime_ns f), re_content_type = Some (lit ''application/octet-stream''),
         re_fingerprint = Some (fast_fingerprint sha256 f), re_full_sha256 = None, re_lifecycle = None\<rparr>)"

definition directory_raw :: "pystr \<Rightarrow> raw_entry" where
  "directory_raw path =
     \<lparr>re_entry_type = lit ''directory'', re_relative_path = path, re_size_bytes = 0,
      re_last_modified_ns = None, re_content_type = None, re_fingerprint = None, re_full_sha256 = None,
      re_lifecycle = None\<rparr>"

lemma py_int_of_JInt: "py_int_of (JInt n) = Inr n"
  by (simp add: py_int_of_def json_number_def number_int_def)

lemma raw_entry_of_file: "raw_entry_of (file_entry_json sha256 e) = Inr (file_raw sha256 e)"
  by (cases e) (simp add: raw_entry_of_def file_entry_json_def file_raw_def text_of_def int_value_def
      optional_def py_int_of_JInt jget_def jget_default_def)

lemma raw_entry_of_directory: "raw_entry_of (directory_entry_json path) = Inr (directory_raw path)"
  by (simp add: raw_entry_of_def directory_entry_json_def directory_raw_def text_of_def optional_def
      py_int_of_JInt jget_def jget_default_def)

definition sent_json :: "(bytes \<Rightarrow> pystr) \<Rightarrow> found \<Rightarrow> json list" where
  "sent_json sha256 found =
     (case found of (fs, ds) \<Rightarrow> map directory_entry_json ds @ map (file_entry_json sha256) fs)"

definition sent_raws :: "(bytes \<Rightarrow> pystr) \<Rightarrow> found \<Rightarrow> raw_entry list" where
  "sent_raws sha256 found = (case found of (fs, ds) \<Rightarrow> map directory_raw ds @ map (file_raw sha256) fs)"

lemma sent_raws_of: "map raw_entry_of (sent_json sha256 found) = map Inr (sent_raws sha256 found)"
  by (simp add: sent_json_def sent_raws_def raw_entry_of_file raw_entry_of_directory split: prod.split)

lemma all_right_map_Inr: "all_right (map Inr xs) = Inr xs"
  by (induction xs) simp_all

lemma all_right_append:
  "all_right (xs @ ys) = rbind (all_right xs) (\<lambda>a. rbind (all_right ys) (\<lambda>b. Inr (a @ b)))"
proof (induction xs)
  case Nil
  show ?case by (cases "all_right ys") simp_all
next
  case (Cons x xs)
  then show ?case by (cases x; cases "all_right xs"; cases "all_right ys") simp_all
qed

text \<open>What the manifest depends on.\<close>

definition entry_view :: "directory_entry \<Rightarrow> entry_type \<times> manifest_entry" where
  "entry_view e =
     (de_entry_type e,
      \<lparr>me_relative_path = de_normalized_path e, me_size_bytes = de_size_bytes e, me_fingerprint = de_fingerprint e\<rparr>)"

definition raw_view :: "raw_entry \<Rightarrow> entry_type \<times> manifest_entry" where
  "raw_view r =
     (the (entry_type_of (re_entry_type r)),
      \<lparr>me_relative_path = re_relative_path r, me_size_bytes = re_size_bytes r, me_fingerprint = re_fingerprint r\<rparr>)"

definition keeps_its_path :: "(pystr \<Rightarrow> pystr) \<Rightarrow> raw_entry \<Rightarrow> bool" where
  "keeps_its_path nfc r \<longleftrightarrow>
     (\<forall>d b q. normalize_relative_path nfc d b (re_relative_path r) = Inr q \<longrightarrow> q = re_relative_path r)"

lemma build_entries_view:
  "build_entries sv job existing raws = Inr es \<Longrightarrow> \<forall>r\<in>set raws. keeps_its_path (sv_nfc sv) (fst r) \<Longrightarrow>
     map entry_view es = map (raw_view \<circ> fst) raws"
proof (induction sv job existing raws arbitrary: es rule: build_entries.induct)
  case (2 sv job existing raw new_id rest)
  let ?limits = "du_limits (cf_directory_upload (sv_settings sv))"
  obtain n e es' where n: "normalize_relative_path (sv_nfc sv) (dl_maximum_path_depth ?limits)
        (dl_maximum_relative_path_bytes ?limits) (re_relative_path raw) = Inr n"
    and e: "build_entry sv job raw n new_id = Inr e"
    and es': "build_entries sv job (insert n existing) rest = Inr es'" "es = e # es'"
    using "2.prems"(1) by (auto simp: rbind_Inr_iff Let_def)
  have "n = re_relative_path raw" using "2.prems"(2) n by (auto simp: keeps_its_path_def)
  then have "entry_view e = raw_view raw"
    using e by (auto simp: build_entry_def rbind_Inr_iff entry_view_def raw_view_def enum_value_def split: option.splits)
  then show ?case using "2.IH"[OF refl es'(1)] "2.prems"(2) es'(2) by simp
qed simp

lemma manifest_of_view:
  "manifest_of es = map snd (filter (\<lambda>v. fst v = EntryFile) (map entry_view es))"
  "length (filter is_file_entry es) = length (filter (\<lambda>v. fst v = EntryFile) (map entry_view es))"
  "length (filter (\<lambda>e. \<not> is_file_entry e) es) = length (filter (\<lambda>v. fst v \<noteq> EntryFile) (map entry_view es))"
  by (simp_all add: manifest_of_def filter_map comp_def is_file_entry_def[abs_def] entry_view_def)

lemma views_sent:
  "map raw_view (sent_raws sha256 (fs, ds))
    = map (\<lambda>d. (EntryDirectory, \<lparr>me_relative_path = d, me_size_bytes = 0, me_fingerprint = None\<rparr>)) ds
      @ map (\<lambda>e. (EntryFile, sdk_manifest_entry sha256 e)) fs"
  by (simp add: sent_raws_def raw_view_def directory_raw_def file_raw_def sdk_manifest_entry_def
      entry_type_of_def lit_def split: prod.split)

section \<open>The manifest is accepted\<close>

lemma concat_batches: "concat (batches n xs) = xs"
  by (induction n xs rule: batches.induct) simp_all

text \<open>The requests of the SDK, each with the ids its entries get and its instant.\<close>

fun send_entries ::
    "'s service \<Rightarrow> identity \<Rightarrow> pystr \<Rightarrow> (json list \<times> (nat \<Rightarrow> pystr) \<times> dt) list \<Rightarrow> ('s, unit) act" where
  "send_entries sv i x [] = ret ()"
| "send_entries sv i x ((batch, ids, now) # rest) =
     bnd (post_directory_entries sv i x [(lit ''entries'', JList batch)] ids now) (\<lambda>_. send_entries sv i x rest)"

definition open_job :: "identity \<Rightarrow> pystr \<Rightarrow> db \<Rightarrow> directory_job \<Rightarrow> bool" where
  "open_job i x d job \<longleftrightarrow>
     get_job x (Some (tenant_id i)) d = Some job \<and> dj_status job \<in> {JobCreated, JobManifestUploading}"

lemma add_entries_effect:
  assumes run: "add_entries sv i x raws now w = (Inr n, w')" and job: "open_job i x (w_db w) job"
  obtains job1 existing es job' where "build_entries sv job1 existing raws = Inr es"
    "job_entries x (w_db w') = job_entries x (w_db w) @ es" "open_job i x (w_db w') job'"
    "dj_status job' = JobManifestUploading"
proof -
  let ?t = "Some (tenant_id i)"
  have here: "get_job x ?t (w_db w) = Some job" using job by (simp add: open_job_def)
  have id: "dj_id job = x" using get_job_SomeD[OF here] by simp
  obtain job1 w1 es where step: "(if dj_status job = JobCreated then transition_to job JobManifestUploading now else ret job) w
        = (Inr job1, w1)" and status: "dj_status job \<in> {JobCreated, JobManifestUploading}"
    and es: "build_entries sv job1 (de_normalized_path ` set (job_entries (dj_id job1) (w_db w1))) raws = Inr es"
    and w': "w_db w' = update_job (dj_id job1) (\<lambda>j.
         j\<lparr>dj_total_files := dj_total_files j + int (length (filter is_file_entry es)),
           dj_total_directories := dj_total_directories j + int (length (filter (\<lambda>e. \<not> is_file_entry e) es)),
           dj_total_bytes := dj_total_bytes j + total_size_of (filter is_file_entry es),
           dj_total_entries := dj_total_entries j + int (length es)\<rparr>)
         ((w_db w1)\<lparr>entries := entries (w_db w1) @ es\<rparr>)"
    using run here unfolding add_entries_def Let_def by (auto simp: effs split: if_splits)
  have job1: "dj_id job1 = x" "get_job x ?t (w_db w1) = Some job1" "dj_status job1 = JobManifestUploading"
    "job_entries x (w_db w1) = job_entries x (w_db w)"
    using step here status id
    by (auto simp: effs get_job_update job_entries_def update_job_def[of _ _ "w_db w"] split: if_splits)
      (auto simp: get_job_update[unfolded update_job_def])
  have es_here: "filter (\<lambda>e. de_job_id e = x) es = es"
    using build_entries_Inr[OF es] job1(1) by (simp add: filter_id_conv)
  have "get_job x ?t ((w_db w1)\<lparr>entries := entries (w_db w1) @ es\<rparr>) = get_job x ?t (w_db w1)"
    by (simp add: get_job_def)
  then have "\<exists>job'. open_job i x (w_db w') job' \<and> dj_status job' = JobManifestUploading"
    using job1 by (simp add: w' open_job_def get_job_update)
  moreover have "job_entries x (w_db w') = job_entries x (w_db w) @ es"
    using job1(4) es_here by (simp add: w' job_entries_def update_job_def)
  ultimately show thesis using that es by blast
qed

lemma post_entries_Inr:
  assumes "post_directory_entries sv i x [(lit ''entries'', JList batch)] ids now w = (Inr j, w')"
  obtains raws n where "all_right (map raw_entry_of batch) = Inr (map fst raws)"
    "add_entries sv i x raws now w = (Inr n, w')"
proof -
  have entries: "jget ''entries'' [(lit ''entries'', JList batch)] = JList batch" by (simp add: jget_def)
  obtain raws n where raws: "(if batch \<noteq> [] then raw_entries_of ids batch else Inr []) = Inr raws"
    and add: "add_entries sv i x raws now w = (Inr n, w')"
    using assms unfolding post_directory_entries_def entries json.case by (auto simp: truthy_def effs)
  have "all_right (map raw_entry_of batch) = Inr (map fst raws)"
    using raws by (auto simp: raw_entries_of_def rbind_Inr_iff split: if_splits)
  then show thesis using that add by blast
qed

lemma send_entries_effect:
  "send_entries sv i x reqs w = (Inr u, w') \<Longrightarrow> jobs_inv sv (w_db w) \<Longrightarrow> open_job i x (w_db w) job \<Longrightarrow>
   map raw_entry_of (concat (map fst reqs)) = map Inr raws \<Longrightarrow> \<forall>r\<in>set raws. keeps_its_path (sv_nfc sv) r \<Longrightarrow>
     jobs_inv sv (w_db w')
     \<and> (\<exists>job'. open_job i x (w_db w') job'
          \<and> (reqs \<noteq> [] \<or> dj_status job = JobManifestUploading \<longrightarrow> dj_status job' = JobManifestUploading))
     \<and> map entry_view (job_entries x (w_db w')) = map entry_view (job_entries x (w_db w)) @ map raw_view raws"
proof (induction reqs arbitrary: w raws job)
  case (Cons req reqs)
  obtain batch ids now where req: "req = (batch, ids, now)" by (cases req)
  obtain j w1 where post: "post_directory_entries sv i x [(lit ''entries'', JList batch)] ids now w = (Inr j, w1)"
    and rest: "send_entries sv i x reqs w1 = (Inr u, w')"
    using Cons.prems(1) req by (auto simp: bnd_Inr_iff)
  obtain r1 r2 where r: "raws = r1 @ r2" "map raw_entry_of batch = map Inr r1"
    "map raw_entry_of (concat (map fst reqs)) = map Inr r2"
    using Cons.prems(4) req by (auto simp: append_eq_map_conv map_eq_append_conv)
  obtain pairs n where add: "all_right (map raw_entry_of batch) = Inr (map fst pairs)"
    "add_entries sv i x pairs now w = (Inr n, w1)"
    by (rule post_entries_Inr[OF post])
  have pairs: "map fst pairs = r1" using add(1) r(2) by (simp add: all_right_map_Inr)
  obtain job1 existing es job' where es: "build_entries sv job1 existing pairs = Inr es"
    "job_entries x (w_db w1) = job_entries x (w_db w) @ es" "open_job i x (w_db w1) job'"
    "dj_status job' = JobManifestUploading"
    by (rule add_entries_effect[OF add(2) Cons.prems(3)])
  have "\<forall>p\<in>set pairs. keeps_its_path (sv_nfc sv) (fst p)" using Cons.prems(5) r(1) pairs by force
  from build_entries_view[OF es(1) this] have "map entry_view es = map raw_view r1" using pairs by (metis map_map)
  moreover have "\<forall>r\<in>set r2. keeps_its_path (sv_nfc sv) r" using Cons.prems(5) r(1) by simp
  note Cons.IH[OF rest add_entries_inv[OF Cons.prems(2) add(2)] es(3) r(3) this]
  ultimately show ?case using es(2,4) r(1) by auto
qed (auto simp: ret_def)

lemma complete_manifest_accepts:
  assumes inv: "jobs_inv sv (w_db w)" and job: "open_job i x (w_db w) job" "dj_status job = JobManifestUploading"
    and es: "job_entries x (w_db w) \<noteq> []"
    and hash: "manifest_hash_from_entries sv (manifest_of (job_entries x (w_db w))) = Inr h"
    and files: "length (filter is_file_entry (job_entries x (w_db w))) = m"
    and dirs: "length (filter (\<lambda>e. \<not> is_file_entry e) (job_entries x (w_db w))) = n"
  shows "\<exists>j w'. complete_manifest sv i x (Some h)
      (Some [(lit ''files'', JInt (int m)), (lit ''directories'', JInt (int n))]) now w = (Inr j, w')
    \<and> dj_status j = JobReady \<and> dj_manifest_hash j = Some h"
proof -
  have here: "get_job x (Some (tenant_id i)) (w_db w) = Some job" using job by (simp add: open_job_def)
  then have row: "job \<in> set (jobs (w_db w))" "dj_id job = x" using get_job_SomeD by blast+
  then have "job_ok sv (job_entries x (w_db w)) job" using inv by (auto simp: jobs_inv_def)
  then have counts: "dj_total_files job = int m" "dj_total_directories job = int n"
    using files dirs by (simp_all add: job_ok_def)
  have ready: "JobReady \<in> set (allowed job_transitions JobManifestUploading)" by code_simp
  have "json_is_int (JInt k) k" for k by (simp add: json_is_int_def json_number_def)
  then show ?thesis
    using here job(2) es hash counts ready row(2)
    by (simp add: complete_manifest_def effs jget_def)
qed

text \<open>The SDK's manifest of what the walk found is the service's.\<close>

lemma sdk_manifest_holds:
  assumes laws: "nfc_laws (sv_nfc sv)"
    and walk: "walk_directory (sv_nfc sv) dir recursive includes excludes policy = Inr (fs, ds)"
    and some: "map fst fs @ ds \<noteq> []"
    and inv: "jobs_inv sv (w_db w)" and job: "open_job i x (w_db w) job" and none: "job_entries x (w_db w) = []"
    and reqs: "map fst reqs = batches 500 (sent_json (sv_sha256 sv) (fs, ds))"
    and sent: "send_entries sv i x reqs w = (Inr u, w1)"
    and hash: "sdk_manifest_hash (sv_sha256 sv) fs = Inr h"
  shows "\<exists>d w2. post_manifest_complete sv i x
      [(lit ''manifest_hash'', JStr h),
       (lit ''counts'', JObj [(lit ''files'', JInt (int (length fs))), (lit ''directories'', JInt (int (length ds)))])]
      now w1 = (Inr (JObj d), w2)
    \<and> jget ''status'' d = JStr (lit ''ready'') \<and> jget ''manifest_hash'' d = JStr h"
proof -
  let ?raws = "sent_raws (sv_sha256 sv) (fs, ds)" and ?es = "job_entries x (w_db w1)"
  have paths: "\<exists>raw. sdk_normalize_relative_path (sv_nfc sv) 64 1024 raw = Inr p" if "p \<in> set (map fst fs @ ds)" for p
    using walk_normalized(2)[OF walk[unfolded walk_directory_def]] that by simp
  have "\<forall>r\<in>set ?raws. re_relative_path r \<in> set (map fst fs @ ds)"
    by (force simp: sent_raws_def directory_raw_def file_raw_def)
  then have own: "\<forall>r\<in>set ?raws. keeps_its_path (sv_nfc sv) r"
    unfolding keeps_its_path_def using paths server_keeps_path[OF laws] by meson
  have "concat (map fst reqs) = sent_json (sv_sha256 sv) (fs, ds)" unfolding reqs by (rule concat_batches)
  then have "map raw_entry_of (concat (map fst reqs)) = map Inr ?raws" by (simp add: sent_raws_of)
  note effect = send_entries_effect[OF sent inv job this own]
  have "reqs \<noteq> []" using reqs some by (cases "sent_json (sv_sha256 sv) (fs, ds)") (auto simp: sent_json_def)
  then obtain job' where job': "open_job i x (w_db w1) job'" "dj_status job' = JobManifestUploading"
    and inv1: "jobs_inv sv (w_db w1)" and views: "map entry_view ?es = map raw_view ?raws"
    using effect none by auto
  have es: "?es \<noteq> []" using views some by (auto simp: views_sent)
  have manifest: "manifest_of ?es = map (sdk_manifest_entry (sv_sha256 sv)) fs"
    "length (filter is_file_entry ?es) = length fs" "length (filter (\<lambda>e. \<not> is_file_entry e) ?es) = length ds"
    unfolding manifest_of_view views views_sent by (simp_all add: filter_map comp_def)
  have "manifest_hash_from_entries sv (manifest_of ?es) = Inr h"
    using hash by (auto simp: sdk_manifest_hash_def manifest_hash_from_entries_def manifest split: sum.splits)
  then obtain j w2 where "complete_manifest sv i x (Some h)
      (Some [(lit ''files'', JInt (int (length fs))), (lit ''directories'', JInt (int (length ds)))]) now w1 = (Inr j, w2)"
    "dj_status j = JobReady" "dj_manifest_hash j = Some h"
    using complete_manifest_accepts[OF inv1 job' es _ manifest(2,3)] by blast
  then show ?thesis
    by (intro exI[of _ "serialize_job sv j"] exI[of _ w2])
      (simp add: post_manifest_complete_def effs jget_def optional_def text_of_def object_of_def serialize_job_def
        jopt_def job_status_text_def)
qed

section \<open>The manifest as text\<close>

text \<open>
  Characters that end a line for \<open>splitlines\<close> and that \<open>json.dumps\<close> with
  \<open>ensure_ascii=False\<close> copies as they are.
\<close>

definition one_line :: "pystr \<Rightarrow> bool" where
  "one_line s \<longleftrightarrow> (\<forall>c\<in>set s. c \<notin> {133, 8232, 8233})"

definition one_line_entry :: "directory_entry \<Rightarrow> bool" where
  "one_line_entry e \<longleftrightarrow>
     one_line (de_relative_path e) \<and> (\<forall>f. de_fingerprint e = Some f \<longrightarrow> one_line f)"

lemma escape_char_one_line: "c \<notin> {133, 8232, 8233} \<Longrightarrow> d \<in> set (escape_char c) \<Longrightarrow> \<not> line_end d"
  by (auto simp: escape_char_def hex_digit_def line_end_def split: if_splits)

lemma json_string_one_line: "one_line s \<Longrightarrow> d \<in> set (json_string s) \<Longrightarrow> \<not> line_end d"
proof -
  assume s: "one_line s" and "d \<in> set (json_string s)"
  then have "d = 34 \<or> (\<exists>c\<in>set s. d \<in> set (escape_char c))" by (auto simp: json_string_def)
  moreover have "\<not> line_end 34" by (simp add: line_end_def)
  ultimately show "\<not> line_end d" using s escape_char_one_line unfolding one_line_def by blast
qed

lemma str_int_one_line: "d \<in> set (py_str_int n) \<Longrightarrow> \<not> line_end d"
  using nat_digits_ascii[of d] by (fastforce simp: py_str_int_def line_end_def split: if_splits)

lemma ndjson_key_one_line: "\<forall>c\<in>set (lit k). \<not> line_end c \<Longrightarrow> d \<in> set (ndjson_key k) \<Longrightarrow> \<not> line_end d"
  by (auto simp: ndjson_key_def line_end_def lit_def)

lemma fixed_one_line:
  "\<forall>c\<in>set (lit ''{'' @ lit '', '' @ lit ''}'' @ ndjson_key ''entry_type'' @ ndjson_key ''relative_path''
      @ ndjson_key ''size_bytes'' @ ndjson_key ''fingerprint'' @ ndjson_key ''last_modified_ns''). \<not> line_end c"
  "\<forall>c\<in>set (json_string (entry_type_text t)). \<not> line_end c"
  by (simp_all add: ndjson_key_def json_string_def escape_char_def entry_type_text_def line_end_def lit_def
      split: entry_type.split)

lemma ndjson_line_one_line:
  assumes "one_line_entry e" "d \<in> set (ndjson_line e)"
  shows "\<not> line_end d"
  using assms fixed_one_line(1) fixed_one_line(2)[of "de_entry_type e"] json_string_one_line str_int_one_line
  unfolding ndjson_line_def one_line_entry_def set_append
  by (auto split: option.splits dest: sym)

lemma ndjson_line_ends: "hd (ndjson_line e) = 123 \<and> last (ndjson_line e) = 125 \<and> ndjson_line e \<noteq> []"
  by (simp add: ndjson_line_def lit_def)

lemma strip_ndjson_line: "strip (ndjson_line e) = ndjson_line e"
  unfolding strip_def by (rule strip_by_id) (use ndjson_line_ends[of e] in \<open>simp add: is_space_def\<close>)

lemma splitlines_from_line:
  "\<forall>c\<in>set l. \<not> line_end c \<Longrightarrow> splitlines_from acc (l @ 10 # s) = (rev acc @ l) # splitlines_from [] s"
proof (induction l arbitrary: acc)
  case Nil
  then show ?case by (cases s) (simp_all add: line_end_def)
next
  case (Cons c l)
  then show ?case by (cases "l @ 10 # s") simp_all
qed

lemma splitlines_joined:
  assumes "\<And>l c. l \<in> set ls \<Longrightarrow> c \<in> set l \<Longrightarrow> \<not> line_end c"
  shows "splitlines (join_with 10 ls @ (if ls = [] then [] else [10])) = ls"
  using assms
proof (induction ls rule: induct_list012)
  case (2 p)
  then show ?case using splitlines_from_line[of p "[]" "[]"] by (auto simp: splitlines_def)
next
  case (3 p q ps)
  have "\<forall>c\<in>set p. \<not> line_end c" using "3.prems"[of p] by simp
  note first = splitlines_from_line[OF this, of "[]" "join_with 10 (q # ps) @ [10]"]
  have "splitlines (join_with 10 (q # ps) @ [10]) = q # ps" using "3.IH"(2) "3.prems" by auto
  then show ?case using first by (simp add: splitlines_def)
qed (simp add: splitlines_def)

text \<open>What the service writes as a manifest, it reads as the same entries.\<close>

lemma ndjson_reads_back:
  assumes "\<forall>e\<in>set es. one_line_entry e"
    and "\<forall>e\<in>set es. sv_loads sv (ndjson_line e) = Some (JObj (ndjson_object e))"
  shows "parse_manifest_ndjson sv (serialize_manifest_ndjson es) = Inr (map (JObj \<circ> ndjson_object) es)"
proof -
  have "splitlines (join_with 10 (map ndjson_line es) @ (if map ndjson_line es = [] then [] else [10]))
      = map ndjson_line es"
    by (rule splitlines_joined) (use assms(1) ndjson_line_one_line in auto)
  then have lines: "splitlines (serialize_manifest_ndjson es) = map ndjson_line es"
    by (simp add: serialize_manifest_ndjson_def)
  have "map strip (map ndjson_line es) = map ndjson_line es" by (simp add: strip_ndjson_line comp_def)
  moreover have "filter (\<lambda>line. line \<noteq> []) (map ndjson_line es) = map ndjson_line es"
    using ndjson_line_ends by (auto intro!: filter_True)
  ultimately have "filter (\<lambda>line. line \<noteq> []) (map strip (splitlines (serialize_manifest_ndjson es))) = map ndjson_line es"
    unfolding lines by (simp only:)
  moreover have "map (\<lambda>line. case sv_loads sv line of None \<Rightarrow> Inl (Crash ValueError) | Some j \<Rightarrow> Inr j) (map ndjson_line es)
      = map Inr (map (JObj \<circ> ndjson_object) es)"
    using assms(2) by simp
  ultimately show ?thesis unfolding parse_manifest_ndjson_def by (simp only: all_right_map_Inr)
qed

text \<open>A path with a line separator is accepted, and breaks its line in two.\<close>

lemma separator_breaks_line:
  "normalize_relative_path (\<lambda>s. s) 64 1024 [97, 8232, 98] = Inr [97, 8232, 98]
   \<and> splitlines (json_string [97, 8232, 98]) = [[34, 97], [98, 34]]"
  by (simp add: normalize_relative_path_def control_char_def to_posix_def starts_with_def
      unsafe_segments_def splitlines_def json_string_def escape_char_def line_end_def)

text \<open>A manifest without entries is never accepted, so no empty directory can be uploaded.\<close>

lemma empty_manifest_refused:
  assumes "open_job i x (w_db w) job" "job_entries x (w_db w) = []"
  shows "complete_manifest sv i x h c now w = (Inl manifest_incomplete, w)"
proof -
  have here: "get_job x (Some (tenant_id i)) (w_db w) = Some job" "dj_status job \<in> {JobCreated, JobManifestUploading}"
    using assms(1) by (simp_all add: open_job_def)
  then have "find_job i x w = (Inr job, w)" by (simp add: find_job_Inr)
  moreover have "dj_id job = x" using get_job_SomeD[OF here(1)] by simp
  ultimately show ?thesis
    using assms(2) here(2)
    by (simp add: complete_manifest_def bnd_def seq_def guard_def get_db_def get_def ret_def raise_def)
qed

end
