(* ===== verification/DirectoryExamples.thy ===== *)
theory DirectoryExamples
  imports Examples SdkManifest
begin

text \<open>
  A directory of the client with an ignored file, and a job of the service of \<open>Examples\<close>
  that its entries are sent to.
\<close>

definition demo_directory :: local_directory where
  "demo_directory =
     \<lparr>ld_name = lit ''album'',
      ld_entries =
        [(lit ''b'', DirNode [(lit ''x.txt'', FileNode [1, 2, 3] 5)]), (lit ''a.tmp'', FileNode [4] 6),
         (lit ''c'', LinkNode True (Some (FileNode [7] 8)))],
      ld_ignore_file = Some (lit ''*.tmp'')\<rparr>"

definition demo_walk :: "sdk_error + found" where
  "demo_walk = walk_directory (\<lambda>s. s) demo_directory True [] [] (lit ''follow'')"

lemma demo_walk_finds:
  "\<not> isl demo_walk \<and> map fst (fst (projr demo_walk)) = [lit ''b/x.txt'', lit ''c'']
   \<and> snd (projr demo_walk) = [lit ''b'']"
  by code_simp

lemma outcome_pair: "\<not> isl x \<and> map g (fst (projr x)) = ps \<and> snd (projr x) = ds \<Longrightarrow> \<exists>fs. x = Inr (fs, ds) \<and> map g fs = ps"
  by (cases x) auto

lemma demo_walked:
  obtains fs where "walk_directory (\<lambda>s. s) demo_directory True [] [] (lit ''follow'') = Inr (fs, [lit ''b''])"
    "map fst fs = [lit ''b/x.txt'', lit ''c'']"
  using outcome_pair[OF demo_walk_finds, unfolded demo_walk_def] by (elim exE conjE)

lemma demo_directory_plain: "plain_tree (\<lambda>s. s) (DirNode (ld_entries demo_directory))"
  by code_simp

lemma same_laws: "nfc_laws (\<lambda>s. s)"
  by (simp add: nfc_laws_def)

section \<open>Sending the entries\<close>

definition demo_opened :: "fs world" where
  "demo_opened = serve_directories demo_service demo_identity 0 [CreateJob demo_job_request (lit ''j1'')] demo_world"

definition demo_batches :: "(json list \<times> (nat \<Rightarrow> pystr) \<times> dt) list" where
  "demo_batches =
     [(sent_json demo_sha256 (projr demo_walk), (\<lambda>n. lit ''e'' @ nat_digits n), 0)]"

definition demo_sent_entries :: "(error + unit) \<times> fs world" where
  "demo_sent_entries = send_entries demo_service demo_identity (lit ''j1'') demo_batches demo_opened"

lemma demo_entries_sent: "\<not> isl (fst demo_sent_entries)"
  by code_simp

lemma demo_job_open:
  "open_job demo_identity (lit ''j1'') (w_db demo_opened) (demo_job demo_opened)"
  "job_entries (lit ''j1'') (w_db demo_opened) = []"
  by code_simp+

lemma demo_opened_inv: "jobs_inv demo_service (w_db demo_opened)"
proof -
  have "directory_served demo_service demo_world demo_opened"
    unfolding demo_opened_def by (rule directories_served[OF directory_start]) code_simp
  then show ?thesis by (rule directory_served_inv) (simp add: demo_world_def jobs_inv_empty)
qed

lemma demo_hash: "\<not> isl (sdk_manifest_hash demo_sha256 (fst (projr demo_walk)))"
  by code_simp

section \<open>A manifest as text\<close>

definition demo_row :: directory_entry where
  "demo_row =
     \<lparr>de_id = lit ''e1'', de_job_id = lit ''j1'', de_entry_type = EntryFile, de_relative_path = lit ''b/x'',
      de_normalized_path = lit ''b/x'', de_object_key = lit ''2026/b/x'', de_size_bytes = 5,
      de_last_modified_ns = Some 7, de_content_type = None, de_fingerprint = Some (lit ''fp''),
      de_full_sha256 = None, de_file_id = None, de_status = EntryPending, de_error_code = None,
      de_error_message = None, de_requested_lifecycle = None, de_effective_lifecycle = None,
      de_attempt_count = 0\<rparr>"

definition reading_service :: "fs service" where
  "reading_service = demo_service
     \<lparr>sv_loads := (\<lambda>s. if s = ndjson_line demo_row then Some (JObj (ndjson_object demo_row)) else None)\<rparr>"

lemma demo_row_one_line: "one_line_entry demo_row"
  by (simp add: one_line_entry_def one_line_def demo_row_def lit_def)

end
