(* ===== verification/SdkTypes.thy ===== *)
theory SdkTypes
  imports ClientUploads
begin

text \<open>
  The types that the data classes of \<open>src/sdk/pyuploadx/models.py\<close> declare, and that every
  answer of the service gives them: the classes take what the JSON holds and check nothing.
\<close>

section \<open>The declared types\<close>

definition is_text :: "json \<Rightarrow> bool" where
  "is_text v \<longleftrightarrow> (case v of JStr _ \<Rightarrow> True | _ \<Rightarrow> False)"

definition is_number :: "json \<Rightarrow> bool" where
  "is_number v \<longleftrightarrow> (case v of JInt _ \<Rightarrow> True | _ \<Rightarrow> False)"

definition is_flag :: "json \<Rightarrow> bool" where
  "is_flag v \<longleftrightarrow> (case v of JBool _ \<Rightarrow> True | _ \<Rightarrow> False)"

definition is_object :: "json \<Rightarrow> bool" where
  "is_object v \<longleftrightarrow> (case v of JObj _ \<Rightarrow> True | _ \<Rightarrow> False)"

definition or_none :: "(json \<Rightarrow> bool) \<Rightarrow> json \<Rightarrow> bool" where
  "or_none q v \<longleftrightarrow> v = JNull \<or> q v"

definition session_typed :: "upload_session_info \<Rightarrow> bool" where
  "session_typed s \<longleftrightarrow>
     is_text (si_id s) \<and> is_text (si_bucket s) \<and> is_text (si_object_key s) \<and> is_text (si_original_filename s)
     \<and> is_number (si_total_size s) \<and> is_number (si_part_size s) \<and> is_number (si_total_parts s)
     \<and> is_text (si_upload_mode s) \<and> is_text (si_backend s) \<and> or_none is_text (si_storage_upload_id s)
     \<and> or_none is_text (si_file_fingerprint s) \<and> or_none is_text (si_expected_sha256 s)
     \<and> is_text (si_status s) \<and> or_none is_object (si_effective_lifecycle s)
     \<and> or_none is_text (si_completed_file_id s) \<and> or_none is_text (si_expires_at s)"

definition file_typed :: "file_info \<Rightarrow> bool" where
  "file_typed f \<longleftrightarrow>
     is_text (fi_id f) \<and> is_text (fi_bucket f) \<and> is_text (fi_object_key f) \<and> is_text (fi_original_filename f)
     \<and> is_number (fi_size_bytes f) \<and> or_none is_text (fi_content_type f) \<and> or_none is_text (fi_etag f)
     \<and> or_none is_text (fi_checksum_value f) \<and> is_text (fi_status f) \<and> or_none is_text (fi_lifecycle_mode f)
     \<and> or_none is_text (fi_expires_at f) \<and> is_flag (fi_legal_hold f) \<and> or_none is_text (fi_completed_at f)
     \<and> or_none is_text (fi_download_url f) \<and> or_none is_number (fi_expires_in f)"

definition job_typed :: "directory_job_info \<Rightarrow> bool" where
  "job_typed j \<longleftrightarrow>
     is_text (ji_id j) \<and> is_text (ji_root_directory_name j) \<and> is_text (ji_bucket j)
     \<and> is_text (ji_destination_prefix j) \<and> is_text (ji_status j) \<and> is_text (ji_conflict_policy j)
     \<and> is_number (ji_total_entries j) \<and> is_number (ji_total_files j) \<and> is_number (ji_total_directories j)
     \<and> is_number (ji_total_bytes j) \<and> is_number (ji_uploaded_files j) \<and> is_number (ji_uploaded_bytes j)
     \<and> is_number (ji_failed_files j) \<and> is_number (ji_skipped_files j) \<and> or_none is_text (ji_manifest_hash j)
     \<and> or_none is_object (ji_effective_lifecycle j)"

section \<open>What the service serializes is typed\<close>

lemma typed_values [simp]:
  "is_text (JStr s)" "is_number (JInt n)" "is_flag (JBool b)" "is_object (JObj d)" "or_none q JNull"
  "or_none is_text (JStr s)" "or_none is_number (JInt n)" "or_none is_object (JObj d)"
  by (simp_all add: is_text_def is_number_def is_flag_def is_object_def or_none_def)

lemma typed_options [simp]:
  "or_none is_text (jopt JStr x)" "or_none is_number (jopt JInt n)" "or_none is_object (jopt (effective_json sv) e)"
  "or_none is_text (jopt (JStr \<circ> h) t)" "or_none is_number (jopt (JInt \<circ> g) t)"
  by (simp_all add: jopt_def effective_json_def split: option.split)

lemma session_typed_serialized:
  "session_info_of (JObj (serialize_session sv u)) = Inr s \<Longrightarrow> session_typed s"
  by (auto simp: session_info_of_def serialize_session_def field_def jget_def jget_default_def session_typed_def)

lemma file_typed_serialized:
  "file_info_of (JObj (serialize_file sv f)) = Inr i \<Longrightarrow> file_typed i"
  "file_info_of (JObj (serialize_file sv f
     @ [(lit ''download_url'', jopt (JStr \<circ> fst) r), (lit ''expires_in'', jopt (JInt \<circ> snd) r)])) = Inr i
   \<Longrightarrow> file_typed i"
  by (auto simp: file_info_of_def serialize_file_def field_def jget_def jget_default_def file_typed_def)

lemma job_typed_serialized:
  "job_info_of (JObj (serialize_job sv j)) = Inr i \<Longrightarrow> job_typed i"
  by (auto simp: job_info_of_def serialize_job_def field_def jget_def jget_default_def job_typed_def)

section \<open>What the calls of the SDK return\<close>

lemma retry_Inr: "retry_from fn pause statuses m n c = (Inr r, c') \<Longrightarrow> \<exists>c1. fn c1 = (Inr r, c')"
proof (induction fn pause statuses m n c rule: retry_from.induct)
  case (1 fn pause statuses m n c)
  obtain q t where q: "fn c = (q, t)" by fastforce
  then show ?case
    using "1.prems" "1.IH"[OF q[symmetric]]
    by (subst (asm) retry_from.simps) (auto split: sum.splits if_splits)
qed

lemma send_Inr:
  assumes "connected dp k" "on_net (sk_send k rq) c = (Inr r, c')"
  shows "\<exists>l l'. serve_http dp rq l = (Inr r, l')"
  using assms by (auto simp: on_net_def connected_def split: prod.splits)

lemma request_Inr:
  assumes "connected dp k" "request k rq c = (Inr r, c')"
  shows "\<exists>l l'. serve_http dp rq l = (Inr r, l')"
proof -
  obtain c1 where "guarded k rq c1 = (Inr r, c')"
    using retry_Inr assms(2) unfolding request_def retry_default_def sdk_retry_def by metis
  then obtain r1 c2 where "on_net (sk_send k rq) c1 = (Inr r1, c2)"
    "(if hr_status r1 \<in> {408, 429, 500, 502, 503, 504}
      then raise (SdkErr SdkServerError (Some (hr_status r1))) else ret r1) c2 = (Inr r, c')"
    by (auto simp: guarded_def bnd_Inr_iff)
  then show ?thesis using send_Inr[OF assms(1)] by (auto simp: ret_def raise_def split: if_splits)
qed

text \<open>A call that parses the answer to one request only sees what the endpoint returned.\<close>

lemma json_call_parses:
  assumes conn: "connected dp k" and run: "bnd (json_request k rq) (\<lambda>j. lift (parse j)) c = (Inr x, c')"
    and route: "\<And>n. \<exists>m. route dp n rq = Run m \<and> (\<forall>w j w'. m w = (Inr j, w') \<longrightarrow> parse j = Inr x \<longrightarrow> good x)"
    and field: "\<And>j. parse j = Inr x \<Longrightarrow> \<exists>v. field ''id'' j = Inr v"
  shows "good x"
proof -
  obtain j c1 where j: "json_request k rq c = (Inr j, c1)" "parse j = Inr x"
    using run by (auto simp: bnd_Inr_iff lift_def)
  then obtain r c2 where "request k rq c = (Inr r, c2)" and r: "reply_json r = Inr j"
    by (auto simp: json_request_def bnd_Inr_iff lift_def)
  then obtain l l' where l: "serve_http dp rq l = (Inr r, l')" using request_Inr[OF conn] by blast
  obtain m where m: "route dp (lk_requests l) rq = Run m"
    "\<forall>w j w'. m w = (Inr j, w') \<longrightarrow> parse j = Inr x \<longrightarrow> good x" using route by blast
  obtain v where "field ''id'' j = Inr v" using field j(2) by blast
  from serve_run[OF l m(1) r this] m(2) j(2) show ?thesis by auto
qed

lemma parsed_has_id:
  "session_info_of j = Inr s \<Longrightarrow> \<exists>v. field ''id'' j = Inr v"
  "file_info_of j = Inr f \<Longrightarrow> \<exists>v. field ''id'' j = Inr v"
  "job_info_of j = Inr i \<Longrightarrow> \<exists>v. field ''id'' j = Inr v"
  by (auto simp: session_info_of_def file_info_of_def job_info_of_def rbind_Inr_iff)

lemma split_one:
  assumes "slash \<notin> set x"
  shows "split_on slash (lit ''/v1/uploads/'' @ x) = [[], lit ''v1'', lit ''uploads'', x]"
    "split_on slash (lit ''/v1/files/'' @ x) = [[], lit ''v1'', lit ''files'', x]"
    "split_on slash (lit ''/v1/directory-uploads/'' @ x) = [[], lit ''v1'', lit ''directory-uploads'', x]"
  using split_on_no_sep[OF assms] by (simp_all add: lit_def)

lemma created_typed:
  assumes "connected dp k" "client_create_upload k bucket key sz ps fp sha lc c = (Inr s, c')"
  shows "session_typed s"
proof (rule json_call_parses[OF assms(1) assms(2)[unfolded client_create_upload_def]])
  let ?d = "create_upload_body bucket key sz ps fp sha lc"
  show "\<exists>m. route dp n (body_request ''POST'' (lit ''/v1/uploads'') (JObj ?d)) = Run m
    \<and> (\<forall>w j w'. m w = (Inr j, w') \<longrightarrow> session_info_of j = Inr s \<longrightarrow> session_typed s)" for n
    using split_uploads(1)[of "[]"] session_typed_serialized
    by (auto simp: route_def body_request_def route_uploads_def Let_def with_json_def post_uploads_def effs)
qed (rule parsed_has_id)

lemma got_upload_typed:
  assumes "connected dp k" "slash \<notin> set x" "client_get_upload k x c = (Inr s, c')"
  shows "session_typed s"
proof (rule json_call_parses[OF assms(1) assms(3)[unfolded client_get_upload_def]])
  show "\<exists>m. route dp n (plain_request ''GET'' (lit ''/v1/uploads/'' @ x)) = Run m
    \<and> (\<forall>w j w'. m w = (Inr j, w') \<longrightarrow> session_info_of j = Inr s \<longrightarrow> session_typed s)" for n
    using split_one(1)[OF assms(2)] session_typed_serialized
    by (auto simp: route_def plain_request_def route_uploads_def Let_def get_uploads_def effs)
qed (rule parsed_has_id)

lemma got_file_typed:
  assumes "connected dp k" "slash \<notin> set x" "client_get_file k x c = (Inr f, c')"
  shows "file_typed f"
proof (rule json_call_parses[OF assms(1) assms(3)[unfolded client_get_file_def file_path_of_def]])
  show "\<exists>m. route dp n (plain_request ''GET'' (lit ''/v1/files/'' @ x)) = Run m
    \<and> (\<forall>w j w'. m w = (Inr j, w') \<longrightarrow> file_info_of j = Inr f \<longrightarrow> file_typed f)" for n
    using split_one(2)[OF assms(2)] file_typed_serialized(1)
    by (auto simp: route_def plain_request_def route_files_def Let_def get_files_id_def effs)
qed (rule parsed_has_id)

lemma got_job_typed:
  assumes "connected dp k" "slash \<notin> set x" "client_get_directory_job k x c = (Inr i, c')"
  shows "job_typed i"
proof (rule json_call_parses[OF assms(1) assms(3)[unfolded client_get_directory_job_def]])
  show "\<exists>m. route dp n (plain_request ''GET'' (lit ''/v1/directory-uploads/'' @ x)) = Run m
    \<and> (\<forall>w j w'. m w = (Inr j, w') \<longrightarrow> job_info_of j = Inr i \<longrightarrow> job_typed i)" for n
    using split_one(3)[OF assms(2)] job_typed_serialized
    by (auto simp: route_def plain_request_def route_directories_def Let_def get_directory_uploads_def effs)
qed (rule parsed_has_id)

lemma uploaded_file_typed:
  assumes conn: "connected dp k" and run: "client_upload_file k (Some f) a c = (Inr info, c')"
  shows "file_typed info"
proof -
  obtain key r c1 c2 where key: "resolve_object_key (sk_nfc k) (ua_object_key a) (ua_directory a) (lf_name f) = Inr key"
    and sent: "retry_default (net_pause k) (on_net (sk_send k
        \<lparr>rq_method = ''POST'', rq_path = lit ''/v1/files/upload'', rq_query = [],
         rq_body = FormBody (upload_fields k f key a) (lf_name f) (lf_data f) (lit ''application/octet-stream'')\<rparr>)) c1
      = (Inr r, c2)"
    and info: "rbind (reply_json r) file_info_of = Inr info"
    using run by (auto simp: client_upload_file_def bnd_Inr_iff lift_def)
  let ?rq = "\<lparr>rq_method = ''POST'', rq_path = lit ''/v1/files/upload'', rq_query = [],
         rq_body = FormBody (upload_fields k f key a) (lf_name f) (lf_data f) (lit ''application/octet-stream'')\<rparr>"
  obtain c3 where "on_net (sk_send k ?rq) c3 = (Inr r, c2)"
    using retry_Inr[OF sent[unfolded retry_default_def sdk_retry_def]] by blast
  then obtain l l' where l: "serve_http dp ?rq l = (Inr r, l')" using send_Inr[OF conn] by blast
  obtain j where j: "reply_json r = Inr j" "file_info_of j = Inr info" using info by (auto simp: rbind_Inr_iff)
  obtain v where v: "field ''id'' j = Inr v" using parsed_has_id(2)[OF j(2)] by blast
  obtain form where form: "form_of (upload_fields k f key a) (lf_name f) (lit ''application/octet-stream'') = Some form"
    by (simp add: form_of_def upload_fields_def Let_def)
  have "route dp (lk_requests l) ?rq
      = Run (post_files_upload (dp_service dp) (dp_identity dp) form (lf_data f) (dp_ids dp (lk_requests l)) (dp_clock dp (lk_requests l)))"
    using split_uploads(4)[of "[]"] form by (simp add: route_def route_files_def Let_def)
  from serve_run[OF l this j(1) v] obtain fo r' where "j = JObj (serialize_file (dp_service dp) fo
      @ [(lit ''download_url'', jopt (JStr \<circ> fst) r'), (lit ''expires_in'', jopt (JInt \<circ> snd) r')])"
    by (auto simp: post_files_upload_def serialize_upload_result_def Let_def effs)
  then show ?thesis using file_typed_serialized(2) j(2) by simp
qed

end
