(* ===== verification/Environ.thy ===== *)
theory Environ
  imports Config "HOL-Library.Sublist"
begin

text \<open>
  The configuration read from environment variables: \<open>_coerce\<close> and \<open>env_overrides\<close>
  of \<open>src/app/config/loader.py\<close>. \<open>json.loads\<close>, \<open>float()\<close> and
  \<open>str.lower\<close> of a variable's name are parameters.
\<close>

text \<open>The words compared with are ASCII, and no other code point becomes one of their letters.\<close>

definition coerce :: "(pystr \<Rightarrow> json option) \<Rightarrow> (pystr \<Rightarrow> json option) \<Rightarrow> pystr \<Rightarrow> json" where
  "coerce loads float value =
     (let stripped = strip value; lowered = ascii_lower stripped
      in if stripped = [] then JStr value
         else if lowered = lit ''true'' then JBool True
         else if lowered = lit ''false'' then JBool False
         else if lowered = lit ''null'' \<or> lowered = lit ''none'' then JNull
         else case loads stripped of
                Some j \<Rightarrow> j
              | None \<Rightarrow>
                  (case py_int stripped of
                     Some n \<Rightarrow> JInt n
                   | None \<Rightarrow> (case float stripped of Some x \<Rightarrow> x | None \<Rightarrow> JStr value)))"

text \<open>\<open>s.split("__")\<close>\<close>

fun split_underscores :: "pystr \<Rightarrow> pystr \<Rightarrow> pystr list" where
  "split_underscores part [] = [rev part]"
| "split_underscores part [c] = [rev (c # part)]"
| "split_underscores part (c # d # s) =
     (if c = 95 \<and> d = 95 then rev part # split_underscores [] s else split_underscores (c # part) (d # s))"

lemma split_underscores_neq_Nil [simp]: "split_underscores part s \<noteq> []"
  by (induction part s rule: split_underscores.induct) simp_all

definition variable_path :: "(pystr \<Rightarrow> pystr) \<Rightarrow> pystr \<Rightarrow> pystr list" where
  "variable_path lower key = split_underscores [] (lower (drop 7 key))"

text \<open>
  The assignment under the sections of a path. A section that already holds something else than
  an object has no \<open>setdefault\<close> and takes no assignment.
\<close>

fun set_path :: "pystr list \<Rightarrow> json \<Rightarrow> jobject \<Rightarrow> error + jobject" where
  "set_path [] v d = Inr d"
| "set_path [k] v d = Inr (set_key k v d)"
| "set_path (k # k' # ks) v d =
     (case (case map_of d k of None \<Rightarrow> JObj [] | Some j \<Rightarrow> j) of
        JObj e \<Rightarrow> rbind (set_path (k' # ks) v e) (\<lambda>e'. Inr (set_key k (JObj e') d))
      | _ \<Rightarrow> Inl (Crash (if ks = [] then TypeError else AttributeError)))"

text \<open>The variables in the order of \<open>os.environ\<close>.\<close>

fun env_from ::
    "(pystr \<Rightarrow> pystr) \<Rightarrow> (pystr \<Rightarrow> json option) \<Rightarrow> (pystr \<Rightarrow> json option) \<Rightarrow> (pystr \<times> pystr) list
     \<Rightarrow> jobject \<Rightarrow> error + jobject" where
  "env_from lower loads float [] d = Inr d"
| "env_from lower loads float ((key, value) # rest) d =
     (if starts_with key (lit ''UPLOAD_'')
      then rbind (set_path (variable_path lower key) (coerce loads float value) d) (env_from lower loads float rest)
      else env_from lower loads float rest d)"

definition env_overrides ::
    "(pystr \<Rightarrow> pystr) \<Rightarrow> (pystr \<Rightarrow> json option) \<Rightarrow> (pystr \<Rightarrow> json option) \<Rightarrow> (pystr \<times> pystr) list
     \<Rightarrow> error + jobject" where
  "env_overrides lower loads float vars = env_from lower loads float vars []"

section \<open>Reading a path\<close>

fun get_path :: "pystr list \<Rightarrow> jobject \<Rightarrow> json option" where
  "get_path [] d = Some (JObj d)"
| "get_path [k] d = map_of d k"
| "get_path (k # k' # ks) d = (case map_of d k of Some (JObj e) \<Rightarrow> get_path (k' # ks) e | _ \<Rightarrow> None)"

lemma set_path_reads: "set_path ps v d = Inr d' \<Longrightarrow> ps \<noteq> [] \<Longrightarrow> get_path ps d' = Some v"
  by (induction ps v d arbitrary: d' rule: set_path.induct)
    (auto simp: map_of_set_key rbind_Inr_iff split: json.splits option.splits)

text \<open>An assignment leaves the paths alone that do not lie on its own.\<close>

lemma get_path_Cons:
  "get_path (q # qs) d =
     (if qs = [] then map_of d q else case map_of d q of Some (JObj e) \<Rightarrow> get_path qs e | _ \<Rightarrow> None)"
  by (cases qs) (simp_all split: option.split json.split)

lemma set_path_keeps:
  "set_path ps v d = Inr d' \<Longrightarrow> \<not> prefix ps qs \<Longrightarrow> \<not> prefix qs ps \<Longrightarrow> get_path qs d' = get_path qs d"
proof (induction ps v d arbitrary: d' qs rule: set_path.induct)
  case (2 k v d)
  then show ?case by (cases qs) (auto simp: get_path_Cons map_of_set_key)
next
  case (3 k k' ks v d)
  obtain q rs where qs: "qs = q # rs" using "3.prems"(3) by (cases qs) auto
  obtain e e' where e: "(case map_of d k of None \<Rightarrow> JObj [] | Some j \<Rightarrow> j) = JObj e"
    "set_path (k' # ks) v e = Inr e'" "d' = set_key k (JObj e') d"
    using "3.prems"(1) by (auto simp: rbind_Inr_iff split: json.splits)
  show ?case
  proof (cases "q = k")
    case True
    then have "rs \<noteq> []" "\<not> prefix (k' # ks) rs" "\<not> prefix rs (k' # ks)" using "3.prems"(2,3) qs by auto
    moreover have "get_path rs [] = None" if "rs \<noteq> []" using that by (cases rs) (simp_all add: get_path_Cons)
    ultimately show ?thesis
      using "3.IH"[OF e(1,2)] e(1,3) True qs by (auto simp: get_path_Cons map_of_set_key split: option.splits)
  next
    case False
    then show ?thesis using e(3) qs by (auto simp: get_path_Cons map_of_set_key)
  qed
qed simp

text \<open>Every variable is read back at its path, when no path lies on another.\<close>

definition apart :: "pystr list list \<Rightarrow> bool" where
  "apart paths \<longleftrightarrow> (\<forall>i j. i < length paths \<longrightarrow> j < length paths \<longrightarrow> i \<noteq> j \<longrightarrow> \<not> prefix (paths ! i) (paths ! j))"

definition upload_variables :: "(pystr \<times> pystr) list \<Rightarrow> (pystr \<times> pystr) list" where
  "upload_variables vars = filter (\<lambda>e. starts_with (fst e) (lit ''UPLOAD_'')) vars"

lemma apart_Cons: "apart (p # ps) \<Longrightarrow> apart ps \<and> (\<forall>q\<in>set ps. \<not> prefix p q \<and> \<not> prefix q p)"
proof (intro conjI ballI)
  assume a: "apart (p # ps)"
  show "apart ps"
    unfolding apart_def using a[unfolded apart_def, rule_format, of "Suc _" "Suc _"] by (intro allI impI) simp
  fix q assume "q \<in> set ps"
  then obtain i where "i < length ps" "ps ! i = q" by (auto simp: in_set_conv_nth)
  then show "\<not> prefix p q" "\<not> prefix q p"
    using a[unfolded apart_def, rule_format, of 0 "Suc i"] a[unfolded apart_def, rule_format, of "Suc i" 0] by simp_all
qed

lemma env_from_keeps:
  "env_from lower loads float vars d = Inr d' \<Longrightarrow>
   \<forall>e\<in>set (upload_variables vars). \<not> prefix (variable_path lower (fst e)) qs \<and> \<not> prefix qs (variable_path lower (fst e)) \<Longrightarrow>
     get_path qs d' = get_path qs d"
proof (induction vars arbitrary: d)
  case (Cons e vars)
  then show ?case
    by (cases e) (auto simp: upload_variables_def rbind_Inr_iff dest!: set_path_keeps[of _ _ _ _ qs] split: if_splits)
qed simp

lemma env_from_reads:
  "env_from lower loads float vars d = Inr d' \<Longrightarrow>
   apart (map (variable_path lower \<circ> fst) (upload_variables vars)) \<Longrightarrow> (key, value) \<in> set (upload_variables vars) \<Longrightarrow>
     get_path (variable_path lower key) d' = Some (coerce loads float value)"
proof (induction vars arbitrary: d)
  case (Cons e vars)
  obtain k v where e: "e = (k, v)" by (cases e)
  show ?case
  proof (cases "starts_with k (lit ''UPLOAD_'')")
    case True
    then obtain d1 where d1: "set_path (variable_path lower k) (coerce loads float v) d = Inr d1"
      "env_from lower loads float vars d1 = Inr d'"
      using Cons.prems(1) e by (auto simp: rbind_Inr_iff)
    have vars: "upload_variables (e # vars) = e # upload_variables vars" using True e by (simp add: upload_variables_def)
    note rest = apart_Cons[OF Cons.prems(2)[unfolded vars list.map]]
    show ?thesis
    proof (cases "(key, value) = e")
      case True
      have "get_path (variable_path lower k) d' = get_path (variable_path lower k) d1"
        by (rule env_from_keeps[OF d1(2)]) (use rest e in auto)
      then show ?thesis using set_path_reads[OF d1(1)] True e by (simp add: variable_path_def)
    next
      case False
      then show ?thesis using Cons.IH[OF d1(2) conjunct1[OF rest]] Cons.prems(3) vars by simp
    qed
  next
    case False
    then show ?thesis using Cons e by (simp add: upload_variables_def)
  qed
qed (simp add: upload_variables_def)

text \<open>A section that another variable has set to a plain value crashes the start.\<close>

lemma plain_section_crashes:
  "set_path [k, k'] v [(k, JInt n)] = Inl (Crash TypeError)"
  by simp

end
