(* ===== verification/ManifestFacts.thy ===== *)
theory ManifestFacts
  imports Directories "HOL-Library.Multiset"
begin

text \<open>
  What the manifest hash identifies: the hashed text of a manifest does not depend on the order
  of its entries, and it determines them, so that two manifests with the same hash are the same
  or a collision of SHA-256.
\<close>

section \<open>Strings\<close>

text \<open>An escaped character is never the closing quote, and the escapes are prefix-free.\<close>

lemma escape_char_hd: "escape_char c \<noteq> [] \<and> hd (escape_char c) \<noteq> 34"
  by (auto simp: escape_char_def)

definition hex_val :: "nat \<Rightarrow> nat" where
  "hex_val d = (if d < 58 then d - 48 else d - 87)"

lemma hex_val_digit: "n < 16 \<Longrightarrow> hex_val (hex_digit n) = n"
  by (auto simp: hex_val_def hex_digit_def)

text \<open>Reading one escaped character back.\<close>

fun unescape :: "pystr \<Rightarrow> nat \<times> pystr" where
  "unescape (c # r) =
     (if c \<noteq> 92 then (c, r)
      else case r of
             [] \<Rightarrow> (92, [])
           | k # r' \<Rightarrow>
               if k = 117 then (hex_val (r' ! 2) * 16 + hex_val (r' ! 3), drop 4 r')
               else (if k = 110 then 10 else if k = 114 then 13 else if k = 116 then 9
                     else if k = 102 then 12 else if k = 98 then 8 else k, r'))"
| "unescape [] = (0, [])"

lemma unescape_escape: "unescape (escape_char c @ r) = (c, r)"
proof (cases "c < 32 \<and> c \<notin> {8, 9, 10, 12, 13}")
  case True
  then have "escape_char c = [92, 117, 48, 48, hex_digit (c div 16), hex_digit (c mod 16)]"
    by (simp add: escape_char_def)
  moreover have "c div 16 < 16" "c mod 16 < 16" using True by auto
  ultimately show ?thesis by (simp add: hex_val_digit)
next
  case False
  then show ?thesis by (auto simp: escape_char_def)
qed

lemma escape_char_prefix_free:
  assumes "escape_char c @ x = escape_char d @ y"
  shows "c = d \<and> x = y"
  using arg_cong[OF assms, of unescape] by (simp add: unescape_escape)

lemma json_string_prefix_free:
  assumes "json_string s @ x = json_string t @ y"
  shows "s = t \<and> x = y"
proof -
  have "concat (map escape_char s) @ 34 # x = concat (map escape_char t) @ 34 # y \<Longrightarrow> s = t \<and> x = y" for s t
  proof (induction s arbitrary: t)
    case Nil
    show ?case
    proof (cases t)
      case (Cons d t')
      have "34 # x = escape_char d @ concat (map escape_char t') @ 34 # y"
        using Nil.prems unfolding Cons by (simp only: list.map concat.simps append_Nil append_assoc)
      then show ?thesis using escape_char_hd[of d] by (cases "escape_char d") simp_all
    qed (use Nil in simp)
  next
    case (Cons c s)
    show ?case
    proof (cases t)
      case Nil
      then show ?thesis using Cons.prems escape_char_hd[of c] by (cases "escape_char c") auto
    next
      case (Cons d t')
      with Cons.prems have "escape_char c @ concat (map escape_char s) @ 34 # x
          = escape_char d @ concat (map escape_char t') @ 34 # y" by simp
      from escape_char_prefix_free[OF this] show ?thesis using Cons.IH[of t'] \<open>t = d # t'\<close> by simp
    qed
  qed
  from this[of s t] show ?thesis using assms by (simp add: json_string_def)
qed

lemma escape_char_newline: "10 \<notin> set (escape_char c)"
  by (auto simp: escape_char_def hex_digit_def)

lemma json_string_newline: "10 \<notin> set (json_string s)"
  using escape_char_newline by (auto simp: json_string_def)

section \<open>Lines\<close>

lemma nat_digits_inj: "nat_digits a = nat_digits b \<Longrightarrow> a = b"
  using int_digits_nat_digits[of a] int_digits_nat_digits[of b] by auto

lemma not_digit_nat_digits: "c < 48 \<or> 57 < c \<Longrightarrow> c \<notin> set (nat_digits n)"
  using nat_digits_ascii[of c n] by auto

lemma py_str_int_inj: "py_str_int a = py_str_int b \<Longrightarrow> a = b"
proof -
  assume eq: "py_str_int a = py_str_int b"
  have "hd (nat_digits n) \<noteq> 45" for n
  proof -
    have "45 \<notin> set (nat_digits n)" by (rule not_digit_nat_digits) simp
    then show ?thesis using hd_in_set[OF nat_digits_neq_Nil, of n] by metis
  qed
  then show ?thesis using eq by (auto simp: py_str_int_def dest!: nat_digits_inj split: if_splits)
      (metis list.sel(1))+
qed

lemma py_str_int_chars: "c \<in> set (py_str_int n) \<Longrightarrow> c = 45 \<or> 48 \<le> c \<and> c \<le> 57"
  by (auto simp: py_str_int_def dest: nat_digits_ascii split: if_splits)

lemma takeWhile_delimited: "c \<notin> set xs \<Longrightarrow> takeWhile (\<lambda>d. d \<noteq> c) (xs @ c # r) = xs"
  by (induction xs) auto

lemma py_str_int_delimited:
  assumes "py_str_int a @ 125 # x = py_str_int b @ 125 # y"
  shows "a = b \<and> x = y"
proof -
  have "125 \<notin> set (py_str_int n)" for n using py_str_int_chars[of 125 n] by auto
  then have "py_str_int a = py_str_int b"
    using arg_cong[OF assms, of "takeWhile (\<lambda>d. d \<noteq> 125)"] by (simp add: takeWhile_delimited)
  then show ?thesis using assms py_str_int_inj by auto
qed

text \<open>The text of a fingerprint: \<open>null\<close> or a quoted string, told apart by its first character.\<close>

definition fingerprint_text :: "pystr option \<Rightarrow> pystr" where
  "fingerprint_text x = (case x of None \<Rightarrow> lit ''null'' | Some f \<Rightarrow> json_string f)"

lemma fingerprint_prefix_free:
  assumes "fingerprint_text a @ x = fingerprint_text b @ y"
  shows "a = b \<and> x = y"
proof (cases "a = None \<or> b = None")
  case True
  then show ?thesis using assms by (auto simp: fingerprint_text_def json_string_def lit_def split: option.splits)
next
  case False
  then obtain f g where "a = Some f" "b = Some g" by (cases a; cases b) auto
  then show ?thesis using assms json_string_prefix_free[of f x g y] by (simp add: fingerprint_text_def)
qed

lemma manifest_line_inj:
  assumes "manifest_line e = manifest_line f"
  shows "e = f"
proof -
  let ?key1 = "lit ''{'' @ [34] @ lit ''fingerprint'' @ [34] @ lit '': ''"
  let ?key2 = "lit '', '' @ [34] @ lit ''relative_path'' @ [34] @ lit '': ''"
  let ?key3 = "lit '', '' @ [34] @ lit ''size_bytes'' @ [34] @ lit '': ''"
  have line: "manifest_line m = ?key1 @ fingerprint_text (me_fingerprint m) @ ?key2
      @ json_string (me_relative_path m) @ ?key3 @ py_str_int (me_size_bytes m) @ 125 # []" for m
    by (simp add: manifest_line_def fingerprint_text_def lit_def)
  let ?rest = "\<lambda>m. ?key3 @ py_str_int (me_size_bytes m) @ 125 # []"
  let ?tail = "\<lambda>m. ?key2 @ json_string (me_relative_path m) @ ?rest m"
  have "fingerprint_text (me_fingerprint e) @ ?tail e = fingerprint_text (me_fingerprint f) @ ?tail f"
    using assms unfolding line same_append_eq .
  from fingerprint_prefix_free[OF this] have fp: "me_fingerprint e = me_fingerprint f"
    and "?tail e = ?tail f" by blast+
  then have "json_string (me_relative_path e) @ ?rest e = json_string (me_relative_path f) @ ?rest f"
    unfolding same_append_eq by blast
  from json_string_prefix_free[OF this] have path: "me_relative_path e = me_relative_path f"
    and "?rest e = ?rest f" by blast+
  then have "py_str_int (me_size_bytes e) @ 125 # [] = py_str_int (me_size_bytes f) @ 125 # []"
    unfolding same_append_eq by blast
  from py_str_int_delimited[OF this] show ?thesis
    using fp path by (intro manifest_entry.equality) auto
qed

lemma manifest_line_newline: "10 \<notin> set (manifest_line e)" "manifest_line e \<noteq> []"
  using json_string_newline py_str_int_chars[of 10]
  by (auto simp: manifest_line_def lit_def split: option.splits)

section \<open>Texts\<close>

lemma join_with_inj:
  assumes "join_with c xs = join_with c ys"
    and "\<And>x. x \<in> set xs \<union> set ys \<Longrightarrow> c \<notin> set x \<and> x \<noteq> []"
  shows "xs = ys"
proof (cases "xs = [] \<or> ys = []")
  case True
  then have "join_with c xs = [] \<or> join_with c ys = []" by auto
  then have "join_with c xs = []" "join_with c ys = []" using assms(1) by auto
  moreover have "join_with c xs = [] \<longleftrightarrow> xs = []" "join_with c ys = [] \<longleftrightarrow> ys = []"
    using assms(2) by (auto intro!: join_with_eq_Nil)
  ultimately show ?thesis by simp
next
  case False
  then have "split_on c (join_with c xs) = xs" "split_on c (join_with c ys) = ys"
    using assms(2) by (auto intro: split_join)
  then show ?thesis using assms(1) by metis
qed

text \<open>The text determines the entries up to their order.\<close>

lemma manifest_text_determines:
  assumes "manifest_text es = manifest_text fs"
  shows "mset es = mset fs"
proof -
  have "map manifest_line (sort_key me_relative_path es) = map manifest_line (sort_key me_relative_path fs)"
    by (rule join_with_inj[OF assms[unfolded manifest_text_def]]) (auto simp: manifest_line_newline)
  then have "sort_key me_relative_path es = sort_key me_relative_path fs"
    using manifest_line_inj by (simp add: inj_map_eq_map inj_def)
  then show ?thesis by (metis mset_sort)
qed

text \<open>With distinct paths the order of the entries does not matter.\<close>

lemma manifest_text_order:
  assumes "mset es = mset fs" "distinct (map me_relative_path es)"
  shows "manifest_text es = manifest_text fs"
proof -
  let ?sort = "sort_key me_relative_path"
  have same: "set es = set fs" using assms(1) by (metis set_mset_mset)
  have inj: "inj_on me_relative_path (set es)" and dist: "distinct (map me_relative_path fs)"
    using assms by (simp_all add: distinct_map, metis distinct_map mset_eq_imp_distinct_iff same)
  have "map me_relative_path (?sort es) = map me_relative_path (?sort fs)"
    by (rule sorted_distinct_set_unique) (use same assms(2) dist in \<open>auto simp: distinct_map\<close>)
  then have "?sort es = ?sort fs"
    using inj same by (intro map_inj_on[of me_relative_path]) auto
  then show ?thesis by (simp add: manifest_text_def)
qed

end
