(* ===== verification/Spec2Isabelle.thy ===== *)
theory Spec2Isabelle
  imports ClientExamples DirectoryExamples SdkTypes Environ ManifestFacts "HOL-Library.Multiset"
begin

text \<open>
  PyUploadX is a service that stores files: clients upload a file in one request or in parts,
  or a whole directory under a job, to local disk or to S3; files carry a lifecycle policy, and
  workers and a webhook outbox act on them later. A Python SDK is the client. This development
  models the service (\<open>src/app\<close>) and the SDK (\<open>src/sdk/pyuploadx\<close>) as functions
  on explicit state and proves what makes them correct. Every number is a Python integer
  (\<open>int\<close>), every text a list of code points (\<open>pystr\<close>), every byte an
  \<open>8 word\<close>.

  How it is put together. A request of a tenant enters a handler, which calls a service and
  commits or rolls back. A service reads and writes the database, calls the storage adapter and
  counts metrics: the state \<open>'s world\<close> of \<open>Service\<close> holds these three, the type
  \<open>'s\<close> being that of the storage. An operation is an action (\<open>Prelude\<close>): from the
  state to an error or a result, and the state it leaves; an exception does not undo what came
  before it, only the rollback of \<open>transaction\<close> does. Generated ids and the current time
  are arguments. The record \<open>'s service\<close> holds what is outside the repository: the
  settings, the adapter, Unicode normalization, ISO dates, JSON text, SHA-256, HMAC, the LIKE
  operator and the collation of the database.

  The theories, by what they model:

  \<^item> values: \<open>PyValues\<close> (strings, \<open>int()\<close>, \<open>str()\<close>), \<open>PyNumbers\<close>
    (true division rounded to a double, JSON values), \<open>Prelude\<close> (actions, tables);
  \<^item> errors and tables of transitions: \<open>ApiErrors\<close>
    (\<open>app/core/errors.py\<close>, \<open>sdk/pyuploadx/exceptions.py\<close>), \<open>StateMachines\<close>
    (\<open>app/lifecycle/state_machine.py\<close>, \<open>app/directory_upload/state_machine.py\<close>);
  \<^item> pure rules: \<open>Paths\<close> (both \<open>paths.py\<close>), \<open>Ranges\<close>
    (\<open>app/core/ranges.py\<close>), \<open>LifecyclePolicy\<close> (\<open>app/lifecycle/policy.py\<close>),
    \<open>Config\<close> and \<open>Environ\<close> (\<open>app/config\<close>), \<open>Auth\<close> (\<open>app/core/auth.py\<close>);
  \<^item> data: \<open>DbModels\<close> (\<open>app/db\<close>: a table is the list of its rows in the order
    of insertion, a repository function a list function);
  \<^item> storage: \<open>Storage\<close> (the interface and the locale \<open>object_storage\<close>, its
    contract), \<open>FileSystem\<close> and \<open>LocalStorage\<close> (\<open>app/storage/local.py\<close> on a
    tree of files, with an interpretation of the locale), \<open>S3Storage\<close>
    (\<open>app/storage/s3.py\<close> on the calls of boto3, which honours the same contract when
    S3 behaves as documented);
  \<^item> services and handlers: \<open>Settings\<close>, \<open>Buckets\<close>, \<open>Uploads\<close>,
    \<open>Files\<close>, \<open>FileLifecycles\<close> (with the lifecycle worker), \<open>Directories\<close>
    (each after the service and the \<open>app/api/v1\<close> module of its name), \<open>Maintenance\<close>
    (cleanup, reconciliation, idempotency records, webhook delivery);
  \<^item> sequences of requests: \<open>UploadRequests\<close>, \<open>DirectoryRequests\<close> (a datatype of
    requests, reachability by an inductive relation);
  \<^item> HTTP: \<open>Api\<close> and \<open>DirectoryApi\<close> (the JSON bodies and answers of
    \<open>app/api/v1\<close>, the exception handlers of \<open>app/core/errors.py\<close>),
    \<open>Deployment\<close> (the routers as \<open>app/main.py\<close> puts them together, and a client
    whose requests they answer);
  \<^item> the SDK: \<open>SdkRetry\<close> (\<open>retry.py\<close>, \<open>scheduler.py\<close>), \<open>SdkTransfer\<close>
    (parallel download, upload of parts), \<open>SdkClient\<close> (\<open>client.py\<close> with
    \<open>models.py\<close>, \<open>state.py\<close> and \<open>fingerprint.py\<close>), \<open>SdkDirectory\<close>
    (\<open>ignore.py\<close>, \<open>directory.py\<close>, \<open>manifest.py\<close>,
    \<open>directory_state.py\<close> and \<open>upload_directory\<close>);
  \<^item> facts that need several of these: \<open>UploadInvariant\<close>, \<open>DirectoryFacts\<close>,
    \<open>ManifestFacts\<close>, \<open>LocalUploads\<close>, \<open>EndToEnd\<close>, \<open>ClientUploads\<close>
    (an upload of the SDK followed through the endpoints to the disk), \<open>SdkTypes\<close>,
    \<open>WalkFacts\<close>, \<open>SdkManifest\<close>;
  \<^item> concrete runs for the witnesses: \<open>Examples\<close>, \<open>SdkExamples\<close>,
    \<open>ClientExamples\<close>, \<open>DirectoryExamples\<close>.

  What is shown. C1 to C8 are about upload sessions: what completion demands and does, the
  invariant of the tables over any sequence of requests, isolation of tenants, the exact number
  of parts, and that both dialects of the part upsert agree. C9 to C11 are about paths and
  object keys, C12 and C13 about byte ranges, C14 and C15 about local storage (no path leaves
  the root; the multipart contract). C16 to C18 concern lifecycle policies, the worker and legal
  hold, C19 listings, C20 and C21 settings. C22 to C25 are about directory uploads: the
  invariant of jobs and entries, completion, paging and the manifest hash. C26 and C27 give the
  contract and the end of paging for S3. C28 to C30 join the SDK and the service on directories:
  what the walk finds, that its manifest is accepted, and the manifest as text. C31 to C37 follow
  the SDK: the round trip of a large file at the level of the services, the round trip of any file
  through the HTTP endpoints, how errors arrive, the types of what the calls return, an empty file
  in parallel, retrying, scheduling. C38 to C40 concern the jobs
  beside the requests and API keys. Lemmas named \<open>keeps_\<dots>\<close> say that an action keeps a
  predicate of the state on every path, errors included; lemmas \<open>\<dots>_Inr\<close> say what a
  successful run did; \<open>\<dots>_eval\<close> rewrite a call whose guards are known.

  Bounds. \<open>count_parts\<close> divides as a double; it is exact below 2^53, which is the
  premise of C7, C31 and C32. \<open>int()\<close> refuses more than 4300 digits
  (\<open>max_str_digits\<close>). Part files carry eight digits, hence \<open>10 ^ 8\<close> in the facts
  about part files on disk. \<open>walk_pages\<close> (C24) is given one page more than there are
  entries, which is enough for pages of one entry. The paging loop of \<open>S3Storage\<close> is a
  partial function; C27 says when it ends; so is the loop of \<open>SdkDirectory\<close> that reads the
  entries of a job. \<open>retry_from\<close> ends by a measure on the attempts that are left. C32 is
  about runs in which every request is answered at the first attempt.

  Not modelled. What a process does around the code above: application set-up, command line,
  logging, tracing, database sessions and Redis (\<open>app/main.py\<close> but for its routers,
  \<open>app/cli.py\<close>, \<open>app/db/session.py\<close>, \<open>app/core/logging.py\<close>,
  \<open>app/core/redis.py\<close>) is input and output, and so are the health probes. Database
  migrations under \<open>alembic\<close> repeat the models; scripts, the web portal and tests are not
  part of the service. Of the configuration, the reading of the YAML file and the parsing by
  pydantic are left out; of an HTTP response, the headers no client depends on; of the routers,
  those of buckets and settings, whose handlers are modelled without their JSON. The SDK's
  progress callbacks and the length of its pauses are left out. Requests run one after another:
  what concurrent transactions may do to each other is only modelled where a function is split
  into its two statements (\<open>Maintenance\<close>), and the threads of the SDK as orders of their
  steps.
\<close>

section \<open>Uploads\<close>



text \<open>C2. The invariant of the upload tables (ids unique, the part count of every session the
  ceiling of size over part size, every part inside its session with its number, offset and
  status, file places unique) holds after any sequence of requests to the upload API.\<close>
lemma uploads_inv_served:
  assumes "served sv w w'" "uploads_inv (w_db w)"
  shows "uploads_inv (w_db w')"
  by (rule served_inv[OF assms])

lemma uploads_inv_served_witness:
  "uploads_inv (w_db demo_uploaded) \<and> map pa_part_number (parts (w_db demo_uploaded)) = [3, 1, 2]"
proof -
  have "uploads_inv (w_db demo_world)" by (simp add: demo_world_def uploads_inv_empty)
  from uploads_inv_served[OF demo_served(1) this] show ?thesis
    using demo_uploaded_parts by simp
qed

text \<open>C3. Completing an open upload with a part missing is refused with the ascending list of
  exactly the part numbers that are not committed, and changes nothing.\<close>
lemma complete_reports_missing:
  assumes "uploads_inv (w_db w)"
    and "get_upload x (Some (tenant_id i)) (w_db w) = Some u" "us_status u \<in> {Initiated, Uploading}"
    and "n \<in> {1..us_total_parts u}" "n \<notin> pa_part_number ` set (committed_parts x (w_db w))"
  shows "\<exists>ms. complete sv i x fid now w = (Inl (MissingPartsError ms), w) \<and> sorted ms
    \<and> set ms = {1..us_total_parts u} - pa_part_number ` set (committed_parts x (w_db w))"
  using complete_missing[OF assms]
  by (auto simp: missing_numbers_def intro!: sorted_wrt_filter)

lemma complete_reports_missing_witness:
  "\<exists>ms. complete demo_service demo_identity (lit ''u1'') (lit ''f1'') 0 demo_partial
       = (Inl (MissingPartsError ms), demo_partial) \<and> set ms = {1, 2}"
proof -
  note sees = demo_partial_sees[unfolded sees_session_def]
  have "\<exists>ms. complete demo_service demo_identity (lit ''u1'') (lit ''f1'') 0 demo_partial
       = (Inl (MissingPartsError ms), demo_partial) \<and> sorted ms \<and> set ms = {1..3} - {3}"
    using complete_reports_missing[OF demo_inv(2), of "lit ''u1''" demo_identity "demo_session demo_partial" 1
        demo_service "lit ''f1''" 0] sees committed_set[OF demo_partial_sees]
    by simp
  moreover have "{1..3} - {3} = {1, 2 :: int}" by auto
  ultimately show ?thesis by metis
qed

text \<open>C4. Completing a completed upload again returns the file of the first completion and
  changes nothing.\<close>
lemma complete_idempotent:
  assumes "get_upload x (Some (tenant_id i)) (w_db w) = Some u" "us_status u = Completed"
    and "us_completed_file_id u = Some fid" "get_file fid (Some (tenant_id i)) (w_db w) = Some f"
  shows "complete sv i x fid' now w = (Inr f, w)"
  by (rule complete_again[OF assms])

lemma complete_idempotent_witness:
  "complete demo_service demo_identity (lit ''u1'') (lit ''f2'') 5 demo_done = (Inr demo_file, demo_done)"
  using demo_done_sees unfolding sees_session_def sees_file_def
  by (intro complete_idempotent[of _ _ _ "demo_session demo_done" "lit ''f1''"]) simp_all

text \<open>C5. A completed, aborted or expired session stays what it is, with the file it
  produced, whatever requests follow.\<close>
lemma finished_stays:
  assumes "served sv w w'" "uploads_inv (w_db w)" "get_upload x None (w_db w) = Some u" "finished u"
  shows "\<exists>v. get_upload x None (w_db w') = Some v \<and> us_status v = us_status u
    \<and> us_completed_file_id v = us_completed_file_id u"
  by (rule served_finished[OF assms])

lemma finished_stays_witness:
  "\<exists>v. get_upload (lit ''u1'') None
      (w_db (snd (serve demo_service demo_identity 9 (AbortUpload (lit ''u1'')) demo_done))) = Some v
     \<and> us_status v = Completed"
proof -
  note sees = demo_done_sees[unfolded sees_session_def]
  have "served demo_service demo_done
      (snd (serve demo_service demo_identity 9 (AbortUpload (lit ''u1'')) demo_done))"
    by (rule served_step[OF served_start _ prod.collapse[symmetric]]) simp
  from finished_stays[OF this demo_done_inv, of "lit ''u1''" "demo_session demo_done"] show ?thesis
    using sees by (auto simp: finished_def)
qed

text \<open>C6. A request of one tenant leaves the sessions, the files and the parts of every other
  tenant untouched.\<close>
lemma tenants_apart:
  assumes "uploads_inv (w_db w)" "fresh_ids rq (w_db w)" "serve sv i now rq w = (r, w')" "t \<noteq> tenant_id i"
  shows "rows_of t (w_db w') = rows_of t (w_db w)"
  by (rule serve_others[OF assms])

lemma tenants_apart_witness:
  "rows_of (lit ''acme'') (w_db (snd (serve demo_service other_identity 0 (AbortUpload (lit ''u1'')) demo_uploaded)))
     = rows_of (lit ''acme'') (w_db demo_uploaded) \<and> fst (rows_of (lit ''acme'') (w_db demo_uploaded)) \<noteq> []"
proof
  show "rows_of (lit ''acme'') (w_db (snd (serve demo_service other_identity 0 (AbortUpload (lit ''u1'')) demo_uploaded)))
     = rows_of (lit ''acme'') (w_db demo_uploaded)"
    by (rule tenants_apart[OF demo_inv(1) _ prod.collapse[symmetric]])
      (simp_all add: other_identity_def lit_def)
  show "fst (rows_of (lit ''acme'') (w_db demo_uploaded)) \<noteq> []" by code_simp
qed

text \<open>C7. Below \<open>2^53\<close> bytes the float quotient of the code gives the exact ceiling, and at
  least one part.\<close>
lemma part_count_exact:
  assumes "0 \<le> n" "n < 2 ^ 53" "0 < size_of_part"
  shows "count_parts n size_of_part = Inr (max 1 ((n + size_of_part - 1) div size_of_part))"
  using ceil_truediv_exact[OF assms] by (simp add: count_parts_def)

lemma part_count_exact_witness: "count_parts 10 4 = Inr 3"
  using part_count_exact[of 10 4] by simp

text \<open>C8. The two ways of writing a part, the upsert of PostgreSQL and the select-then-update of
  other databases, leave the same table when the part has kept its offset.\<close>
lemma upsert_dialects_agree:
  assumes "\<And>q. q \<in> set (parts d) \<Longrightarrow> part_key q = part_key p \<Longrightarrow> pa_offset_bytes q = pa_offset_bytes p"
  shows "upsert_part_postgresql p d = upsert_part_generic p d"
  by (rule upsert_part_agree[OF assms])

definition demo_part :: upload_part where
  "demo_part =
     \<lparr>pa_upload_id = lit ''u1'', pa_part_number = 1, pa_offset_bytes = 0, pa_size_bytes = 4,
      pa_etag = None, pa_checksum_sha256 = None, pa_status = PartCommitted, pa_updated_at = 7\<rparr>"

lemma upsert_dialects_agree_witness:
  "upsert_part_postgresql demo_part (empty_db\<lparr>parts := [demo_part\<lparr>pa_size_bytes := 2\<rparr>]\<rparr>)
     = upsert_part_generic demo_part (empty_db\<lparr>parts := [demo_part\<lparr>pa_size_bytes := 2\<rparr>]\<rparr>)"
  by (rule upsert_dialects_agree) (simp add: demo_part_def part_key_def)

section \<open>Paths and ranges\<close>



text \<open>Normalizing an accepted path again returns it unchanged, for every normalization that
  obeys the laws of Unicode NFC, unless the result reads like a drive letter.\<close>
lemma normalize_idempotent:
  assumes "nfc_laws nfc" "normalize_relative_path nfc d b raw = Inr p" "\<not> (2 \<le> length p \<and> p ! 1 = 58)"
  shows "normalize_relative_path nfc d b p = Inr p"
  by (rule normalize_fixed_point[OF assms])

lemma normalize_idempotent_witness:
  "normalize_relative_path (\<lambda>s. s) 64 1024 (lit ''a/b.txt'') = Inr (lit ''a/b.txt'')"
proof (rule normalize_idempotent)
  show "nfc_laws (\<lambda>s. s)" by (simp add: nfc_laws_def)
  show "normalize_relative_path (\<lambda>s. s) 64 1024 (lit ''a/./b.txt'') = Inr (lit ''a/b.txt'')" by code_simp
qed (simp add: lit_def)





text \<open>C12. A range request that is accepted lies inside the file, and one that is refused gets
  the error of status 416.\<close>
lemma accepted_range_inside:
  shows "(case parse_byte_range (Some h) sz of
            Inr r \<Rightarrow> (\<exists>b. r = Some b \<and> 0 \<le> br_start b \<and> br_start b \<le> br_end b \<and> br_end b < sz)
          | Inl e \<Rightarrow> error_status e = 416)"
  using parse_byte_range_bounds[of h sz] parse_byte_range_error[of "Some h" sz]
  by (auto simp: range_error_def split: sum.splits)

text \<open>C13. The range header the SDK writes is read back as the range it stands for, cut at the
  end of the file.\<close>
lemma range_header_roundtrip:
  assumes "a \<le> b" "a < n" "b < 10 ^ max_str_digits"
  shows "parse_byte_range (Some (range_header a b)) (int n) =
           Inr (Some \<lparr>br_start = int a, br_end = min (int b) (int n - 1)\<rparr>)"
  by (rule parse_range_header[OF assms])

lemma range_header_roundtrip_witness:
  "parse_byte_range (Some (range_header 4 99)) 10 = Inr (Some \<lparr>br_start = 4, br_end = 9\<rparr>)"
proof -
  have "(99 :: nat) < 10 ^ 2" by simp
  also have "(10 :: nat) ^ 2 \<le> 10 ^ max_str_digits"
    by (rule power_increasing) (simp_all add: max_str_digits_def)
  finally show ?thesis using range_header_roundtrip[of 4 99 10] by simp
qed

section \<open>Local storage\<close>

text \<open>C14. Whatever parts a path is joined from, an accepted path lies under the storage root.\<close>
lemma joined_path_inside:
  assumes "safe_join root ps = Inr p"
  shows "prefix (resolve root) p"
  by (rule safe_join_inside[OF assms])

lemma joined_path_inside_witness: "prefix (resolve [lit ''data'']) [lit ''data'', lit ''b'']"
  by (rule joined_path_inside[of _ "[lit ''a'', lit ''..'', lit ''b'']"]) code_simp

text \<open>C15. Parts uploaded to the local adapter in any order and then completed become the object:
  the concatenation of their bytes in the order of their numbers.\<close>
lemma local_parts_assembled:
  assumes "adapter_ok A" "local_place A b k" "component u"
    and "upload_all (local_storage A) b k u xs s = (Inr ps, t)"
    and "\<forall>x\<in>set xs. 0 \<le> fst x" "distinct (map fst xs)"
    and "local_complete_multipart_upload A b k u ps t = (Inr x, s')"
  shows "local_content A s' b k = Some (concat (map snd (sort_key fst xs)))"
  by (rule object_storage.upload_all_complete[OF local_object_storage[OF assms(1)] assms(2-6)])
    (simp add: local_storage_def assms(7))

lemma distinct_demo: "distinct (map fst [(2 :: int, [3 :: 8 word]), (1, [1, 2])])"
  by simp

lemma nonneg_demo: "\<forall>x\<in>set [(2 :: int, [3 :: 8 word]), (1, [1, 2])]. 0 \<le> fst x"
  by simp

lemma local_parts_assembled_witness:
  "\<exists>s'. local_content (default_adapter demo_sha256) s' (lit ''b'') (lit ''k'') = Some [1, 2, 3]"
proof -
  let ?A = "default_adapter demo_sha256" and ?xs = "[(2, [3]), (1, [1, 2])] :: (int \<times> bytes) list"
  let ?up = "upload_all (local_storage ?A) (lit ''b'') (lit ''k'') (lit ''u'') ?xs []"
  let ?fin = "\<lambda>ps t. local_complete_multipart_upload ?A (lit ''b'') (lit ''k'') (lit ''u'') ps t"
  have up: "?up = (Inr (projr (fst ?up)), snd ?up)" by (rule outcome) code_simp
  have "?fin (projr (fst ?up)) (snd ?up) = (Inr (projr (fst (?fin (projr (fst ?up)) (snd ?up)))),
      snd (?fin (projr (fst ?up)) (snd ?up)))"
    by (rule outcome) code_simp
  moreover have "local_place ?A (lit ''b'') (lit ''k'')" "component (lit ''u'')" by code_simp+
  moreover have "concat (map snd (sort_key fst ?xs)) = [1, 2, 3]" by simp
  ultimately show ?thesis
    using local_parts_assembled[OF default_adapter_ok _ _ up] by (metis distinct_demo nonneg_demo)
qed

section \<open>Lifecycles\<close>



text \<open>With client overrides switched off the requested policy has no influence.\<close>
lemma no_override_ignores_request:
  assumes "\<not> lr_allow_client_override rules"
  shows "compute_effective_lifecycle parse_iso rules sd req completed now =
         compute_effective_lifecycle parse_iso rules sd None completed now"
  by (rule compute_no_override[OF assms])

lemma no_override_ignores_request_witness:
  "\<forall>r. compute_effective_lifecycle (\<lambda>_. None) ((lf_policy default_lifecycle)\<lparr>lr_allow_client_override := False\<rparr>)
        (policy_dump (lf_default_policy default_lifecycle)) r None 0
     = compute_effective_lifecycle (\<lambda>_. None) ((lf_policy default_lifecycle)\<lparr>lr_allow_client_override := False\<rparr>)
        (policy_dump (lf_default_policy default_lifecycle)) None None 0"
  by (intro allI no_override_ignores_request) simp

text \<open>C17. A run of the lifecycle worker leaves every file as it is that is not due, and every file
  under legal hold.\<close>
lemma worker_spares:
  assumes "distinct (map fo_id (files (w_db w)))"
    and "g \<in> set (files (w_db w))" "\<not> due now g \<or> fo_legal_hold g"
    and "process_batch sv py now n w = (r, w')"
  shows "g \<in> set (files (w_db w'))"
  by (rule process_batch_spares[OF assms])

lemma worker_spares_witness:
  "demo_file \<in> set (files (w_db (snd (process_batch demo_service True 0 10 demo_done))))"
proof (rule worker_spares[OF _ _ _ prod.collapse[symmetric]])
  have f: "files (w_db demo_done) = [demo_file]" using demo_done_sees by (simp add: sees_file_def)
  show "distinct (map fo_id (files (w_db demo_done)))" "demo_file \<in> set (files (w_db demo_done))"
    using f by simp_all
  show "\<not> due 0 demo_file \<or> fo_legal_hold demo_file" by code_simp
qed

text \<open>C18. A file under legal hold cannot be deleted: the request is refused and neither the
  database nor the store changes.\<close>
lemma legal_hold_blocks_delete:
  assumes "get_file file_id (Some (tenant_id i)) (w_db w) = Some f" "fo_legal_hold f"
  shows "\<exists>e. delete_file sv i file_id now w = (Inl e, w)"
  by (rule delete_under_hold[OF assms])

lemma legal_hold_blocks_delete_witness:
  "\<exists>e. delete_file demo_service demo_identity (lit ''f1'') 0 (snd (set_legal_hold demo_identity (lit ''f1'') True demo_done))
     = (Inl e, snd (set_legal_hold demo_identity (lit ''f1'') True demo_done))"
  by (rule legal_hold_blocks_delete[OF the_there]) code_simp+

section \<open>Listing, settings and configuration\<close>


definition demo_query :: list_query where
  "demo_query = \<lparr>lq_bucket = None, lq_prefix = None, lq_status = None, lq_order_by = lit ''name'', lq_order = None\<rparr>"


text \<open>The listing does not depend on the order in which the database keeps its rows.\<close>
lemma listing_deterministic:
  assumes "distinct (map fo_id (files d))" "set (files d) = set (files d')" "distinct (map fo_id (files d'))"
  shows "ordered_files sv t q d = ordered_files sv t q d'"
  by (rule ordered_files_deterministic[OF assms])

lemma listing_deterministic_witness:
  "ordered_files demo_service (lit ''acme'') demo_query (empty_db\<lparr>files := [demo_file, demo_file\<lparr>fo_id := []\<rparr>]\<rparr>)
     = ordered_files demo_service (lit ''acme'') demo_query (empty_db\<lparr>files := [demo_file\<lparr>fo_id := []\<rparr>, demo_file]\<rparr>)"
proof -
  have "fo_id demo_file \<noteq> []" by code_simp
  then show ?thesis by (intro listing_deterministic) auto
qed



text \<open>C21. A configuration that passes the start-up check has its default bucket among the allowed
  ones, its part sizes and time-to-live bounds in order, and known conflict policies.\<close>
lemma checked_settings_consistent:
  assumes "fst (validate_settings c m n)"
  shows "sc_default_bucket (cf_storage c) \<in> set (sc_allowed_buckets (cf_storage c))
    \<and> mp_minimum_part_size_bytes (uc_multipart (cf_uploads c)) \<le> mp_default_part_size_bytes (uc_multipart (cf_uploads c))
    \<and> mp_default_part_size_bytes (uc_multipart (cf_uploads c)) \<le> mp_maximum_part_size_bytes (uc_multipart (cf_uploads c))
    \<and> lr_minimum_ttl_seconds (lf_policy (cf_lifecycle c)) \<le> lr_maximum_ttl_seconds (lf_policy (cf_lifecycle c))
    \<and> du_default_policy (cf_directory_upload c) \<in> set (du_allowed_policies (cf_directory_upload c))
    \<and> set (du_allowed_policies (cf_directory_upload c)) \<subseteq> set known_conflict_policies"
  using validate_settings_ok[OF assms] by blast

lemma checked_settings_consistent_witness:
  "sc_default_bucket (cf_storage demo_settings) \<in> set (sc_allowed_buckets (cf_storage demo_settings))"
proof -
  have "fst (validate_settings (demo_settings\<lparr>cf_cluster_enabled := False\<rparr>) (lit ''single'') False)"
    by code_simp
  from checked_settings_consistent[OF this] show ?thesis by simp
qed

text \<open>After merging an override into a configuration, a key has the override's value if it is
  given there (merged in turn when both are objects), and its old value otherwise.\<close>
lemma merge_precedence:
  assumes "distinct (map fst over)"
  shows "map_of (deep_merge base over) k =
    (case (map_of base k, map_of over k) of
       (v, None) \<Rightarrow> v
     | (Some (JObj d), Some (JObj e)) \<Rightarrow> Some (JObj (deep_merge d e))
     | (_, Some v) \<Rightarrow> Some v)"
  using map_of_deep_merge[OF assms]
  by (auto simp: merge_value_def split: option.splits json.splits)

lemma merge_precedence_witness:
  "map_of (deep_merge [(lit ''a'', JInt 1), (lit ''b'', JInt 2)] [(lit ''b'', JInt 3)]) (lit ''b'') = Some (JInt 3)"
  using merge_precedence[of "[(lit ''b'', JInt 3)]" "[(lit ''a'', JInt 1), (lit ''b'', JInt 2)]" "lit ''b''"]
  by (simp add: lit_def)

section \<open>Directory uploads\<close>



text \<open>C23. A job that is not completed yet completes only from the uploading state and with no
  failed entry.\<close>
lemma job_completes_clean:
  assumes "get_job x (Some (tenant_id i)) (w_db w) = Some j" "dj_status j \<noteq> JobCompleted"
    and "complete_job i x now w = (Inr k, w')"
  shows "dj_status j = JobUploading \<and> count_entries_by_status x [EntryFailed] (w_db w) = 0
    \<and> get_job x (Some (tenant_id i)) (w_db w') = Some k"
  using complete_job_Inr[OF assms(3)] assms(1,2) by auto

lemma job_completes_clean_witness:
  "count_entries_by_status (lit ''j1'') [EntryFailed] (w_db demo_uploading) = 0"
proof -
  have "\<not> isl (fst (complete_job demo_identity (lit ''j1'') 0 demo_uploading))" by code_simp
  from job_completes_clean[OF _ _ outcome[OF this]] demo_uploading_sees show ?thesis
    by (simp add: sees_job_def)
qed

text \<open>Completing a job that is ready or paused, which the service means to allow, is always
  refused with a conflict and changes nothing: its state machine has no step to finalizing from
  there.\<close>
lemma ready_job_refused:
  assumes "get_job x (Some (tenant_id i)) (w_db w) = Some j" "dj_status j \<in> {JobReady, JobPaused}"
  shows "\<exists>e. complete_job i x now w = (Inl e, w) \<and> error_status e = 409"
  by (rule complete_job_refused[OF assms])

lemma ready_job_refused_witness:
  "\<exists>e. complete_job demo_identity (lit ''j1'') 5 demo_ready = (Inl e, demo_ready) \<and> error_status e = 409"
  using demo_ready_sees unfolding sees_job_def
  by (intro ready_job_refused[of _ _ _ "demo_job demo_ready"]) simp_all

text \<open>C24. Reading the entries of a job page by page, handing back the cursor of each page, yields
  every entry exactly once in the order of the paths, whatever the page size, within as many
  pages as there are entries and one more.\<close>
lemma entry_pages_complete:
  assumes "jobs_inv sv d"
    and "inj_on (\<lambda>s. sv_rank sv (Some s)) (de_normalized_path ` set (job_entries x d))"
  shows "walk_pages (Suc (length (job_entries x d))) sv x None limit d
    = Some (sort_key (path_rank sv) (job_entries x d))"
  by (rule walk_pages_all[OF assms])

lemma entry_pages_complete_witness:
  "walk_pages 4 demo_service (lit ''j1'') None 1 (w_db demo_ready)
     = Some (sort_key (path_rank demo_service) (job_entries (lit ''j1'') (w_db demo_ready)))"
proof -
  have inv: "jobs_inv demo_service (w_db demo_ready)"
    by (rule directory_served_inv[OF demo_directory_served]) (simp add: demo_world_def jobs_inv_empty)
  have paths: "map de_normalized_path (job_entries (lit ''j1'') (w_db demo_ready)) = [lit ''b'', lit ''b/x'', lit ''a'']"
    using demo_ready_sees by (simp add: sees_job_def)
  from arg_cong[OF paths, of set] arg_cong[OF paths, of length]
  have "de_normalized_path ` set (job_entries (lit ''j1'') (w_db demo_ready)) = {lit ''b'', lit ''b/x'', lit ''a''}"
    "Suc (length (job_entries (lit ''j1'') (w_db demo_ready))) = 4" by simp_all
  moreover have "inj_on (\<lambda>s. sv_rank demo_service (Some s)) {lit ''b'', lit ''b/x'', lit ''a''}"
    by (simp add: demo_service_def lit_def inj_on_def)
  ultimately show ?thesis
    using entry_pages_complete[OF inv, of "lit ''j1''" 1] by metis
qed

text \<open>C25. The text the manifest hash is taken of identifies the manifest: two manifests with
  distinct paths have the same text exactly when they hold the same entries, in any order.\<close>
lemma manifest_identified:
  assumes "distinct (map me_relative_path es)"
  shows "manifest_text es = manifest_text fs \<longleftrightarrow> mset es = mset fs"
  using manifest_text_determines manifest_text_order[OF _ assms] by blast

lemma manifest_identified_witness:
  "manifest_text [\<lparr>me_relative_path = lit ''b'', me_size_bytes = 1, me_fingerprint = None\<rparr>,
                  \<lparr>me_relative_path = lit ''a'', me_size_bytes = 2, me_fingerprint = None\<rparr>]
   = manifest_text [\<lparr>me_relative_path = lit ''a'', me_size_bytes = 2, me_fingerprint = None\<rparr>,
                    \<lparr>me_relative_path = lit ''b'', me_size_bytes = 1, me_fingerprint = None\<rparr>]"
  by (subst manifest_identified) (simp_all add: lit_def add_mset_commute)

section \<open>Storage on S3\<close>

text \<open>C26. Over a service that behaves as S3 documents, the adapter implements the multipart
  contract: parts uploaded in any order and then completed are the object, in order of number,
  and a ranged read of it returns that slice.\<close>
lemma s3_parts_assembled:
  assumes "s3_documented B content staged"
    and "upload_all (s3_storage B P sha) b k u xs s = (Inr ps, t)"
    and "\<forall>x\<in>set xs. 0 \<le> fst x" "distinct (map fst xs)"
    and "st_complete_multipart_upload (s3_storage B P sha) b k u ps t = (Inr x, s')"
    and "slice_inside off len (length (concat (map snd (sort_key fst xs))))"
  shows "content s' b k = Some (concat (map snd (sort_key fst xs)))
    \<and> (\<exists>y. st_get_object (s3_storage B P sha) b k off len s' = (Inr y, s')
          \<and> os_chunks y = Inr (read_slice off len (concat (map snd (sort_key fst xs)))))"
proof -
  note s3 = s3_object_storage[OF assms(1), of P sha]
  from object_storage.upload_all_complete[OF s3 TrueI TrueI assms(2-5)]
  have content: "content s' b k = Some (concat (map snd (sort_key fst xs)))" .
  from object_storage.get_content[OF s3 TrueI this assms(6)] show ?thesis using content by blast
qed

lemma s3_parts_assembled_witness:
  "\<exists>ps t x s'. upload_all (s3_storage memory_s3 memory_s3 demo_sha256) [1] [2] [3] [(2, [30]), (1, [10, 20])] mem_start = (Inr ps, t)
    \<and> st_complete_multipart_upload (s3_storage memory_s3 memory_s3 demo_sha256) [1] [2] [3] ps t = (Inr x, s')
    \<and> (\<exists>y. st_get_object (s3_storage memory_s3 memory_s3 demo_sha256) [1] [2] 1 (Some 2) s' = (Inr y, s')
        \<and> os_chunks y = Inr [20, 30])"
proof -
  let ?S = "s3_storage memory_s3 memory_s3 demo_sha256" and ?xs = "[(2 :: int, [30 :: 8 word]), (1, [10, 20])]"
  obtain ps t where up: "upload_all ?S [1] [2] [3] ?xs mem_start = (Inr ps, t)"
    and parts: "mem_parts t [3] 1 = Some [10, 20]" "mem_parts t [3] 2 = Some [30]" "part_payload ps = [(1, [34, 34]), (2, [34, 34])]"
    by (simp add: s3_storage_def s3_upload_part_def memory_s3_def with_errors_def bnd_def ret_def etag_of_def
        present_def the_default_def mem_start_def part_payload_def sorted_parts_def)
  then obtain x s' where fin: "st_complete_multipart_upload ?S [1] [2] [3] ps t = (Inr x, s')"
    by (simp add: s3_storage_def s3_complete_multipart_upload_def memory_s3_def with_errors_def bnd_def ret_def
        Let_def fits_s3_def)
  have "slice_inside 1 (Some 2) (length (concat (map snd (sort_key fst ?xs))))" by (simp add: slice_inside_def)
  from s3_parts_assembled[OF memory_s3_documented up _ _ fin this]
  show ?thesis using up fin by (auto simp: read_slice_def)
qed

text \<open>C27. Listing the parts of an S3 upload ends, however many pages the service cuts it into,
  and returns every part once, in ascending order.\<close>
lemma s3_listing_ends:
  assumes "lists_parts B b k u ns s" "sorted_wrt (<) ns" "\<forall>n\<in>set ns. 0 < n"
  shows "\<exists>ps. s3_list_from B b k u 0 [] s = Some (Inr ps, s) \<and> s3_list_parts B b k u s = (Inr ps, s)
    \<and> map up_part_number ps = ns"
  by (rule s3_list_parts_all[OF assms])

lemma s3_listing_ends_witness:
  "\<exists>ps. s3_list_parts memory_s3 [1] [2] [3] mem_five = (Inr ps, mem_five) \<and> map up_part_number ps = [1, 2, 4, 5, 7]"
proof -
  have "\<forall>n\<in>set [1, 2, 4, 5, 7 :: int]. 0 < n" "sorted_wrt (<) [1, 2, 4, 5, 7 :: int]" by simp_all
  from s3_listing_ends[OF mem_five_lists this(2,1)] obtain ps where
    "s3_list_parts memory_s3 [1] [2] [3] mem_five = (Inr ps, mem_five)" "map up_part_number ps = [1, 2, 4, 5, 7]"
    by (elim exE conjE)
  then show ?thesis by (intro exI conjI)
qed

section \<open>Directories of the client\<close>



text \<open>C29. The entries the SDK sends for what the walk found, in batches of 500, are stored under the
  paths it sent; so the hash and the counts with which it then completes the manifest are those
  the service computes, and the job becomes ready with that hash. The job is newly opened and each
  batch is accepted.\<close>
lemma sdk_manifest_accepted:
  assumes "nfc_laws (sv_nfc sv)"
    and "walk_directory (sv_nfc sv) dir recursive includes excludes policy = Inr (fs, ds)"
    and "map fst fs @ ds \<noteq> []"
    and "jobs_inv sv (w_db w)" "open_job i x (w_db w) job" "job_entries x (w_db w) = []"
    and "map fst reqs = batches 500 (sent_json (sv_sha256 sv) (fs, ds))"
    and "send_entries sv i x reqs w = (Inr u, w1)"
    and "sdk_manifest_hash (sv_sha256 sv) fs = Inr h"
  shows "\<exists>d w2. post_manifest_complete sv i x
      [(lit ''manifest_hash'', JStr h),
       (lit ''counts'', JObj [(lit ''files'', JInt (int (length fs))), (lit ''directories'', JInt (int (length ds)))])]
      now w1 = (Inr (JObj d), w2)
    \<and> jget ''status'' d = JStr (lit ''ready'') \<and> jget ''manifest_hash'' d = JStr h"
  by (rule sdk_manifest_holds[OF assms])

lemma sdk_manifest_accepted_witness:
  "\<exists>h d w2. post_manifest_complete demo_service demo_identity (lit ''j1'')
      [(lit ''manifest_hash'', JStr h),
       (lit ''counts'', JObj [(lit ''files'', JInt 2), (lit ''directories'', JInt 1)])]
      0 (snd demo_sent_entries) = (Inr (JObj d), w2) \<and> jget ''status'' d = JStr (lit ''ready'')"
proof -
  obtain fs where fs: "walk_directory (\<lambda>s. s) demo_directory True [] [] (lit ''follow'') = Inr (fs, [lit ''b''])"
    "map fst fs = [lit ''b/x.txt'', lit ''c'']" by (rule demo_walked)
  have walk: "projr demo_walk = (fs, [lit ''b''])" using fs(1) by (simp add: demo_walk_def)
  have n: "length fs = 2" using arg_cong[OF fs(2), of length] by simp
  obtain h where h: "sdk_manifest_hash demo_sha256 fs = Inr h" using demo_hash walk by (auto simp: isl_def sum.exhaust_sel) (metis obj_sumE)
  have "length (sent_json demo_sha256 (fs, [lit ''b''])) = 3" using n by (simp add: sent_json_def)
  then have batches: "map fst demo_batches = batches 500 (sent_json demo_sha256 (fs, [lit ''b'']))"
    by (cases "sent_json demo_sha256 (fs, [lit ''b''])") (simp_all add: demo_batches_def walk)
  have sv: "sv_nfc demo_service = (\<lambda>s. s)" "sv_sha256 demo_service = demo_sha256" by (simp_all add: demo_service_def)
  have sent: "send_entries demo_service demo_identity (lit ''j1'') demo_batches demo_opened = (Inr (), snd demo_sent_entries)"
    using demo_entries_sent outcome unfolding demo_sent_entries_def by (metis old.unit.exhaust)
  from sdk_manifest_accepted[of demo_service, unfolded sv, OF same_laws fs(1) _ demo_opened_inv demo_job_open batches
      sent h, of 0]
  show ?thesis using n by auto
qed

text \<open>C30. The NDJSON manifest the service writes is read back by it as the same entries, if no path and
  no fingerprint holds one of the three line separators that JSON leaves unescaped
  (U+0085, U+2028, U+2029) and \<open>json.loads\<close> reads each line as the object it was written from.\<close>
lemma ndjson_manifest_roundtrip:
  assumes "\<forall>e\<in>set es. one_line_entry e"
    and "\<forall>e\<in>set es. sv_loads sv (ndjson_line e) = Some (JObj (ndjson_object e))"
  shows "parse_manifest_ndjson sv (serialize_manifest_ndjson es) = Inr (map (JObj \<circ> ndjson_object) es)"
  by (rule ndjson_reads_back[OF assms])

lemma ndjson_manifest_roundtrip_witness:
  "parse_manifest_ndjson reading_service (serialize_manifest_ndjson [demo_row, demo_row])
    = Inr [JObj (ndjson_object demo_row), JObj (ndjson_object demo_row)]"
  using ndjson_manifest_roundtrip[of "[demo_row, demo_row]" reading_service] demo_row_one_line
  by (simp add: reading_service_def)

section \<open>The client and the service\<close>

text \<open>C31. What the SDK uploads in parts it downloads again, from the service on the local backend:
  the parts may be put in any order and repeatedly, and the download may use any number of
  threads, whose writes may interleave in any way.\<close>
lemma large_file_roundtrip:
  assumes "sv_storage sv = local_storage A" "adapter_ok A" "component x"
    and "uploads_inv (w_db w)" "x \<notin> us_id ` set (uploads (w_db w))"
    and "parts_dir_is A x Map.empty (w_store w)"
    and "create_session sv i rq x now w = (Inr u, w0)"
    and "cr_total_size rq = int (length data)" "int (length data) < 2 ^ 53" "0 < us_part_size u"
    and "local_place A (us_bucket u) (us_object_key u)" "us_total_parts u < 10 ^ 8"
    and "put_parts sv i x now (file_parts data (us_part_size u) ns) w0 = (Inr (), w1)"
    and "complete sv i x fid now w1 = (Inr f, w2)" "fid \<notin> fo_id ` set (files (w_db w1))"
    and "\<And>b. concat (chop b) = b" "\<And>ws. mset (order ws) = mset ws" "data \<noteq> [] \<or> concurrency \<le> 1"
  shows "set ns = {1..us_total_parts u}
    \<and> stream_to_disk order (http_download sv i fid chop w2) concurrency = (None, Some data)"
  by (rule large_file_downloads[OF assms])

lemma large_file_roundtrip_witness:
  "stream_to_disk rev (http_download demo_service demo_identity (lit ''f1'') (map (\<lambda>x. [x])) (snd demo_finished)) 3
    = (None, Some demo_bytes)"
proof -
  obtain u f where run: "create_session demo_service demo_identity demo_request (lit ''u1'') 0 demo_world = (Inr u, snd demo_created)"
    "put_parts demo_service demo_identity (lit ''u1'') 0 (file_parts demo_bytes (us_part_size u) [3, 1, 2]) (snd demo_created)
      = (Inr (), snd demo_put)"
    "complete demo_service demo_identity (lit ''u1'') (lit ''f1'') 0 (snd demo_put) = (Inr f, snd demo_finished)"
    and u: "us_part_size u = 4" "us_total_parts u = 3" "local_place (default_adapter demo_sha256) (us_bucket u) (us_object_key u)"
    and none: "files (w_db (snd demo_put)) = []"
    using demo_run by metis
  have "uploads empty_db = []" by (simp add: empty_db_def)
  then show ?thesis
    by (intro conjunct2[OF large_file_roundtrip[OF _ demo_adapter_ok _ _ _ demo_no_parts run(1) _ _ _ u(3) _ run(2,3)]])
      (simp_all add: demo_service_def component_def lit_def demo_world_def uploads_inv_empty demo_request_def
        demo_bytes_def u none)
qed

text \<open>C32. Whatever way \<open>Client.upload\<close> takes for a file, in one request or in a session of
  parts, through the HTTP endpoints of a service on the local backend: the id it returns is that
  of a file whose download gives the bytes back, in one stream or with any number of threads.
  The client starts without stored states, and every request is answered at the first attempt.\<close>
lemma sdk_file_roundtrip:
  assumes "client_upload_path k t f a c = (Inr info, c')" "lk_waits (cl_net c') = lk_waits (cl_net c)"
    and "connected dp k" "sv_storage (dp_service dp) = local_storage A" "ready A dp (cl_net c)"
    and "places_ok A dp k f a" "cl_states c = Map.empty"
    and "int (length (lf_data f)) < 2 ^ 53" "0 < ua_part_size a"
    and "\<And>ns. mset (sk_order k ns) = mset ns"
    and "\<And>b. concat (chop b) = b" "\<And>ws. mset (order ws) = mset ws"
    and "lf_data f \<noteq> [] \<or> concurrency \<le> 1"
  shows "\<exists>fid. fi_id info = JStr fid
    \<and> client_download order None (http_download (dp_service dp) (dp_identity dp) fid chop (lk_world (cl_net c')))
        concurrency = (None, Some (lf_data f))"
proof -
  have "calm (client_upload_path k t f a) c info c'" using assms(1,2) by (simp add: calm_def waits_def)
  from uploaded_comes_back[OF this assms(3-13)] show ?thesis .
qed

lemma sdk_file_roundtrip_witness:
  "\<exists>info fid. fst demo_sent = Inr info \<and> fi_id info = JStr fid
    \<and> client_download rev None
        (http_download demo_service demo_identity fid (map (\<lambda>x. [x])) (lk_world (cl_net (snd demo_sent)))) 3
      = (None, Some demo_bytes)"
proof -
  obtain info where ran: "demo_sent = (Inr info, snd demo_sent)"
    using demo_sent_well outcome by blast
  have "\<exists>fid. fi_id info = JStr fid
    \<and> client_download rev None (http_download (dp_service demo_deployment) (dp_identity demo_deployment) fid
          (map (\<lambda>x. [x])) (lk_world (cl_net (snd demo_sent)))) 3 = (None, Some (lf_data demo_local_file))"
  proof (rule sdk_file_roundtrip[OF trans[OF demo_sent_def[symmetric] ran] _ demo_connected _ demo_ready demo_places])
    show "lk_waits (cl_net (snd demo_sent)) = lk_waits (cl_net demo_client)" using demo_sent_well by blast
    show "sv_storage (dp_service demo_deployment) = local_storage (default_adapter demo_sha256)"
      by (simp add: demo_deployment_def demo_service_def)
  qed (simp_all add: demo_client_def demo_local_file_def demo_args_def demo_bytes_def demo_sdk_def)
  then obtain fid where "fi_id info = JStr fid"
    "client_download rev None (http_download demo_service demo_identity fid
          (map (\<lambda>x. [x])) (lk_world (cl_net (snd demo_sent)))) 3 = (None, Some demo_bytes)"
    by (auto simp: demo_deployment_def demo_local_file_def)
  moreover have "fst demo_sent = Inr info" using ran by (metis fst_conv)
  ultimately show ?thesis by (intro exI conjI)
qed





text \<open>C35. A download in parallel of an empty file always fails, as the first request asks for a
  byte the file does not have.\<close>
lemma empty_parallel_download_fails:
  assumes "get_file file_id (Some (tenant_id i)) (w_db w) = Some f" "fo_status f = FileActive" "fo_size_bytes f = 0"
    and "1 < concurrency"
  shows "stream_to_disk order (http_download sv i file_id chop w) concurrency = (Some client_error, None)"
  using parallel_download_of_empty[OF assms(1-3)] assms(4) by (simp add: stream_to_disk_def)

lemma empty_parallel_download_fails_witness:
  "stream_to_disk rev (http_download demo_service demo_identity (lit ''f1'') (\<lambda>b. [b]) demo_empty_file) 2
    = (Some client_error, None)"
proof -
  have "get_file (lit ''f1'') (Some (tenant_id demo_identity)) (w_db demo_empty_file) = Some (demo_file\<lparr>fo_size_bytes := 0\<rparr>)"
    "fo_status (demo_file\<lparr>fo_size_bytes := 0\<rparr>) = FileActive"
    using demo_empty_file_there by simp_all
  then show ?thesis by (rule empty_parallel_download_fails) simp_all
qed

text \<open>C36. A call the SDK retries is made at least once and at most \<open>max_attempts\<close> times, and
  exactly that often when the last answer is still one to retry after.\<close>
lemma retry_attempts:
  assumes "sdk_retry (counted fn) (\<lambda>k. map_prod (pause k) id) m statuses (s, 0) = (r, (s', n))"
  shows "1 \<le> n \<and> int n \<le> max 1 m
    \<and> (\<forall>e. r = Inl e \<longrightarrow> goes_on (statuses_given statuses) e \<longrightarrow> int n = max 1 m)"
  using retry_from_attempts[of fn pause "statuses_given statuses" m 0 s 0 r s' n] assms
  by (simp add: sdk_retry_def)

lemma retry_attempts_witness:
  "sdk_retry (counted (flaky 9)) (\<lambda>k. map_prod id id) 5 None (0, 0) = (Inl (SdkErr SdkStorageUnavailableError (Some 503)), (5, 5))
   \<and> (1 :: nat) \<le> 5 \<and> int 5 \<le> max 1 5"
proof
  show run: "sdk_retry (counted (flaky 9)) (\<lambda>k. map_prod id id) 5 None (0, 0)
      = (Inl (SdkErr SdkStorageUnavailableError (Some 503)), (5, 5))"
    by code_simp
  from retry_attempts[OF run] show "(1 :: nat) \<le> 5 \<and> int 5 \<le> max 1 5" by blast
qed



section \<open>Around the requests\<close>





text \<open>C40. An API key opens exactly the last scope that lists it, and no key opens none.\<close>
lemma api_key_opens:
  assumes "loads raw = Some (JObj d)" "load_keys loads raw = Inr table"
  shows "authenticate table (Some k) = Inr i \<longleftrightarrow>
      k \<noteq> [] \<and> (\<exists>scope v. find (lists_key k) (rev d) = Some (scope, v) \<and> i = identity_of_scope scope)"
  by (rule authenticate_scope[OF assms])

lemma api_key_opens_witness:
  "\<exists>table. load_keys (\<lambda>_. Some (JObj demo_keys)) [] = Inr table
    \<and> authenticate table (Some (lit ''k1'')) = Inr \<lparr>tenant_id = lit ''umbra'', principal_id = lit ''default''\<rparr>"
proof -
  obtain table where t: "load_keys (\<lambda>_. Some (JObj demo_keys)) [] = Inr table"
    by (simp add: load_keys_def demo_keys_def scope_keys_def)
  from api_key_opens[OF _ t, of demo_keys "lit ''k1''"] show ?thesis
    using t by (auto simp: demo_keys_def lists_key_def scope_keys_def identity_of_scope_def lit_def)
qed

end
